(* ===== verification/Evm_Prelude.thy ===== *)
theory Evm_Prelude
  imports Main
    "HOL-Library.Word"
    "HOL-Library.Char_ord"
    "HOL-Library.List_Lexorder"
    "HOL-Library.Option_ord"
    "HOL-Library.Product_Lexorder"
    "HOL-Library.Sublist"
    "HOL-Library.Multiset"
begin

section \<open>Prelude: the Rust vocabulary of the model\<close>

text \<open>
  What every component of the EVM RPC canister shares: machine integers as words of their Rust
  width, \<open>Result\<close> as a sum (\<open>Inl\<close> the error), traps (a Rust panic or an \<open>ic_cdk::trap\<close>) as the
  \<open>Inl\<close> side of a second sum, the part of the standard library's \<open>str\<close>, \<open>Option\<close>, \<open>BTreeSet\<close> and
  \<open>BTreeMap\<close> the sources call, and the lemma collections of the component theories.

  Strings are byte strings (\<open>char list\<close>), which is how Rust compares, measures (\<open>len\<close>) and searches
  them. \<open>to_lowercase\<close> is the map on the ASCII letters; bytes above 127 are left alone.
\<close>

named_theorems rust_std \<open>equations of the modelled standard library\<close>
named_theorems catalogue \<open>evaluated facts on the provider table\<close>
named_theorems canister_inv \<open>preservation of the canister's state invariant\<close>


subsection \<open>Integers\<close>

type_synonym u8 = "8 word"
type_synonym u16 = "16 word"
type_synonym u32 = "32 word"
type_synonym u64 = "64 word"
type_synonym u128 = "128 word"
type_synonym u256 = "256 word"
type_synonym bytes = "u8 list"

definition saturating_add :: "'a::len word \<Rightarrow> 'a word \<Rightarrow> 'a word" where
  "saturating_add x y = (if unat x + unat y < 2 ^ LENGTH('a) then x + y else - 1)"

definition saturating_mul :: "'a::len word \<Rightarrow> 'a word \<Rightarrow> 'a word" where
  "saturating_mul x y = (if unat x * unat y < 2 ^ LENGTH('a) then x * y else - 1)"

lemma unat_max_word_nat: "unat (- 1 :: 'a::len word) = 2 ^ LENGTH('a) - 1"
  by (simp add: unsigned_minus_1_eq_mask mask_eq_exp_minus_1)

lemma unat_saturating_add:
  "unat (saturating_add x y :: 'a::len word) = min (unat x + unat y) (2 ^ LENGTH('a) - 1)"
proof (cases "unat x + unat y < 2 ^ LENGTH('a)")
  case True
  then have "unat (x + y) = unat x + unat y"
    by (simp add: unat_word_ariths)
  with True show ?thesis
    by (simp add: saturating_add_def min_absorb1)
next
  case False
  then show ?thesis
    by (simp add: saturating_add_def unat_max_word_nat min_absorb2)
qed

lemma unat_saturating_mul:
  "unat (saturating_mul x y :: 'a::len word) = min (unat x * unat y) (2 ^ LENGTH('a) - 1)"
proof (cases "unat x * unat y < 2 ^ LENGTH('a)")
  case True
  then have "unat (x * y) = unat x * unat y"
    by (simp add: unat_word_ariths)
  with True show ?thesis
    by (simp add: saturating_mul_def min_absorb1)
next
  case False
  then show ?thesis
    by (simp add: saturating_mul_def unat_max_word_nat min_absorb2)
qed


subsection \<open>Results, options and traps\<close>

type_synonym 'a trapping = "string + 'a"  \<comment> \<open>\<open>Inl msg\<close>: the canister traps with \<open>msg\<close>\<close>

abbreviation Ok :: "'a \<Rightarrow> 'e + 'a" where "Ok \<equiv> Inr"
abbreviation Err :: "'e \<Rightarrow> 'e + 'a" where "Err \<equiv> Inl"

fun and_then :: "'e + 'a \<Rightarrow> ('a \<Rightarrow> 'e + 'b) \<Rightarrow> 'e + 'b" where
  "and_then (Inl e) f = Inl e"
| "and_then (Inr x) f = f x"

fun map_ok :: "('a \<Rightarrow> 'b) \<Rightarrow> 'e + 'a \<Rightarrow> 'e + 'b" where
  "map_ok f (Inl e) = Inl e"
| "map_ok f (Inr x) = Inr (f x)"

fun map_err :: "('e \<Rightarrow> 'g) \<Rightarrow> 'e + 'a \<Rightarrow> 'g + 'a" where
  "map_err f (Inl e) = Inl (f e)"
| "map_err f (Inr x) = Inr x"

fun ok_or :: "'e \<Rightarrow> 'a option \<Rightarrow> 'e + 'a" where
  "ok_or e None = Inl e"
| "ok_or e (Some x) = Inr x"

fun transpose_result :: "('e + 'a) option \<Rightarrow> 'e + 'a option" where
  "transpose_result None = Inr None"
| "transpose_result (Some (Inl e)) = Inl e"
| "transpose_result (Some (Inr x)) = Inr (Some x)"

text \<open>Strings joined by a separator.\<close>

fun join :: "string \<Rightarrow> string list \<Rightarrow> string" where
  "join sep [] = []"
| "join sep [s] = s"
| "join sep (s # t # ss) = s @ sep @ join sep (t # ss)"

fun collect_results :: "('e + 'a) list \<Rightarrow> 'e + 'a list" where
  "collect_results [] = Inr []"
| "collect_results (Inl e # rs) = Inl e"
| "collect_results (Inr x # rs) = map_ok ((#) x) (collect_results rs)"

definition unwrap_or :: "'a \<Rightarrow> 'a option \<Rightarrow> 'a" where
  "unwrap_or d x = (case x of None \<Rightarrow> d | Some y \<Rightarrow> y)"

lemma unwrap_or_simps [simp]: "unwrap_or d None = d" "unwrap_or d (Some x) = x"
  by (simp_all add: unwrap_or_def)

lemma and_then_eq_Inr: "and_then r f = Inr y \<longleftrightarrow> (\<exists>x. r = Inr x \<and> f x = Inr y)"
  by (cases r) auto

lemma and_then_eq_InlE:
  assumes "and_then r f = Inl e"
  obtains "r = Inl e" | x where "r = Inr x" "f x = Inl e"
  using assms by (cases r) auto

lemma map_ok_eq_Inr: "map_ok f r = Inr y \<longleftrightarrow> (\<exists>x. r = Inr x \<and> y = f x)"
  by (cases r) auto

lemma map_ok_eq_Inl [simp]: "map_ok f r = Inl e \<longleftrightarrow> r = Inl e"
  by (cases r) auto

lemma map_err_eq_Inr [simp]: "map_err f r = Inr x \<longleftrightarrow> r = Inr x"
  by (cases r) auto

lemma map_err_eq_Inl: "Inl e = map_err f r \<longleftrightarrow> (\<exists>e'. r = Inl e' \<and> e = f e')"
  by (cases r) auto

lemma ok_or_eq_Inr [simp]: "ok_or e m = Inr x \<longleftrightarrow> m = Some x"
  by (cases m) auto

lemma ok_or_eq_Inl: "ok_or e m = Inl e' \<longleftrightarrow> m = None \<and> e' = e"
  by (cases m) auto

lemma map_err_Inl_iff: "map_err f r = Inl e \<longleftrightarrow> (\<exists>e'. r = Inl e' \<and> e = f e')"
  by (cases r) auto

lemma map_ok_comp: "map_ok f (map_ok g r) = map_ok (f \<circ> g) r"
  by (cases r) auto

lemma collect_results_Inr:
  "collect_results rs = Inr xs \<longleftrightarrow> rs = map Inr xs"
proof (induction rs arbitrary: xs rule: collect_results.induct)
  case (3 x rs)
  then show ?case by (auto simp: map_ok_eq_Inr Cons_eq_map_conv)
qed auto

lemma collect_results_Inl:
  assumes "collect_results rs = Inl e"
  shows "Inl e \<in> set rs"
  using assms by (induction rs rule: collect_results.induct) auto


subsection \<open>Strings\<close>

fun starts_with :: "string \<Rightarrow> string \<Rightarrow> bool" where
  "starts_with s [] = True"
| "starts_with [] (p # ps) = False"
| "starts_with (c # s) (p # ps) = (c = p \<and> starts_with s ps)"

fun str_contains :: "string \<Rightarrow> string \<Rightarrow> bool" where
  "str_contains [] pat = (pat = [])"
| "str_contains (c # s) pat = (starts_with (c # s) pat \<or> str_contains s pat)"

definition to_lower_char :: "char \<Rightarrow> char" where
  "to_lower_char c =
     (let n = of_char c :: nat in if 65 \<le> n \<and> n \<le> 90 then char_of (n + 32) else c)"

definition to_lowercase :: "string \<Rightarrow> string" where
  "to_lowercase s = map to_lower_char s"

text \<open>\<open>str::replace\<close>: leftmost, non-overlapping; the empty pattern matches around every character.\<close>

function replace_from :: "string \<Rightarrow> string \<Rightarrow> string \<Rightarrow> string" where
  "replace_from pat to [] = []"
| "replace_from pat to (c # s) =
     (if pat \<noteq> [] \<and> starts_with (c # s) pat
      then to @ replace_from pat to (drop (length pat) (c # s))
      else c # replace_from pat to s)"
  by pat_completeness auto
termination
  by (relation "measure (\<lambda>(pat, to, s). length s)") auto

definition str_replace :: "string \<Rightarrow> string \<Rightarrow> string \<Rightarrow> string" where
  "str_replace s pat to =
     (if pat = [] then to @ concat (map (\<lambda>c. c # to) s) else replace_from pat to s)"

text \<open>Decimal output of an unsigned integer (\<open>{}\<close> in a format string).\<close>

definition digit :: "nat \<Rightarrow> char" where
  "digit d = char_of (48 + d)"

fun show_nat :: "nat \<Rightarrow> string" where
  "show_nat n = (if n < 10 then [digit n] else show_nat (n div 10) @ [digit (n mod 10)])"

declare show_nat.simps [simp del]

lemma starts_with_iff: "starts_with s p \<longleftrightarrow> prefix p s"
  by (induction s p rule: starts_with.induct) auto

lemma str_contains_iff: "str_contains s p \<longleftrightarrow> sublist p s"
proof (induction s)
  case (Cons c s)
  then show ?case
    by (cases p) (auto simp: starts_with_iff sublist_Cons_right)
qed simp

lemma to_lower_char_range:
  "\<not> (65 \<le> (of_char (to_lower_char c) :: nat) \<and> (of_char (to_lower_char c) :: nat) \<le> 90)"
  by (auto simp: to_lower_char_def Let_def)

lemma to_lower_char_idem [simp]: "to_lower_char (to_lower_char c) = to_lower_char c"
  using to_lower_char_range [of c]
  by (subst to_lower_char_def) (simp only: Let_def if_False)

lemma to_lowercase_idem [simp]: "to_lowercase (to_lowercase s) = to_lowercase s"
  by (simp add: to_lowercase_def)

text \<open>A needle with an upper-case ASCII letter is never found in a lower-cased string.\<close>

lemma lowercase_not_contains_upper:
  assumes "c \<in> set pat" "65 \<le> (of_char c :: nat)" "(of_char c :: nat) \<le> 90"
  shows "\<not> str_contains (to_lowercase s) pat"
proof
  assume "str_contains (to_lowercase s) pat"
  then have "set pat \<subseteq> set (to_lowercase s)"
    by (simp add: str_contains_iff set_mono_sublist)
  with assms(1) obtain d where "c = to_lower_char d"
    by (auto simp: to_lowercase_def)
  with assms(2,3) show False using to_lower_char_range [of d] by simp
qed

lemma replace_from_absent:
  "\<not> str_contains s pat \<Longrightarrow> replace_from pat to s = s"
  by (induction pat to s rule: replace_from.induct) auto

lemma str_replace_absent:
  "\<not> str_contains s pat \<Longrightarrow> str_replace s pat to = s"
  by (cases s; cases pat) (auto simp: str_replace_def replace_from_absent)


subsection \<open>Ordered containers\<close>

text \<open>
  A \<open>BTreeSet\<close> is its iteration order: the strictly increasing list of its elements.
  A \<open>BTreeMap\<close> collected from pairs keeps, for every key, the last pair with that key.
\<close>

definition btree_set :: "'a::linorder list \<Rightarrow> 'a list" where
  "btree_set xs = sort (remdups xs)"

definition btree_map :: "('k \<times> 'v) list \<Rightarrow> ('k \<rightharpoonup> 'v)" where
  "btree_map ps = map_of (rev ps)"

lemma set_btree_set [simp]: "set (btree_set xs) = set xs"
  by (simp add: btree_set_def)

lemma distinct_btree_set [simp]: "distinct (btree_set xs)"
  by (simp add: btree_set_def)

lemma sorted_btree_set [simp]: "sorted (btree_set xs)"
  by (simp add: btree_set_def)

lemma btree_set_sorted_list: "btree_set xs = sorted_list_of_set (set xs)"
  by (simp add: btree_set_def sorted_list_of_set_sort_remdups)

lemma btree_set_Nil_iff [simp]: "btree_set xs = [] \<longleftrightarrow> xs = []"
  by (metis set_btree_set set_empty)

lemma btree_set_cong: "set xs = set ys \<Longrightarrow> btree_set xs = btree_set ys"
  by (simp add: btree_set_def flip: sorted_list_of_set_sort_remdups)

lemma length_btree_set: "length (btree_set xs) = card (set xs)"
  by (metis distinct_btree_set distinct_card set_btree_set)

lemma length_btree_set_le: "length (btree_set xs) \<le> length xs"
  by (simp add: length_btree_set card_length)

lemma length_btree_set_distinct: "distinct xs \<Longrightarrow> length (btree_set xs) = length xs"
  by (simp add: length_btree_set distinct_card)

lemma btree_map_distinct: "distinct (map fst ps) \<Longrightarrow> btree_map ps = map_of ps"
  by (simp add: btree_map_def map_of_inject_set flip: rev_map)


subsection \<open>Invariants of transition systems\<close>

locale step_invariant =
  fixes step :: "'s \<Rightarrow> 's \<Rightarrow> bool"
    and inv :: "'s \<Rightarrow> bool"
  assumes preserved: "step s s' \<Longrightarrow> inv s \<Longrightarrow> inv s'"
begin

lemma reachable: "step\<^sup>*\<^sup>* s s' \<Longrightarrow> inv s \<Longrightarrow> inv s'"
  by (induction rule: rtranclp_induct) (auto intro: preserved)

end

end
