(* ===== verification/Evm_Constants.thy ===== *)
theory Evm_Constants
  imports Evm_Prelude
begin

section \<open>Constants\<close>

text \<open>
  The constants of \<^verbatim>\<open>src/constants.rs\<close> that the canister's logic reads, with their Rust types.
  \<open>evm_constants\<close> collects their defining equations.
\<close>

named_theorems evm_constants \<open>defining equations of the canister's constants\<close>

definition DEFAULT_MAX_RESPONSE_BYTES :: u64 where [evm_constants]:
  "DEFAULT_MAX_RESPONSE_BYTES = 2000000"

definition COLLATERAL_CYCLES_PER_NODE :: u128 where [evm_constants]:
  "COLLATERAL_CYCLES_PER_NODE = 10000000"

definition API_KEY_MAX_SIZE :: u32 where [evm_constants]:
  "API_KEY_MAX_SIZE = 512"

definition MESSAGE_FILTER_MAX_SIZE :: u32 where [evm_constants]:
  "MESSAGE_FILTER_MAX_SIZE = 1000"

definition NODES_IN_SUBNET :: u32 where [evm_constants]:
  "NODES_IN_SUBNET = 34"

definition API_KEY_REPLACE_STRING :: string where [evm_constants]:
  "API_KEY_REPLACE_STRING = ''{API_KEY}''"

definition VALID_API_KEY_CHARS :: string where [evm_constants]:
  "VALID_API_KEY_CHARS = ''0123456789ABCDEFGHIJKLMNOPQRTSUVWXYZabcdefghijklmnopqrstuvwxyz$-_.+!*''"

definition CONTENT_TYPE_HEADER_LOWERCASE :: string where [evm_constants]:
  "CONTENT_TYPE_HEADER_LOWERCASE = ''content-type''"

definition CONTENT_TYPE_VALUE :: string where [evm_constants]:
  "CONTENT_TYPE_VALUE = ''application/json''"

definition ETH_MAINNET_CHAIN_ID :: u64 where [evm_constants]:
  "ETH_MAINNET_CHAIN_ID = 1"

definition ETH_SEPOLIA_CHAIN_ID :: u64 where [evm_constants]:
  "ETH_SEPOLIA_CHAIN_ID = 11155111"

definition ARBITRUM_ONE_CHAIN_ID :: u64 where [evm_constants]:
  "ARBITRUM_ONE_CHAIN_ID = 42161"

definition BASE_MAINNET_CHAIN_ID :: u64 where [evm_constants]:
  "BASE_MAINNET_CHAIN_ID = 8453"

definition OPTIMISM_MAINNET_CHAIN_ID :: u64 where [evm_constants]:
  "OPTIMISM_MAINNET_CHAIN_ID = 10"

end
