(* ===== verification/Rpc_Types.thy ===== *)
theory Rpc_Types
  imports Evm_Prelude
begin

section \<open>Services, configuration and consensus strategies\<close>

text \<open>
  The public request types of \<^verbatim>\<open>evm_rpc_types/src/rpc_client/mod.rs\<close>: the provider enumerations,
  \<open>RpcApi\<close>, \<open>RpcService\<close>, \<open>RpcServices\<close>, \<open>ConsensusStrategy\<close>, the two configuration records and the
  Candid view of a provider. The derived \<open>Ord\<close> of \<open>RpcService\<close> (variants in declaration order, then
  the fields, lexicographically) is an instance of \<open>linorder\<close>: it is the order in which a
  \<open>BTreeSet<RpcService>\<close> is iterated, hence the order of the outgoing requests.
\<close>

subsection \<open>Provider enumerations\<close>

datatype EthMainnetService = Alchemy | Ankr | BlockPi | PublicNode | Cloudflare | Llama

datatype EthSepoliaService = Alchemy | Ankr | BlockPi | PublicNode | Sepolia

datatype L2MainnetService = Alchemy | Ankr | BlockPi | PublicNode | Llama

definition EthMainnetService_all :: "EthMainnetService list" where
  "EthMainnetService_all =
     [EthMainnetService.Alchemy, EthMainnetService.Ankr, EthMainnetService.BlockPi,
      EthMainnetService.PublicNode, EthMainnetService.Cloudflare, EthMainnetService.Llama]"

definition EthSepoliaService_all :: "EthSepoliaService list" where
  "EthSepoliaService_all =
     [EthSepoliaService.Alchemy, EthSepoliaService.Ankr, EthSepoliaService.BlockPi,
      EthSepoliaService.PublicNode, EthSepoliaService.Sepolia]"

definition L2MainnetService_all :: "L2MainnetService list" where
  "L2MainnetService_all =
     [L2MainnetService.Alchemy, L2MainnetService.Ankr, L2MainnetService.BlockPi,
      L2MainnetService.PublicNode, L2MainnetService.Llama]"

text \<open>The position of a variant in its declaration, which is how a derived \<open>Ord\<close> compares.\<close>

primrec eth_mainnet_index :: "EthMainnetService \<Rightarrow> nat" where
  "eth_mainnet_index EthMainnetService.Alchemy = 0"
| "eth_mainnet_index EthMainnetService.Ankr = 1"
| "eth_mainnet_index EthMainnetService.BlockPi = 2"
| "eth_mainnet_index EthMainnetService.PublicNode = 3"
| "eth_mainnet_index EthMainnetService.Cloudflare = 4"
| "eth_mainnet_index EthMainnetService.Llama = 5"

primrec eth_sepolia_index :: "EthSepoliaService \<Rightarrow> nat" where
  "eth_sepolia_index EthSepoliaService.Alchemy = 0"
| "eth_sepolia_index EthSepoliaService.Ankr = 1"
| "eth_sepolia_index EthSepoliaService.BlockPi = 2"
| "eth_sepolia_index EthSepoliaService.PublicNode = 3"
| "eth_sepolia_index EthSepoliaService.Sepolia = 4"

primrec l2_mainnet_index :: "L2MainnetService \<Rightarrow> nat" where
  "l2_mainnet_index L2MainnetService.Alchemy = 0"
| "l2_mainnet_index L2MainnetService.Ankr = 1"
| "l2_mainnet_index L2MainnetService.BlockPi = 2"
| "l2_mainnet_index L2MainnetService.PublicNode = 3"
| "l2_mainnet_index L2MainnetService.Llama = 4"

lemma set_EthMainnetService_all [simp]: "set EthMainnetService_all = UNIV"
  by (auto simp: EthMainnetService_all_def intro: EthMainnetService.exhaust)

lemma set_EthSepoliaService_all [simp]: "set EthSepoliaService_all = UNIV"
  by (auto simp: EthSepoliaService_all_def intro: EthSepoliaService.exhaust)

lemma set_L2MainnetService_all [simp]: "set L2MainnetService_all = UNIV"
  by (auto simp: L2MainnetService_all_def intro: L2MainnetService.exhaust)

lemma eth_mainnet_index_inj [simp]: "eth_mainnet_index x = eth_mainnet_index y \<longleftrightarrow> x = y"
  by (cases x; cases y) auto

lemma eth_sepolia_index_inj [simp]: "eth_sepolia_index x = eth_sepolia_index y \<longleftrightarrow> x = y"
  by (cases x; cases y) auto

lemma l2_mainnet_index_inj [simp]: "l2_mainnet_index x = l2_mainnet_index y \<longleftrightarrow> x = y"
  by (cases x; cases y) auto


subsection \<open>Services\<close>

record HttpHeader =
  hdr_name :: string
  hdr_value :: string

record RpcApi =
  url :: string
  headers :: "HttpHeader list option"

text \<open>
  What is printed of an address of a provider: its host, since URL and headers may contain a key. The parser of
  the \<open>url\<close> crate with its \<open>host_str\<close> is an argument.
\<close>

definition RpcApi_host_str :: "(string \<Rightarrow> string option) \<Rightarrow> RpcApi \<Rightarrow> string option" where
  "RpcApi_host_str url_host self = url_host (url self)"

definition debug_RpcApi :: "(string \<Rightarrow> string option) \<Rightarrow> RpcApi \<Rightarrow> string" where
  "debug_RpcApi url_host self =
     ''RpcApi { host: '' @ unwrap_or ''N/A'' (RpcApi_host_str url_host self) @ '', url/headers: *** }''"

datatype RpcService =
    Provider u64
  | Custom RpcApi
  | EthMainnet EthMainnetService
  | EthSepolia EthSepoliaService
  | ArbitrumOne L2MainnetService
  | BaseMainnet L2MainnetService
  | OptimismMainnet L2MainnetService

datatype RpcServices =
    Custom (custom_chain_id: u64) (custom_services: "RpcApi list")
  | EthMainnet "EthMainnetService list option"
  | EthSepolia "EthSepoliaService list option"
  | ArbitrumOne "L2MainnetService list option"
  | BaseMainnet "L2MainnetService list option"
  | OptimismMainnet "L2MainnetService list option"

type_synonym api_key_ord = "string \<times> (string \<times> string) list option"

definition header_ord :: "HttpHeader \<Rightarrow> string \<times> string" where
  "header_ord h = (hdr_name h, hdr_value h)"

definition api_ord :: "RpcApi \<Rightarrow> api_key_ord" where
  "api_ord a = (url a, map_option (map header_ord) (headers a))"

primrec service_ord :: "RpcService \<Rightarrow> nat \<times> nat \<times> api_key_ord" where
  "service_ord (RpcService.Provider i) = (0, unat i, ([], None))"
| "service_ord (RpcService.Custom a) = (1, 0, api_ord a)"
| "service_ord (RpcService.EthMainnet s) = (2, eth_mainnet_index s, ([], None))"
| "service_ord (RpcService.EthSepolia s) = (3, eth_sepolia_index s, ([], None))"
| "service_ord (RpcService.ArbitrumOne s) = (4, l2_mainnet_index s, ([], None))"
| "service_ord (RpcService.BaseMainnet s) = (5, l2_mainnet_index s, ([], None))"
| "service_ord (RpcService.OptimismMainnet s) = (6, l2_mainnet_index s, ([], None))"

lemma header_ord_inj [simp]: "header_ord x = header_ord y \<longleftrightarrow> x = y"
  by (cases x; cases y) (auto simp: header_ord_def)

lemma map_header_ord_inj [simp]: "map header_ord xs = map header_ord ys \<longleftrightarrow> xs = ys"
  by (simp add: inj_on_def inj_map_eq_map)

lemma api_ord_inj [simp]: "api_ord x = api_ord y \<longleftrightarrow> x = y"
proof (cases x, cases y)
  fix u h v k
  assume "x = \<lparr>url = u, headers = h\<rparr>" "y = \<lparr>url = v, headers = k\<rparr>"
  then show ?thesis by (cases h; cases k) (auto simp: api_ord_def)
qed

lemma service_ord_inj [simp]: "service_ord x = service_ord y \<longleftrightarrow> x = y"
  by (cases x; cases y) (auto simp: word_unat_eq_iff)

instantiation RpcService :: linorder
begin

definition less_eq_RpcService :: "RpcService \<Rightarrow> RpcService \<Rightarrow> bool" where
  "less_eq_RpcService x y \<longleftrightarrow> service_ord x \<le> service_ord y"

definition less_RpcService :: "RpcService \<Rightarrow> RpcService \<Rightarrow> bool" where
  "less_RpcService x y \<longleftrightarrow> service_ord x < service_ord y"

instance
  by standard
    (auto simp: less_eq_RpcService_def less_RpcService_def dest: order.trans antisym
       simp flip: service_ord_inj)

end


subsection \<open>Configuration\<close>

datatype ConsensusStrategy = Equality | Threshold (total: "u8 option") (min_equal: u8)

record RpcConfig =
  response_size_estimate :: "u64 option"
  response_consensus :: "ConsensusStrategy option"

record GetLogsRpcConfig =
  logs_response_size_estimate :: "u64 option"
  logs_response_consensus :: "ConsensusStrategy option"
  max_block_range :: "u32 option"

definition default_ConsensusStrategy :: ConsensusStrategy where
  "default_ConsensusStrategy = Equality"

definition default_RpcConfig :: RpcConfig where
  "default_RpcConfig = \<lparr>response_size_estimate = None, response_consensus = None\<rparr>"

definition default_GetLogsRpcConfig :: GetLogsRpcConfig where
  "default_GetLogsRpcConfig =
     \<lparr>logs_response_size_estimate = None, logs_response_consensus = None, max_block_range = None\<rparr>"

definition RpcConfig_from_GetLogs :: "GetLogsRpcConfig \<Rightarrow> RpcConfig" where
  "RpcConfig_from_GetLogs c =
     \<lparr>response_size_estimate = logs_response_size_estimate c,
      response_consensus = logs_response_consensus c\<rparr>"

definition GetLogsRpcConfig_from :: "RpcConfig \<Rightarrow> GetLogsRpcConfig" where
  "GetLogsRpcConfig_from c =
     \<lparr>logs_response_size_estimate = response_size_estimate c,
      logs_response_consensus = response_consensus c,
      max_block_range = None\<rparr>"

definition max_block_range_or_default :: "GetLogsRpcConfig \<Rightarrow> u32" where
  "max_block_range_or_default c = unwrap_or 500 (max_block_range c)"

lemma RpcConfig_GetLogs_round_trip: "RpcConfig_from_GetLogs (GetLogsRpcConfig_from c) = c"
  by (simp add: RpcConfig_from_GetLogs_def GetLogsRpcConfig_from_def)


subsection \<open>The Candid view of a provider\<close>

datatype CandidRpcAuth = BearerToken (candid_bearer_url: string) | UrlParameter (candid_url_pattern: string)

datatype CandidRpcAccess =
    Authenticated (candid_auth: CandidRpcAuth) (candid_auth_public_url: "string option")
  | Unauthenticated (candid_public_url: string)

record CandidProvider =
  candid_provider_id :: u64
  candid_chain_id :: u64
  candid_access :: CandidRpcAccess
  candid_alias :: "RpcService option"


subsection \<open>Redacted debug output\<close>

text \<open>
  The derived \<open>Debug\<close> of the plain enumerations prints the variant's name. \<open>RpcService\<close> prints the
  service of a chain without the chain, and never prints the contents of a custom API.
\<close>

primrec debug_EthMainnetService :: "EthMainnetService \<Rightarrow> string" where
  "debug_EthMainnetService EthMainnetService.Alchemy = ''Alchemy''"
| "debug_EthMainnetService EthMainnetService.Ankr = ''Ankr''"
| "debug_EthMainnetService EthMainnetService.BlockPi = ''BlockPi''"
| "debug_EthMainnetService EthMainnetService.PublicNode = ''PublicNode''"
| "debug_EthMainnetService EthMainnetService.Cloudflare = ''Cloudflare''"
| "debug_EthMainnetService EthMainnetService.Llama = ''Llama''"

primrec debug_EthSepoliaService :: "EthSepoliaService \<Rightarrow> string" where
  "debug_EthSepoliaService EthSepoliaService.Alchemy = ''Alchemy''"
| "debug_EthSepoliaService EthSepoliaService.Ankr = ''Ankr''"
| "debug_EthSepoliaService EthSepoliaService.BlockPi = ''BlockPi''"
| "debug_EthSepoliaService EthSepoliaService.PublicNode = ''PublicNode''"
| "debug_EthSepoliaService EthSepoliaService.Sepolia = ''Sepolia''"

primrec debug_L2MainnetService :: "L2MainnetService \<Rightarrow> string" where
  "debug_L2MainnetService L2MainnetService.Alchemy = ''Alchemy''"
| "debug_L2MainnetService L2MainnetService.Ankr = ''Ankr''"
| "debug_L2MainnetService L2MainnetService.BlockPi = ''BlockPi''"
| "debug_L2MainnetService L2MainnetService.PublicNode = ''PublicNode''"
| "debug_L2MainnetService L2MainnetService.Llama = ''Llama''"

primrec debug_RpcService :: "RpcService \<Rightarrow> string" where
  "debug_RpcService (RpcService.Provider i) = ''Provider('' @ show_nat (unat i) @ '')''"
| "debug_RpcService (RpcService.Custom a) = ''Custom(..)''"
| "debug_RpcService (RpcService.EthMainnet s) = debug_EthMainnetService s"
| "debug_RpcService (RpcService.EthSepolia s) = debug_EthSepoliaService s"
| "debug_RpcService (RpcService.ArbitrumOne s) = debug_L2MainnetService s"
| "debug_RpcService (RpcService.BaseMainnet s) = debug_L2MainnetService s"
| "debug_RpcService (RpcService.OptimismMainnet s) = debug_L2MainnetService s"

end
