(* ===== verification/Rpc_Result.thy ===== *)
theory Rpc_Result
  imports Rpc_Types
begin

section \<open>Errors and multi-provider results\<close>

text \<open>
  \<^verbatim>\<open>evm_rpc_types/src/result/mod.rs\<close>: the error enumerations and \<open>MultiRpcResult\<close>, with its two maps
  and the \<open>collapse\<close> of an inconsistent answer whose results became equal. \<open>collapse\<close> compares with
  the \<open>PartialEq\<close> of the payload type, which the model takes as an argument: for \<open>f64\<close> payloads
  (\<open>FeeHistory\<close>) it is not reflexive.
\<close>

subsection \<open>Errors\<close>

datatype LegacyRejectionCode =
  NoError | SysFatal | SysTransient | DestinationInvalid | CanisterReject | CanisterError | Unknown

datatype RejectCode =
  SysFatal | SysTransient | DestinationInvalid | CanisterReject | CanisterError | SysUnknown

primrec LegacyRejectionCode_from :: "RejectCode \<Rightarrow> LegacyRejectionCode" where
  "LegacyRejectionCode_from RejectCode.SysFatal = LegacyRejectionCode.SysFatal"
| "LegacyRejectionCode_from RejectCode.SysTransient = LegacyRejectionCode.SysTransient"
| "LegacyRejectionCode_from RejectCode.DestinationInvalid = LegacyRejectionCode.DestinationInvalid"
| "LegacyRejectionCode_from RejectCode.CanisterReject = LegacyRejectionCode.CanisterReject"
| "LegacyRejectionCode_from RejectCode.CanisterError = LegacyRejectionCode.CanisterError"
| "LegacyRejectionCode_from RejectCode.SysUnknown = LegacyRejectionCode.Unknown"

datatype ProviderError =
    NoPermission
  | TooFewCycles (cycles_expected: u128) (cycles_received: u128)
  | ProviderNotFound
  | MissingRequiredProvider
  | InvalidRpcConfig string

datatype HttpOutcallError =
    IcError (ic_code: LegacyRejectionCode) (ic_message: string)
  | InvalidHttpJsonRpcResponse (http_status: u16) (http_body: string) (http_parsing_error: "string option")

record JsonRpcError =
  json_rpc_code :: int  \<comment> \<open>\<open>i64\<close>\<close>
  json_rpc_message :: string

datatype ValidationError = Custom string | InvalidHex string

datatype RpcError =
    ProviderError ProviderError
  | HttpOutcallError HttpOutcallError
  | JsonRpcError JsonRpcError
  | ValidationError ValidationError

type_synonym 'a RpcResult = "RpcError + 'a"

text \<open>No reject code of the system maps to the two legacy codes that mean "no rejection".\<close>

lemma LegacyRejectionCode_from_not_NoError: "LegacyRejectionCode_from c \<noteq> NoError"
  by (cases c) auto

lemma LegacyRejectionCode_from_inj: "LegacyRejectionCode_from c = LegacyRejectionCode_from d \<longleftrightarrow> c = d"
  by (cases c; cases d) auto


subsection \<open>MultiRpcResult\<close>

datatype 'a MultiRpcResult =
    Consistent "'a RpcResult"
  | Inconsistent "(RpcService \<times> 'a RpcResult) list"

text \<open>Derived \<open>PartialEq\<close> of \<open>Result\<close>: errors have a total equality, payloads the given one.\<close>

fun result_eq :: "('a \<Rightarrow> 'a \<Rightarrow> bool) \<Rightarrow> 'a RpcResult \<Rightarrow> 'a RpcResult \<Rightarrow> bool" where
  "result_eq eq (Inl e) (Inl e') = (e = e')"
| "result_eq eq (Inr x) (Inr y) = eq x y"
| "result_eq eq _ _ = False"

fun collapse :: "('a \<Rightarrow> 'a \<Rightarrow> bool) \<Rightarrow> 'a MultiRpcResult \<Rightarrow> 'a MultiRpcResult" where
  "collapse eq (Consistent r) = Consistent r"
| "collapse eq (Inconsistent v) =
     (case v of
        [] \<Rightarrow> Inconsistent v
      | (_, first) # _ \<Rightarrow>
          (if list_all (\<lambda>(_, result). result_eq eq result first) v
           then Consistent first
           else Inconsistent v))"

fun multi_map :: "('b \<Rightarrow> 'b \<Rightarrow> bool) \<Rightarrow> ('a \<Rightarrow> 'b) \<Rightarrow> 'a MultiRpcResult \<Rightarrow> 'b MultiRpcResult" where
  "multi_map eq f (Consistent result) = Consistent (map_ok f result)"
| "multi_map eq f (Inconsistent results) =
     collapse eq (Inconsistent (map (\<lambda>(service, result). (service, map_ok f result)) results))"

fun multi_and_then ::
  "('b \<Rightarrow> 'b \<Rightarrow> bool) \<Rightarrow> ('a \<Rightarrow> 'b RpcResult) \<Rightarrow> 'a MultiRpcResult \<Rightarrow> 'b MultiRpcResult" where
  "multi_and_then eq f (Consistent result) = Consistent (and_then result f)"
| "multi_and_then eq f (Inconsistent results) =
     collapse eq (Inconsistent (map (\<lambda>(service, result). (service, and_then result f)) results))"

fun expect_consistent :: "'a MultiRpcResult \<Rightarrow> 'a RpcResult trapping" where
  "expect_consistent (Consistent result) = Inr result"
| "expect_consistent (Inconsistent results) = Inl ''Expected consistent, but got: ''"

fun expect_inconsistent :: "'a MultiRpcResult \<Rightarrow> (RpcService \<times> 'a RpcResult) list trapping" where
  "expect_inconsistent (Consistent result) = Inl ''Expected inconsistent:, but got: ''"
| "expect_inconsistent (Inconsistent results) = Inr results"

definition MultiRpcResult_from :: "'a RpcResult \<Rightarrow> 'a MultiRpcResult" where
  "MultiRpcResult_from r = Consistent r"


subsection \<open>What a collapse promises\<close>

text \<open>
  The abstract reading of an answer: the list of provider results it stands for, up to which
  providers were asked. A collapsed answer stands for one common result.
\<close>

definition uniform :: "('a \<Rightarrow> 'a \<Rightarrow> bool) \<Rightarrow> (RpcService \<times> 'a RpcResult) list \<Rightarrow> bool" where
  "uniform eq v \<longleftrightarrow> v \<noteq> [] \<and> list_all (\<lambda>(_, r). result_eq eq r (snd (hd v))) v"

fun normal :: "('a \<Rightarrow> 'a \<Rightarrow> bool) \<Rightarrow> 'a MultiRpcResult \<Rightarrow> bool" where
  "normal eq (Consistent r) = True"
| "normal eq (Inconsistent v) = (\<not> uniform eq v)"

lemma result_eq_HOL: "result_eq (=) x y \<longleftrightarrow> x = y"
  by (cases x; cases y) auto

lemma collapse_Inconsistent:
  "collapse eq (Inconsistent v) =
     (if uniform eq v then Consistent (snd (hd v)) else Inconsistent v)"
  by (auto simp: uniform_def split: list.splits)

declare collapse.simps(2) [simp del]

lemma normal_collapse: "normal eq (collapse eq m)"
  by (cases m) (auto simp: collapse_Inconsistent)

lemma collapse_normal: "normal eq m \<Longrightarrow> collapse eq m = m"
  by (cases m) (auto simp: collapse_Inconsistent)

lemma map_ok_as_and_then: "map_ok f r = and_then r (\<lambda>x. Inr (f x))"
  by (cases r) auto

lemma multi_map_as_and_then: "multi_map eq f m = multi_and_then eq (\<lambda>x. Inr (f x)) m"
  by (cases m) (auto simp: map_ok_as_and_then)

lemma uniform_HOL: "uniform (=) v \<longleftrightarrow> v \<noteq> [] \<and> (\<forall>sr \<in> set v. snd sr = snd (hd v))"
  by (auto simp: uniform_def result_eq_HOL list_all_iff)

lemma uniform_HOL_map:
  "uniform (=) v \<Longrightarrow> uniform (=) (map (\<lambda>(s, r). (s, g r)) v)"
  by (cases v) (auto simp: uniform_HOL)

lemma and_then_assoc: "and_then (and_then r g) f = and_then r (\<lambda>x. and_then (g x) f)"
  by (cases r) auto


subsection \<open>Properties\<close>

text \<open>C16. Mapping an inconsistent answer by a fallible conversion either yields one consistent result,
  and then some provider answered and every provider's converted result equals it under the payload's
  equality, or it yields an inconsistent answer that lists exactly the same providers in the same order,
  each with its own converted result (errors kept), and then no provider answered or two of the
  converted results differ. No provider result is dropped, reordered or attributed to another provider.\<close>

theorem multi_and_then_faithful:
  "case multi_and_then eq f (Inconsistent v) of
     Consistent r \<Rightarrow>
       v \<noteq> [] \<and> r = and_then (snd (hd v)) f
       \<and> list_all (\<lambda>(_, x). result_eq eq (and_then x f) r) v
   | Inconsistent w \<Rightarrow>
       map fst w = map fst v \<and> map snd w = map (\<lambda>(_, x). and_then x f) v
       \<and> (v = [] \<or> list_ex (\<lambda>(_, x). \<not> result_eq eq (and_then x f) (and_then (snd (hd v)) f)) v)"
  by (cases v) (auto simp: collapse_Inconsistent uniform_def list_all_iff list_ex_iff)

text \<open>Mapping an answer twice is mapping it once by the composition, for fallible maps and a total
  equality: collapsing between the two maps never loses or merges results that the composition
  would have kept apart.\<close>

theorem multi_and_then_fusion:
  "multi_and_then (=) f (multi_and_then (=) g m) = multi_and_then (=) (\<lambda>x. and_then (g x) f) m"
proof (cases m)
  case (Inconsistent v)
  let ?gv = "map (\<lambda>(s, r). (s, and_then r g)) v"
  let ?fgv = "map (\<lambda>(s, r). (s, and_then r (\<lambda>x. and_then (g x) f))) v"
  have fg: "map (\<lambda>(s, r). (s, and_then r f)) ?gv = ?fgv"
    by (auto simp: and_then_assoc)
  show ?thesis
  proof (cases "uniform (=) ?gv")
    case True
    then have "uniform (=) ?fgv"
      unfolding fg [symmetric] by (rule uniform_HOL_map)
    moreover from True have "v \<noteq> []"
      by (auto simp: uniform_def)
    ultimately show ?thesis
      using True Inconsistent
      by (simp add: collapse_Inconsistent hd_map split_beta and_then_assoc)
  next
    case False
    then show ?thesis
      unfolding Inconsistent
      by (simp only: multi_and_then.simps collapse_Inconsistent if_False fg)
  qed
qed (simp add: and_then_assoc)

end
