(* ===== verification/Providers.thy ===== *)
theory Providers
  imports Rpc_Result Evm_Constants
begin

section \<open>The provider catalogue and the usage ranking\<close>

text \<open>
  \<^verbatim>\<open>src/providers.rs\<close> and the provider types of \<^verbatim>\<open>src/types/mod.rs\<close>: the table \<open>PROVIDERS\<close>, the two
  maps built from it, the resolution of a service to a provider, the default provider lists per chain
  and the ranking of providers by recent successful answers.

  The locale \<open>registry\<close> is the contract between a table of entries with unique keys and the two maps
  built from it; it is interpreted on \<open>PROVIDERS\<close>. The \<open>TimedSizedMap\<close> that holds the success
  timestamps belongs to the \<open>canhttp\<close> crate: its operations are a record argument of the model.
\<close>

subsection \<open>Provider types\<close>

datatype SupportedRpcService =
    EthMainnet EthMainnetService
  | EthSepolia EthSepoliaService
  | ArbitrumOne L2MainnetService
  | BaseMainnet L2MainnetService
  | OptimismMainnet L2MainnetService

datatype RpcAuth =
    BearerToken (auth_url: string)
  | UrlParameter (auth_url: string)

datatype RpcAccess =
    Authenticated (access_auth: RpcAuth) (access_public_url: "string option")
  | Unauthenticated (open_url: string)

type_synonym ProviderId = u64

record Provider =
  provider_id :: ProviderId
  chain_id :: u64
  access :: RpcAccess
  provider_alias :: "SupportedRpcService option"

fun RpcAccess_public_url :: "RpcAccess \<Rightarrow> string option" where
  "RpcAccess_public_url (RpcAccess.Authenticated _ public_url) = public_url"
| "RpcAccess_public_url (RpcAccess.Unauthenticated public_url) = Some public_url"

datatype ResolvedRpcService = Api RpcApi | Provider Provider


subsection \<open>The table\<close>

text \<open>The table is one constant of the code; it is written in three pieces, in its order.\<close>

definition ethereum_providers :: "Provider list" where
  "ethereum_providers = [
     \<lparr>provider_id = 0, chain_id = ETH_MAINNET_CHAIN_ID,
      access = RpcAccess.Authenticated
           (RpcAuth.BearerToken ''https://cloudflare-eth.com/v1/mainnet'')
           (Some ''https://cloudflare-eth.com/v1/mainnet''),
      provider_alias = Some (SupportedRpcService.EthMainnet EthMainnetService.Cloudflare)\<rparr>,
     \<lparr>provider_id = 1, chain_id = ETH_MAINNET_CHAIN_ID,
      access = RpcAccess.Authenticated
           (RpcAuth.UrlParameter ''https://rpc.ankr.com/eth/{API_KEY}'')
           (Some ''https://rpc.ankr.com/eth''),
      provider_alias = Some (SupportedRpcService.EthMainnet EthMainnetService.Ankr)\<rparr>,
     \<lparr>provider_id = 2, chain_id = ETH_MAINNET_CHAIN_ID,
      access = RpcAccess.Unauthenticated
           ''https://ethereum-rpc.publicnode.com'',
      provider_alias = Some (SupportedRpcService.EthMainnet EthMainnetService.PublicNode)\<rparr>,
     \<lparr>provider_id = 3, chain_id = ETH_MAINNET_CHAIN_ID,
      access = RpcAccess.Authenticated
           (RpcAuth.UrlParameter ''https://ethereum.blockpi.network/v1/rpc/{API_KEY}'')
           (Some ''https://ethereum.public.blockpi.network/v1/rpc/public''),
      provider_alias = Some (SupportedRpcService.EthMainnet EthMainnetService.BlockPi)\<rparr>,
     \<lparr>provider_id = 4, chain_id = ETH_SEPOLIA_CHAIN_ID,
      access = RpcAccess.Unauthenticated
           ''https://rpc.sepolia.org'',
      provider_alias = Some (SupportedRpcService.EthSepolia EthSepoliaService.Sepolia)\<rparr>,
     \<lparr>provider_id = 5, chain_id = ETH_SEPOLIA_CHAIN_ID,
      access = RpcAccess.Authenticated
           (RpcAuth.UrlParameter ''https://rpc.ankr.com/eth_sepolia/{API_KEY}'')
           (Some ''https://rpc.ankr.com/eth_sepolia''),
      provider_alias = Some (SupportedRpcService.EthSepolia EthSepoliaService.Ankr)\<rparr>,
     \<lparr>provider_id = 6, chain_id = ETH_SEPOLIA_CHAIN_ID,
      access = RpcAccess.Authenticated
           (RpcAuth.UrlParameter ''https://ethereum-sepolia.blockpi.network/v1/rpc/{API_KEY}'')
           None,
      provider_alias = Some (SupportedRpcService.EthSepolia EthSepoliaService.BlockPi)\<rparr>,
     \<lparr>provider_id = 7, chain_id = ETH_SEPOLIA_CHAIN_ID,
      access = RpcAccess.Unauthenticated
           ''https://ethereum-sepolia-rpc.publicnode.com'',
      provider_alias = Some (SupportedRpcService.EthSepolia EthSepoliaService.PublicNode)\<rparr>,
     \<lparr>provider_id = 8, chain_id = ETH_MAINNET_CHAIN_ID,
      access = RpcAccess.Authenticated
           (RpcAuth.BearerToken ''https://eth-mainnet.g.alchemy.com/v2'')
           (Some ''https://eth-mainnet.g.alchemy.com/v2/demo''),
      provider_alias = Some (SupportedRpcService.EthMainnet EthMainnetService.Alchemy)\<rparr>,
     \<lparr>provider_id = 9, chain_id = ETH_SEPOLIA_CHAIN_ID,
      access = RpcAccess.Authenticated
           (RpcAuth.BearerToken ''https://eth-sepolia.g.alchemy.com/v2'')
           (Some ''https://eth-sepolia.g.alchemy.com/v2/demo''),
      provider_alias = Some (SupportedRpcService.EthSepolia EthSepoliaService.Alchemy)\<rparr>]"

definition arbitrum_base_providers :: "Provider list" where
  "arbitrum_base_providers = [
     \<lparr>provider_id = 10, chain_id = ARBITRUM_ONE_CHAIN_ID,
      access = RpcAccess.Authenticated
           (RpcAuth.UrlParameter ''https://rpc.ankr.com/arbitrum/{API_KEY}'')
           (Some ''https://rpc.ankr.com/arbitrum''),
      provider_alias = Some (SupportedRpcService.ArbitrumOne L2MainnetService.Ankr)\<rparr>,
     \<lparr>provider_id = 11, chain_id = ARBITRUM_ONE_CHAIN_ID,
      access = RpcAccess.Authenticated
           (RpcAuth.BearerToken ''https://arb-mainnet.g.alchemy.com/v2'')
           (Some ''https://arb-mainnet.g.alchemy.com/v2/demo''),
      provider_alias = Some (SupportedRpcService.ArbitrumOne L2MainnetService.Alchemy)\<rparr>,
     \<lparr>provider_id = 12, chain_id = ARBITRUM_ONE_CHAIN_ID,
      access = RpcAccess.Authenticated
           (RpcAuth.UrlParameter ''https://arbitrum.blockpi.network/v1/rpc/{API_KEY}'')
           (Some ''https://arbitrum.public.blockpi.network/v1/rpc/public''),
      provider_alias = Some (SupportedRpcService.ArbitrumOne L2MainnetService.BlockPi)\<rparr>,
     \<lparr>provider_id = 13, chain_id = ARBITRUM_ONE_CHAIN_ID,
      access = RpcAccess.Unauthenticated
           ''https://arbitrum-one-rpc.publicnode.com'',
      provider_alias = Some (SupportedRpcService.ArbitrumOne L2MainnetService.PublicNode)\<rparr>,
     \<lparr>provider_id = 14, chain_id = BASE_MAINNET_CHAIN_ID,
      access = RpcAccess.Authenticated
           (RpcAuth.UrlParameter ''https://rpc.ankr.com/base/{API_KEY}'')
           (Some ''https://rpc.ankr.com/base''),
      provider_alias = Some (SupportedRpcService.BaseMainnet L2MainnetService.Ankr)\<rparr>,
     \<lparr>provider_id = 15, chain_id = BASE_MAINNET_CHAIN_ID,
      access = RpcAccess.Authenticated
           (RpcAuth.BearerToken ''https://base-mainnet.g.alchemy.com/v2'')
           (Some ''https://base-mainnet.g.alchemy.com/v2/demo''),
      provider_alias = Some (SupportedRpcService.BaseMainnet L2MainnetService.Alchemy)\<rparr>,
     \<lparr>provider_id = 16, chain_id = BASE_MAINNET_CHAIN_ID,
      access = RpcAccess.Authenticated
           (RpcAuth.UrlParameter ''https://base.blockpi.network/v1/rpc/{API_KEY}'')
           (Some ''https://base.public.blockpi.network/v1/rpc/public''),
      provider_alias = Some (SupportedRpcService.BaseMainnet L2MainnetService.BlockPi)\<rparr>,
     \<lparr>provider_id = 17, chain_id = BASE_MAINNET_CHAIN_ID,
      access = RpcAccess.Unauthenticated
           ''https://base-rpc.publicnode.com'',
      provider_alias = Some (SupportedRpcService.BaseMainnet L2MainnetService.PublicNode)\<rparr>]"

definition optimism_llama_providers :: "Provider list" where
  "optimism_llama_providers = [
     \<lparr>provider_id = 18, chain_id = OPTIMISM_MAINNET_CHAIN_ID,
      access = RpcAccess.Authenticated
           (RpcAuth.UrlParameter ''https://rpc.ankr.com/optimism/{API_KEY}'')
           (Some ''https://rpc.ankr.com/optimism''),
      provider_alias = Some (SupportedRpcService.OptimismMainnet L2MainnetService.Ankr)\<rparr>,
     \<lparr>provider_id = 19, chain_id = OPTIMISM_MAINNET_CHAIN_ID,
      access = RpcAccess.Authenticated
           (RpcAuth.BearerToken ''https://opt-mainnet.g.alchemy.com/v2'')
           (Some ''https://opt-mainnet.g.alchemy.com/v2/demo''),
      provider_alias = Some (SupportedRpcService.OptimismMainnet L2MainnetService.Alchemy)\<rparr>,
     \<lparr>provider_id = 20, chain_id = OPTIMISM_MAINNET_CHAIN_ID,
      access = RpcAccess.Authenticated
           (RpcAuth.UrlParameter ''https://optimism.blockpi.network/v1/rpc/{API_KEY}'')
           (Some ''https://optimism.public.blockpi.network/v1/rpc/public''),
      provider_alias = Some (SupportedRpcService.OptimismMainnet L2MainnetService.BlockPi)\<rparr>,
     \<lparr>provider_id = 21, chain_id = OPTIMISM_MAINNET_CHAIN_ID,
      access = RpcAccess.Unauthenticated
           ''https://optimism-rpc.publicnode.com'',
      provider_alias = Some (SupportedRpcService.OptimismMainnet L2MainnetService.PublicNode)\<rparr>,
     \<lparr>provider_id = 22, chain_id = ETH_MAINNET_CHAIN_ID,
      access = RpcAccess.Unauthenticated
           ''https://eth.llamarpc.com'',
      provider_alias = Some (SupportedRpcService.EthMainnet EthMainnetService.Llama)\<rparr>,
     \<lparr>provider_id = 23, chain_id = ARBITRUM_ONE_CHAIN_ID,
      access = RpcAccess.Unauthenticated
           ''https://arbitrum.llamarpc.com'',
      provider_alias = Some (SupportedRpcService.ArbitrumOne L2MainnetService.Llama)\<rparr>,
     \<lparr>provider_id = 24, chain_id = BASE_MAINNET_CHAIN_ID,
      access = RpcAccess.Unauthenticated
           ''https://base.llamarpc.com'',
      provider_alias = Some (SupportedRpcService.BaseMainnet L2MainnetService.Llama)\<rparr>,
     \<lparr>provider_id = 25, chain_id = OPTIMISM_MAINNET_CHAIN_ID,
      access = RpcAccess.Unauthenticated
           ''https://optimism.llamarpc.com'',
      provider_alias = Some (SupportedRpcService.OptimismMainnet L2MainnetService.Llama)\<rparr>]"

definition PROVIDERS :: "Provider list" where
  "PROVIDERS = ethereum_providers @ arbitrum_base_providers @ optimism_llama_providers"

lemmas PROVIDERS_table = PROVIDERS_def ethereum_providers_def arbitrum_base_providers_def optimism_llama_providers_def

definition PROVIDER_MAP :: "ProviderId \<rightharpoonup> Provider" where
  "PROVIDER_MAP = btree_map (map (\<lambda>provider. (provider_id provider, provider)) PROVIDERS)"

definition SERVICE_PROVIDER_MAP :: "SupportedRpcService \<rightharpoonup> ProviderId" where
  "SERVICE_PROVIDER_MAP =
     btree_map (List.map_filter
       (\<lambda>provider. map_option (\<lambda>a. (a, provider_id provider)) (provider_alias provider)) PROVIDERS)"

definition find_provider :: "(Provider \<Rightarrow> bool) \<Rightarrow> Provider option" where
  "find_provider f = find f PROVIDERS"

fun get_known_chain_id :: "RpcService \<Rightarrow> u64 option" where
  "get_known_chain_id (RpcService.Provider _) = None"
| "get_known_chain_id (RpcService.Custom _) = None"
| "get_known_chain_id (RpcService.EthMainnet _) = Some ETH_MAINNET_CHAIN_ID"
| "get_known_chain_id (RpcService.EthSepolia _) = Some ETH_SEPOLIA_CHAIN_ID"
| "get_known_chain_id (RpcService.ArbitrumOne _) = Some ARBITRUM_ONE_CHAIN_ID"
| "get_known_chain_id (RpcService.BaseMainnet _) = Some BASE_MAINNET_CHAIN_ID"
| "get_known_chain_id (RpcService.OptimismMainnet _) = Some OPTIMISM_MAINNET_CHAIN_ID"

definition lookup_provider_for_service :: "SupportedRpcService \<Rightarrow> ProviderError + Provider" where
  "lookup_provider_for_service service =
     and_then (ok_or MissingRequiredProvider (SERVICE_PROVIDER_MAP service))
       (\<lambda>pid. ok_or ProviderNotFound (PROVIDER_MAP pid))"

fun resolve_rpc_service :: "RpcService \<Rightarrow> ProviderError + ResolvedRpcService" where
  "resolve_rpc_service (RpcService.Provider i) =
     map_ok ResolvedRpcService.Provider (ok_or ProviderNotFound (PROVIDER_MAP i))"
| "resolve_rpc_service (RpcService.Custom api) =
     Ok (ResolvedRpcService.Api \<lparr>url = url api, headers = headers api\<rparr>)"
| "resolve_rpc_service (RpcService.EthMainnet s) =
     map_ok ResolvedRpcService.Provider
       (lookup_provider_for_service (SupportedRpcService.EthMainnet s))"
| "resolve_rpc_service (RpcService.EthSepolia s) =
     map_ok ResolvedRpcService.Provider
       (lookup_provider_for_service (SupportedRpcService.EthSepolia s))"
| "resolve_rpc_service (RpcService.ArbitrumOne s) =
     map_ok ResolvedRpcService.Provider
       (lookup_provider_for_service (SupportedRpcService.ArbitrumOne s))"
| "resolve_rpc_service (RpcService.BaseMainnet s) =
     map_ok ResolvedRpcService.Provider
       (lookup_provider_for_service (SupportedRpcService.BaseMainnet s))"
| "resolve_rpc_service (RpcService.OptimismMainnet s) =
     map_ok ResolvedRpcService.Provider
       (lookup_provider_for_service (SupportedRpcService.OptimismMainnet s))"


subsection \<open>Supported services\<close>

fun SupportedRpcService_new :: "RpcService \<Rightarrow> SupportedRpcService option" where
  "SupportedRpcService_new (RpcService.Provider i) =
     Option.bind (find_provider (\<lambda>provider. provider_id provider = i)) provider_alias"
| "SupportedRpcService_new (RpcService.Custom _) = None"
| "SupportedRpcService_new (RpcService.EthMainnet s) = Some (SupportedRpcService.EthMainnet s)"
| "SupportedRpcService_new (RpcService.EthSepolia s) = Some (SupportedRpcService.EthSepolia s)"
| "SupportedRpcService_new (RpcService.ArbitrumOne s) = Some (SupportedRpcService.ArbitrumOne s)"
| "SupportedRpcService_new (RpcService.BaseMainnet s) = Some (SupportedRpcService.BaseMainnet s)"
| "SupportedRpcService_new (RpcService.OptimismMainnet s) =
     Some (SupportedRpcService.OptimismMainnet s)"

definition eth_mainnet :: "SupportedRpcService list" where
  "eth_mainnet =
     [SupportedRpcService.EthMainnet EthMainnetService.BlockPi,
      SupportedRpcService.EthMainnet EthMainnetService.Ankr,
      SupportedRpcService.EthMainnet EthMainnetService.PublicNode,
      SupportedRpcService.EthMainnet EthMainnetService.Llama,
      SupportedRpcService.EthMainnet EthMainnetService.Alchemy,
      SupportedRpcService.EthMainnet EthMainnetService.Cloudflare]"

definition eth_sepolia :: "SupportedRpcService list" where
  "eth_sepolia =
     [SupportedRpcService.EthSepolia EthSepoliaService.PublicNode,
      SupportedRpcService.EthSepolia EthSepoliaService.Ankr,
      SupportedRpcService.EthSepolia EthSepoliaService.BlockPi,
      SupportedRpcService.EthSepolia EthSepoliaService.Alchemy,
      SupportedRpcService.EthSepolia EthSepoliaService.Sepolia]"

definition arbitrum_one :: "SupportedRpcService list" where
  "arbitrum_one =
     [SupportedRpcService.ArbitrumOne L2MainnetService.Llama,
      SupportedRpcService.ArbitrumOne L2MainnetService.BlockPi,
      SupportedRpcService.ArbitrumOne L2MainnetService.PublicNode,
      SupportedRpcService.ArbitrumOne L2MainnetService.Alchemy,
      SupportedRpcService.ArbitrumOne L2MainnetService.Ankr]"

definition base_mainnet :: "SupportedRpcService list" where
  "base_mainnet =
     [SupportedRpcService.BaseMainnet L2MainnetService.Llama,
      SupportedRpcService.BaseMainnet L2MainnetService.BlockPi,
      SupportedRpcService.BaseMainnet L2MainnetService.PublicNode,
      SupportedRpcService.BaseMainnet L2MainnetService.Alchemy,
      SupportedRpcService.BaseMainnet L2MainnetService.Ankr]"

definition optimism_mainnet :: "SupportedRpcService list" where
  "optimism_mainnet =
     [SupportedRpcService.OptimismMainnet L2MainnetService.Llama,
      SupportedRpcService.OptimismMainnet L2MainnetService.BlockPi,
      SupportedRpcService.OptimismMainnet L2MainnetService.PublicNode,
      SupportedRpcService.OptimismMainnet L2MainnetService.Alchemy,
      SupportedRpcService.OptimismMainnet L2MainnetService.Ankr]"

fun RpcService_from :: "SupportedRpcService \<Rightarrow> RpcService" where
  "RpcService_from (SupportedRpcService.EthMainnet s) = RpcService.EthMainnet s"
| "RpcService_from (SupportedRpcService.EthSepolia s) = RpcService.EthSepolia s"
| "RpcService_from (SupportedRpcService.ArbitrumOne s) = RpcService.ArbitrumOne s"
| "RpcService_from (SupportedRpcService.BaseMainnet s) = RpcService.BaseMainnet s"
| "RpcService_from (SupportedRpcService.OptimismMainnet s) = RpcService.OptimismMainnet s"

lemma RpcService_from_inj: "inj RpcService_from"
proof (rule injI)
  fix x y :: SupportedRpcService
  assume "RpcService_from x = RpcService_from y"
  then show "x = y" by (cases x; cases y) auto
qed

lemma SupportedRpcService_new_from [simp]: "SupportedRpcService_new (RpcService_from s) = Some s"
  by (cases s) auto


subsection \<open>Registries: unique keys make the maps inverse to the table\<close>

locale registry =
  fixes entries :: "'p list"
    and key :: "'p \<Rightarrow> 'k"
    and nick :: "'p \<Rightarrow> 'a option"
  assumes distinct_keys: "distinct (map key entries)"
    and distinct_nicks: "distinct (List.map_filter nick entries)"
begin

abbreviation (input) "by_key \<equiv> btree_map (map (\<lambda>p. (key p, p)) entries)"

abbreviation (input) "by_nick \<equiv>
  btree_map (List.map_filter (\<lambda>p. map_option (\<lambda>a. (a, key p)) (nick p)) entries)"

lemma by_key_iff: "by_key k = Some p \<longleftrightarrow> p \<in> set entries \<and> key p = k"
proof -
  have "distinct (map fst (map (\<lambda>p. (key p, p)) entries))"
    using distinct_keys by (simp add: comp_def)
  then show ?thesis
    by (auto simp: btree_map_distinct map_of_eq_Some_iff)
qed

lemma fst_nick_pairs:
  "map fst (List.map_filter (\<lambda>p. map_option (\<lambda>a. (a, key p)) (nick p)) ps) = List.map_filter nick ps"
  by (induction ps) (auto simp: List.map_filter_def)

lemma by_nick_iff: "by_nick a = Some k \<longleftrightarrow> (\<exists>p \<in> set entries. nick p = Some a \<and> key p = k)"
proof -
  have "distinct (map fst (List.map_filter (\<lambda>p. map_option (\<lambda>a. (a, key p)) (nick p)) entries))"
    using distinct_nicks by (simp add: fst_nick_pairs)
  then show ?thesis
    by (auto simp: btree_map_distinct map_of_eq_Some_iff List.map_filter_def image_iff)
qed

lemma find_key_iff: "find (\<lambda>p. key p = k) entries = Some p \<longleftrightarrow> p \<in> set entries \<and> key p = k"
proof
  assume "p \<in> set entries \<and> key p = k"
  then obtain q where q: "find (\<lambda>p. key p = k) entries = Some q"
    by (cases "find (\<lambda>p. key p = k) entries") (auto simp: find_None_iff)
  then have "q \<in> set entries" "key q = k"
    by (auto simp: find_Some_iff)
  then have "q = p"
    using \<open>p \<in> set entries \<and> key p = k\<close> distinct_keys
    by (auto simp: distinct_map inj_on_def)
  with q show "find (\<lambda>p. key p = k) entries = Some p" by simp
qed (auto simp: find_Some_iff)

lemma nick_resolves:
  assumes "p \<in> set entries" "nick p = Some a"
  shows "Option.bind (by_nick a) by_key = Some p"
proof -
  from assms have "by_nick a = Some (key p)"
    using by_nick_iff by blast
  moreover from assms(1) have "by_key (key p) = Some p"
    using by_key_iff by blast
  ultimately show ?thesis by simp
qed

end

lemma distinct_provider_ids [catalogue]: "distinct (map provider_id PROVIDERS)"
  by (simp add: PROVIDERS_table)

lemma distinct_provider_aliases [catalogue]: "distinct (List.map_filter provider_alias PROVIDERS)"
  by (simp add: PROVIDERS_table List.map_filter_def)

interpretation catalogue: registry PROVIDERS provider_id provider_alias
  by unfold_locales (fact distinct_provider_ids, fact distinct_provider_aliases)


lemma PROVIDER_MAP_iff: "PROVIDER_MAP i = Some p \<longleftrightarrow> p \<in> set PROVIDERS \<and> provider_id p = i"
  unfolding PROVIDER_MAP_def by (rule catalogue.by_key_iff)

lemma SERVICE_PROVIDER_MAP_iff:
  "SERVICE_PROVIDER_MAP s = Some i
     \<longleftrightarrow> (\<exists>p \<in> set PROVIDERS. provider_alias p = Some s \<and> provider_id p = i)"
  unfolding SERVICE_PROVIDER_MAP_def by (rule catalogue.by_nick_iff)

lemma find_provider_id_iff:
  "find_provider (\<lambda>provider. provider_id provider = i) = Some p
     \<longleftrightarrow> p \<in> set PROVIDERS \<and> provider_id p = i"
  unfolding find_provider_def by (rule catalogue.find_key_iff)

lemma find_provider_eq_PROVIDER_MAP:
  "find_provider (\<lambda>provider. provider_id provider = i) = PROVIDER_MAP i"
  using find_provider_id_iff [of i] PROVIDER_MAP_iff [of i]
  by (metis not_None_eq)

lemma provider_ids [catalogue]: "map provider_id PROVIDERS = map of_nat [0..<26]"
  by (simp add: PROVIDERS_table upt_rec)

lemma provider_id_exists: "(\<exists>p \<in> set PROVIDERS. provider_id p = i) \<longleftrightarrow> unat i < 26"
proof -
  have "(\<exists>p \<in> set PROVIDERS. provider_id p = i) \<longleftrightarrow> i \<in> set (map provider_id PROVIDERS)"
    by auto
  also have "\<dots> \<longleftrightarrow> (\<exists>n < 26. i = of_nat n)"
    unfolding provider_ids by auto
  also have "\<dots> \<longleftrightarrow> unat i < 26"
    by (auto intro!: exI [of _ "unat i"] simp: unat_of_nat)
  finally show ?thesis .
qed

lemma provider_aliased [catalogue]:
  assumes "p \<in> set PROVIDERS"
  shows "\<exists>s. provider_alias p = Some s \<and> get_known_chain_id (RpcService_from s) = Some (chain_id p)"
proof -
  have "list_all (\<lambda>p. \<exists>s. provider_alias p = Some s
          \<and> get_known_chain_id (RpcService_from s) = Some (chain_id p)) PROVIDERS"
    by (simp add: PROVIDERS_table)
  with assms show ?thesis by (simp add: list_all_iff)
qed

definition all_supported :: "SupportedRpcService list" where
  "all_supported =
     map SupportedRpcService.EthMainnet EthMainnetService_all
     @ map SupportedRpcService.EthSepolia EthSepoliaService_all
     @ map SupportedRpcService.ArbitrumOne L2MainnetService_all
     @ map SupportedRpcService.BaseMainnet L2MainnetService_all
     @ map SupportedRpcService.OptimismMainnet L2MainnetService_all"

lemma set_all_supported [simp]: "set all_supported = UNIV"
proof -
  have "s \<in> set all_supported" for s
    by (cases s) (auto simp: all_supported_def)
  then show ?thesis by auto
qed

lemma aliases_complete [catalogue]:
  "list_all (\<lambda>s. Some s \<in> set (map provider_alias PROVIDERS)) all_supported"
  by (simp add: PROVIDERS_table all_supported_def EthMainnetService_all_def EthSepoliaService_all_def
        L2MainnetService_all_def)

lemma service_has_provider [catalogue]: "\<exists>p \<in> set PROVIDERS. provider_alias p = Some s"
  using aliases_complete by (auto simp: list_all_iff image_iff eq_commute)

lemma lookup_provider_for_service_iff:
  "lookup_provider_for_service s = Ok p \<longleftrightarrow> p \<in> set PROVIDERS \<and> provider_alias p = Some s"
proof -
  have "lookup_provider_for_service s = Ok p
      \<longleftrightarrow> (\<exists>i. SERVICE_PROVIDER_MAP s = Some i \<and> PROVIDER_MAP i = Some p)"
    by (simp add: lookup_provider_for_service_def and_then_eq_Inr)
  also have "\<dots> \<longleftrightarrow> p \<in> set PROVIDERS \<and> provider_alias p = Some s"
    using distinct_provider_ids
    by (auto simp: SERVICE_PROVIDER_MAP_iff PROVIDER_MAP_iff distinct_map inj_on_def)
  finally show ?thesis .
qed

lemma lookup_provider_for_service_total:
  "\<exists>p. lookup_provider_for_service s = Ok p \<and> p \<in> set PROVIDERS \<and> provider_alias p = Some s"
  using service_has_provider [of s] by (auto simp: lookup_provider_for_service_iff)

text \<open>Every chain-specific service resolves through its alias.\<close>

lemma resolve_via_alias:
  assumes "\<And>i. svc \<noteq> RpcService.Provider i" "\<And>a. svc \<noteq> RpcService.Custom a"
  obtains s where "SupportedRpcService_new svc = Some s" "svc = RpcService_from s"
    and "resolve_rpc_service svc
           = map_ok ResolvedRpcService.Provider (lookup_provider_for_service s)"
  using assms by (cases svc) auto


subsection \<open>Ranking by recent successes\<close>

text \<open>\<open>std::cmp::Reverse\<close> over \<open>usize\<close>.\<close>

datatype Reverse = Reverse nat

instantiation Reverse :: linorder
begin

fun less_eq_Reverse :: "Reverse \<Rightarrow> Reverse \<Rightarrow> bool" where
  "less_eq_Reverse (Reverse x) (Reverse y) \<longleftrightarrow> y \<le> x"

fun less_Reverse :: "Reverse \<Rightarrow> Reverse \<Rightarrow> bool" where
  "less_Reverse (Reverse x) (Reverse y) \<longleftrightarrow> y < x"

instance
proof
  fix x y z :: Reverse
  show "(x < y) = (x \<le> y \<and> \<not> y \<le> x)" by (cases x; cases y) auto
  show "x \<le> x" by (cases x) auto
  show "x \<le> y \<Longrightarrow> y \<le> z \<Longrightarrow> x \<le> z" by (cases x; cases y; cases z) auto
  show "x \<le> y \<Longrightarrow> y \<le> x \<Longrightarrow> x = y" by (cases x; cases y) auto
  show "x \<le> y \<or> y \<le> x" by (cases x; cases y) auto
qed

end

type_synonym Timestamp = u64  \<comment> \<open>nanoseconds since the Unix epoch\<close>

text \<open>
  The operations of \<open>canhttp::multi::TimedSizedMap<SupportedRpcService, ()>\<close> the canister calls:
  \<open>'m\<close> is the map, \<open>'v\<close> the \<open>TimedSizedVec<()>\<close> it keeps per service.
\<close>

record ('m, 'v) timed_map_ops =
  tsm_new :: "nat \<Rightarrow> nat \<Rightarrow> 'm"  \<comment> \<open>expiration in seconds, capacity per key\<close>
  insert_evict :: "'m \<Rightarrow> Timestamp \<Rightarrow> SupportedRpcService \<Rightarrow> 'm"
  evict_expired :: "'m \<Rightarrow> SupportedRpcService list \<Rightarrow> Timestamp \<Rightarrow> 'm"
  sort_keys_by :: "'m \<Rightarrow> SupportedRpcService list \<Rightarrow> ('v option \<Rightarrow> Reverse) \<Rightarrow> SupportedRpcService list"
  tsv_len :: "'v \<Rightarrow> nat"

definition SupportedRpcServiceUsage_new :: "('m, 'v) timed_map_ops \<Rightarrow> 'm" where
  "SupportedRpcServiceUsage_new ops = tsm_new ops (20 * 60) 500"

definition record_evict ::
  "('m, 'v) timed_map_ops \<Rightarrow> 'm \<Rightarrow> SupportedRpcService \<Rightarrow> Timestamp \<Rightarrow> 'm" where
  "record_evict ops usage service now = insert_evict ops usage now service"

definition ascending_num_elements :: "('m, 'v) timed_map_ops \<Rightarrow> 'v option \<Rightarrow> Reverse" where
  "ascending_num_elements ops values = Reverse (unwrap_or 0 (map_option (tsv_len ops) values))"

definition rank_ascending_evict ::
  "('m, 'v) timed_map_ops \<Rightarrow> 'm \<Rightarrow> SupportedRpcService list \<Rightarrow> Timestamp
     \<Rightarrow> 'm \<times> SupportedRpcService list" where
  "rank_ascending_evict ops usage services now =
     (let usage' = evict_expired ops usage services now
      in (usage', sort_keys_by ops usage' services (ascending_num_elements ops)))"

text \<open>
  The documented behaviour of \<open>sort_keys_by\<close>: a stable sort of the given keys by the extracted
  ordering of what the map holds for them (\<open>lookup\<close>).
\<close>

definition sorts_keys_stably :: "('m, 'v) timed_map_ops \<Rightarrow> ('m \<Rightarrow> SupportedRpcService \<Rightarrow> 'v option) \<Rightarrow> bool"
where
  "sorts_keys_stably ops lookup \<longleftrightarrow>
     (\<forall>m ks f. sort_keys_by ops m ks f = sort_key (\<lambda>k. f (lookup m k)) ks)"

definition num_oks :: "('m, 'v) timed_map_ops \<Rightarrow> 'v option \<Rightarrow> nat" where
  "num_oks ops values = unwrap_or 0 (map_option (tsv_len ops) values)"

lemma rank_as_sort:
  assumes "sorts_keys_stably ops lookup" "rank_ascending_evict ops usage services now = (usage', ranked)"
  shows "ranked = sort_key (\<lambda>s. Reverse (num_oks ops (lookup usage' s))) services"
  using assms
  by (auto simp: rank_ascending_evict_def sorts_keys_stably_def ascending_num_elements_def
       num_oks_def Let_def)

lemma set_rank:
  "sorts_keys_stably ops lookup \<Longrightarrow> set (snd (rank_ascending_evict ops usage services now)) = set services"
  using rank_as_sort by (cases "rank_ascending_evict ops usage services now") fastforce

lemma mset_rank:
  "sorts_keys_stably ops lookup \<Longrightarrow> mset (snd (rank_ascending_evict ops usage services now)) = mset services"
  using rank_as_sort by (cases "rank_ascending_evict ops usage services now") fastforce


subsection \<open>A reference instance of the timed map\<close>

text \<open>
  A plain list of timestamps per service, expiring after twenty minutes. It instantiates the
  \<open>TimedSizedMap\<close> argument where a statement is evaluated on a concrete input.
\<close>

type_synonym ref_usage = "SupportedRpcService \<Rightarrow> Timestamp list"

definition ref_lookup :: "ref_usage \<Rightarrow> SupportedRpcService \<Rightarrow> Timestamp list option" where
  "ref_lookup m k = (if m k = [] then None else Some (m k))"

definition ref_timed_ops :: "(ref_usage, Timestamp list) timed_map_ops" where
  "ref_timed_ops =
     \<lparr>tsm_new = (\<lambda>_ _ _. []),
      insert_evict = (\<lambda>m now k. m(k := now # m k)),
      evict_expired = (\<lambda>m ks now k.
        if k \<in> set ks then filter (\<lambda>t. unat now \<le> unat t + 1200000000000) (m k) else m k),
      sort_keys_by = (\<lambda>m ks f. sort_key (\<lambda>k. f (ref_lookup m k)) ks),
      tsv_len = length\<rparr>"

lemma ref_timed_ops_sorts: "sorts_keys_stably ref_timed_ops ref_lookup"
  by (simp add: sorts_keys_stably_def ref_timed_ops_def)


lemma resolve_rpc_service_cases:
  "case resolve_rpc_service svc of
     Inl e \<Rightarrow> e = ProviderNotFound \<and> (\<exists>i. svc = RpcService.Provider i \<and> 26 \<le> unat i)
   | Inr (ResolvedRpcService.Api a) \<Rightarrow> svc = RpcService.Custom a
   | Inr (ResolvedRpcService.Provider p) \<Rightarrow>
       p \<in> set PROVIDERS \<and> SupportedRpcService_new svc = provider_alias p
       \<and> (svc = RpcService.Provider (provider_id p) \<or> get_known_chain_id svc = Some (chain_id p))"
proof (cases "\<exists>i. svc = RpcService.Provider i")
  case True
  then obtain i where svc: "svc = RpcService.Provider i" by blast
  show ?thesis
  proof (cases "PROVIDER_MAP i")
    case None
    then have "\<not> unat i < 26"
      using provider_id_exists [of i] PROVIDER_MAP_iff [of i] by auto
    with svc None show ?thesis by simp
  next
    case (Some p)
    then have "p \<in> set PROVIDERS" "provider_id p = i"
      by (simp_all add: PROVIDER_MAP_iff)
    with svc Some show ?thesis by (simp add: find_provider_eq_PROVIDER_MAP)
  qed
next
  case False
  show ?thesis
  proof (cases "\<exists>a. svc = RpcService.Custom a")
    case False
    with \<open>\<nexists>i. svc = RpcService.Provider i\<close> obtain s
      where s: "SupportedRpcService_new svc = Some s" "svc = RpcService_from s"
        "resolve_rpc_service svc = map_ok ResolvedRpcService.Provider (lookup_provider_for_service s)"
      using resolve_via_alias by blast
    from lookup_provider_for_service_total [of s] obtain p
      where "lookup_provider_for_service s = Ok p" "p \<in> set PROVIDERS" "provider_alias p = Some s"
      by blast
    with s provider_aliased [of p] show ?thesis by auto
  qed auto
qed

lemma resolved_provider_listed:
  "resolve_rpc_service svc = Ok (ResolvedRpcService.Provider p) \<Longrightarrow> p \<in> set PROVIDERS"
  using resolve_rpc_service_cases [of svc] by simp

subsection \<open>Properties\<close>

text \<open>C18. Resolving a service fails only for a numeric provider id outside the table (ids 0 to 25), and
  then with \<open>ProviderNotFound\<close>. A custom API resolves to itself. Every other service resolves to an
  entry of the table which carries the service's own alias, and which serves the chain the service
  names (or is the provider with the requested id).\<close>

theorem resolve_rpc_service_correct:
  "case resolve_rpc_service svc of
     Inl e \<Rightarrow> e = ProviderNotFound \<and> (\<exists>i. svc = RpcService.Provider i \<and> 26 \<le> unat i)
   | Inr (ResolvedRpcService.Api a) \<Rightarrow> svc = RpcService.Custom a
   | Inr (ResolvedRpcService.Provider p) \<Rightarrow>
       p \<in> set PROVIDERS \<and> SupportedRpcService_new svc = provider_alias p
       \<and> (svc = RpcService.Provider (provider_id p) \<or> get_known_chain_id svc = Some (chain_id p))"
  by (rule resolve_rpc_service_cases)

text \<open>C24. Ranking the supported providers evicts expired successes first and then returns exactly the
  given services: a permutation, ordered by decreasing number of recorded successes, in which
  services with equally many successes keep the order of the default list.\<close>

theorem rank_ascending_evict_correct:
  assumes "sorts_keys_stably ops lookup"
    and "rank_ascending_evict ops usage services now = (usage', ranked)"
  shows "usage' = evict_expired ops usage services now
    \<and> mset ranked = mset services
    \<and> sorted_wrt (\<lambda>a b. num_oks ops (lookup usage' b) \<le> num_oks ops (lookup usage' a)) ranked
    \<and> (\<forall>n. filter (\<lambda>s. num_oks ops (lookup usage' s) = n) ranked
           = filter (\<lambda>s. num_oks ops (lookup usage' s) = n) services)"
proof (intro conjI allI)
  let ?k = "\<lambda>s. Reverse (num_oks ops (lookup usage' s))"
  have ranked: "ranked = sort_key ?k services"
    using rank_as_sort [OF assms] .
  show "usage' = evict_expired ops usage services now"
    using assms(2) by (simp add: rank_ascending_evict_def Let_def)
  show "mset ranked = mset services"
    by (simp add: ranked)
  have "sorted (map ?k ranked)"
    by (simp add: ranked)
  then show "sorted_wrt (\<lambda>a b. num_oks ops (lookup usage' b) \<le> num_oks ops (lookup usage' a)) ranked"
    by (simp add: sorted_map)
  fix n
  show "filter (\<lambda>s. num_oks ops (lookup usage' s) = n) ranked
         = filter (\<lambda>s. num_oks ops (lookup usage' s) = n) services"
    using sort_key_stable [of ?k "Reverse n" services] by (simp add: ranked)
qed

definition ankr_usage :: ref_usage where
  "ankr_usage = record_evict ref_timed_ops (SupportedRpcServiceUsage_new ref_timed_ops)
     (SupportedRpcService.EthMainnet EthMainnetService.Ankr) 5"

definition ankr_ranked :: "SupportedRpcService list" where
  "ankr_ranked =
     [SupportedRpcService.EthMainnet EthMainnetService.Ankr,
      SupportedRpcService.EthMainnet EthMainnetService.BlockPi,
      SupportedRpcService.EthMainnet EthMainnetService.PublicNode]"

lemma ankr_usage_ranked:
  "rank_ascending_evict ref_timed_ops ankr_usage (take 3 eth_mainnet) 7
     = (evict_expired ref_timed_ops ankr_usage (take 3 eth_mainnet) 7, ankr_ranked)"
  by (simp add: rank_ascending_evict_def ankr_usage_def record_evict_def ankr_ranked_def
        SupportedRpcServiceUsage_new_def ref_timed_ops_def eth_mainnet_def ref_lookup_def
        ascending_num_elements_def sort_key_def Let_def)

theorem rank_ascending_evict_correct_witness:
  "ankr_ranked \<noteq> take 3 eth_mainnet \<and> mset ankr_ranked = mset (take 3 eth_mainnet)
   \<and> sorted_wrt (\<lambda>a b.
       num_oks ref_timed_ops
         (ref_lookup (evict_expired ref_timed_ops ankr_usage (take 3 eth_mainnet) 7) b)
       \<le> num_oks ref_timed_ops
         (ref_lookup (evict_expired ref_timed_ops ankr_usage (take 3 eth_mainnet) 7) a)) ankr_ranked"
  using rank_ascending_evict_correct [OF ref_timed_ops_sorts ankr_usage_ranked]
  by (auto simp: ankr_ranked_def eth_mainnet_def)

end
