(* ===== verification/Canister_State.thy ===== *)
theory Canister_State
  imports Providers
begin

section \<open>The canister's memory, API keys and provider access\<close>

text \<open>
  \<^verbatim>\<open>src/memory.rs\<close> (the stable and unstable cells and their accessors), \<^verbatim>\<open>src/validate.rs\<close> (API key
  validation), and the operations of \<^verbatim>\<open>src/types/mod.rs\<close> that read the memory: \<open>Provider::api\<close>,
  \<open>OverrideProvider\<close>, \<open>ResolvedRpcService::api\<close> and \<open>post\<close>.

  The memory is one record, passed explicitly. \<open>'m\<close> is the \<open>canhttp\<close> map of success timestamps,
  \<open>'lf\<close> the \<open>canlog\<close> log filter, which the canister stores and never inspects. The regular expression
  engine and the URL parser are arguments.
\<close>

subsection \<open>API keys\<close>

datatype ApiKey = ApiKey (read: string)

definition validate_api_key :: "string \<Rightarrow> string + unit" where
  "validate_api_key api_key =
     (if api_key = [] then Err ''API key must not be an empty string''
      else if length api_key > 200 then Err ''API key must be <= 200 characters''
      else if list_ex (\<lambda>c. c \<notin> set VALID_API_KEY_CHARS) api_key
      then Err ''Invalid character in API key''
      else Ok ())"

definition ApiKey_try_from :: "string \<Rightarrow> string + ApiKey" where
  "ApiKey_try_from key = and_then (validate_api_key key) (\<lambda>_. Ok (ApiKey key))"

definition debug_ApiKey :: "ApiKey \<Rightarrow> string" where
  "debug_ApiKey key = API_KEY_REPLACE_STRING"

lemma ApiKey_try_from_iff:
  "ApiKey_try_from key = Ok k
     \<longleftrightarrow> k = ApiKey key \<and> key \<noteq> [] \<and> length key \<le> 200 \<and> set key \<subseteq> set VALID_API_KEY_CHARS"
  by (auto simp: ApiKey_try_from_def validate_api_key_def list_ex_iff)

lemma valid_chars_safe:
  "c \<in> set VALID_API_KEY_CHARS \<Longrightarrow> c \<notin> set ''/?#:@%&={} ''"
  by (auto simp: VALID_API_KEY_CHARS_def)


subsection \<open>Provider override\<close>

record RegexSubstitution =
  pattern :: string
  replacement :: string

record OverrideProvider =
  override_url :: "RegexSubstitution option"

definition default_OverrideProvider :: OverrideProvider where
  "default_OverrideProvider = \<lparr>override_url = None\<rparr>"

text \<open>The \<open>regex\<close> crate: \<open>RegexString::compile\<close> (the error as it is displayed) and \<open>Regex::replace_all\<close>.\<close>

record 'rx regex_ops =
  compile :: "string \<Rightarrow> string + 'rx"
  replace_all :: "'rx \<Rightarrow> string \<Rightarrow> string \<Rightarrow> string"

definition OverrideProvider_apply :: "'rx regex_ops \<Rightarrow> OverrideProvider \<Rightarrow> RpcApi \<Rightarrow> string + RpcApi" where
  "OverrideProvider_apply rx self api =
     (case override_url self of
        None \<Rightarrow> Ok api
      | Some substitution \<Rightarrow>
          and_then (compile rx (pattern substitution)) (\<lambda>regex.
            let new_url = replace_all rx regex (url api) (replacement substitution)
            in Ok \<lparr>url = new_url, headers = None\<rparr>))"

text \<open>\<open>TryFrom<evm_rpc_types::OverrideProvider>\<close>: the pattern must compile; the value is kept as it is.\<close>

definition OverrideProvider_try_from ::
  "'rx regex_ops \<Rightarrow> RegexSubstitution option \<Rightarrow> string + OverrideProvider" where
  "OverrideProvider_try_from rx u =
     map_ok (\<lambda>substitution. \<lparr>override_url = substitution\<rparr>)
       (transpose_result (map_option (\<lambda>url. map_ok (\<lambda>_. url) (compile rx (pattern url))) u))"

definition override_compiles :: "'rx regex_ops \<Rightarrow> OverrideProvider \<Rightarrow> bool" where
  "override_compiles rx p =
     (case override_url p of None \<Rightarrow> True | Some s \<Rightarrow> (\<exists>r. compile rx (pattern s) = Ok r))"

lemma OverrideProvider_try_from_iff:
  "OverrideProvider_try_from rx u = Ok p \<longleftrightarrow> p = \<lparr>override_url = u\<rparr> \<and> override_compiles rx p"
  by (cases u)
    (auto simp: OverrideProvider_try_from_def override_compiles_def map_ok_eq_Inr
       elim: transpose_result.elims)

lemma OverrideProvider_apply_ok:
  "override_compiles rx p \<Longrightarrow> \<exists>api'. OverrideProvider_apply rx p api = Ok api'"
  by (auto simp: override_compiles_def OverrideProvider_apply_def Let_def split: option.splits)


subsection \<open>Metrics\<close>

datatype MetricRpcMethod = MetricRpcMethod string
datatype MetricRpcHost = MetricRpcHost string
datatype MetricHttpStatusCode = MetricHttpStatusCode string

record Metrics =
  requests :: "MetricRpcMethod \<times> MetricRpcHost \<rightharpoonup> u64"
  responses :: "MetricRpcMethod \<times> MetricRpcHost \<times> MetricHttpStatusCode \<rightharpoonup> u64"
  inconsistent_responses :: "MetricRpcMethod \<times> MetricRpcHost \<rightharpoonup> u64"
  cycles_charged :: "MetricRpcMethod \<times> MetricRpcHost \<rightharpoonup> u128"
  err_http_outcall :: "MetricRpcMethod \<times> MetricRpcHost \<times> LegacyRejectionCode \<rightharpoonup> u64"
  err_max_response_size_exceeded :: "MetricRpcMethod \<times> MetricRpcHost \<rightharpoonup> u64"

definition default_Metrics :: Metrics where
  "default_Metrics =
     \<lparr>requests = Map.empty, responses = Map.empty, inconsistent_responses = Map.empty,
      cycles_charged = Map.empty, err_http_outcall = Map.empty,
      err_max_response_size_exceeded = Map.empty\<rparr>"

datatype RpcMethod =
    EthCall
  | EthFeeHistory
  | EthGetLogs
  | EthGetBlockByNumber
  | EthGetTransactionCount
  | EthGetTransactionReceipt
  | EthSendRawTransaction

primrec RpcMethod_name :: "RpcMethod \<Rightarrow> string" where
  "RpcMethod_name EthCall = ''eth_call''"
| "RpcMethod_name EthFeeHistory = ''eth_feeHistory''"
| "RpcMethod_name EthGetLogs = ''eth_getLogs''"
| "RpcMethod_name EthGetBlockByNumber = ''eth_getBlockByNumber''"
| "RpcMethod_name EthGetTransactionCount = ''eth_getTransactionCount''"
| "RpcMethod_name EthGetTransactionReceipt = ''eth_getTransactionReceipt''"
| "RpcMethod_name EthSendRawTransaction = ''eth_sendRawTransaction''"

definition MetricRpcMethod_from :: "RpcMethod \<Rightarrow> MetricRpcMethod" where
  "MetricRpcMethod_from method = MetricRpcMethod (RpcMethod_name method)"

definition MetricRpcHost_from :: "string \<Rightarrow> MetricRpcHost" where
  "MetricRpcHost_from hostname = MetricRpcHost hostname"

definition MetricHttpStatusCode_from :: "u32 \<Rightarrow> MetricHttpStatusCode" where
  "MetricHttpStatusCode_from v = MetricHttpStatusCode (show_nat (unat v))"

text \<open>
  The macro \<open>add_metric_entry!\<close> on one of the counters: a zero amount is not recorded. Rust's \<open>+=\<close> on
  the counter wraps in the release build the canister ships (overflow checks are off).
\<close>

definition add_metric_entry :: "('k \<rightharpoonup> 'n::len word) \<Rightarrow> 'k \<Rightarrow> 'n word \<Rightarrow> ('k \<rightharpoonup> 'n word)" where
  "add_metric_entry m k amount =
     (if amount \<noteq> 0
      then m(k \<mapsto> (case m k of Some counter \<Rightarrow> counter + amount | None \<Rightarrow> amount))
      else m)"


subsection \<open>The cells\<close>

type_synonym Principal = bytes

record ('m, 'lf) canister =
  UNSTABLE_METRICS :: Metrics
  UNSTABLE_HTTP_REQUEST_COUNTER :: u64
  UNSTABLE_RPC_SERVICE_OK_RESULTS_TIMESTAMPS :: 'm
  IS_DEMO_ACTIVE :: bool
  API_KEY_MAP :: "ProviderId \<rightharpoonup> ApiKey"
  MANAGE_API_KEYS :: "Principal list"
  LOG_FILTER :: 'lf
  OVERRIDE_PROVIDER :: OverrideProvider
  NUM_SUBNET_NODES :: u32

text \<open>The values of the cells before the first message: the initial values of \<open>thread_local!\<close>.\<close>

definition initial_memory :: "('m, 'v) timed_map_ops \<Rightarrow> 'lf \<Rightarrow> ('m, 'lf) canister" where
  "initial_memory ops lf =
     \<lparr>UNSTABLE_METRICS = default_Metrics,
      UNSTABLE_HTTP_REQUEST_COUNTER = 0,
      UNSTABLE_RPC_SERVICE_OK_RESULTS_TIMESTAMPS = SupportedRpcServiceUsage_new ops,
      IS_DEMO_ACTIVE = False,
      API_KEY_MAP = Map.empty,
      MANAGE_API_KEYS = [],
      LOG_FILTER = lf,
      OVERRIDE_PROVIDER = default_OverrideProvider,
      NUM_SUBNET_NODES = NODES_IN_SUBNET\<rparr>"

definition get_api_key :: "('m, 'lf) canister \<Rightarrow> ProviderId \<Rightarrow> ApiKey option" where
  "get_api_key st i = API_KEY_MAP st i"

definition insert_api_key :: "('m, 'lf) canister \<Rightarrow> ProviderId \<Rightarrow> ApiKey \<Rightarrow> ('m, 'lf) canister" where
  "insert_api_key st i key = st\<lparr>API_KEY_MAP := (API_KEY_MAP st)(i \<mapsto> key)\<rparr>"

definition remove_api_key :: "('m, 'lf) canister \<Rightarrow> ProviderId \<Rightarrow> ('m, 'lf) canister" where
  "remove_api_key st i = st\<lparr>API_KEY_MAP := (API_KEY_MAP st)(i := None)\<rparr>"

definition is_api_key_principal :: "('m, 'lf) canister \<Rightarrow> Principal \<Rightarrow> bool" where
  "is_api_key_principal st p = list_ex (\<lambda>other. other = p) (MANAGE_API_KEYS st)"

text \<open>\<open>set_api_key_principals\<close> pops the stable vector until it is empty and pushes the new elements.\<close>

fun pop_while_non_empty :: "'a list \<Rightarrow> 'a list" where
  "pop_while_non_empty [] = []"
| "pop_while_non_empty (x # xs) = pop_while_non_empty (butlast (x # xs))"

fun push_all :: "'a list \<Rightarrow> 'a list \<Rightarrow> 'a list" where
  "push_all ps [] = ps"
| "push_all ps (p # new) = push_all (ps @ [p]) new"

declare pop_while_non_empty.simps(2) [simp del]

definition set_api_key_principals ::
  "('m, 'lf) canister \<Rightarrow> Principal list \<Rightarrow> ('m, 'lf) canister" where
  "set_api_key_principals st new_principals =
     st\<lparr>MANAGE_API_KEYS := push_all (pop_while_non_empty (MANAGE_API_KEYS st)) new_principals\<rparr>"

definition is_demo_active :: "('m, 'lf) canister \<Rightarrow> bool" where
  "is_demo_active st = IS_DEMO_ACTIVE st"

definition set_demo_active :: "('m, 'lf) canister \<Rightarrow> bool \<Rightarrow> ('m, 'lf) canister" where
  "set_demo_active st is_active = st\<lparr>IS_DEMO_ACTIVE := is_active\<rparr>"

definition set_log_filter :: "('m, 'lf) canister \<Rightarrow> 'lf \<Rightarrow> ('m, 'lf) canister" where
  "set_log_filter st lf = st\<lparr>LOG_FILTER := lf\<rparr>"

definition get_log_filter :: "('m, 'lf) canister \<Rightarrow> 'lf" where
  "get_log_filter st = LOG_FILTER st"

definition get_override_provider :: "('m, 'lf) canister \<Rightarrow> OverrideProvider" where
  "get_override_provider st = OVERRIDE_PROVIDER st"

definition set_override_provider ::
  "('m, 'lf) canister \<Rightarrow> OverrideProvider \<Rightarrow> ('m, 'lf) canister" where
  "set_override_provider st provider = st\<lparr>OVERRIDE_PROVIDER := provider\<rparr>"

definition next_request_id :: "('m, 'lf) canister \<Rightarrow> u64 \<times> ('m, 'lf) canister" where
  "next_request_id st =
     (let current_request_id = UNSTABLE_HTTP_REQUEST_COUNTER st
      in (current_request_id, st\<lparr>UNSTABLE_HTTP_REQUEST_COUNTER := current_request_id + 1\<rparr>))"

definition get_num_subnet_nodes :: "('m, 'lf) canister \<Rightarrow> u32" where
  "get_num_subnet_nodes st = NUM_SUBNET_NODES st"

definition set_num_subnet_nodes :: "('m, 'lf) canister \<Rightarrow> u32 \<Rightarrow> ('m, 'lf) canister" where
  "set_num_subnet_nodes st nodes = st\<lparr>NUM_SUBNET_NODES := nodes\<rparr>"

definition record_ok_result ::
  "('m, 'v) timed_map_ops \<Rightarrow> ('m, 'lf) canister \<Rightarrow> SupportedRpcService \<Rightarrow> Timestamp
     \<Rightarrow> ('m, 'lf) canister" where
  "record_ok_result ops st service now =
     st\<lparr>UNSTABLE_RPC_SERVICE_OK_RESULTS_TIMESTAMPS :=
       record_evict ops (UNSTABLE_RPC_SERVICE_OK_RESULTS_TIMESTAMPS st) service now\<rparr>"

definition rank_providers ::
  "('m, 'v) timed_map_ops \<Rightarrow> ('m, 'lf) canister \<Rightarrow> SupportedRpcService list \<Rightarrow> Timestamp
     \<Rightarrow> SupportedRpcService list \<times> ('m, 'lf) canister" where
  "rank_providers ops st services now =
     (let (usage, ranked) =
        rank_ascending_evict ops (UNSTABLE_RPC_SERVICE_OK_RESULTS_TIMESTAMPS st) services now
      in (ranked, st\<lparr>UNSTABLE_RPC_SERVICE_OK_RESULTS_TIMESTAMPS := usage\<rparr>))"

lemma pop_while_non_empty_Nil [simp]: "pop_while_non_empty xs = []"
proof (induction xs rule: pop_while_non_empty.induct)
  case (2 x xs)
  then show ?case by (simp only: pop_while_non_empty.simps)
qed simp

lemma push_all_append [simp]: "push_all ps new = ps @ new"
  by (induction new arbitrary: ps) auto

lemma is_api_key_principal_iff [simp]:
  "is_api_key_principal st p \<longleftrightarrow> p \<in> set (MANAGE_API_KEYS st)"
  by (auto simp: is_api_key_principal_def list_ex_iff)

lemma set_api_key_principals_replaces [simp]:
  "MANAGE_API_KEYS (set_api_key_principals st new) = new"
  by (simp add: set_api_key_principals_def)


subsection \<open>Access to a provider\<close>

text \<open>\<open>Provider::api\<close>: the URL and headers to use, from the stored key or the public URL.\<close>

definition Provider_api :: "('m, 'lf) canister \<Rightarrow> Provider \<Rightarrow> RpcApi trapping" where
  "Provider_api st self =
     (case access self of
        RpcAccess.Authenticated auth public_url \<Rightarrow>
          (case get_api_key st (provider_id self) of
             Some api_key \<Rightarrow>
               (case auth of
                  RpcAuth.BearerToken u \<Rightarrow>
                    Inr \<lparr>url = u,
                         headers = Some [\<lparr>hdr_name = ''Authorization'',
                                          hdr_value = ''Bearer '' @ read api_key\<rparr>]\<rparr>
                | RpcAuth.UrlParameter u \<Rightarrow>
                    Inr \<lparr>url = str_replace u API_KEY_REPLACE_STRING (read api_key), headers = None\<rparr>)
           | None \<Rightarrow>
               (case public_url of
                  None \<Rightarrow> Inl (''API key not yet initialized for provider: ''
                                @ show_nat (unat (provider_id self)))
                | Some u \<Rightarrow> Inr \<lparr>url = u, headers = None\<rparr>))
      | RpcAccess.Unauthenticated public_url \<Rightarrow> Inr \<lparr>url = public_url, headers = None\<rparr>)"

text \<open>The \<open>url\<close> crate: the host of a URL that parses, if it has one.\<close>

datatype UrlHost = Domain string | Ipv4 | Ipv6

definition hostname_from_url :: "(string \<Rightarrow> UrlHost option) \<Rightarrow> string \<Rightarrow> string option" where
  "hostname_from_url url_host u =
     (case url_host u of
        Some (Domain domain) \<Rightarrow>
          (if \<not> list_ex (\<lambda>c. c \<in> set ''{}'') domain then Some domain else None)
      | _ \<Rightarrow> None)"

definition Provider_hostname :: "(string \<Rightarrow> UrlHost option) \<Rightarrow> Provider \<Rightarrow> string option" where
  "Provider_hostname url_host self =
     hostname_from_url url_host
       (case access self of
          RpcAccess.Authenticated auth _ \<Rightarrow>
            (case auth of RpcAuth.BearerToken u \<Rightarrow> u | RpcAuth.UrlParameter url_pattern \<Rightarrow> url_pattern)
        | RpcAccess.Unauthenticated public_url \<Rightarrow> public_url)"

definition ResolvedRpcService_api ::
  "'rx regex_ops \<Rightarrow> ('m, 'lf) canister \<Rightarrow> ResolvedRpcService \<Rightarrow> OverrideProvider \<Rightarrow> RpcApi RpcResult trapping"
where
  "ResolvedRpcService_api rx st self override_provider =
     map_ok
       (\<lambda>initial_api.
          map_err
            (\<lambda>regex_error.
               RpcError.ValidationError (ValidationError.Custom
                 (''BUG: regex should have been validated when initially set. Error: '' @ regex_error)))
            (OverrideProvider_apply rx override_provider initial_api))
       (case self of
          ResolvedRpcService.Api api \<Rightarrow> Inr api
        | ResolvedRpcService.Provider provider \<Rightarrow> Provider_api st provider)"

text \<open>
  The builder that \<open>post\<close> returns: a \<open>POST\<close> to a URL with the headers appended in order. Whether the
  \<open>http\<close> crate accepts the URL and the headers is only decided when the body is attached.
\<close>

record request_builder =
  rb_uri :: string
  rb_headers :: "(string \<times> string) list"

fun rb_add_headers :: "request_builder \<Rightarrow> HttpHeader list \<Rightarrow> request_builder" where
  "rb_add_headers rb [] = rb"
| "rb_add_headers rb (h # hs) =
     rb_add_headers (rb\<lparr>rb_headers := rb_headers rb @ [(hdr_name h, hdr_value h)]\<rparr>) hs"

definition ResolvedRpcService_post ::
  "'rx regex_ops \<Rightarrow> ('m, 'lf) canister \<Rightarrow> ResolvedRpcService \<Rightarrow> OverrideProvider
     \<Rightarrow> request_builder RpcResult trapping" where
  "ResolvedRpcService_post rx st self override_provider =
     map_ok
       (map_ok (\<lambda>api. rb_add_headers \<lparr>rb_uri = url api, rb_headers = []\<rparr> (unwrap_or [] (headers api))))
       (ResolvedRpcService_api rx st self override_provider)"

text \<open>A header with constant name and value.\<close>

record ConstHeader =
  const_name :: string
  const_value :: string

definition HttpHeader_from_ConstHeader :: "ConstHeader \<Rightarrow> HttpHeader" where
  "HttpHeader_from_ConstHeader header = \<lparr>hdr_name = const_name header, hdr_value = const_value header\<rparr>"

lemma rb_add_headers_spec:
  "rb_add_headers rb hs =
     rb\<lparr>rb_headers := rb_headers rb @ map (\<lambda>h. (hdr_name h, hdr_value h)) hs\<rparr>"
  by (induction hs arbitrary: rb) auto

end
