(* ===== verification/Key_Management.thy ===== *)
theory Key_Management
  imports Canister_State
begin

section \<open>Key management, installation and upgrade\<close>

text \<open>
  The administrative endpoints of \<^verbatim>\<open>src/main.rs\<close>: the guard \<open>require_api_key_principal_or_controller\<close>,
  \<open>update_api_keys\<close>, \<open>init\<close> and \<open>post_upgrade\<close>, over the memory of theory \<open>Canister_State\<close>.

  The locale \<open>key_store\<close> is the contract \<open>update_api_keys\<close> relies on (what a lookup returns after an
  insertion or a removal); it is interpreted on the stable \<open>API_KEY_MAP\<close>. The invariant \<open>canister_ok\<close>
  says that every stored key passed validation and belongs to an authenticated provider of the table,
  and that the stored override pattern compiles.
\<close>

subsection \<open>The key store interface\<close>

locale key_store =
  fixes get :: "'s \<Rightarrow> 'k \<Rightarrow> 'v option"
    and ins :: "'s \<Rightarrow> 'k \<Rightarrow> 'v \<Rightarrow> 's"
    and del :: "'s \<Rightarrow> 'k \<Rightarrow> 's"
  assumes get_ins: "get (ins s k v) = (get s)(k \<mapsto> v)"
    and get_del: "get (del s k) = (get s)(k := None)"
begin

abbreviation (input) "put s k entry \<equiv> (case entry of Some v \<Rightarrow> ins s k v | None \<Rightarrow> del s k)"

lemma get_put: "get (put s k entry) = (get s)(k := entry)"
  by (cases entry) (auto simp: get_ins get_del)

lemma get_put_all:
  "get (fold (\<lambda>(k, entry) s. put s k entry) ups s) k
     = (case map_of (rev ups) k of None \<Rightarrow> get s k | Some entry \<Rightarrow> entry)"
proof (induction ups arbitrary: s)
  case (Cons ke ups)
  obtain k' entry where ke: "ke = (k', entry)" by (cases ke)
  show ?case
    using Cons [of "put s k' entry"]
    by (cases "map_of (rev ups) k")
      (auto simp: ke get_put map_add_Some_iff fun_upd_def map_add_def split: option.splits)
qed simp

end

interpretation api_keys: key_store get_api_key insert_api_key remove_api_key
  by unfold_locales (auto simp: get_api_key_def insert_api_key_def remove_api_key_def)


subsection \<open>Updating the keys\<close>

definition require_api_key_principal_or_controller ::
  "('m, 'lf) canister \<Rightarrow> (Principal \<Rightarrow> bool) \<Rightarrow> Principal \<Rightarrow> string + unit" where
  "require_api_key_principal_or_controller st is_controller caller =
     (if is_api_key_principal st caller \<or> is_controller caller
      then Ok () else Err ''You are not authorized'')"

fun update_api_keys_loop ::
  "('m, 'lf) canister \<Rightarrow> (ProviderId \<times> string option) list \<Rightarrow> ('m, 'lf) canister trapping" where
  "update_api_keys_loop st [] = Inr st"
| "update_api_keys_loop st ((i, api_key) # rest) =
     (case find_provider (\<lambda>provider. provider_id provider = i) of
        None \<Rightarrow> Inl (''Provider not found: '' @ show_nat (unat i))
      | Some provider \<Rightarrow>
          (case access provider of
             RpcAccess.Unauthenticated _ \<Rightarrow>
               Inl (''Trying to set API key for unauthenticated provider: '' @ show_nat (unat i))
           | RpcAccess.Authenticated _ _ \<Rightarrow>
               (case api_key of
                  Some key \<Rightarrow>
                    (case ApiKey_try_from key of
                       Inl e \<Rightarrow> Inl (''Invalid API key: '' @ [CHR 0x22] @ e @ [CHR 0x22])
                     | Inr k \<Rightarrow> update_api_keys_loop (insert_api_key st i k) rest)
                | None \<Rightarrow> update_api_keys_loop (remove_api_key st i) rest)))"

text \<open>
  The endpoint: the guard runs first and its error rejects the call. A trap rolls the memory back, so
  the caller sees either the whole update or none of it.
\<close>

definition update_api_keys ::
  "(Principal \<Rightarrow> bool) \<Rightarrow> Principal \<Rightarrow> (ProviderId \<times> string option) list
     \<Rightarrow> ('m, 'lf) canister \<Rightarrow> ('m, 'lf) canister trapping" where
  "update_api_keys is_controller caller api_keys st =
     and_then (require_api_key_principal_or_controller st is_controller caller)
       (\<lambda>_. update_api_keys_loop st api_keys)"

text \<open>What makes one element of the request acceptable.\<close>

definition key_update_ok :: "ProviderId \<times> string option \<Rightarrow> bool" where
  "key_update_ok u \<longleftrightarrow>
     (\<exists>p \<in> set PROVIDERS. provider_id p = fst u \<and> (\<exists>a pub. access p = RpcAccess.Authenticated a pub))
     \<and> (case snd u of None \<Rightarrow> True | Some key \<Rightarrow> ApiKey_try_from key = Ok (ApiKey key))"

lemma update_api_keys_loop_Cons_ok:
  assumes "key_update_ok (i, api_key)"
  shows "update_api_keys_loop st ((i, api_key) # rest)
           = update_api_keys_loop
               (case map_option ApiKey api_key of
                  Some k \<Rightarrow> insert_api_key st i k | None \<Rightarrow> remove_api_key st i) rest"
proof -
  from assms obtain p a pub where
    "find_provider (\<lambda>provider. provider_id provider = i) = Some p"
    "access p = RpcAccess.Authenticated a pub"
    by (auto simp: key_update_ok_def find_provider_id_iff)
  then show ?thesis
    using assms by (auto simp: key_update_ok_def split: option.splits)
qed

lemma update_api_keys_loop_Cons_bad:
  assumes "\<not> key_update_ok (i, api_key)"
  shows "\<exists>msg. update_api_keys_loop st ((i, api_key) # rest) = Inl msg"
proof (cases "find_provider (\<lambda>provider. provider_id provider = i)")
  case (Some p)
  then have "p \<in> set PROVIDERS" "provider_id p = i"
    by (simp_all add: find_provider_id_iff)
  then show ?thesis
    using assms Some
    by (cases "access p"; cases api_key)
      (auto simp: key_update_ok_def ApiKey_try_from_iff split: sum.splits)
qed simp

lemma update_api_keys_loop_ok:
  "list_all key_update_ok ups \<Longrightarrow>
     update_api_keys_loop st ups
       = Inr (fold (\<lambda>(i, k) st. case k of Some k \<Rightarrow> insert_api_key st i k | None \<Rightarrow> remove_api_key st i)
                (map (\<lambda>(i, k). (i, map_option ApiKey k)) ups) st)"
proof (induction ups arbitrary: st)
  case (Cons u ups)
  obtain i k where u: "u = (i, k)" by (cases u)
  from Cons.prems have "key_update_ok (i, k)" by (simp add: u)
  then show ?case
    unfolding u update_api_keys_loop_Cons_ok [OF \<open>key_update_ok (i, k)\<close>]
    using Cons by simp
qed simp

lemma update_api_keys_loop_bad:
  "\<not> list_all key_update_ok ups \<Longrightarrow> \<exists>msg. update_api_keys_loop st ups = Inl msg"
proof (induction ups arbitrary: st)
  case (Cons u ups)
  obtain i k where u: "u = (i, k)" by (cases u)
  show ?case
  proof (cases "key_update_ok (i, k)")
    case True
    with Cons.prems have "\<not> list_all key_update_ok ups" by (simp add: u)
    then show ?thesis
      unfolding u update_api_keys_loop_Cons_ok [OF True] by (rule Cons.IH)
  next
    case False
    then show ?thesis unfolding u by (rule update_api_keys_loop_Cons_bad)
  qed
qed simp

text \<open>Only the key map changes.\<close>

lemma update_api_keys_loop_frame:
  "update_api_keys_loop st ups = Inr st' \<Longrightarrow> st' = st\<lparr>API_KEY_MAP := API_KEY_MAP st'\<rparr>"
proof (induction st ups rule: update_api_keys_loop.induct)
  case (2 st i api_key rest)
  then show ?case
    by (cases api_key)
      (force simp: insert_api_key_def remove_api_key_def
         split: option.splits RpcAccess.splits sum.splits)+
qed simp


subsection \<open>Installation and upgrade\<close>

record 'lf InstallArgs =
  demo :: "bool option"
  manage_api_keys :: "Principal list option"
  install_log_filter :: "'lf option"
  install_override_provider :: "RegexSubstitution option option"
  nodes_in_subnet :: "u32 option"

definition post_upgrade ::
  "'rx regex_ops \<Rightarrow> 'lf InstallArgs \<Rightarrow> ('m, 'lf) canister \<Rightarrow> ('m, 'lf) canister trapping" where
  "post_upgrade rx args st =
     (let st1 = (case demo args of Some d \<Rightarrow> set_demo_active st d | None \<Rightarrow> st);
          st2 = (case manage_api_keys args of
                   Some principals \<Rightarrow> set_api_key_principals st1 principals | None \<Rightarrow> st1);
          st3 = (case install_log_filter args of Some lf \<Rightarrow> set_log_filter st2 lf | None \<Rightarrow> st2)
      in and_then
           (case install_override_provider args of
              Some override_provider \<Rightarrow>
                (case OverrideProvider_try_from rx override_provider of
                   Inl e \<Rightarrow> Inl (''ERROR: invalid override provider: '' @ e)
                 | Inr provider \<Rightarrow> Inr (set_override_provider st3 provider))
            | None \<Rightarrow> Inr st3)
           (\<lambda>st4. Inr (case nodes_in_subnet args of
              Some nodes \<Rightarrow> set_num_subnet_nodes st4 nodes | None \<Rightarrow> st4)))"

definition init ::
  "'rx regex_ops \<Rightarrow> 'lf InstallArgs \<Rightarrow> ('m, 'lf) canister \<Rightarrow> ('m, 'lf) canister trapping" where
  "init rx args st = post_upgrade rx args st"

text \<open>
  An upgrade restarts the program on the preserved stable memory: the unstable cells take their initial
  values again before \<open>post_upgrade\<close> runs. If \<open>post_upgrade\<close> traps the upgrade is rolled back.
\<close>

definition reset_unstable :: "('m, 'v) timed_map_ops \<Rightarrow> ('m, 'lf) canister \<Rightarrow> ('m, 'lf) canister" where
  "reset_unstable ops st =
     st\<lparr>UNSTABLE_METRICS := default_Metrics,
        UNSTABLE_HTTP_REQUEST_COUNTER := 0,
        UNSTABLE_RPC_SERVICE_OK_RESULTS_TIMESTAMPS := SupportedRpcServiceUsage_new ops\<rparr>"

lemmas memory_setters = set_demo_active_def set_api_key_principals_def set_log_filter_def
  set_override_provider_def set_num_subnet_nodes_def

lemma post_upgrade_keeps_keys:
  "post_upgrade rx args st = Inr st' \<Longrightarrow> API_KEY_MAP st' = API_KEY_MAP st"
  by (auto simp: post_upgrade_def Let_def memory_setters and_then_eq_Inr
       split: option.splits sum.splits)

lemma post_upgrade_override:
  assumes "post_upgrade rx args st = Inr st'"
  shows "OVERRIDE_PROVIDER st' =
      (case install_override_provider args of
         None \<Rightarrow> OVERRIDE_PROVIDER st | Some u \<Rightarrow> \<lparr>override_url = u\<rparr>)
    \<and> (install_override_provider args = None \<or> override_compiles rx (OVERRIDE_PROVIDER st'))"
  using assms
  by (auto simp: post_upgrade_def Let_def memory_setters and_then_eq_Inr OverrideProvider_try_from_iff
       split: option.splits sum.splits)


subsection \<open>The state invariant\<close>

definition keys_ok :: "(ProviderId \<rightharpoonup> ApiKey) \<Rightarrow> bool" where
  "keys_ok m \<longleftrightarrow> (\<forall>i k. m i = Some k \<longrightarrow> key_update_ok (i, Some (read k)))"

definition canister_ok :: "'rx regex_ops \<Rightarrow> ('m, 'lf) canister \<Rightarrow> bool" where
  "canister_ok rx st \<longleftrightarrow> keys_ok (API_KEY_MAP st) \<and> override_compiles rx (OVERRIDE_PROVIDER st)"

lemma keys_ok_insert: "keys_ok m \<Longrightarrow> key_update_ok (i, Some (read k)) \<Longrightarrow> keys_ok (m(i \<mapsto> k))"
  by (auto simp: keys_ok_def)

lemma keys_ok_remove: "keys_ok m \<Longrightarrow> keys_ok (m(i := None))"
  by (auto simp: keys_ok_def)

lemma canister_ok_initial [canister_inv]: "canister_ok rx (initial_memory ops lf)"
  by (simp add: canister_ok_def keys_ok_def initial_memory_def default_OverrideProvider_def
        override_compiles_def)

lemma update_api_keys_loop_preserves [canister_inv]:
  "update_api_keys_loop st ups = Inr st' \<Longrightarrow> canister_ok rx st \<Longrightarrow> canister_ok rx st'"
proof (induction ups arbitrary: st)
  case (Cons u ups)
  obtain i api_key where u: "u = (i, api_key)" by (cases u)
  have ok: "key_update_ok (i, api_key)"
    using Cons.prems(1) update_api_keys_loop_Cons_bad [of i api_key st ups] by (auto simp: u)
  let ?st = "case map_option ApiKey api_key of
                  Some k \<Rightarrow> insert_api_key st i k | None \<Rightarrow> remove_api_key st i"
  have "canister_ok rx ?st"
    using Cons.prems(2) ok
    by (cases api_key)
      (auto simp: canister_ok_def insert_api_key_def remove_api_key_def keys_ok_insert keys_ok_remove)
  moreover have "update_api_keys_loop ?st ups = Inr st'"
    using Cons.prems(1) update_api_keys_loop_Cons_ok [OF ok, of st ups] by (simp add: u)
  ultimately show ?case using Cons.IH by blast
qed simp

lemma post_upgrade_preserves [canister_inv]:
  assumes "post_upgrade rx args st = Inr st'" "canister_ok rx st"
  shows "canister_ok rx st'"
  using assms(2) post_upgrade_keeps_keys [OF assms(1)] post_upgrade_override [OF assms(1)]
  by (auto simp: canister_ok_def split: option.splits)

lemma reset_unstable_preserves [canister_inv]:
  "canister_ok rx st \<Longrightarrow> canister_ok rx (reset_unstable ops st)"
  by (simp add: canister_ok_def reset_unstable_def)


subsection \<open>Provider access over the table\<close>

lemma access_of_table [catalogue]:
  "list_all (\<lambda>p. case access p of
        RpcAccess.Unauthenticated _ \<Rightarrow> provider_id p \<noteq> 6
      | RpcAccess.Authenticated auth pub \<Rightarrow>
          (pub = None \<longleftrightarrow> provider_id p = 6)
          \<and> (case auth of
               RpcAuth.BearerToken u \<Rightarrow> True
             | RpcAuth.UrlParameter u \<Rightarrow>
                 drop (length u - 9) u = API_KEY_REPLACE_STRING
                 \<and> list_all (\<lambda>c. c \<noteq> CHR ''{'') (take (length u - 9) u)))
     PROVIDERS"
  by (simp add: PROVIDERS_table evm_constants)

lemma access_of_provider:
  assumes "p \<in> set PROVIDERS"
  shows "case access p of
      RpcAccess.Unauthenticated _ \<Rightarrow> provider_id p \<noteq> 6
    | RpcAccess.Authenticated auth pub \<Rightarrow>
        (pub = None \<longleftrightarrow> provider_id p = 6)
        \<and> (case auth of
             RpcAuth.BearerToken u \<Rightarrow> True
           | RpcAuth.UrlParameter u \<Rightarrow>
               drop (length u - 9) u = API_KEY_REPLACE_STRING
               \<and> list_all (\<lambda>c. c \<noteq> CHR ''{'') (take (length u - 9) u))"
  using access_of_table assms by (simp only: list_all_iff)

text \<open>Replacing the placeholder at the end of a pattern that does not contain it elsewhere.\<close>

lemma replace_from_suffix:
  assumes "list_all (\<lambda>c. c \<noteq> p) pre"
  shows "replace_from (p # ps) k (pre @ p # ps) = pre @ k"
  using assms by (induction pre) (auto simp: starts_with_iff)

lemma url_parameter_filled:
  assumes "p \<in> set PROVIDERS" "access p = RpcAccess.Authenticated (RpcAuth.UrlParameter u) pub"
  shows "\<exists>pre. u = pre @ API_KEY_REPLACE_STRING
           \<and> str_replace u API_KEY_REPLACE_STRING k = pre @ k"
proof (intro exI conjI)
  let ?pre = "take (length u - 9) u"
  have suffix: "drop (length u - 9) u = API_KEY_REPLACE_STRING"
    and pre: "list_all (\<lambda>c. c \<noteq> CHR ''{'') ?pre"
    using access_of_provider [OF assms(1)] by (simp_all add: assms(2))
  from suffix show u: "u = ?pre @ API_KEY_REPLACE_STRING"
    by (metis append_take_drop_id)
  show "str_replace u API_KEY_REPLACE_STRING k = ?pre @ k"
    using replace_from_suffix [OF pre, of "tl API_KEY_REPLACE_STRING" k] suffix
    by (subst u) (simp add: str_replace_def evm_constants)
qed

lemma Provider_api_traps_iff:
  assumes "p \<in> set PROVIDERS"
  shows "(\<exists>msg. Provider_api st p = Inl msg) \<longleftrightarrow> provider_id p = 6 \<and> get_api_key st 6 = None"
  using access_of_provider [OF assms]
  by (auto simp: Provider_api_def split: RpcAccess.splits option.splits RpcAuth.splits)

lemma ResolvedRpcService_api_override_ok:
  assumes "override_compiles rx ov"
  shows "ResolvedRpcService_api rx st r ov \<noteq> Inr (Inl e)"
proof
  assume "ResolvedRpcService_api rx st r ov = Inr (Inl e)"
  then obtain api e' where "OverrideProvider_apply rx ov api = Inl e'"
    by (auto simp: ResolvedRpcService_api_def map_ok_eq_Inr map_err_eq_Inl)
  with OverrideProvider_apply_ok [OF assms, of api] show False by auto
qed


subsection \<open>The administration, exactly\<close>

lemma update_api_keys_iff:
  "update_api_keys is_controller caller ups st = Inr st' \<longleftrightarrow>
     (caller \<in> set (MANAGE_API_KEYS st) \<or> is_controller caller)
     \<and> list_all key_update_ok ups
     \<and> st' = st\<lparr>API_KEY_MAP := (\<lambda>i. case map_of (rev ups) i of
                   None \<Rightarrow> API_KEY_MAP st i
                 | Some entry \<Rightarrow> map_option ApiKey entry)\<rparr>"
proof (cases "list_all key_update_ok ups")
  case False
  with update_api_keys_loop_bad [OF False, of st] show ?thesis
    by (auto simp: update_api_keys_def and_then_eq_Inr)
next
  case True
  let ?ups = "map (\<lambda>(i, k). (i, map_option ApiKey k)) ups"
  let ?new = "fold (\<lambda>(i, k) st. case k of Some k \<Rightarrow> insert_api_key st i k
                                     | None \<Rightarrow> remove_api_key st i) ?ups st"
  have run: "update_api_keys_loop st ups = Inr ?new"
    by (rule update_api_keys_loop_ok [OF True])
  have lookup: "map_of (rev ?ups) i = map_option (map_option ApiKey) (map_of (rev ups) i)" for i
    using map_of_map [of "map_option ApiKey" "rev ups"] by (simp add: rev_map)
  have "API_KEY_MAP ?new = (\<lambda>i. case map_of (rev ups) i of
            None \<Rightarrow> API_KEY_MAP st i | Some entry \<Rightarrow> map_option ApiKey entry)"
    using api_keys.get_put_all [of ?ups st]
    by (auto simp: get_api_key_def lookup fun_eq_iff split: option.splits)
  with update_api_keys_loop_frame [OF run] True run show ?thesis
    by (auto simp: update_api_keys_def and_then_eq_Inr require_api_key_principal_or_controller_def)
qed

lemma post_upgrade_iff:
  "post_upgrade rx args st = Inr st' \<longleftrightarrow>
     (\<forall>s. install_override_provider args = Some (Some s) \<longrightarrow> (\<exists>r. compile rx (pattern s) = Ok r))
     \<and> st' = st
        \<lparr>IS_DEMO_ACTIVE := unwrap_or (IS_DEMO_ACTIVE st) (demo args),
         MANAGE_API_KEYS := unwrap_or (MANAGE_API_KEYS st) (manage_api_keys args),
         LOG_FILTER := unwrap_or (LOG_FILTER st) (install_log_filter args),
         OVERRIDE_PROVIDER := (case install_override_provider args of
            None \<Rightarrow> OVERRIDE_PROVIDER st | Some u \<Rightarrow> \<lparr>override_url = u\<rparr>),
         NUM_SUBNET_NODES := unwrap_or (NUM_SUBNET_NODES st) (nodes_in_subnet args)\<rparr>"
proof (cases "install_override_provider args")
  case None
  then show ?thesis
    by (auto simp: post_upgrade_def Let_def memory_setters split: option.splits)
next
  case (Some u)
  have "OverrideProvider_try_from rx u =
      (if override_compiles rx \<lparr>override_url = u\<rparr> then Inr \<lparr>override_url = u\<rparr>
       else OverrideProvider_try_from rx u)"
    by (simp add: OverrideProvider_try_from_iff)
  moreover have "\<not> override_compiles rx \<lparr>override_url = u\<rparr>
      \<Longrightarrow> \<exists>e. OverrideProvider_try_from rx u = Inl e"
    by (cases "OverrideProvider_try_from rx u") (auto simp: OverrideProvider_try_from_iff)
  ultimately show ?thesis
    using Some
    by (cases "override_compiles rx \<lparr>override_url = u\<rparr>")
      (auto simp: post_upgrade_def Let_def memory_setters override_compiles_def
         split: option.splits)
qed

subsection \<open>Properties\<close>

text \<open>C1. \<open>update_api_keys\<close> succeeds exactly for an authorised caller and a request in which every
  element names an authenticated provider of the table and every new key is valid (non-empty, at most 200
  characters of the allowed alphabet). It then changes the key map only: for every provider the last
  element naming it wins (a key is stored, \<open>None\<close> removes it), and providers that are not named keep
  theirs. In every other case the call fails and, by the rollback, nothing changes.\<close>

theorem update_api_keys_exact:
  "update_api_keys is_controller caller ups st = Inr st' \<longleftrightarrow>
     (caller \<in> set (MANAGE_API_KEYS st) \<or> is_controller caller)
     \<and> list_all key_update_ok ups
     \<and> st' = st\<lparr>API_KEY_MAP := (\<lambda>i. case map_of (rev ups) i of
                   None \<Rightarrow> API_KEY_MAP st i
                 | Some entry \<Rightarrow> map_option ApiKey entry)\<rparr>"
  by (rule update_api_keys_iff)

text \<open>C19. \<open>post_upgrade\<close> (and \<open>init\<close>) succeeds exactly when the override it is given, if any, has a
  pattern that compiles; it then replaces every setting that is present in the arguments, keeps the
  others, and touches neither the API keys nor the unstable cells.\<close>

theorem post_upgrade_exact:
  "post_upgrade rx args st = Inr st' \<longleftrightarrow>
     (\<forall>s. install_override_provider args = Some (Some s) \<longrightarrow> (\<exists>r. compile rx (pattern s) = Ok r))
     \<and> st' = st
        \<lparr>IS_DEMO_ACTIVE := unwrap_or (IS_DEMO_ACTIVE st) (demo args),
         MANAGE_API_KEYS := unwrap_or (MANAGE_API_KEYS st) (manage_api_keys args),
         LOG_FILTER := unwrap_or (LOG_FILTER st) (install_log_filter args),
         OVERRIDE_PROVIDER := (case install_override_provider args of
            None \<Rightarrow> OVERRIDE_PROVIDER st | Some u \<Rightarrow> \<lparr>override_url = u\<rparr>),
         NUM_SUBNET_NODES := unwrap_or (NUM_SUBNET_NODES st) (nodes_in_subnet args)\<rparr>"
  by (rule post_upgrade_iff)

theorem post_upgrade_exact_witness:
  "post_upgrade \<lparr>compile = (\<lambda>s. Inr s), replace_all = (\<lambda>r s t. t)\<rparr>
     \<lparr>demo = Some True, manage_api_keys = None, install_log_filter = None,
      install_override_provider = Some (Some \<lparr>pattern = ''.*'', replacement = ''x''\<rparr>),
      nodes_in_subnet = Some 34\<rparr>
     (initial_memory ref_timed_ops ())
   = Inr ((initial_memory ref_timed_ops ())
        \<lparr>IS_DEMO_ACTIVE := True,
         OVERRIDE_PROVIDER := \<lparr>override_url = Some \<lparr>pattern = ''.*'', replacement = ''x''\<rparr>\<rparr>,
         NUM_SUBNET_NODES := 34\<rparr>)"
  by (subst post_upgrade_exact) (simp add: initial_memory_def)

text \<open>C20. Over the provider table, the access parameters are: the public URL without headers when no key
  is stored; with a key, either the provider's URL with exactly one \<open>Authorization: Bearer\<close> header, or
  the URL pattern with its final placeholder replaced by the key and no header. The only provider for
  which the call traps is number 6 (BlockPi on Sepolia, which has no public URL) while it has no key.\<close>

theorem Provider_api_correct:
  assumes "p \<in> set PROVIDERS"
  shows "((\<exists>msg. Provider_api st p = Inl msg) \<longleftrightarrow> provider_id p = 6 \<and> get_api_key st 6 = None)
    \<and> (\<forall>api. Provider_api st p = Inr api \<longrightarrow>
        (case access p of
           RpcAccess.Unauthenticated public_url \<Rightarrow> api = \<lparr>url = public_url, headers = None\<rparr>
         | RpcAccess.Authenticated auth public_url \<Rightarrow>
             (case get_api_key st (provider_id p) of
                None \<Rightarrow> public_url = Some (url api) \<and> headers api = None
              | Some k \<Rightarrow>
                  (case auth of
                     RpcAuth.BearerToken u \<Rightarrow>
                       url api = u \<and> headers api = Some
                         [\<lparr>hdr_name = ''Authorization'', hdr_value = ''Bearer '' @ read k\<rparr>]
                   | RpcAuth.UrlParameter u \<Rightarrow>
                       (\<exists>pre. u = pre @ API_KEY_REPLACE_STRING \<and> url api = pre @ read k)
                       \<and> headers api = None))))"
proof (intro conjI allI impI)
  show "(\<exists>msg. Provider_api st p = Inl msg) \<longleftrightarrow> provider_id p = 6 \<and> get_api_key st 6 = None"
    by (rule Provider_api_traps_iff [OF assms])
next
  fix api assume "Provider_api st p = Inr api"
  then show "case access p of
           RpcAccess.Unauthenticated public_url \<Rightarrow> api = \<lparr>url = public_url, headers = None\<rparr>
         | RpcAccess.Authenticated auth public_url \<Rightarrow>
             (case get_api_key st (provider_id p) of
                None \<Rightarrow> public_url = Some (url api) \<and> headers api = None
              | Some k \<Rightarrow>
                  (case auth of
                     RpcAuth.BearerToken u \<Rightarrow>
                       url api = u \<and> headers api = Some
                         [\<lparr>hdr_name = ''Authorization'', hdr_value = ''Bearer '' @ read k\<rparr>]
                   | RpcAuth.UrlParameter u \<Rightarrow>
                       (\<exists>pre. u = pre @ API_KEY_REPLACE_STRING \<and> url api = pre @ read k)
                       \<and> headers api = None))"
    using url_parameter_filled [OF assms]
    by (auto simp: Provider_api_def split: RpcAccess.splits option.splits RpcAuth.splits)
qed

lemma ankr_in_table:
  "\<lparr>provider_id = 1, chain_id = ETH_MAINNET_CHAIN_ID,
    access = RpcAccess.Authenticated
         (RpcAuth.UrlParameter ''https://rpc.ankr.com/eth/{API_KEY}'')
         (Some ''https://rpc.ankr.com/eth''),
    provider_alias = Some (SupportedRpcService.EthMainnet EthMainnetService.Ankr)\<rparr> \<in> set PROVIDERS"
  by (simp add: PROVIDERS_table)

theorem Provider_api_correct_witness:
  "\<not> (\<exists>msg. Provider_api (initial_memory ref_timed_ops ())
        \<lparr>provider_id = 1, chain_id = ETH_MAINNET_CHAIN_ID,
         access = RpcAccess.Authenticated
              (RpcAuth.UrlParameter ''https://rpc.ankr.com/eth/{API_KEY}'')
              (Some ''https://rpc.ankr.com/eth''),
         provider_alias = Some (SupportedRpcService.EthMainnet EthMainnetService.Ankr)\<rparr> = Inl msg)"
  using Provider_api_correct [OF ankr_in_table, of "initial_memory ref_timed_ops ()"] by simp

end
