(* ===== verification/Eth_Numbers.thy ===== *)
theory Eth_Numbers
  imports Rpc_Result
begin

section \<open>Amounts, 256-bit naturals and hex strings\<close>

text \<open>
  \<^verbatim>\<open>evm_rpc_types/src/lib.rs\<close> (\<open>Nat256\<close>, \<open>Byte\<close>, \<open>HexByte\<close>, \<open>Hex20\<close>, \<open>Hex32\<close>, \<open>Hex256\<close>, \<open>Hex\<close>),
  \<^verbatim>\<open>src/rpc_client/amount/mod.rs\<close> (\<open>Amount\<close>), \<^verbatim>\<open>src/rpc_client/numeric/mod.rs\<close> (its units) and
  \<^verbatim>\<open>src/rpc_client/json/mod.rs\<close> (the fixed size byte arrays and \<open>JsonByte\<close>).

  A \<open>candid::Nat\<close> is its value, a natural number; an \<open>ethnum::u256\<close> is a 256-bit word. Their byte
  conversions are functions of the crates \<open>num_bigint\<close> and \<open>ethnum\<close>, grouped in \<open>num_ops\<close>; \<open>num_spec\<close>
  states what those crates document. Likewise \<open>hex_ops\<close> and \<open>hex_spec\<close> for the crate \<open>hex\<close>.
\<close>

subsection \<open>Big-endian values\<close>

definition be_value :: "bytes \<Rightarrow> nat" where
  "be_value bs = foldl (\<lambda>acc b. acc * 256 + unat b) 0 bs"

lemma foldl_be: "foldl (\<lambda>acc b. acc * 256 + unat (b :: u8)) a bs = a * 256 ^ length bs + be_value bs"
proof (induction bs arbitrary: a)
  case (Cons b bs)
  show ?case
    using Cons [of "a * 256 + unat b"] Cons [of "unat b"]
    by (simp add: be_value_def algebra_simps)
qed (simp add: be_value_def)

lemma be_value_Nil [simp]: "be_value [] = 0"
  by (simp add: be_value_def)

lemma be_value_Cons: "be_value (b # bs) = unat b * 256 ^ length bs + be_value bs"
  using foldl_be [of "unat b" bs] by (simp add: be_value_def)

lemma be_value_append: "be_value (bs @ cs) = be_value bs * 256 ^ length cs + be_value cs"
proof -
  have "be_value (bs @ cs) = foldl (\<lambda>acc b. acc * 256 + unat b) (be_value bs) cs"
    by (simp add: be_value_def)
  then show ?thesis by (simp only: foldl_be)
qed

lemma be_value_zeros [simp]: "be_value (replicate k 0) = 0"
  by (induction k) (simp_all add: be_value_Cons)

lemma be_value_bound: "be_value bs < 256 ^ length bs"
proof (induction bs)
  case (Cons b bs)
  have "unat b \<le> 255" using unsigned_less [of b, where ?'a = nat] by simp
  then have "unat b * 256 ^ length bs \<le> 255 * 256 ^ length bs" by (rule mult_le_mono1)
  with Cons have "unat b * 256 ^ length bs + be_value bs < 256 * 256 ^ length bs" by linarith
  then show ?case by (simp add: be_value_Cons)
qed simp

lemma be_value_lower:
  assumes "bs \<noteq> []" "hd bs \<noteq> 0"
  shows "256 ^ (length bs - 1) \<le> be_value bs"
  using assms
proof (cases bs)
  case (Cons b cs)
  with assms have "unat b \<ge> 1" by (simp add: unat_gt_0 Suc_leI)
  then have "1 * 256 ^ length cs \<le> unat b * 256 ^ length cs" by (rule mult_le_mono1)
  then have "256 ^ length cs \<le> unat b * 256 ^ length cs + be_value cs" by linarith
  then show ?thesis by (simp only: Cons be_value_Cons list.size) simp
qed simp

lemma be_value_inj:
  "length bs = length cs \<Longrightarrow> be_value bs = be_value cs \<Longrightarrow> bs = cs"
proof (induction bs arbitrary: cs)
  case (Cons b bs)
  then obtain c cs' where cs: "cs = c # cs'" "length bs = length cs'" by (cases cs) auto
  let ?m = "256 ^ length bs :: nat"
  have eq: "unat b * ?m + be_value bs = unat c * ?m + be_value cs'"
    using Cons.prems(2) cs by (simp add: be_value_Cons)
  have "(unat b * ?m + be_value bs) div ?m = unat b" "(unat c * ?m + be_value cs') div ?m = unat c"
    using be_value_bound [of bs] be_value_bound [of cs'] cs(2) by simp_all
  with eq have "unat b = unat c" by (simp only:)
  then have "b = c" by (rule unsigned_word_eqI)
  with eq Cons.IH [of cs'] cs show ?case by simp
qed simp


subsection \<open>The numeric crates\<close>

record num_ops =
  to_bytes_be :: "nat \<Rightarrow> bytes"  \<comment> \<open>\<open>BigUint::to_bytes_be\<close>\<close>
  to_bytes_le :: "nat \<Rightarrow> bytes"  \<comment> \<open>\<open>BigUint::to_bytes_le\<close>\<close>
  from_bytes_be :: "bytes \<Rightarrow> nat"  \<comment> \<open>\<open>BigUint::from_bytes_be\<close>\<close>
  try_u64 :: "nat \<Rightarrow> string + u64"  \<comment> \<open>\<open>u64::try_from(BigUint)\<close>, the error as \<open>{:?}\<close> shows it\<close>
  u256_from_be_bytes :: "bytes \<Rightarrow> u256"  \<comment> \<open>\<open>ethnum::u256::from_be_bytes\<close>\<close>
  u256_to_be_bytes :: "u256 \<Rightarrow> bytes"  \<comment> \<open>\<open>ethnum::u256::to_be_bytes\<close>\<close>

text \<open>
  The documented behaviour: \<open>to_bytes_be\<close> is the shortest big-endian representation (one zero byte for
  zero), \<open>to_bytes_le\<close> its reverse, the other conversions are by value.
\<close>

definition num_spec :: "num_ops \<Rightarrow> bool" where
  "num_spec N \<longleftrightarrow>
     (\<forall>n. be_value (to_bytes_be N n) = n)
     \<and> to_bytes_be N 0 = [0]
     \<and> (\<forall>n > 0. to_bytes_be N n \<noteq> [] \<and> hd (to_bytes_be N n) \<noteq> 0)
     \<and> (\<forall>n. to_bytes_le N n = rev (to_bytes_be N n))
     \<and> (\<forall>bs. from_bytes_be N bs = be_value bs)
     \<and> (\<forall>n. n < 2 ^ 64 \<longrightarrow> try_u64 N n = Ok (of_nat n))
     \<and> (\<forall>n. n \<ge> 2 ^ 64 \<longrightarrow> (\<exists>e. try_u64 N n = Err e))
     \<and> (\<forall>bs. length bs = 32 \<longrightarrow> u256_from_be_bytes N bs = of_nat (be_value bs))
     \<and> (\<forall>w. length (u256_to_be_bytes N w) = 32 \<and> be_value (u256_to_be_bytes N w) = unat w)"

text \<open>A shortest representation fits in 32 bytes exactly when the value fits in 256 bits.\<close>

lemma be_fits:
  assumes "bs = [0] \<or> bs \<noteq> [] \<and> hd bs \<noteq> 0"
  shows "length bs \<le> 32 \<longleftrightarrow> be_value bs < 2 ^ 256"
proof -
  have p: "(256 :: nat) ^ 32 = 2 ^ 256"
    using power_mult [of "2 :: nat" 8 32] by simp
  have "be_value bs < 2 ^ 256" if "length bs \<le> 32"
  proof -
    have "(256 :: nat) ^ length bs \<le> 256 ^ 32" using that by (rule power_increasing) simp
    with be_value_bound [of bs] p show ?thesis by simp
  qed
  moreover have "length bs \<le> 32" if lt: "be_value bs < 2 ^ 256" and ne: "bs \<noteq> []" "hd bs \<noteq> 0"
  proof -
    from lt be_value_lower [OF ne] p have "(256 :: nat) ^ (length bs - 1) < 256 ^ 32" by simp
    then have "length bs - 1 < 32" by (rule power_less_imp_less_exp [rotated]) simp
    then show ?thesis by simp
  qed
  ultimately show ?thesis using assms by auto
qed

lemma to_bytes_be_fits:
  assumes "num_spec N"
  shows "length (to_bytes_be N n) \<le> 32 \<longleftrightarrow> n < 2 ^ 256"
  using assms be_fits [of "to_bytes_be N n"] by (cases "n = 0") (simp_all add: num_spec_def)


subsection \<open>Nat256\<close>

datatype Nat256 = Nat256 (nat256: nat)

definition Nat256_ZERO :: Nat256 where
  "Nat256_ZERO = Nat256 0"

definition Nat256_try_from :: "num_ops \<Rightarrow> nat \<Rightarrow> string + Nat256" where
  "Nat256_try_from N v =
     (if length (to_bytes_le N v) > 32 then Err ''Nat does not fit in a U256'' else Ok (Nat256 v))"

definition Nat256_into_be_bytes :: "num_ops \<Rightarrow> Nat256 \<Rightarrow> bytes trapping" where
  "Nat256_into_be_bytes N self =
     (let value_bytes = to_bytes_be N (nat256 self)
      in if length value_bytes \<le> 32
         then Inr (replicate (32 - length value_bytes) 0 @ value_bytes)
         else Inl (''BUG: Nat does not fit in a U256: '' @ show_nat (nat256 self)))"

definition Nat256_from_be_bytes :: "num_ops \<Rightarrow> bytes \<Rightarrow> Nat256 trapping" where
  "Nat256_from_be_bytes N v =
     map_err (\<lambda>e. ''BUG: Nat should fit in a U256: '' @ e)
       (Nat256_try_from N (from_bytes_be N v))"

text \<open>\<open>impl_from_unchecked!\<close>: from the machine integers, here by value.\<close>

definition Nat256_from_uint :: "num_ops \<Rightarrow> 'a::len word \<Rightarrow> Nat256 trapping" where
  "Nat256_from_uint N v = Nat256_try_from N (unat v)"

definition u64_try_from_Nat256 :: "num_ops \<Rightarrow> Nat256 \<Rightarrow> u64 RpcResult" where
  "u64_try_from_Nat256 N v =
     map_err (\<lambda>e. RpcError.ValidationError (ValidationError.Custom e)) (try_u64 N (nat256 v))"

definition debug_Nat256 :: "Nat256 \<Rightarrow> string" where
  "debug_Nat256 v = show_nat (nat256 v)"


subsection \<open>Amount\<close>

datatype 'unit Amount = Amount (inner: u256)

typedecl WeiTag
typedecl WeiPerGasUnit
typedecl TransactionCountTag
typedecl TransactionNonceTag
typedecl TransactionIndexTag
typedecl BlockNumberTag
typedecl GasUnit
typedecl EthLogIndexTag
typedecl DifficultyTag
typedecl BlockNonceTag
typedecl NumBlocksTag
typedecl NumBytesTag
typedecl TimestampTag
typedecl ChainIdTag

type_synonym Wei = "WeiTag Amount"
type_synonym WeiPerGas = "WeiPerGasUnit Amount"
type_synonym TransactionCount = "TransactionCountTag Amount"
type_synonym TransactionNonce = "TransactionNonceTag Amount"
type_synonym TransactionIndex = "TransactionIndexTag Amount"
type_synonym BlockNumber = "BlockNumberTag Amount"
type_synonym GasAmount = "GasUnit Amount"
type_synonym LogIndex = "EthLogIndexTag Amount"
type_synonym Difficulty = "DifficultyTag Amount"
type_synonym BlockNonce = "BlockNonceTag Amount"
type_synonym NumBlocks = "NumBlocksTag Amount"
type_synonym NumBytes = "NumBytesTag Amount"
type_synonym BlockTimestamp = "TimestampTag Amount"
type_synonym ChainId = "ChainIdTag Amount"

definition Amount_ZERO :: "'unit Amount" where
  "Amount_ZERO = Amount 0"

definition Amount_ONE :: "'unit Amount" where
  "Amount_ONE = Amount 1"

definition Amount_TWO :: "'unit Amount" where
  "Amount_TWO = Amount 2"

definition Amount_MAX :: "'unit Amount" where
  "Amount_MAX = Amount (- 1)"

text \<open>\<open>Amount::new\<close> (from \<open>u128\<close>) and \<open>impl_from!\<close> widen without loss.\<close>

definition Amount_new :: "u128 \<Rightarrow> 'unit Amount" where
  "Amount_new v = Amount (ucast v)"

definition Amount_from_uint :: "'a::len word \<Rightarrow> 'unit Amount" where
  "Amount_from_uint v = Amount (ucast v)"

definition Amount_from_be_bytes :: "num_ops \<Rightarrow> bytes \<Rightarrow> 'unit Amount" where
  "Amount_from_be_bytes N bs = Amount (u256_from_be_bytes N bs)"

definition Amount_to_be_bytes :: "num_ops \<Rightarrow> 'unit Amount \<Rightarrow> bytes" where
  "Amount_to_be_bytes N self = u256_to_be_bytes N (inner self)"

definition to_string_inner :: "'unit Amount \<Rightarrow> string" where
  "to_string_inner self = show_nat (unat (inner self))"

definition Amount_from_Nat256 :: "num_ops \<Rightarrow> Nat256 \<Rightarrow> 'unit Amount trapping" where
  "Amount_from_Nat256 N v = map_ok (Amount_from_be_bytes N) (Nat256_into_be_bytes N v)"

definition Nat256_from_Amount :: "num_ops \<Rightarrow> 'unit Amount \<Rightarrow> Nat256 trapping" where
  "Nat256_from_Amount N v = Nat256_from_be_bytes N (Amount_to_be_bytes N v)"

text \<open>\<open>PartialEq\<close>, \<open>PartialOrd\<close> and \<open>Ord\<close> compare the inner words; the library's order on amounts is theirs.\<close>

datatype Ordering = Less | Equal | Greater

definition Amount_eq :: "'unit Amount \<Rightarrow> 'unit Amount \<Rightarrow> bool" where
  "Amount_eq self rhs = (inner self = inner rhs)"

definition Amount_cmp :: "'unit Amount \<Rightarrow> 'unit Amount \<Rightarrow> Ordering" where
  "Amount_cmp self rhs =
     (if inner self < inner rhs then Less else if inner self = inner rhs then Equal else Greater)"

definition Amount_partial_cmp :: "'unit Amount \<Rightarrow> 'unit Amount \<Rightarrow> Ordering option" where
  "Amount_partial_cmp self rhs = Some (Amount_cmp self rhs)"

lemma Amount_eq_iff [simp]: "Amount_eq a b \<longleftrightarrow> a = b"
  by (auto simp: Amount_eq_def intro: Amount.expand)

instantiation Amount :: (type) linorder
begin

definition less_eq_Amount :: "'a Amount \<Rightarrow> 'a Amount \<Rightarrow> bool" where
  "less_eq_Amount a b \<longleftrightarrow> Amount_cmp a b \<noteq> Greater"

definition less_Amount :: "'a Amount \<Rightarrow> 'a Amount \<Rightarrow> bool" where
  "less_Amount a b \<longleftrightarrow> Amount_cmp a b = Less"

instance
  by intro_classes
    (auto simp: less_eq_Amount_def less_Amount_def Amount_cmp_def intro: Amount.expand split: if_splits)

end

lemma Amount_cmp_cases:
  "Amount_cmp a b = Less \<longleftrightarrow> a < b" "Amount_cmp a b = Equal \<longleftrightarrow> a = b"
  "Amount_cmp a b = Greater \<longleftrightarrow> b < a"
  by (auto simp: less_Amount_def Amount_cmp_def intro: Amount.expand split: if_splits)

lemma Nat256_try_from_iff:
  "num_spec N \<Longrightarrow> Nat256_try_from N v = Ok n \<longleftrightarrow> v < 2 ^ 256 \<and> n = Nat256 v"
  using to_bytes_be_fits [of N v] by (auto simp: Nat256_try_from_def num_spec_def)

lemma Nat256_into_be_bytes_value:
  assumes "num_spec N" "n < 2 ^ 256"
  shows "\<exists>bs. Nat256_into_be_bytes N (Nat256 n) = Inr bs \<and> length bs = 32 \<and> be_value bs = n"
  using assms to_bytes_be_fits [OF assms(1), of n]
  by (auto simp: Nat256_into_be_bytes_def Let_def be_value_append num_spec_def)

lemma Nat256_from_Amount_value [simp]:
  assumes "num_spec N"
  shows "Nat256_from_Amount N a = Inr (Nat256 (unat (inner a)))"
proof -
  have "from_bytes_be N (Amount_to_be_bytes N a) = unat (inner a)"
    using assms by (simp add: num_spec_def Amount_to_be_bytes_def)
  moreover have "unat (inner a) < 2 ^ 256"
    using unsigned_less [of "inner a", where ?'a = nat] by simp
  ultimately show ?thesis
    using Nat256_try_from_iff [OF assms, of "unat (inner a)" "Nat256 (unat (inner a))"]
    by (simp add: Nat256_from_Amount_def Nat256_from_be_bytes_def)
qed

lemma Amount_from_Nat256_value:
  assumes "num_spec N"
  shows "Amount_from_Nat256 N v = Inr a \<longleftrightarrow> nat256 v < 2 ^ 256 \<and> a = Amount (of_nat (nat256 v))"
proof (cases "nat256 v < 2 ^ 256")
  case True
  from Nat256_into_be_bytes_value [OF assms True] obtain bs where
    "Nat256_into_be_bytes N v = Inr bs" "length bs = 32" "be_value bs = nat256 v" by auto
  with assms True show ?thesis
    by (auto simp: Amount_from_Nat256_def Amount_from_be_bytes_def num_spec_def)
next
  case False
  with to_bytes_be_fits [OF assms, of "nat256 v"] show ?thesis
    by (simp add: Amount_from_Nat256_def Nat256_into_be_bytes_def)
qed

lemma Nat256_from_uint_value:
  assumes "num_spec N" "LENGTH('a) \<le> 256"
  shows "Nat256_from_uint N (v :: 'a::len word) = Inr (Nat256 (unat v))"
proof -
  have "unat v < 2 ^ LENGTH('a)" by (rule unsigned_less)
  also have "\<dots> \<le> 2 ^ 256" using assms(2) by (rule power_increasing) simp
  finally show ?thesis
    using Nat256_try_from_iff [OF assms(1), of "unat v" "Nat256 (unat v)"]
    by (simp add: Nat256_from_uint_def)
qed


subsection \<open>Hex strings\<close>

record hex_ops =
  hex_encode :: "bytes \<Rightarrow> string"  \<comment> \<open>\<open>hex::encode\<close>\<close>
  hex_encode_upper :: "bytes \<Rightarrow> string"  \<comment> \<open>\<open>hex::encode_upper\<close>\<close>
  from_hex_vec :: "string \<Rightarrow> string + bytes"  \<comment> \<open>\<open>FromHex for Vec<u8>\<close>, the error as displayed\<close>
  from_hex_array :: "nat \<Rightarrow> string \<Rightarrow> string + bytes"  \<comment> \<open>\<open>FromHex for [u8; n]\<close>, \<open>decode_to_slice\<close>\<close>

text \<open>
  The documented behaviour of the crate: encoding is lower case (or upper case) with two digits per byte;
  decoding is its inverse and ignores the case of the digits; an array needs the exact number of digits.
\<close>

definition hex_spec :: "hex_ops \<Rightarrow> bool" where
  "hex_spec H \<longleftrightarrow>
     (\<forall>bs. from_hex_vec H (hex_encode H bs) = Ok bs)
     \<and> (\<forall>bs. length (hex_encode H bs) = 2 * length bs)
     \<and> (\<forall>s bs. from_hex_vec H s = Ok bs \<longrightarrow> hex_encode H bs = to_lowercase s)
     \<and> (\<forall>bs. to_lowercase (hex_encode_upper H bs) = hex_encode H bs)
     \<and> (\<forall>s t. to_lowercase s = to_lowercase t \<longrightarrow> from_hex_vec H s = from_hex_vec H t)
     \<and> (\<forall>n s bs. from_hex_array H n s = Ok bs \<longleftrightarrow> from_hex_vec H s = Ok bs \<and> length bs = n)"

lemma hex_specD:
  assumes "hex_spec H"
  shows decode_encode: "from_hex_vec H (hex_encode H bs) = Ok bs"
    and length_encode: "length (hex_encode H bs) = 2 * length bs"
    and encode_decode: "from_hex_vec H s = Ok bs \<Longrightarrow> hex_encode H bs = to_lowercase s"
    and decode_cong: "to_lowercase s = to_lowercase t \<Longrightarrow> from_hex_vec H s = from_hex_vec H t"
    and decode_array: "from_hex_array H n s = Ok bs \<longleftrightarrow> from_hex_vec H s = Ok bs \<and> length bs = n"
  using assms unfolding hex_spec_def by blast+

text \<open>\<open>Byte\<close> also decodes from a single digit.\<close>

datatype Byte = Byte (into_byte: u8)

definition Byte_as_ref :: "Byte \<Rightarrow> bytes" where
  "Byte_as_ref b = [into_byte b]"

fun Byte_from_hex :: "hex_ops \<Rightarrow> string \<Rightarrow> string + Byte" where
  "Byte_from_hex H [a] = map_ok (\<lambda>bs. Byte (hd bs)) (from_hex_array H 1 [CHR ''0'', a])"
| "Byte_from_hex H h = map_ok (\<lambda>bs. Byte (hd bs)) (from_hex_array H 1 h)"

text \<open>
  \<open>impl_hex_string!(name(data))\<close>: \<open>Display\<close> and \<open>FromStr\<close> over the bytes and the decoder of the wrapped
  data; \<open>TryFrom<String>\<close> and \<open>From<name> for String\<close> are these two.
\<close>

definition hex_to_string :: "hex_ops \<Rightarrow> bytes \<Rightarrow> string" where
  "hex_to_string H data = ''0x'' @ hex_encode H data"

definition hex_from_str :: "(string \<Rightarrow> string + 'd) \<Rightarrow> string \<Rightarrow> string + 'd" where
  "hex_from_str from_hex s =
     (if \<not> starts_with s ''0x'' then Err ''Ethereum hex string doesn't start with 0x''
      else map_err (\<lambda>e. ''Invalid Ethereum hex string: '' @ e) (from_hex (drop 2 s)))"

datatype HexByte = HexByte (hex_byte: Byte)
datatype Hex20 = Hex20 (hex20: bytes)
datatype Hex32 = Hex32 (hex32: bytes)
datatype Hex256 = Hex256 (hex256: bytes)
datatype Hex = Hex (hex: bytes)

definition HexByte_from_str :: "hex_ops \<Rightarrow> string \<Rightarrow> string + HexByte" where
  "HexByte_from_str H s = map_ok HexByte (hex_from_str (Byte_from_hex H) s)"

definition Hex20_from_str :: "hex_ops \<Rightarrow> string \<Rightarrow> string + Hex20" where
  "Hex20_from_str H s = map_ok Hex20 (hex_from_str (from_hex_array H 20) s)"

definition Hex32_from_str :: "hex_ops \<Rightarrow> string \<Rightarrow> string + Hex32" where
  "Hex32_from_str H s = map_ok Hex32 (hex_from_str (from_hex_array H 32) s)"

definition Hex256_from_str :: "hex_ops \<Rightarrow> string \<Rightarrow> string + Hex256" where
  "Hex256_from_str H s = map_ok Hex256 (hex_from_str (from_hex_array H 256) s)"

definition Hex_from_str :: "hex_ops \<Rightarrow> string \<Rightarrow> string + Hex" where
  "Hex_from_str H s = map_ok Hex (hex_from_str (from_hex_vec H) s)"

definition HexByte_to_string :: "hex_ops \<Rightarrow> HexByte \<Rightarrow> string" where
  "HexByte_to_string H h = hex_to_string H (Byte_as_ref (hex_byte h))"

definition HexByte_from_u8 :: "u8 \<Rightarrow> HexByte" where
  "HexByte_from_u8 v = HexByte (Byte v)"

definition u8_from_HexByte :: "HexByte \<Rightarrow> u8" where
  "u8_from_HexByte v = into_byte (hex_byte v)"

lemma hex_from_str_ok:
  "hex_from_str f s = Ok d \<longleftrightarrow> (\<exists>t. s = ''0x'' @ t \<and> f t = Ok d)"
  by (auto simp: hex_from_str_def starts_with_iff prefix_def)

lemma to_lowercase_0x [simp]:
  "to_lowercase (CHR ''0'' # CHR ''x'' # t) = CHR ''0'' # CHR ''x'' # to_lowercase t"
  by (simp add: to_lowercase_def to_lower_char_def)

text \<open>Text that parses as bytes is, in lower case, what those bytes print as.\<close>

lemma hex_from_str_array_canonical:
  assumes "hex_spec H"
  shows "hex_from_str (from_hex_array H n) s = Ok bs \<longleftrightarrow>
      length bs = n \<and> starts_with s ''0x'' \<and> to_lowercase s = hex_to_string H bs"
    (is "?parsed \<longleftrightarrow> ?canonical")
proof
  assume ?parsed
  then show ?canonical
    by (auto simp: hex_from_str_ok hex_to_string_def decode_array [OF assms]
         dest: encode_decode [OF assms])
next
  assume can: ?canonical
  then obtain t where s: "s = ''0x'' @ t" by (auto simp: starts_with_iff prefix_def)
  with can have t: "to_lowercase t = hex_encode H bs" by (simp add: hex_to_string_def)
  then have "to_lowercase t = to_lowercase (hex_encode H bs)"
    by (metis to_lowercase_idem)
  then have "from_hex_vec H t = Ok bs"
    using decode_cong [OF assms] decode_encode [OF assms] by metis
  with can s show ?parsed
    by (simp add: hex_from_str_ok decode_array [OF assms])
qed


subsection \<open>Byte arrays of the JSON types\<close>

text \<open>\<open>bytes_array!(name, size)\<close>, and \<open>JsonByte\<close>.\<close>

datatype FixedSizeData = FixedSizeData (FixedSizeData_into_bytes: bytes)
datatype Hash = Hash (Hash_into_bytes: bytes)
datatype LogsBloom = LogsBloom (LogsBloom_into_bytes: bytes)
datatype StorageKey = StorageKey (StorageKey_into_bytes: bytes)
datatype JsonByte = JsonByte (json_byte: Byte)

text \<open>\<open>ic_ethereum_types::Address\<close> wraps 20 bytes.\<close>

datatype Address = Address (Address_into_bytes: bytes)

definition bytes_array_from_str :: "hex_ops \<Rightarrow> nat \<Rightarrow> string \<Rightarrow> string + bytes" where
  "bytes_array_from_str H sz s =
     (if \<not> starts_with s ''0x'' then Err ''Ethereum hex string doesn't start with 0x''
      else map_err (\<lambda>e. ''failed to decode hash from hex: '' @ e)
             (from_hex_array H sz (drop 2 s)))"

definition bytes_array_lower_hex :: "hex_ops \<Rightarrow> bytes \<Rightarrow> string" where
  "bytes_array_lower_hex H bs = ''0x'' @ hex_encode H bs"

definition bytes_array_upper_hex :: "hex_ops \<Rightarrow> bytes \<Rightarrow> string" where
  "bytes_array_upper_hex H bs = ''0x'' @ hex_encode_upper H bs"

definition JsonByte_new :: "u8 \<Rightarrow> JsonByte" where
  "JsonByte_new v = JsonByte (Byte v)"

definition JsonByte_into_byte :: "JsonByte \<Rightarrow> u8" where
  "JsonByte_into_byte b = into_byte (json_byte b)"

lemma bytes_array_from_str_ok:
  "bytes_array_from_str H n s = Ok bs \<longleftrightarrow> hex_from_str (from_hex_array H n) s = Ok bs"
  by (auto simp: bytes_array_from_str_def hex_from_str_def)


subsection \<open>Reference instances\<close>

text \<open>Instances of the two specifications, at which the properties below are applied.\<close>

fun ref_be :: "nat \<Rightarrow> bytes" where
  "ref_be n = (if n < 256 then [of_nat n] else ref_be (n div 256) @ [of_nat (n mod 256)])"

declare ref_be.simps [simp del]

lemma unat_byte [simp]: "n < 256 \<Longrightarrow> unat (of_nat n :: u8) = n"
  by (simp add: unsigned_of_nat take_bit_nat_eq_self)

lemma be_value_ref_be: "be_value (ref_be n) = n"
proof (induction n rule: ref_be.induct)
  case (1 n)
  then show ?case
    by (subst ref_be.simps) (simp add: be_value_append be_value_Cons)
qed

lemma ref_be_leading: "n > 0 \<Longrightarrow> ref_be n \<noteq> [] \<and> hd (ref_be n) \<noteq> 0"
proof (induction n rule: ref_be.induct)
  case (1 n)
  show ?case
  proof (cases "n < 256")
    case True
    have "(of_nat n :: u8) \<noteq> 0" using 1(2) True unat_byte [of n] by (metis unsigned_0 less_irrefl)
    with True show ?thesis by (subst (1 2) ref_be.simps) simp
  next
    case False
    with 1 have "ref_be (n div 256) \<noteq> [] \<and> hd (ref_be (n div 256)) \<noteq> 0" by simp
    with False show ?thesis by (subst (1 2) ref_be.simps) simp
  qed
qed

definition ref_num_ops :: num_ops where
  "ref_num_ops =
     \<lparr>to_bytes_be = ref_be,
      to_bytes_le = (\<lambda>n. rev (ref_be n)),
      from_bytes_be = be_value,
      try_u64 = (\<lambda>n. if n < 2 ^ 64 then Ok (of_nat n) else Err ''TryFromBigIntError''),
      u256_from_be_bytes = (\<lambda>bs. of_nat (be_value bs)),
      u256_to_be_bytes = (\<lambda>w. replicate (32 - length (ref_be (unat w))) 0 @ ref_be (unat w))\<rparr>"

lemma ref_num_spec: "num_spec ref_num_ops"
proof -
  have zero: "ref_be 0 = [0]" by (simp add: ref_be.simps)
  have "length (ref_be (unat w)) \<le> 32" for w :: u256
  proof -
    have "ref_be (unat w) = [0] \<or> ref_be (unat w) \<noteq> [] \<and> hd (ref_be (unat w)) \<noteq> 0"
      using ref_be_leading [of "unat w"] zero by (cases "unat w = 0") auto
    then show ?thesis
      using be_fits [of "ref_be (unat w)"] unsigned_less [of w, where ?'a = nat]
      by (simp add: be_value_ref_be)
  qed
  then show ?thesis
    using zero ref_be_leading
    by (auto simp: num_spec_def ref_num_ops_def be_value_ref_be be_value_append)
qed

definition hex_digit :: "nat \<Rightarrow> char" where
  "hex_digit v = char_of (if v < 10 then 48 + v else 87 + v)"

definition hex_val :: "char \<Rightarrow> nat option" where
  "hex_val c =
     (let n = of_char (to_lower_char c) :: nat
      in if 48 \<le> n \<and> n \<le> 57 then Some (n - 48)
         else if 97 \<le> n \<and> n \<le> 102 then Some (n - 87) else None)"

fun ref_encode :: "bytes \<Rightarrow> string" where
  "ref_encode [] = []"
| "ref_encode (b # bs) = hex_digit (unat b div 16) # hex_digit (unat b mod 16) # ref_encode bs"

fun ref_decode :: "string \<Rightarrow> string + bytes" where
  "ref_decode [] = Ok []"
| "ref_decode [c] = Err ''Odd number of digits''"
| "ref_decode (c # d # s) =
     (case (hex_val c, hex_val d) of
        (Some v, Some w) \<Rightarrow> map_ok ((#) (of_nat (16 * v + w))) (ref_decode s)
      | _ \<Rightarrow> Err ''Invalid character'')"

definition to_upper_char :: "char \<Rightarrow> char" where
  "to_upper_char c = (let n = of_char c :: nat in if 97 \<le> n \<and> n \<le> 122 then char_of (n - 32) else c)"

definition ref_hex_ops :: hex_ops where
  "ref_hex_ops =
     \<lparr>hex_encode = ref_encode,
      hex_encode_upper = (\<lambda>bs. map to_upper_char (ref_encode bs)),
      from_hex_vec = ref_decode,
      from_hex_array = (\<lambda>n s. and_then (ref_decode s)
        (\<lambda>bs. if length bs = n then Ok bs else Err ''Invalid string length''))\<rparr>"

lemma of_char_hex_digit: "v < 16 \<Longrightarrow> (of_char (hex_digit v) :: nat) = (if v < 10 then 48 + v else 87 + v)"
  by (simp add: hex_digit_def)

lemma lower_hex_digit [simp]: "v < 16 \<Longrightarrow> to_lower_char (hex_digit v) = hex_digit v"
  by (simp add: to_lower_char_def Let_def of_char_hex_digit)

lemma hex_val_digit [simp]: "v < 16 \<Longrightarrow> hex_val (hex_digit v) = Some v"
  by (simp add: hex_val_def of_char_hex_digit)

lemma hex_val_lower [simp]: "hex_val (to_lower_char c) = hex_val c"
  by (simp add: hex_val_def)

lemma hex_val_Some:
  assumes "hex_val c = Some v"
  shows "v < 16 \<and> hex_digit v = to_lower_char c"
proof -
  have "char_of (of_char (to_lower_char c) :: nat) = to_lower_char c" by simp
  with assms show ?thesis
    by (auto simp: hex_val_def hex_digit_def Let_def split: if_splits)
qed

lemma ref_decode_encode: "ref_decode (ref_encode bs) = Ok bs"
proof (induction bs)
  case (Cons b bs)
  have "unat b < 256" using unsigned_less [of b, where ?'a = nat] by simp
  then have "hex_val (hex_digit (unat b div 16)) = Some (unat b div 16)"
    "hex_val (hex_digit (unat b mod 16)) = Some (unat b mod 16)"
    by (simp_all add: less_mult_imp_div_less)
  moreover have "16 * (unat b div 16) + unat b mod 16 = unat b" by simp
  ultimately show ?case using Cons by simp
qed simp

lemma ref_encode_decode: "ref_decode s = Ok bs \<Longrightarrow> ref_encode bs = to_lowercase s"
proof (induction s arbitrary: bs rule: ref_decode.induct)
  case (3 c d s)
  then obtain v w cs where vw: "hex_val c = Some v" "hex_val d = Some w"
    and cs: "ref_decode s = Ok cs" "bs = of_nat (16 * v + w) # cs"
    by (auto split: option.splits simp: map_ok_eq_Inr)
  note digits = hex_val_Some [OF vw(1)] hex_val_Some [OF vw(2)]
  then have nibbles: "(16 * v + w) div 16 = v" "(16 * v + w) mod 16 = w"
    and byte: "unat (of_nat (16 * v + w) :: u8) = 16 * v + w"
    by (simp_all del: of_nat_add)
  have "ref_encode bs = hex_digit v # hex_digit w # ref_encode cs"
    unfolding cs(2) ref_encode.simps byte nibbles ..
  moreover from vw have "ref_encode cs = to_lowercase s"
    by (rule 3(1) [OF refl _ _ cs(1)])
  ultimately show ?case
    using digits by (simp add: to_lowercase_def)
qed (simp_all add: to_lowercase_def)

lemma ref_decode_lower: "ref_decode (to_lowercase s) = ref_decode s"
  by (induction s rule: ref_decode.induct) (auto simp: to_lowercase_def split: option.splits)

lemma ref_hex_spec: "hex_spec ref_hex_ops"
proof -
  have lower_upper: "to_lower_char (to_upper_char (hex_digit v)) = hex_digit v" if "v < 16" for v
    using that
    by (simp add: to_upper_char_def to_lower_char_def Let_def of_char_hex_digit hex_digit_def)
  have upper: "to_lowercase (map to_upper_char (ref_encode bs)) = ref_encode bs" for bs
  proof (induction bs)
    case (Cons b bs)
    have "unat b < 256" using unsigned_less [of b, where ?'a = nat] by simp
    with Cons show ?case by (simp add: to_lowercase_def lower_upper less_mult_imp_div_less)
  qed (simp add: to_lowercase_def)
  have len: "length (ref_encode bs) = 2 * length bs" for bs by (induction bs) simp_all
  have "ref_decode s = ref_decode t" if "to_lowercase s = to_lowercase t" for s t
    using that ref_decode_lower by metis
  moreover have "and_then (ref_decode s) (\<lambda>bs. if length bs = n then Ok bs else Err e) = Ok bs
      \<longleftrightarrow> ref_decode s = Ok bs \<and> length bs = n" for s n e bs
    by (auto simp: and_then_eq_Inr split: if_splits)
  ultimately show ?thesis
    unfolding hex_spec_def ref_hex_ops_def hex_ops.simps
    using upper len ref_decode_encode ref_encode_decode by blast
qed


subsection \<open>Properties\<close>

text \<open>C34. The two 256-bit representations are interchangeable: \<open>Nat256::try_from\<close> accepts exactly the
  naturals below \<open>2^256\<close>; an \<open>Amount\<close> converts to the \<open>Nat256\<close> of the same value without trapping and
  back to itself; a \<open>Nat256\<close> converts to an \<open>Amount\<close> exactly when it fits, and back to itself.\<close>

theorem Nat256_Amount_correct:
  assumes "num_spec N"
  shows "(Nat256_try_from N v = Ok n \<longleftrightarrow> v < 2 ^ 256 \<and> n = Nat256 v)
    \<and> Nat256_from_Amount N a = Inr (Nat256 (unat (inner a)))
    \<and> Amount_from_Nat256 N (Nat256 (unat (inner a))) = Inr a
    \<and> (case Amount_from_Nat256 N m of
         Inl trap \<Rightarrow> nat256 m \<ge> 2 ^ 256
       | Inr (b :: 'unit Amount) \<Rightarrow> nat256 m < 2 ^ 256 \<and> Nat256_from_Amount N b = Inr m)"
proof (intro conjI)
  show "Nat256_try_from N v = Ok n \<longleftrightarrow> v < 2 ^ 256 \<and> n = Nat256 v"
    by (rule Nat256_try_from_iff [OF assms])
  show "Nat256_from_Amount N a = Inr (Nat256 (unat (inner a)))"
    by (rule Nat256_from_Amount_value [OF assms])
  show "Amount_from_Nat256 N (Nat256 (unat (inner a))) = Inr a"
    using unsigned_less [of "inner a", where ?'a = nat]
    by (simp add: Amount_from_Nat256_value [OF assms])
  show "case Amount_from_Nat256 N m of
         Inl trap \<Rightarrow> nat256 m \<ge> 2 ^ 256
       | Inr (b :: 'unit Amount) \<Rightarrow> nat256 m < 2 ^ 256 \<and> Nat256_from_Amount N b = Inr m"
  proof (cases "Amount_from_Nat256 N m :: 'unit Amount trapping")
    case (Inl trap)
    then show ?thesis
      using Amount_from_Nat256_value [OF assms, of m "Amount (of_nat (nat256 m)) :: 'unit Amount"] by auto
  next
    case (Inr b)
    then have "nat256 m < 2 ^ 256" "b = Amount (of_nat (nat256 m))"
      by (simp_all add: Amount_from_Nat256_value [OF assms])
    moreover from this have "unat (inner b) = nat256 m" by (simp add: unsigned_of_nat take_bit_nat_eq_self)
    ultimately show ?thesis using Inr assms by simp
  qed
qed

theorem Nat256_Amount_correct_witness:
  "Nat256_from_Amount ref_num_ops (Amount 34 :: Wei) = Inr (Nat256 34)"
  using Nat256_Amount_correct [OF ref_num_spec, of 0 Nat256_ZERO "Amount 34 :: Wei" Nat256_ZERO]
  by (elim conjE) simp

text \<open>C35. Parsing a hex string accepts exactly the \<open>0x\<close>-prefixed texts that, in lower case, are what the
  parsed bytes print as, with the exact length for the fixed size types; so printing and parsing are
  inverse. A single byte also parses from one digit, and printing it always gives two.\<close>

theorem hex_string_round_trip:
  assumes "hex_spec H"
  shows "(Hex20_from_str H s = Ok h20 \<longleftrightarrow> length (hex20 h20) = 20 \<and> starts_with s ''0x''
            \<and> to_lowercase s = hex_to_string H (hex20 h20))
    \<and> (Hex32_from_str H s = Ok h32 \<longleftrightarrow> length (hex32 h32) = 32 \<and> starts_with s ''0x''
            \<and> to_lowercase s = hex_to_string H (hex32 h32))
    \<and> (Hex256_from_str H s = Ok h256 \<longleftrightarrow> length (hex256 h256) = 256 \<and> starts_with s ''0x''
            \<and> to_lowercase s = hex_to_string H (hex256 h256))
    \<and> (Hex_from_str H s = Ok h \<longleftrightarrow> starts_with s ''0x'' \<and> to_lowercase s = hex_to_string H (hex h))
    \<and> HexByte_from_str H (HexByte_to_string H b) = Ok b
    \<and> (HexByte_from_str H [CHR ''0'', CHR ''x'', d] = HexByte_from_str H [CHR ''0'', CHR ''x'', CHR ''0'', d])"
proof (intro conjI)
  note canonical = hex_from_str_array_canonical [OF assms]
  show "Hex20_from_str H s = Ok h20 \<longleftrightarrow> length (hex20 h20) = 20 \<and> starts_with s ''0x''
            \<and> to_lowercase s = hex_to_string H (hex20 h20)"
    by (cases h20) (auto simp: Hex20_from_str_def map_ok_eq_Inr canonical)
  show "Hex32_from_str H s = Ok h32 \<longleftrightarrow> length (hex32 h32) = 32 \<and> starts_with s ''0x''
            \<and> to_lowercase s = hex_to_string H (hex32 h32)"
    by (cases h32) (auto simp: Hex32_from_str_def map_ok_eq_Inr canonical)
  show "Hex256_from_str H s = Ok h256 \<longleftrightarrow> length (hex256 h256) = 256 \<and> starts_with s ''0x''
            \<and> to_lowercase s = hex_to_string H (hex256 h256)"
    by (cases h256) (auto simp: Hex256_from_str_def map_ok_eq_Inr canonical)
  have "hex_from_str (from_hex_vec H) s = Ok bs
      \<longleftrightarrow> hex_from_str (from_hex_array H (length bs)) s = Ok bs" for bs
    by (simp add: hex_from_str_ok decode_array [OF assms])
  then show "Hex_from_str H s = Ok h
      \<longleftrightarrow> starts_with s ''0x'' \<and> to_lowercase s = hex_to_string H (hex h)"
    by (cases h) (auto simp: Hex_from_str_def map_ok_eq_Inr canonical)
  have "length (hex_encode H [into_byte (hex_byte b)]) = 2" by (simp add: length_encode [OF assms])
  then obtain c e where ce: "hex_encode H [into_byte (hex_byte b)] = [c, e]"
    by (auto simp: numeral_2_eq_2 length_Suc_conv)
  have "from_hex_array H 1 [c, e] = Ok [into_byte (hex_byte b)]"
    unfolding ce [symmetric] by (simp add: decode_array [OF assms] decode_encode [OF assms])
  then show "HexByte_from_str H (HexByte_to_string H b) = Ok b"
    by (simp add: HexByte_from_str_def HexByte_to_string_def hex_to_string_def hex_from_str_def
          Byte_as_ref_def ce)
  show "HexByte_from_str H [CHR ''0'', CHR ''x'', d] = HexByte_from_str H [CHR ''0'', CHR ''x'', CHR ''0'', d]"
    by (simp add: HexByte_from_str_def hex_from_str_def)
qed

theorem hex_string_round_trip_witness:
  "Hex_from_str ref_hex_ops ''0xAb'' = Ok (Hex [0xab])"
proof -
  have "to_lowercase ''0xAb'' = hex_to_string ref_hex_ops (hex (Hex [0xab]))"
    by code_simp
  then show ?thesis
    using hex_string_round_trip [OF ref_hex_spec, of "''0xAb''" undefined undefined undefined "Hex [0xab]"]
    by simp
qed

end
