(* ===== verification/Eth_Json.thy ===== *)
theory Eth_Json
  imports Eth_Numbers
begin

section \<open>JSON-RPC requests and responses\<close>

text \<open>
  The data of \<^verbatim>\<open>src/rpc_client/json/requests.rs\<close> and \<^verbatim>\<open>src/rpc_client/json/responses.rs\<close>. The structures
  that are serialised as tuples (\<open>#[serde(into = ...)]\<close>) come with that conversion. The floating point
  numbers of \<open>FeeHistory\<close> are only moved and compared, and are a type parameter \<open>'f\<close>.
\<close>

subsection \<open>Requests\<close>

datatype BlockTag = Latest | Safe | Finalized | Earliest | Pending

definition default_BlockTag :: BlockTag where
  "default_BlockTag = Latest"

primrec BlockTag_to_string :: "BlockTag \<Rightarrow> string" where
  "BlockTag_to_string Latest = ''latest''"
| "BlockTag_to_string Safe = ''safe''"
| "BlockTag_to_string Finalized = ''finalized''"
| "BlockTag_to_string Earliest = ''earliest''"
| "BlockTag_to_string Pending = ''pending''"

datatype BlockSpec = Number BlockNumber | Tag BlockTag

definition default_BlockSpec :: BlockSpec where
  "default_BlockSpec = Tag default_BlockTag"

definition BlockSpec_from :: "BlockNumber \<Rightarrow> BlockSpec" where
  "BlockSpec_from v = Number v"

datatype Data = Data (data_bytes: bytes)

record GetTransactionCountParams =
  gtc_address :: Address
  gtc_block :: BlockSpec

definition GetTransactionCountParams_tuple :: "GetTransactionCountParams \<Rightarrow> Address \<times> BlockSpec" where
  "GetTransactionCountParams_tuple params = (gtc_address params, gtc_block params)"

record GetLogsParam =
  gl_from_block :: BlockSpec
  gl_to_block :: BlockSpec
  gl_address :: "Address list"
  gl_topics :: "FixedSizeData list list"

record FeeHistoryParams =
  fhp_block_count :: NumBlocks
  fhp_highest_block :: BlockSpec
  fhp_reward_percentiles :: "u8 list"

definition FeeHistoryParams_tuple :: "FeeHistoryParams \<Rightarrow> NumBlocks \<times> BlockSpec \<times> u8 list" where
  "FeeHistoryParams_tuple v = (fhp_block_count v, fhp_highest_block v, fhp_reward_percentiles v)"

record GetBlockByNumberParams =
  gbn_block :: BlockSpec
  include_full_transactions :: bool

definition GetBlockByNumberParams_tuple :: "GetBlockByNumberParams \<Rightarrow> BlockSpec \<times> bool" where
  "GetBlockByNumberParams_tuple v = (gbn_block v, include_full_transactions v)"

record AccessListItem =
  al_address :: Address
  al_storage_keys :: "StorageKey list"

datatype AccessList = AccessList (access_items: "AccessListItem list")

definition AccessList_new :: AccessList where
  "AccessList_new = AccessList []"

record TransactionRequest =
  tr_tx_type :: "JsonByte option"
  tr_nonce :: "TransactionNonce option"
  tr_to :: "Address option"
  tr_from :: "Address option"
  tr_gas :: "GasAmount option"
  tr_value :: "Wei option"
  tr_input :: "Data option"
  tr_gas_price :: "WeiPerGas option"
  tr_max_priority_fee_per_gas :: "WeiPerGas option"
  tr_max_fee_per_gas :: "WeiPerGas option"
  tr_max_fee_per_blob_gas :: "WeiPerGas option"
  tr_access_list :: "AccessList option"
  tr_blob_versioned_hashes :: "Hash list option"
  tr_blobs :: "Data list option"
  tr_chain_id :: "ChainId option"

record EthCallParams =
  ecp_transaction :: TransactionRequest
  ecp_block :: BlockSpec

definition EthCallParams_tuple :: "EthCallParams \<Rightarrow> TransactionRequest \<times> BlockSpec" where
  "EthCallParams_tuple v = (ecp_transaction v, ecp_block v)"


subsection \<open>Responses\<close>

datatype TransactionStatus = Success | Failure

primrec u256_from_TransactionStatus :: "TransactionStatus \<Rightarrow> u256" where
  "u256_from_TransactionStatus Success = 1"
| "u256_from_TransactionStatus Failure = 0"

definition TransactionStatus_try_from :: "u256 \<Rightarrow> string + TransactionStatus" where
  "TransactionStatus_try_from v =
     (if v = 0 then Ok Failure
      else if v = 1 then Ok Success
      else Err (''invalid transaction status: '' @ show_nat (unat v)))"

primrec TransactionStatus_to_string :: "TransactionStatus \<Rightarrow> string" where
  "TransactionStatus_to_string Success = ''Success''"
| "TransactionStatus_to_string Failure = ''Failure''"

record LogEntry =
  log_address :: Address
  log_topics :: "FixedSizeData list"
  log_data :: Data
  log_block_number :: "BlockNumber option"
  log_transaction_hash :: "Hash option"
  log_transaction_index :: "TransactionIndex option"
  log_block_hash :: "Hash option"
  log_log_index :: "LogIndex option"
  log_removed :: bool

record TransactionReceipt =
  rc_block_hash :: Hash
  rc_block_number :: BlockNumber
  rc_effective_gas_price :: WeiPerGas
  rc_cumulative_gas_used :: GasAmount
  rc_gas_used :: GasAmount
  rc_status :: "TransactionStatus option"
  rc_root :: "Hash option"
  rc_transaction_hash :: Hash
  rc_contract_address :: "Address option"
  rc_from :: Address
  rc_logs :: "LogEntry list"
  rc_logs_bloom :: LogsBloom
  rc_to :: "Address option"
  rc_transaction_index :: TransactionIndex
  rc_tx_type :: JsonByte

record Block =
  blk_base_fee_per_gas :: "Wei option"
  blk_number :: BlockNumber
  blk_difficulty :: "Difficulty option"
  blk_extra_data :: Data
  blk_gas_limit :: GasAmount
  blk_gas_used :: GasAmount
  blk_hash :: Hash
  blk_logs_bloom :: LogsBloom
  blk_miner :: Address
  blk_mix_hash :: Hash
  blk_nonce :: BlockNonce
  blk_parent_hash :: Hash
  blk_receipts_root :: Hash
  blk_sha3_uncles :: Hash
  blk_size :: NumBytes
  blk_state_root :: Hash
  blk_timestamp :: BlockTimestamp
  blk_transactions :: "Hash list"
  blk_transactions_root :: "Hash option"
  blk_uncles :: "Hash list"

record 'f FeeHistory =
  fh_oldest_block :: BlockNumber
  fh_base_fee_per_gas :: "WeiPerGas list"
  fh_gas_used_ratio :: "'f list"
  fh_reward :: "WeiPerGas list list"

datatype SendRawTransactionResult = TxOk | InsufficientFunds | NonceTooLow | NonceTooHigh

text \<open>The status is encoded as the number 1 or 0, and only those decode.\<close>

lemma TransactionStatus_round_trip:
  "TransactionStatus_try_from v = Inr s \<longleftrightarrow> v = u256_from_TransactionStatus s"
  by (cases s) (auto simp: TransactionStatus_try_from_def)

lemma BlockTag_to_string_inj: "BlockTag_to_string s = BlockTag_to_string t \<longleftrightarrow> s = t"
  by (cases s; cases t) simp_all


subsection \<open>JSON-RPC envelopes\<close>

text \<open>
  \<open>canhttp::http::json::JsonRpcError\<close>: an error with a code (\<open>i64\<close>), a message and optional data
  (\<open>'d\<close>, a JSON value). A \<open>JsonRpcResponse<T>\<close> is used through \<open>into_parts\<close> and \<open>from_parts\<close>: an id and
  either an error or a result.
\<close>

record 'd JsonRpcErr =
  err_code :: int
  err_message :: string
  err_data :: "'d option"

type_synonym ('id, 'd, 'a) JsonRpcParts = "'id \<times> ('d JsonRpcErr + 'a)"

end
