(* ===== verification/Error_Sanitizer.thy ===== *)
theory Error_Sanitizer
  imports Eth_Json
begin

section \<open>Sanitising the answer of \<open>eth_sendRawTransaction\<close>\<close>

text \<open>
  \<^verbatim>\<open>src/rpc_client/eth_rpc_error/mod.rs\<close>: the four client specific parsers of JSON-RPC errors, their
  combination \<open>Parser\<close>, and \<open>sanitize_send_raw_transaction_result\<close>, which makes the answers of replicas
  agree although submitting a transaction is not idempotent.

  The locale \<open>error_parser\<close> is the contract of the trait \<open>ErrorParser\<close> that the sanitiser relies on: a
  parser looks at the message only up to the case of its letters. It is interpreted on the five parsers
  of the source. (De)serialisation by \<open>serde_json\<close> is an argument.
\<close>

subsection \<open>The parsers\<close>

datatype SendRawTransactionError =
  AlreadyKnown | InsufficientFunds | NonceTooLow | NonceTooHigh

type_synonym ErrorParser = "int \<Rightarrow> string \<Rightarrow> SendRawTransactionError option"

definition GoEthereumParser :: ErrorParser where
  "GoEthereumParser code message =
     (let msg = to_lowercase message in
      if code = - 32000 \<and> str_contains msg ''already known''
      then Some SendRawTransactionError.AlreadyKnown
      else if code = - 32000 \<and> str_contains msg ''insufficient funds''
      then Some SendRawTransactionError.InsufficientFunds
      else if code = - 32000 \<and> str_contains msg ''nonce too low''
      then Some SendRawTransactionError.NonceTooLow
      else if code = - 32000 \<and> str_contains msg ''nonce too high''
      then Some SendRawTransactionError.NonceTooHigh
      else None)"

definition NethermindParser :: ErrorParser where
  "NethermindParser code message =
     (let msg = to_lowercase message in
      if code = - 32010 \<and> str_contains msg ''AlreadyKnown''
      then Some SendRawTransactionError.AlreadyKnown
      else if code = - 32010 \<and> str_contains msg ''InsufficientFunds''
      then Some SendRawTransactionError.InsufficientFunds
      else if code = - 32010 \<and> str_contains msg ''OldNonce''
      then Some SendRawTransactionError.NonceTooLow
      else if code = - 32010 \<and> str_contains msg ''NonceGap''
      then Some SendRawTransactionError.NonceTooHigh
      else None)"

definition ErigonParser :: ErrorParser where
  "ErigonParser code message =
     (let msg = to_lowercase message in
      if code = - 32000 \<and> str_contains msg ''already known''
      then Some SendRawTransactionError.AlreadyKnown
      else if code = - 32000 \<and> str_contains msg ''insufficient funds''
      then Some SendRawTransactionError.InsufficientFunds
      else if code = - 32000 \<and> str_contains msg ''nonce too low''
      then Some SendRawTransactionError.NonceTooLow
      else None)"

definition BesuParser :: ErrorParser where
  "BesuParser code message =
     (let msg = to_lowercase message in
      if code = - 32000 \<and> str_contains msg ''known transaction''
      then Some SendRawTransactionError.AlreadyKnown
      else if code = - 32000 \<and> str_contains msg ''out of gas''
      then Some SendRawTransactionError.InsufficientFunds
      else if code = - 32001 \<and> str_contains msg ''nonce too low''
      then Some SendRawTransactionError.NonceTooLow
      else if code = - 32006 \<and> str_contains msg ''nonce too high''
      then Some SendRawTransactionError.NonceTooHigh
      else None)"

definition Parser_new :: "ErrorParser list" where
  "Parser_new = [GoEthereumParser, NethermindParser, ErigonParser, BesuParser]"

fun find_map :: "('a \<Rightarrow> 'b option) \<Rightarrow> 'a list \<Rightarrow> 'b option" where
  "find_map f [] = None"
| "find_map f (x # xs) = (case f x of Some y \<Rightarrow> Some y | None \<Rightarrow> find_map f xs)"

definition Parser_try_parse :: "ErrorParser list \<Rightarrow> ErrorParser" where
  "Parser_try_parse parsers code message = find_map (\<lambda>parser. parser code message) parsers"


subsection \<open>The sanitiser\<close>

primrec sanitized_error :: "SendRawTransactionError \<Rightarrow> SendRawTransactionResult" where
  "sanitized_error SendRawTransactionError.AlreadyKnown = TxOk"
| "sanitized_error SendRawTransactionError.InsufficientFunds = SendRawTransactionResult.InsufficientFunds"
| "sanitized_error SendRawTransactionError.NonceTooLow = SendRawTransactionResult.NonceTooLow"
| "sanitized_error SendRawTransactionError.NonceTooHigh = SendRawTransactionResult.NonceTooHigh"

definition sanitized_result ::
  "ErrorParser \<Rightarrow> 'd JsonRpcErr + Hash \<Rightarrow> 'd JsonRpcErr + SendRawTransactionResult" where
  "sanitized_result parser result =
     (case result of
        Inr _ \<Rightarrow> Inr TxOk
      | Inl e \<Rightarrow>
          (case parser (err_code e) (err_message e) of
             Some error \<Rightarrow> Inr (sanitized_error error)
           | None \<Rightarrow> Inl e))"

text \<open>
  \<open>de\<close> is \<open>serde_json::from_slice\<close> at \<open>JsonRpcResponse<Hash>\<close> followed by \<open>into_parts\<close>; \<open>ser\<close> is
  \<open>from_parts\<close> followed by \<open>serde_json::to_string\<close>.
\<close>

definition sanitize_send_raw_transaction_result ::
  "(bytes \<Rightarrow> ('id, 'd, Hash) JsonRpcParts option)
     \<Rightarrow> (('id, 'd, SendRawTransactionResult) JsonRpcParts \<Rightarrow> string + bytes)
     \<Rightarrow> bytes \<Rightarrow> ErrorParser \<Rightarrow> bytes trapping" where
  "sanitize_send_raw_transaction_result de ser body_bytes parser =
     (case de body_bytes of
        None \<Rightarrow> Inr body_bytes
      | Some (i, result) \<Rightarrow>
          map_err (\<lambda>e. ''BUG: failed to serialize error response: '' @ e)
            (ser (i, sanitized_result parser result)))"


subsection \<open>The contract of a parser\<close>

locale error_parser =
  fixes try_parse :: ErrorParser
  assumes case_insensitive: "try_parse code (to_lowercase message) = try_parse code message"
begin

lemma parse_cong:
  "to_lowercase m = to_lowercase m' \<Longrightarrow> try_parse code m = try_parse code m'"
  using case_insensitive by metis

text \<open>
  Two errors that differ in the case of their message only are sanitised to the same value, unless the
  parser does not know them, when both are passed on.
\<close>

lemma sanitized_cong:
  assumes "err_code e = err_code e'" "to_lowercase (err_message e) = to_lowercase (err_message e')"
  shows "sanitized_result try_parse (Inl e) = sanitized_result try_parse (Inl e')
    \<or> sanitized_result try_parse (Inl e) = Inl e \<and> sanitized_result try_parse (Inl e') = Inl e'"
  using parse_cong [OF assms(2), of "err_code e"] assms(1)
  by (auto simp: sanitized_result_def split: option.splits)

end

interpretation go_ethereum: error_parser GoEthereumParser
  by unfold_locales (simp add: GoEthereumParser_def)

interpretation nethermind: error_parser NethermindParser
  by unfold_locales (simp add: NethermindParser_def)

interpretation erigon: error_parser ErigonParser
  by unfold_locales (simp add: ErigonParser_def)

interpretation besu: error_parser BesuParser
  by unfold_locales (simp add: BesuParser_def)

lemma find_map_cong: "(\<And>x. x \<in> set xs \<Longrightarrow> f x = g x) \<Longrightarrow> find_map f xs = find_map g xs"
  by (induction xs) (auto split: option.splits)

interpretation combined: error_parser "Parser_try_parse Parser_new"
  by (unfold_locales, unfold Parser_try_parse_def, rule find_map_cong)
    (auto simp: Parser_new_def go_ethereum.case_insensitive
       nethermind.case_insensitive erigon.case_insensitive besu.case_insensitive)


subsection \<open>What the parsers recognise\<close>

text \<open>
  The Nethermind parser searches the lower-cased message for words with capitals, so it matches nothing.
\<close>

lemma nethermind_never_matches: "NethermindParser code message = None"
proof -
  have "\<not> str_contains (to_lowercase message) ''AlreadyKnown''"
    "\<not> str_contains (to_lowercase message) ''InsufficientFunds''"
    "\<not> str_contains (to_lowercase message) ''OldNonce''"
    "\<not> str_contains (to_lowercase message) ''NonceGap''"
    by (rule lowercase_not_contains_upper [of "CHR ''A''"], simp, simp, simp,
        rule lowercase_not_contains_upper [of "CHR ''I''"], simp, simp, simp,
        rule lowercase_not_contains_upper [of "CHR ''O''"], simp, simp, simp,
        rule lowercase_not_contains_upper [of "CHR ''N''"], simp, simp, simp)
  then show ?thesis by (simp add: NethermindParser_def)
qed

text \<open>The first of a list of messages that a text contains decides.\<close>

fun first_match :: "(string \<times> 'a) list \<Rightarrow> string \<Rightarrow> 'a option" where
  "first_match [] msg = None"
| "first_match ((needle, a) # rest) msg = (if str_contains msg needle then Some a else first_match rest msg)"

definition known_errors :: "int \<Rightarrow> (string \<times> SendRawTransactionError) list" where
  "known_errors code =
     (if code = - 32000
      then [(''already known'', SendRawTransactionError.AlreadyKnown),
            (''insufficient funds'', SendRawTransactionError.InsufficientFunds),
            (''nonce too low'', SendRawTransactionError.NonceTooLow),
            (''nonce too high'', SendRawTransactionError.NonceTooHigh),
            (''known transaction'', SendRawTransactionError.AlreadyKnown),
            (''out of gas'', SendRawTransactionError.InsufficientFunds)]
      else if code = - 32001 then [(''nonce too low'', SendRawTransactionError.NonceTooLow)]
      else if code = - 32006 then [(''nonce too high'', SendRawTransactionError.NonceTooHigh)]
      else [])"

lemma parser_decision_list:
  "Parser_try_parse Parser_new code message = first_match (known_errors code) (to_lowercase message)"
  by (simp add: Parser_try_parse_def Parser_new_def GoEthereumParser_def nethermind_never_matches
        ErigonParser_def BesuParser_def known_errors_def Let_def)


subsection \<open>Properties\<close>

text \<open>C31. The combined parser is a decision list over the code and the lower-cased message: the code
  \<open>-32000\<close> is classified by the first of six phrases the message contains, \<open>-32001\<close> and \<open>-32006\<close> by one
  phrase each, and every other code, in particular Nethermind's \<open>-32010\<close>, is never classified.\<close>

theorem Parser_try_parse_correct:
  "Parser_try_parse Parser_new code message =
     (let msg = to_lowercase message in
      if code = - 32000
      then first_match
        [(''already known'', SendRawTransactionError.AlreadyKnown),
         (''insufficient funds'', SendRawTransactionError.InsufficientFunds),
         (''nonce too low'', SendRawTransactionError.NonceTooLow),
         (''nonce too high'', SendRawTransactionError.NonceTooHigh),
         (''known transaction'', SendRawTransactionError.AlreadyKnown),
         (''out of gas'', SendRawTransactionError.InsufficientFunds)] msg
      else if code = - 32001 \<and> str_contains msg ''nonce too low''
      then Some SendRawTransactionError.NonceTooLow
      else if code = - 32006 \<and> str_contains msg ''nonce too high''
      then Some SendRawTransactionError.NonceTooHigh
      else None)"
  unfolding parser_decision_list known_errors_def by (simp add: Let_def)

text \<open>The Nethermind parser recognises no error at all: it lower-cases the message and then looks for
  words that contain capital letters.\<close>

theorem NethermindParser_dead: "NethermindParser = (\<lambda>code message. None)"
  using nethermind_never_matches by blast

text \<open>C32. A replica that submitted the transaction and a replica that was told it is already known report
  the same bytes: two answers to the same request whose results are a hash or an error classified as
  already known are sanitised to the same body, whatever the hashes, codes, messages and data.\<close>

theorem sanitize_agrees_on_submitted:
  assumes "de body = Some (i, result)" "de body' = Some (i, result')"
    and "case result of Inr _ \<Rightarrow> True | Inl e \<Rightarrow>
           Parser_try_parse Parser_new (err_code e) (err_message e)
             = Some SendRawTransactionError.AlreadyKnown"
    and "case result' of Inr _ \<Rightarrow> True | Inl e \<Rightarrow>
           Parser_try_parse Parser_new (err_code e) (err_message e)
             = Some SendRawTransactionError.AlreadyKnown"
    and "ser (i, Inr TxOk) = Inr out"
  shows "sanitize_send_raw_transaction_result de ser body (Parser_try_parse Parser_new) = Inr out
    \<and> sanitize_send_raw_transaction_result de ser body' (Parser_try_parse Parser_new) = Inr out"
proof -
  have ok: "sanitized_result (Parser_try_parse Parser_new) r = Inr TxOk"
    if "case r of Inr _ \<Rightarrow> True | Inl e \<Rightarrow>
           Parser_try_parse Parser_new (err_code e) (err_message e)
             = Some SendRawTransactionError.AlreadyKnown" for r :: "'b JsonRpcErr + Hash"
    using that by (simp add: sanitized_result_def split: sum.splits)
  show ?thesis
    using assms(1,2,5) ok [OF assms(3)] ok [OF assms(4)]
    by (simp add: sanitize_send_raw_transaction_result_def)
qed

definition example_de :: "bytes \<Rightarrow> (nat, unit, Hash) JsonRpcParts option" where
  "example_de body =
     (if body = [1] then Some (7, Inr (Hash [0]))
      else if body = [2]
      then Some (7, Inl \<lparr>err_code = - 32000, err_message = ''ALREADY known'', err_data = None\<rparr>)
      else None)"

theorem sanitize_agrees_on_submitted_witness:
  "sanitize_send_raw_transaction_result example_de (\<lambda>_. Inr [9]) [1] (Parser_try_parse Parser_new) = Inr [9]
   \<and> sanitize_send_raw_transaction_result example_de (\<lambda>_. Inr [9]) [2] (Parser_try_parse Parser_new) = Inr [9]"
proof (rule sanitize_agrees_on_submitted)
  show "example_de [1] = Some (7, Inr (Hash [0]))" by (simp add: example_de_def)
  show "example_de [2] = Some (7, Inl \<lparr>err_code = - 32000, err_message = ''ALREADY known'', err_data = None\<rparr>)"
    by (simp add: example_de_def)
  have "Parser_try_parse Parser_new (- 32000) ''ALREADY known'' = Some SendRawTransactionError.AlreadyKnown"
    by code_simp
  then show "case Inl \<lparr>err_code = - 32000, err_message = ''ALREADY known'', err_data = (None :: unit option)\<rparr> :: unit JsonRpcErr + Hash of
        Inr _ \<Rightarrow> True | Inl e \<Rightarrow>
           Parser_try_parse Parser_new (err_code e) (err_message e) = Some SendRawTransactionError.AlreadyKnown"
    by simp
qed simp_all

end
