(* ===== verification/Response_Transform.thy ===== *)
theory Response_Transform
  imports Error_Sanitizer
begin

section \<open>Response transformation and size estimates\<close>

text \<open>
  \<^verbatim>\<open>src/rpc_client/eth_rpc/mod.rs\<close>: the transformation that every replica applies to the HTTP response of a
  provider before consensus (\<open>ResponseTransform::apply\<close>, \<open>cleanup_response\<close>), the choice of the
  transformation by the type of the answer (\<open>HttpResponsePayload\<close>), and \<open>ResponseSizeEstimate\<close>.

  The serialisers of \<open>serde_json\<close>, the hash of \<open>sha2\<close> and the CBOR coding of \<open>minicbor\<close> are the fields of
  \<open>serde_ops\<close>.
\<close>

subsection \<open>Sizes\<close>

definition HEADER_SIZE_LIMIT :: u64 where
  "HEADER_SIZE_LIMIT = 2 * 1024"

definition HTTP_MAX_SIZE :: u64 where
  "HTTP_MAX_SIZE = 2000000"

definition MAX_PAYLOAD_SIZE :: u64 where
  "MAX_PAYLOAD_SIZE = HTTP_MAX_SIZE - HEADER_SIZE_LIMIT"

datatype ResponseSizeEstimate = ResponseSizeEstimate (size_estimate: u64)

definition ResponseSizeEstimate_new :: "u64 \<Rightarrow> ResponseSizeEstimate trapping" where
  "ResponseSizeEstimate_new num_bytes =
     (if num_bytes > 0
      then (if num_bytes \<le> MAX_PAYLOAD_SIZE
            then Inr (ResponseSizeEstimate num_bytes)
            else Inl ''assertion failed: num_bytes <= MAX_PAYLOAD_SIZE'')
      else Inl ''assertion failed: num_bytes > 0'')"


subsection \<open>Transformations\<close>

datatype ResponseTransform = Block | LogEntries | TransactionReceipt | FeeHistory | SendRawTransaction

record ('id, 'd, 'f) serde_ops =
  block_de :: "bytes \<Rightarrow> ('id, 'd, Block) JsonRpcParts option"
  block_ser :: "('id, 'd, Block) JsonRpcParts \<Rightarrow> string + bytes"
  logs_de :: "bytes \<Rightarrow> ('id, 'd, LogEntry list) JsonRpcParts option"
  logs_ser :: "('id, 'd, LogEntry list) JsonRpcParts \<Rightarrow> string + bytes"
  log_to_vec :: "LogEntry \<Rightarrow> string + bytes"
  receipt_de :: "bytes \<Rightarrow> ('id, 'd, TransactionReceipt) JsonRpcParts option"
  receipt_ser :: "('id, 'd, TransactionReceipt) JsonRpcParts \<Rightarrow> string + bytes"
  fee_de :: "bytes \<Rightarrow> ('id, 'd, 'f FeeHistory) JsonRpcParts option"
  fee_ser :: "('id, 'd, 'f FeeHistory) JsonRpcParts \<Rightarrow> string + bytes"
  tx_de :: "bytes \<Rightarrow> ('id, 'd, Hash) JsonRpcParts option"
  tx_ser :: "('id, 'd, SendRawTransactionResult) JsonRpcParts \<Rightarrow> string + bytes"
  sha256 :: "bytes \<Rightarrow> bytes"
  cbor_decode :: "bytes \<Rightarrow> ResponseTransform option"
  cbor_encode :: "ResponseTransform \<Rightarrow> bytes"

definition redact_response :: "(bytes \<Rightarrow> 'r option) \<Rightarrow> ('r \<Rightarrow> string + bytes) \<Rightarrow> bytes \<Rightarrow> bytes trapping" where
  "redact_response de ser body =
     (case de body of
        None \<Rightarrow> Inr body
      | Some response \<Rightarrow> map_err (\<lambda>e. ''BUG: failed to serialize response: '' @ e) (ser response))"

text \<open>
  \<open>sort_by\<close> is a stable sort. Its comparison serialises both elements and panics when that fails; a slice
  of fewer than two elements is not compared.
\<close>

definition hash_key :: "(bytes \<Rightarrow> bytes) \<Rightarrow> ('a \<Rightarrow> string + bytes) \<Rightarrow> 'a \<Rightarrow> bytes" where
  "hash_key sha to_vec x = (case to_vec x of Inr bs \<Rightarrow> sha bs | Inl _ \<Rightarrow> [])"

definition sort_by_hash ::
  "(bytes \<Rightarrow> bytes) \<Rightarrow> ('a \<Rightarrow> string + bytes) \<Rightarrow> 'a list \<Rightarrow> 'a list trapping" where
  "sort_by_hash sha to_vec to_sort =
     (if length to_sort < 2 then Inr to_sort
      else case collect_results (map to_vec to_sort) of
             Inl e \<Rightarrow> Inl (''BUG: failed to serialize: '' @ e)
           | Inr _ \<Rightarrow> Inr (sort_key (hash_key sha to_vec) to_sort))"

definition redact_collection_response ::
  "(bytes \<Rightarrow> bytes) \<Rightarrow> ('a \<Rightarrow> string + bytes)
     \<Rightarrow> (bytes \<Rightarrow> ('id, 'd, 'a list) JsonRpcParts option)
     \<Rightarrow> (('id, 'd, 'a list) JsonRpcParts \<Rightarrow> string + bytes) \<Rightarrow> bytes \<Rightarrow> bytes trapping" where
  "redact_collection_response sha to_vec de ser body =
     (case de body of
        None \<Rightarrow> Inr body
      | Some (i, result) \<Rightarrow>
          and_then
            (case result of Inr xs \<Rightarrow> map_ok Inr (sort_by_hash sha to_vec xs) | Inl e \<Rightarrow> Inr (Inl e))
            (\<lambda>sorted. map_err (\<lambda>e. ''BUG: failed to serialize response: '' @ e) (ser (i, sorted))))"

fun ResponseTransform_apply ::
  "('id, 'd, 'f) serde_ops \<Rightarrow> ResponseTransform \<Rightarrow> bytes \<Rightarrow> bytes trapping" where
  "ResponseTransform_apply S ResponseTransform.Block body = redact_response (block_de S) (block_ser S) body"
| "ResponseTransform_apply S ResponseTransform.LogEntries body =
     redact_collection_response (sha256 S) (log_to_vec S) (logs_de S) (logs_ser S) body"
| "ResponseTransform_apply S ResponseTransform.TransactionReceipt body =
     redact_response (receipt_de S) (receipt_ser S) body"
| "ResponseTransform_apply S ResponseTransform.FeeHistory body =
     redact_response (fee_de S) (fee_ser S) body"
| "ResponseTransform_apply S ResponseTransform.SendRawTransaction body =
     sanitize_send_raw_transaction_result (tx_de S) (tx_ser S) body (Parser_try_parse Parser_new)"

record HttpResponse =
  resp_status :: nat
  resp_headers :: "HttpHeader list"
  resp_body :: bytes

record TransformArgs =
  ta_response :: HttpResponse
  ta_context :: bytes

definition cleanup_response :: "('id, 'd, 'f) serde_ops \<Rightarrow> TransformArgs \<Rightarrow> HttpResponse trapping" where
  "cleanup_response S args =
     (let response = (ta_response args)\<lparr>resp_headers := []\<rparr>;
          status_ok = resp_status response \<ge> 200 \<and> resp_status response < 300
      in if status_ok \<and> ta_context args \<noteq> []
         then (case cbor_decode S (ta_context args) of
                 Some transform \<Rightarrow>
                   map_ok (\<lambda>body. response\<lparr>resp_body := body\<rparr>)
                     (ResponseTransform_apply S transform (resp_body response))
               | None \<Rightarrow> Inr response)
         else Inr response)"


subsection \<open>Which answers are transformed\<close>

text \<open>
  \<open>HttpResponsePayload::response_transform\<close> by the type of the answer. \<open>Option<T>\<close> keeps the default of
  the trait, \<open>None\<close>, whatever \<open>T\<close> has.
\<close>

datatype payload =
    BlockPayload
  | LogEntriesPayload
  | TransactionReceiptPayload
  | FeeHistoryPayload
  | SendRawTransactionPayload
  | DataPayload
  | TransactionCountPayload
  | WeiPayload
  | OptionPayload payload

fun response_transform :: "payload \<Rightarrow> ResponseTransform option" where
  "response_transform BlockPayload = Some ResponseTransform.Block"
| "response_transform LogEntriesPayload = Some ResponseTransform.LogEntries"
| "response_transform TransactionReceiptPayload = Some ResponseTransform.TransactionReceipt"
| "response_transform FeeHistoryPayload = Some ResponseTransform.FeeHistory"
| "response_transform SendRawTransactionPayload = Some ResponseTransform.SendRawTransaction"
| "response_transform DataPayload = None"
| "response_transform TransactionCountPayload = None"
| "response_transform WeiPayload = None"
| "response_transform (OptionPayload _) = None"


subsection \<open>Sorting\<close>

lemma sort_by_hash_ok:
  assumes "\<And>x. x \<in> set xs \<Longrightarrow> \<exists>bs. to_vec x = Inr bs"
  shows "sort_by_hash sha to_vec xs = Inr (sort_key (hash_key sha to_vec) xs)"
proof (cases "length xs < 2")
  case True
  then consider "xs = []" | x where "xs = [x]" by (cases xs; cases "tl xs") auto
  then show ?thesis by cases (simp_all add: sort_by_hash_def)
next
  case False
  have "Inl e \<notin> set (map to_vec xs)" for e using assms by fastforce
  then obtain bss where "collect_results (map to_vec xs) = Inr bss"
    by (metis collect_results_Inl sum.exhaust)
  with False show ?thesis by (simp add: sort_by_hash_def)
qed

lemma sort_by_hash_permutation:
  assumes "mset xs = mset ys" "inj_on (hash_key sha to_vec) (set xs)"
    and "\<And>x. x \<in> set xs \<Longrightarrow> \<exists>bs. to_vec x = Inr bs"
  shows "sort_by_hash sha to_vec xs = sort_by_hash sha to_vec ys"
proof -
  have "set ys = set xs" using assms(1) by (metis set_mset_mset)
  with assms(3) have "sort_by_hash sha to_vec ys = Inr (sort_key (hash_key sha to_vec) ys)"
    by (intro sort_by_hash_ok) auto
  moreover have "sort_key (hash_key sha to_vec) xs = sort_key (hash_key sha to_vec) ys"
    using assms(1,2) by (intro sort_key_inj_key_eq) simp_all
  ultimately show ?thesis using sort_by_hash_ok [of xs to_vec sha] assms(3) by simp
qed

text \<open>
  Two bodies carry the same answer, for a transformation: they parse to the same value, up to the order
  of the log entries and up to the ways of reporting that a transaction was submitted.
\<close>

fun same_answer :: "('id, 'd, 'f) serde_ops \<Rightarrow> ResponseTransform \<Rightarrow> bytes \<Rightarrow> bytes \<Rightarrow> bool" where
  "same_answer S ResponseTransform.Block b b' = (block_de S b = block_de S b' \<and> block_de S b' \<noteq> None)"
| "same_answer S ResponseTransform.TransactionReceipt b b' =
     (receipt_de S b = receipt_de S b' \<and> receipt_de S b' \<noteq> None)"
| "same_answer S ResponseTransform.FeeHistory b b' = (fee_de S b = fee_de S b' \<and> fee_de S b' \<noteq> None)"
| "same_answer S ResponseTransform.SendRawTransaction b b' =
     (case (tx_de S b, tx_de S b') of
        (Some (i, r), Some (i', r')) \<Rightarrow>
          i = i' \<and> sanitized_result (Parser_try_parse Parser_new) r
                    = sanitized_result (Parser_try_parse Parser_new) r'
      | _ \<Rightarrow> False)"
| "same_answer S ResponseTransform.LogEntries b b' =
     (case (logs_de S b, logs_de S b') of
        (Some (i, Inr xs), Some (i', Inr ys)) \<Rightarrow>
          i = i' \<and> mset xs = mset ys
          \<and> list_all (\<lambda>x. \<not> isl (log_to_vec S x)) xs
          \<and> distinct (map (hash_key (sha256 S) (log_to_vec S)) (remdups xs))
      | (Some (i, Inl e), Some (i', Inl e')) \<Rightarrow> i = i' \<and> e = e'
      | _ \<Rightarrow> False)"

lemma same_answer_logsE:
  assumes "same_answer S ResponseTransform.LogEntries b b'"
  obtains i xs ys where "logs_de S b = Some (i, Inr xs)" "logs_de S b' = Some (i, Inr ys)"
      "mset xs = mset ys" "list_all (\<lambda>x. \<not> isl (log_to_vec S x)) xs"
      "distinct (map (hash_key (sha256 S) (log_to_vec S)) (remdups xs))"
    | i e where "logs_de S b = Some (i, Inl e)" "logs_de S b' = Some (i, Inl e)"
proof -
  from assms obtain i r i' r' where parsed: "logs_de S b = Some (i, r)" "logs_de S b' = Some (i', r')"
    by (cases "logs_de S b"; cases "logs_de S b'") (auto split: sum.splits)
  show thesis
  proof (cases r)
    case (Inl e)
    with assms parsed that(2) show thesis by (cases r') auto
  next
    case (Inr xs)
    with assms parsed that(1) show thesis by (cases r') auto
  qed
qed

lemma redact_response_cong:
  "de b = de b' \<Longrightarrow> de b' \<noteq> None \<Longrightarrow> redact_response de ser b = redact_response de ser b'"
  by (cases "de b'") (simp_all add: redact_response_def)

lemma apply_same_answer:
  assumes "same_answer S t b b'"
  shows "ResponseTransform_apply S t b = ResponseTransform_apply S t b'"
proof (cases t)
  case LogEntries
  consider i xs ys where "logs_de S b = Some (i, Inr xs)" "logs_de S b' = Some (i, Inr ys)"
      "mset xs = mset ys" "list_all (\<lambda>x. \<not> isl (log_to_vec S x)) xs"
      "distinct (map (hash_key (sha256 S) (log_to_vec S)) (remdups xs))"
    | i e where "logs_de S b = Some (i, Inl e)" "logs_de S b' = Some (i, Inl e)"
    using assms unfolding LogEntries by (rule same_answer_logsE)
  then show ?thesis
  proof cases
    case 1
    have "sort_by_hash (sha256 S) (log_to_vec S) xs = sort_by_hash (sha256 S) (log_to_vec S) ys"
    proof (rule sort_by_hash_permutation [OF 1(3)])
      show "inj_on (hash_key (sha256 S) (log_to_vec S)) (set xs)"
        using 1(5) by (simp add: distinct_map)
      show "\<exists>bs. log_to_vec S x = Inr bs" if "x \<in> set xs" for x
        using 1(4) that by (cases "log_to_vec S x") (auto simp: list_all_iff)
    qed
    with 1(1,2) show ?thesis by (simp add: LogEntries redact_collection_response_def)
  qed (simp add: LogEntries redact_collection_response_def)
next
  case SendRawTransaction
  with assms show ?thesis
    by (auto simp: sanitize_send_raw_transaction_result_def split: option.splits)
qed (use assms in \<open>auto intro!: redact_response_cong\<close>)


subsection \<open>Properties\<close>

text \<open>C17. Replicas agree after the transformation: if two replicas get successful responses with the same
  status whose bodies carry the same answer for the requested transformation, then whatever the headers
  and the encodings are, \<open>cleanup_response\<close> returns the same response on both (or traps on both). For logs
  the order of the entries does not matter, as long as the hashes of different entries differ.\<close>

theorem cleanup_response_agrees:
  assumes "ctx \<noteq> []" "cbor_decode S ctx = Some t" "200 \<le> status" "status < 300"
    and "same_answer S t body body'"
  shows "cleanup_response S
      \<lparr>ta_response = \<lparr>resp_status = status, resp_headers = hs, resp_body = body\<rparr>, ta_context = ctx\<rparr>
    = cleanup_response S
      \<lparr>ta_response = \<lparr>resp_status = status, resp_headers = hs', resp_body = body'\<rparr>, ta_context = ctx\<rparr>"
  using assms(1-4) apply_same_answer [OF assms(5)] by (simp add: cleanup_response_def Let_def)

definition example_entry :: "u8 \<Rightarrow> LogEntry" where
  "example_entry n =
     \<lparr>log_address = Address [], log_topics = [], log_data = Data [n], log_block_number = None,
      log_transaction_hash = None, log_transaction_index = None, log_block_hash = None,
      log_log_index = None, log_removed = False\<rparr>"

text \<open>A coding of log entries by one byte of data each, and the identity as hash.\<close>

definition example_serde :: "(unit, unit, unit) serde_ops" where
  "example_serde =
     \<lparr>block_de = (\<lambda>_. None), block_ser = (\<lambda>_. Inl []),
      logs_de = (\<lambda>bs. Some ((), Inr (map example_entry bs))),
      logs_ser = (\<lambda>(i, r). case r of Inl _ \<Rightarrow> Inl [] | Inr xs \<Rightarrow> Inr (concat (map (data_bytes \<circ> log_data) xs))),
      log_to_vec = (\<lambda>x. Inr (data_bytes (log_data x))),
      receipt_de = (\<lambda>_. None), receipt_ser = (\<lambda>_. Inl []),
      fee_de = (\<lambda>_. None), fee_ser = (\<lambda>_. Inl []),
      tx_de = (\<lambda>_. None), tx_ser = (\<lambda>_. Inl []),
      sha256 = (\<lambda>bs. bs),
      cbor_decode = (\<lambda>bs. if bs = [1] then Some ResponseTransform.LogEntries else None),
      cbor_encode = (\<lambda>_. [1])\<rparr>"

theorem cleanup_response_agrees_witness:
  "cleanup_response example_serde
      \<lparr>ta_response = \<lparr>resp_status = 200, resp_headers = [], resp_body = [2, 1]\<rparr>, ta_context = [1]\<rparr>
    = cleanup_response example_serde
      \<lparr>ta_response = \<lparr>resp_status = 200, resp_headers = [\<lparr>hdr_name = ''Date'', hdr_value = ''x''\<rparr>],
        resp_body = [1, 2]\<rparr>, ta_context = [1]\<rparr>"
proof -
  have "same_answer example_serde ResponseTransform.LogEntries [2, 1] [1, 2]"
    by (simp add: example_serde_def hash_key_def example_entry_def)
  then show ?thesis
    using cleanup_response_agrees
      [of "[1]" example_serde ResponseTransform.LogEntries 200 "[2, 1]" "[1, 2]" "[]"
        "[\<lparr>hdr_name = ''Date'', hdr_value = ''x''\<rparr>]"]
    by (simp add: example_serde_def)
qed

text \<open>What the transformation may change: the status is kept and the headers are dropped; the body is
  kept unless the status is 2xx and the context names a transformation, and then it is what that
  transformation returns.\<close>

theorem cleanup_response_exact:
  "cleanup_response S args = Inr r \<longleftrightarrow>
     resp_status r = resp_status (ta_response args) \<and> resp_headers r = []
     \<and> (case (if 200 \<le> resp_status r \<and> resp_status r < 300 \<and> ta_context args \<noteq> []
              then cbor_decode S (ta_context args) else None) of
          None \<Rightarrow> resp_body r = resp_body (ta_response args)
        | Some t \<Rightarrow> ResponseTransform_apply S t (resp_body (ta_response args)) = Inr (resp_body r))"
  by (cases r; cases "ta_response args"; cases args)
    (auto simp: cleanup_response_def Let_def map_ok_eq_Inr split: option.splits)

end
