(* ===== verification/Provider_Selection.thy ===== *)
theory Provider_Selection
  imports Key_Management
begin

section \<open>Choosing the providers of a call\<close>

text \<open>
  The first half of \<^verbatim>\<open>src/rpc_client/mod.rs\<close>: \<open>EthereumNetwork\<close>, \<open>Providers::new\<close> and \<open>choose_providers\<close>.
  The functions rank the supported providers, which evicts expired entries of the usage map, so they take
  and return the canister's memory. The outer \<open>trapping\<close> is the assertion of \<open>choose_providers\<close>; the inner
  sum is the \<open>Result\<close> of the source. \<open>len() as u8\<close> is the conversion to an 8-bit word.
\<close>

subsection \<open>Networks\<close>

datatype EthereumNetwork = EthereumNetwork (network_chain_id: u64)

definition MAINNET :: EthereumNetwork where
  "MAINNET = EthereumNetwork 1"

definition SEPOLIA :: EthereumNetwork where
  "SEPOLIA = EthereumNetwork 11155111"

definition ARBITRUM :: EthereumNetwork where
  "ARBITRUM = EthereumNetwork 42161"

definition BASE :: EthereumNetwork where
  "BASE = EthereumNetwork 8453"

definition OPTIMISM :: EthereumNetwork where
  "OPTIMISM = EthereumNetwork 10"

lemmas networks = MAINNET_def SEPOLIA_def ARBITRUM_def BASE_def OPTIMISM_def

fun user_defined_providers :: "RpcServices \<Rightarrow> RpcService list option" where
  "user_defined_providers (RpcServices.Custom _ ss) = Some (map RpcService.Custom ss)"
| "user_defined_providers (RpcServices.EthMainnet ss) = map_option (map RpcService.EthMainnet) ss"
| "user_defined_providers (RpcServices.EthSepolia ss) = map_option (map RpcService.EthSepolia) ss"
| "user_defined_providers (RpcServices.ArbitrumOne ss) = map_option (map RpcService.ArbitrumOne) ss"
| "user_defined_providers (RpcServices.BaseMainnet ss) = map_option (map RpcService.BaseMainnet) ss"
| "user_defined_providers (RpcServices.OptimismMainnet ss) =
     map_option (map RpcService.OptimismMainnet) ss"

fun supported_providers :: "RpcServices \<Rightarrow> EthereumNetwork \<times> SupportedRpcService list" where
  "supported_providers (RpcServices.Custom cid _) = (EthereumNetwork cid, [])"
| "supported_providers (RpcServices.EthMainnet _) = (MAINNET, eth_mainnet)"
| "supported_providers (RpcServices.EthSepolia _) = (SEPOLIA, eth_sepolia)"
| "supported_providers (RpcServices.ArbitrumOne _) = (ARBITRUM, arbitrum_one)"
| "supported_providers (RpcServices.BaseMainnet _) = (BASE, base_mainnet)"
| "supported_providers (RpcServices.OptimismMainnet _) = (OPTIMISM, optimism_mainnet)"


subsection \<open>The choice\<close>

definition DEFAULT_NUM_PROVIDERS_FOR_EQUALITY :: nat where
  "DEFAULT_NUM_PROVIDERS_FOR_EQUALITY = 3"

definition choose_providers ::
  "('m, 'v) timed_map_ops \<Rightarrow> ('m, 'lf) canister \<Rightarrow> RpcService list option
     \<Rightarrow> SupportedRpcService list \<Rightarrow> ConsensusStrategy \<Rightarrow> Timestamp
     \<Rightarrow> ((ProviderError + RpcService list) \<times> ('m, 'lf) canister) trapping" where
  "choose_providers ops st user_input supported strategy now =
     (case strategy of
        Equality \<Rightarrow>
          (case user_input of
             Some providers \<Rightarrow> Inr (Ok (btree_set providers), st)
           | None \<Rightarrow>
               (let (ranked, st') = rank_providers ops st supported now
                in Inr (Ok (btree_set (map RpcService_from
                      (take DEFAULT_NUM_PROVIDERS_FOR_EQUALITY ranked))), st')))
      | Threshold total_opt mn \<Rightarrow>
          (if mn = 0
           then Inr (Err (InvalidRpcConfig ''min must be greater than 0''), st)
           else case user_input of
             None \<Rightarrow>
               (case total_opt of
                  None \<Rightarrow> Inr (Err (InvalidRpcConfig
                    ''total must be specified when using default providers''), st)
                | Some tot \<Rightarrow>
                    (if mn > tot
                     then Inr (Err (InvalidRpcConfig (''min '' @ show_nat (unat mn)
                       @ '' is greater than total '' @ show_nat (unat tot))), st)
                     else if tot > of_nat (length supported)
                     then Inr (Err (InvalidRpcConfig (''total '' @ show_nat (unat tot)
                       @ '' is greater than the number of all supported providers ''
                       @ show_nat (length supported))), st)
                     else let (ranked, st') = rank_providers ops st supported now;
                              providers = btree_set (map RpcService_from (take (unat tot) ranked))
                          in if length providers = unat tot
                             then Inr (Ok providers, st')
                             else Inl ''BUG: duplicate providers''))
           | Some providers \<Rightarrow>
               (if mn > of_nat (length providers)
                then Inr (Err (InvalidRpcConfig (''min '' @ show_nat (unat mn)
                  @ '' is greater than the number of specified providers ''
                  @ show_nat (length providers))), st)
                else case total_opt of
                  Some tot \<Rightarrow>
                    (if tot \<noteq> of_nat (length providers)
                     then Inr (Err (InvalidRpcConfig (''total '' @ show_nat (unat tot)
                       @ '' is different than the number of specified providers ''
                       @ show_nat (length providers))), st)
                     else Inr (Ok (btree_set providers), st))
                | None \<Rightarrow> Inr (Ok (btree_set providers), st))))"

record Providers =
  chain :: EthereumNetwork
  chosen :: "RpcService list"  \<comment> \<open>the \<open>BTreeSet\<close> \<open>services\<close>\<close>

definition Providers_new ::
  "('m, 'v) timed_map_ops \<Rightarrow> ('m, 'lf) canister \<Rightarrow> RpcServices \<Rightarrow> ConsensusStrategy \<Rightarrow> Timestamp
     \<Rightarrow> ((ProviderError + Providers) \<times> ('m, 'lf) canister) trapping" where
  "Providers_new ops st source strategy now =
     (let (network, supported) = supported_providers source;
          user_input = user_defined_providers source
      in map_ok
           (\<lambda>(result, st').
              (and_then result (\<lambda>providers.
                 if providers = [] then Err ProviderNotFound
                 else Ok \<lparr>chain = network, chosen = providers\<rparr>), st'))
           (choose_providers ops st user_input supported strategy now))"


subsection \<open>The supported lists\<close>

lemma supported_cases:
  "supported_providers source \<in>
     {(MAINNET, eth_mainnet), (SEPOLIA, eth_sepolia), (ARBITRUM, arbitrum_one), (BASE, base_mainnet),
      (OPTIMISM, optimism_mainnet)} \<or> (\<exists>cid ss. source = RpcServices.Custom cid ss)"
  by (cases source) simp_all

lemma supported_distinct: "distinct (snd (supported_providers source))"
  by (cases source)
    (simp_all add: eth_mainnet_def eth_sepolia_def arbitrum_one_def base_mainnet_def optimism_mainnet_def)

lemma supported_length:
  "user_defined_providers source = None \<Longrightarrow>
     length (snd (supported_providers source)) \<in> {5, 6}"
  by (cases source)
    (simp_all add: eth_mainnet_def eth_sepolia_def arbitrum_one_def base_mainnet_def optimism_mainnet_def)

lemma rank_providers_eq:
  assumes "sorts_keys_stably ops lookup"
  shows "\<exists>usage. rank_providers ops st services now
      = (sort_key (\<lambda>s. Reverse (num_oks ops (lookup usage s))) services,
         st\<lparr>UNSTABLE_RPC_SERVICE_OK_RESULTS_TIMESTAMPS := usage\<rparr>)
    \<and> usage = evict_expired ops (UNSTABLE_RPC_SERVICE_OK_RESULTS_TIMESTAMPS st) services now"
proof -
  obtain usage ranked where
    r: "rank_ascending_evict ops (UNSTABLE_RPC_SERVICE_OK_RESULTS_TIMESTAMPS st) services now = (usage, ranked)"
    by (cases "rank_ascending_evict ops (UNSTABLE_RPC_SERVICE_OK_RESULTS_TIMESTAMPS st) services now")
  then have "usage = evict_expired ops (UNSTABLE_RPC_SERVICE_OK_RESULTS_TIMESTAMPS st) services now"
    by (auto simp: rank_ascending_evict_def Let_def)
  with r show ?thesis
    using rank_as_sort [OF assms r] by (simp add: rank_providers_def)
qed

lemma choose_default_refused:
  assumes "case tot of None \<Rightarrow> True | Some t \<Rightarrow> mn = 0 \<or> t < mn \<or> of_nat (length supported) < t"
  shows "\<exists>msg. choose_providers ops st None supported (Threshold tot mn) now
           = Inr (Err (InvalidRpcConfig msg), st)"
  using assms by (cases tot) (auto simp: choose_providers_def)

text \<open>The best \<open>n\<close> of a ranked list without duplicates, as the set that is queried.\<close>

lemma top_ranked:
  fixes key :: "SupportedRpcService \<Rightarrow> 'k::linorder"
  assumes "distinct services" "n \<le> length services"
  defines "ranked \<equiv> sort_key key services"
  defines "ps \<equiv> btree_set (map RpcService_from (take n ranked))"
  shows "length ps = n"
    and "set ps = RpcService_from ` set (take n ranked)"
    and "set (take n ranked) \<subseteq> set services"
    and "s \<in> set (take n ranked) \<Longrightarrow> t \<in> set services - set (take n ranked) \<Longrightarrow> key s \<le> key t"
proof -
  have d: "distinct (take n ranked)" using assms(1) by (simp add: ranked_def)
  then have "distinct (map RpcService_from (take n ranked))"
    using inj_on_subset [OF RpcService_from_inj] by (simp add: distinct_map)
  then have "length ps = length (take n ranked)"
    unfolding ps_def by (simp add: length_btree_set_distinct)
  then show "length ps = n" using assms(2) by (simp add: ranked_def)
  show "set ps = RpcService_from ` set (take n ranked)" by (simp add: ps_def)
  show "set (take n ranked) \<subseteq> set services"
    using set_take_subset [of n ranked] by (simp add: ranked_def)
  assume st: "s \<in> set (take n ranked)" "t \<in> set services - set (take n ranked)"
  have "set services = set (take n ranked) \<union> set (drop n ranked)"
    by (metis append_take_drop_id ranked_def set_append set_sort)
  with st have "t \<in> set (drop n ranked)" by blast
  moreover have "sorted (map key (take n ranked) @ map key (drop n ranked))"
    by (simp flip: map_append add: ranked_def)
  ultimately show "key s \<le> key t"
    using st(1) by (fastforce simp: sorted_append)
qed


text \<open>How many default providers a strategy asks for, if it is accepted for a network with that many.\<close>

definition default_total :: "ConsensusStrategy \<Rightarrow> nat \<Rightarrow> nat option" where
  "default_total strategy supported_count =
     (case strategy of
        Equality \<Rightarrow> Some 3
      | Threshold tot mn \<Rightarrow>
          (case tot of
             None \<Rightarrow> None
           | Some t \<Rightarrow> (if 0 < mn \<and> mn \<le> t \<and> unat t \<le> supported_count then Some (unat t) else None)))"

lemma default_total_bounds:
  assumes "default_total strategy m = Some n" "3 \<le> m"
  shows "0 < n" "n \<le> m"
proof -
  have "0 < unat t" if "0 < mn" "mn \<le> t" for mn t :: u8
    using less_le_trans [OF that] by (simp add: unat_gt_0 word_gt_0)
  with assms show "0 < n" "n \<le> m"
    by (auto simp: default_total_def split: ConsensusStrategy.splits option.splits if_splits)
qed

lemma u8_of_small: "n < 256 \<Longrightarrow> unat (of_nat n :: u8) = n"
  by (simp add: unsigned_of_nat take_bit_nat_eq_self)

lemma choose_default_accepted:
  fixes key :: "SupportedRpcService \<Rightarrow> 'k::linorder"
  assumes "default_total strategy (length supported) = Some n" "3 \<le> length supported"
    and "length supported < 256" "distinct supported"
    and "rank_providers ops st supported now = (sort_key key supported, st')"
  shows "choose_providers ops st None supported strategy now
    = Inr (Ok (btree_set (map RpcService_from (take n (sort_key key supported)))), st')"
proof (cases strategy)
  case Equality
  with assms(1) have "n = 3" by (simp add: default_total_def)
  then show ?thesis
    by (simp add: choose_providers_def Equality DEFAULT_NUM_PROVIDERS_FOR_EQUALITY_def assms(5))
next
  case (Threshold tot mn)
  with assms(1) obtain t where t: "tot = Some t" "0 < mn" "mn \<le> t" "unat t \<le> length supported" "n = unat t"
    by (auto simp: default_total_def split: option.splits if_splits)
  moreover have "\<not> t > of_nat (length supported)"
    using t(4) assms(3) by (simp add: word_less_nat_alt u8_of_small)
  ultimately show ?thesis
    using top_ranked(1) [OF assms(4) t(4), where key = key] assms(5)
    by (auto simp: choose_providers_def Threshold)
qed

lemma choose_default_rejected:
  assumes "default_total strategy (length supported) = None" "length supported < 256"
  shows "\<exists>msg. choose_providers ops st None supported strategy now = Inr (Err (InvalidRpcConfig msg), st)"
proof (cases strategy)
  case (Threshold tot mn)
  have "tot' > of_nat (length supported) \<longleftrightarrow> unat tot' > length supported" for tot' :: u8
    using assms(2) by (simp add: word_less_nat_alt u8_of_small)
  then have "case tot of None \<Rightarrow> True | Some t \<Rightarrow> mn = 0 \<or> t < mn \<or> of_nat (length supported) < t"
    using assms(1) by (auto simp: default_total_def Threshold word_gt_0 not_le split: option.splits if_splits)
  then show ?thesis unfolding Threshold by (rule choose_default_refused)
qed (use assms(1) in \<open>simp add: default_total_def\<close>)

lemma Providers_new_ranked:
  assumes "user_defined_providers source = None" "supported_providers source = (network, supported)"
    and "distinct supported" "n \<le> length supported" "0 < n"
    and "choose_providers ops st None supported strategy now
      = Inr (Ok (btree_set (map RpcService_from (take n (sort_key (\<lambda>s. Reverse (oks s)) supported)))), st')"
  shows "\<exists>best. best \<subseteq> set supported \<and> card best = n
    \<and> (\<forall>s \<in> best. \<forall>t \<in> set supported - best. oks t \<le> oks s)
    \<and> Providers_new ops st source strategy now
        = Inr (Ok \<lparr>chain = network, chosen = sorted_list_of_set (RpcService_from ` best)\<rparr>, st')"
proof (intro exI conjI ballI)
  let ?best = "take n (sort_key (\<lambda>s. Reverse (oks s)) supported)"
  note top = top_ranked [OF assms(3,4), where key = "\<lambda>s. Reverse (oks s)"]
  show "set ?best \<subseteq> set supported" by (rule top(3))
  show "card (set ?best) = n" using assms(3,4) by (simp add: distinct_card)
  show "oks t \<le> oks s" if "s \<in> set ?best" "t \<in> set supported - set ?best" for s t
    using top(4) [OF that] by simp
  have "btree_set (map RpcService_from ?best) \<noteq> []" using top(1) assms(5) by auto
  then show "Providers_new ops st source strategy now
      = Inr (Ok \<lparr>chain = network, chosen = sorted_list_of_set (RpcService_from ` set ?best)\<rparr>, st')"
    using assms(1,6) by (simp add: Providers_new_def assms(2) btree_set_sorted_list flip: set_map)
qed


subsection \<open>Properties\<close>

text \<open>C8. Choosing default providers (the caller names none). With equality the three best ranked
  supported providers of the network are chosen; with a threshold the best \<open>total\<close> ones, provided
  \<open>0 < min \<le> total \<le>\<close> the number of supported providers, and any other threshold is refused. The chosen
  set has exactly that size (the assertion never fires), and no supported provider left out has more
  recent successes than a chosen one. Of the memory only the usage map changes.\<close>

theorem Providers_new_default:
  fixes st :: "('m, 'lf) canister" and ops :: "('m, 'v) timed_map_ops" and now :: Timestamp
  assumes "sorts_keys_stably ops lookup" "user_defined_providers source = None"
  defines "supported \<equiv> snd (supported_providers source)"
    and "usage \<equiv> evict_expired ops (UNSTABLE_RPC_SERVICE_OK_RESULTS_TIMESTAMPS st)
                   (snd (supported_providers source)) now"
  shows "case (case strategy of
           Equality \<Rightarrow> Some 3
         | Threshold tot mn \<Rightarrow>
             (case tot of
                None \<Rightarrow> None
              | Some t \<Rightarrow> (if 0 < mn \<and> mn \<le> t \<and> unat t \<le> length supported then Some (unat t) else None))) of
      None \<Rightarrow> (\<exists>msg. Providers_new ops st source strategy now = Inr (Err (InvalidRpcConfig msg), st))
    | Some n \<Rightarrow>
        (\<exists>best. best \<subseteq> set supported \<and> card best = n
           \<and> (\<forall>s \<in> best. \<forall>t \<in> set supported - best.
                num_oks ops (lookup usage t) \<le> num_oks ops (lookup usage s))
           \<and> Providers_new ops st source strategy now
               = Inr (Ok \<lparr>chain = fst (supported_providers source),
                           chosen = sorted_list_of_set (RpcService_from ` best)\<rparr>,
                      st\<lparr>UNSTABLE_RPC_SERVICE_OK_RESULTS_TIMESTAMPS := usage\<rparr>))"
proof -
  let ?oks = "\<lambda>s. num_oks ops (lookup usage s)"
  let ?st = "st\<lparr>UNSTABLE_RPC_SERVICE_OK_RESULTS_TIMESTAMPS := usage\<rparr>"
  have rank: "rank_providers ops st supported now = (sort_key (\<lambda>s. Reverse (?oks s)) supported, ?st)"
    using rank_providers_eq [OF assms(1), of st supported now] by (simp add: usage_def supported_def)
  have d: "distinct supported" unfolding supported_def by (rule supported_distinct)
  have "length supported \<in> {5, 6}" unfolding supported_def by (rule supported_length [OF assms(2)])
  then have len: "3 \<le> length supported" "length supported < 256" by auto
  have sup: "supported_providers source = (fst (supported_providers source), supported)"
    by (simp add: supported_def)
  show ?thesis
  proof (cases "default_total strategy (length supported)")
    case None
    then obtain msg where
      "choose_providers ops st None supported strategy now = Inr (Err (InvalidRpcConfig msg), st)"
      using choose_default_rejected len(2) by blast
    then have "Providers_new ops st source strategy now = Inr (Err (InvalidRpcConfig msg), st)"
      by (subst Providers_new_def, subst sup) (simp add: assms(2))
    then show ?thesis
      unfolding default_total_def [symmetric] None option.case by blast
  next
    case (Some n)
    show ?thesis
      unfolding default_total_def [symmetric] Some option.case
      by (rule Providers_new_ranked [OF assms(2) sup d default_total_bounds(2,1) [OF Some len(1)]
          choose_default_accepted [OF Some len d rank]])
  qed
qed

lemma example_ranking: "user_defined_providers (RpcServices.EthMainnet None) = None"
  by simp

theorem Providers_new_default_witness:
  "\<exists>best. best \<subseteq> set eth_mainnet \<and> card best = 3
     \<and> Providers_new ref_timed_ops (initial_memory ref_timed_ops ()) (RpcServices.EthMainnet None)
         Equality 0
       = Inr (Ok \<lparr>chain = MAINNET, chosen = sorted_list_of_set (RpcService_from ` best)\<rparr>,
              (initial_memory ref_timed_ops ())\<lparr>UNSTABLE_RPC_SERVICE_OK_RESULTS_TIMESTAMPS :=
                 evict_expired ref_timed_ops
                   (UNSTABLE_RPC_SERVICE_OK_RESULTS_TIMESTAMPS (initial_memory ref_timed_ops ()))
                   eth_mainnet 0\<rparr>)"
  using Providers_new_default [OF ref_timed_ops_sorts example_ranking,
      where st = "initial_memory ref_timed_ops ()" and now = 0 and strategy = Equality]
  by (simp only: ConsensusStrategy.case option.case supported_providers.simps fst_conv snd_conv) blast

text \<open>C25. Choosing among providers the caller names. The set of the named providers is used as it is. A
  threshold is accepted exactly when \<open>min\<close> is positive and not above the number of names, and \<open>total\<close>, if
  given, equals that number, where the number of names is taken modulo 256; naming no provider is an
  error. The memory does not change and nothing traps.\<close>

theorem Providers_new_named:
  assumes "user_defined_providers source = Some named"
  shows "\<exists>result. Providers_new ops st source strategy now = Inr (result, st)
    \<and> (\<forall>ps. result = Ok ps \<longleftrightarrow>
         ps = \<lparr>chain = fst (supported_providers source), chosen = sorted_list_of_set (set named)\<rparr>
         \<and> named \<noteq> []
         \<and> (case strategy of
              Equality \<Rightarrow> True
            | Threshold tot mn \<Rightarrow>
                0 < unat mn \<and> unat mn \<le> length named mod 256
                \<and> (case tot of None \<Rightarrow> True | Some t \<Rightarrow> unat t = length named mod 256)))"
proof -
  have len: "unat (of_nat (length named) :: u8) = length named mod 256"
    by (simp add: unsigned_of_nat take_bit_eq_mod)
  obtain network supported where sup: "supported_providers source = (network, supported)"
    by (cases "supported_providers source")
  let ?ok = "case strategy of
      Equality \<Rightarrow> True
    | Threshold tot mn \<Rightarrow> 0 < mn \<and> mn \<le> of_nat (length named)
        \<and> (case tot of None \<Rightarrow> True | Some t \<Rightarrow> t = of_nat (length named))"
  have "\<exists>result. choose_providers ops st (Some named) supported strategy now = Inr (result, st)
      \<and> (\<forall>ps. result = Ok ps \<longleftrightarrow> ps = btree_set named \<and> ?ok)"
    by (cases strategy)
      (auto simp: choose_providers_def word_gt_0 split: option.splits)
  then obtain result where
    choice: "choose_providers ops st (Some named) supported strategy now = Inr (result, st)"
      "\<And>ps. result = Ok ps \<longleftrightarrow> ps = btree_set named \<and> ?ok" by blast
  have ok: "?ok \<longleftrightarrow> (case strategy of
      Equality \<Rightarrow> True
    | Threshold tot mn \<Rightarrow> 0 < unat mn \<and> unat mn \<le> length named mod 256
        \<and> (case tot of None \<Rightarrow> True | Some t \<Rightarrow> unat t = length named mod 256))"
    by (auto simp: word_less_nat_alt word_le_nat_alt word_unat_eq_iff len
         split: ConsensusStrategy.splits option.splits)
  let ?result = "and_then result (\<lambda>providers.
     if providers = [] then Err ProviderNotFound else Ok \<lparr>chain = network, chosen = providers\<rparr>)"
  have "Providers_new ops st source strategy now = Inr (?result, st)"
    by (simp add: Providers_new_def sup assms choice(1))
  moreover have "?result = Ok ps \<longleftrightarrow>
      ps = \<lparr>chain = network, chosen = sorted_list_of_set (set named)\<rparr> \<and> named \<noteq> [] \<and> ?ok" for ps
    by (auto simp: and_then_eq_Inr choice(2) btree_set_sorted_list split: if_splits)
  ultimately show ?thesis using sup ok by auto
qed

theorem Providers_new_named_witness:
  "\<exists>result. Providers_new ref_timed_ops (initial_memory ref_timed_ops ())
       (RpcServices.EthMainnet (Some [EthMainnetService.Ankr, EthMainnetService.Ankr]))
       (Threshold (Some 2) 2) 0 = Inr (result, initial_memory ref_timed_ops ())
     \<and> result = Ok \<lparr>chain = MAINNET, chosen = [RpcService.EthMainnet EthMainnetService.Ankr]\<rparr>"
proof -
  let ?source = "RpcServices.EthMainnet (Some [EthMainnetService.Ankr, EthMainnetService.Ankr])"
  have named: "user_defined_providers ?source
      = Some [RpcService.EthMainnet EthMainnetService.Ankr, RpcService.EthMainnet EthMainnetService.Ankr]"
    by simp
  from Providers_new_named [OF named, where ops = ref_timed_ops
        and st = "initial_memory ref_timed_ops ()" and strategy = "Threshold (Some 2) 2" and now = 0]
  obtain result where
    run: "Providers_new ref_timed_ops (initial_memory ref_timed_ops ()) ?source (Threshold (Some 2) 2) 0
        = Inr (result, initial_memory ref_timed_ops ())"
    and result: "\<And>ps. result = Ok ps \<longleftrightarrow>
       ps = \<lparr>chain = fst (supported_providers ?source),
             chosen = sorted_list_of_set (set [RpcService.EthMainnet EthMainnetService.Ankr,
               RpcService.EthMainnet EthMainnetService.Ankr])\<rparr> \<and> True \<and> True"
    by (elim exE conjE) simp
  have "result = Ok \<lparr>chain = MAINNET, chosen = [RpcService.EthMainnet EthMainnetService.Ankr]\<rparr>"
    by (subst result) simp
  with run show ?thesis by blast
qed

text \<open>A threshold can be unattainable although it is accepted: naming the same provider several times
  passes the checks against the number of names, but the set that is queried has a single provider.\<close>

theorem duplicate_names_defeat_threshold:
  "Providers_new ops st (RpcServices.EthMainnet (Some [s, s])) (Threshold (Some 2) 2) now
     = Inr (Ok \<lparr>chain = MAINNET, chosen = [RpcService.EthMainnet s]\<rparr>, st)"
  by (simp add: Providers_new_def choose_providers_def btree_set_def)

text \<open>The number of names is truncated to 8 bits: with 256 named providers every threshold is
  refused, with a message that contradicts itself.\<close>

theorem named_providers_truncated:
  "Providers_new ops st (RpcServices.Custom cid (replicate 256 api)) (Threshold None 1) now
     = Inr (Err (InvalidRpcConfig ''min 1 is greater than the number of specified providers 256''), st)"
proof -
  have "show_nat (unat (1 :: u8)) = ''1''" "show_nat 256 = ''256''"
    by code_simp+
  moreover have "of_nat (length (map RpcService.Custom (replicate 256 api))) = (0 :: u8)"
    by simp
  ultimately show ?thesis
    by (simp add: Providers_new_def choose_providers_def del: map_replicate)
qed

end
