(* ===== verification/Http_Outcall.thy ===== *)
theory Http_Outcall
  imports Key_Management Response_Transform
begin

section \<open>HTTP outcalls: requests, errors, charging and metrics\<close>

text \<open>
  \<^verbatim>\<open>src/http.rs\<close> and the counters of \<^verbatim>\<open>src/metrics.rs\<close>: building a request, the errors of the client stack
  and their conversion, the charging policy, the three observability callbacks, and the retry loop.

  The middleware is \<open>tower\<close> and \<open>canhttp\<close>. What it calls back into is modelled here; what an attempt
  returns is an arbitrary outcome, so that the theorems hold for every behaviour of the network. The
  callbacks of concurrent calls interleave: they are the steps of a transition system over the memory
  and the requests in flight.
\<close>

subsection \<open>Requests\<close>

record 'body http_request =
  hr_uri :: string
  hr_headers :: "(string \<times> string) list"
  hr_max_response_bytes :: u64
  hr_transform_name :: string
  hr_transform_context :: bytes
  hr_body :: 'body

text \<open>
  \<open>builder.max_response_bytes(..).transform_context(..).body(..)\<close>: the \<open>http\<close> crate reports here whether
  the URI and the headers of the builder were acceptable (\<open>build_error\<close>).
\<close>

definition build_request ::
  "(request_builder \<Rightarrow> string option) \<Rightarrow> request_builder \<Rightarrow> u64 \<Rightarrow> string \<Rightarrow> bytes \<Rightarrow> 'body
     \<Rightarrow> string + 'body http_request" where
  "build_request build_error builder max_response_bytes transform_name transform_context payload =
     (case build_error builder of
        Some e \<Rightarrow> Err e
      | None \<Rightarrow> Ok \<lparr>hr_uri = rb_uri builder, hr_headers = rb_headers builder,
                    hr_max_response_bytes = max_response_bytes, hr_transform_name = transform_name,
                    hr_transform_context = transform_context, hr_body = payload\<rparr>)"

definition json_rpc_request_arg ::
  "'rx regex_ops \<Rightarrow> (request_builder \<Rightarrow> string option) \<Rightarrow> (string \<Rightarrow> string + 'body)
     \<Rightarrow> ('m, 'lf) canister \<Rightarrow> ResolvedRpcService \<Rightarrow> string \<Rightarrow> u64
     \<Rightarrow> 'body http_request RpcResult trapping" where
  "json_rpc_request_arg rx build_error parse_request st service json_rpc_payload max_response_bytes =
     (case parse_request json_rpc_payload of
        Inl e \<Rightarrow> Inr (Err (RpcError.ValidationError (ValidationError.Custom
                   (''Invalid JSON RPC request: '' @ e))))
      | Inr payload \<Rightarrow>
          map_ok
            (\<lambda>posted. and_then posted (\<lambda>builder.
               map_err (\<lambda>e. RpcError.ValidationError (ValidationError.Custom (''Invalid request: '' @ e)))
                 (build_request build_error builder max_response_bytes ''__transform_json_rpc'' [] payload)))
            (ResolvedRpcService_post rx st service (get_override_provider st)))"

text \<open>\<open>generate_request_id\<close>: \<open>set_id\<close> is \<open>JsonRpcRequest::set_id\<close>.\<close>

definition generate_request_id ::
  "('body \<Rightarrow> u64 \<Rightarrow> 'body) \<Rightarrow> ('m, 'lf) canister \<Rightarrow> 'body http_request
     \<Rightarrow> 'body http_request \<times> ('m, 'lf) canister" where
  "generate_request_id set_id st request =
     (let (i, st') = next_request_id st
      in (request\<lparr>hr_body := set_id (hr_body request) i\<rparr>, st'))"

text \<open>
  \<open>service_request_builder\<close> stacks three middlewares of the libraries: set a header unless it is present,
  serialise the body, convert to the request type of the management canister.
\<close>

definition service_request_builder ::
  "(string \<Rightarrow> string \<Rightarrow> 'body http_request \<Rightarrow> 'body http_request)
     \<Rightarrow> ('body http_request \<Rightarrow> 'e + bytes http_request)
     \<Rightarrow> (bytes http_request \<Rightarrow> 'e + 'ic)
     \<Rightarrow> 'body http_request \<Rightarrow> 'e + 'ic" where
  "service_request_builder insert_header_if_not_present json_convert http_convert request =
     and_then
       (json_convert (insert_header_if_not_present
          CONTENT_TYPE_HEADER_LOWERCASE CONTENT_TYPE_VALUE request))
       http_convert"


subsection \<open>Errors of the client\<close>

datatype HttpClientError =
    IcErr RejectCode string
  | NotHandledError string
  | InsufficientCycles u128 u128
  | UnsuccessfulHttpResponse u16 bytes
  | InvalidJsonResponse u16 string string
  | InvalidJsonResponseId u16 string  \<comment> \<open>status and the error as displayed\<close>

text \<open>\<open>lossy\<close> is \<open>String::from_utf8_lossy\<close>.\<close>

fun RpcError_from_HttpClientError :: "(bytes \<Rightarrow> string) \<Rightarrow> HttpClientError \<Rightarrow> RpcError" where
  "RpcError_from_HttpClientError lossy (IcErr c msg) =
     RpcError.HttpOutcallError (HttpOutcallError.IcError (LegacyRejectionCode_from c) msg)"
| "RpcError_from_HttpClientError lossy (NotHandledError e) =
     RpcError.ValidationError (ValidationError.Custom e)"
| "RpcError_from_HttpClientError lossy (InsufficientCycles e r) =
     RpcError.ProviderError (TooFewCycles e r)"
| "RpcError_from_HttpClientError lossy (InvalidJsonResponse status b parsing) =
     RpcError.HttpOutcallError (InvalidHttpJsonRpcResponse status b (Some parsing))"
| "RpcError_from_HttpClientError lossy (UnsuccessfulHttpResponse status b) =
     RpcError.HttpOutcallError (InvalidHttpJsonRpcResponse status (lossy b) None)"
| "RpcError_from_HttpClientError lossy (InvalidJsonResponseId status e) =
     RpcError.ValidationError (ValidationError.Custom e)"

text \<open>\<open>ic_too_large\<close> is \<open>IcError::is_response_too_large\<close> of \<open>canhttp\<close>.\<close>

fun is_response_too_large :: "(RejectCode \<Rightarrow> string \<Rightarrow> bool) \<Rightarrow> HttpClientError \<Rightarrow> bool" where
  "is_response_too_large ic_too_large (IcErr c msg) = ic_too_large c msg"
| "is_response_too_large ic_too_large _ = False"


subsection \<open>Charging\<close>

record ChargingPolicyWithCollateral =
  charge_user :: bool
  collateral_cycles :: u128

definition ChargingPolicyWithCollateral_new :: "u32 \<Rightarrow> bool \<Rightarrow> u128 \<Rightarrow> ChargingPolicyWithCollateral" where
  "ChargingPolicyWithCollateral_new num_nodes_in_subnet charge collateral_cycles_per_node =
     \<lparr>charge_user = charge,
      collateral_cycles = saturating_mul collateral_cycles_per_node (ucast num_nodes_in_subnet)\<rparr>"

definition default_ChargingPolicyWithCollateral :: "('m, 'lf) canister \<Rightarrow> ChargingPolicyWithCollateral" where
  "default_ChargingPolicyWithCollateral st =
     ChargingPolicyWithCollateral_new (get_num_subnet_nodes st) (\<not> is_demo_active st)
       COLLATERAL_CYCLES_PER_NODE"

definition cycles_to_charge :: "ChargingPolicyWithCollateral \<Rightarrow> u128 \<Rightarrow> u128" where
  "cycles_to_charge self attached_cycles =
     (if charge_user self then saturating_add attached_cycles (collateral_cycles self) else 0)"


lemma charge_value:
  "unat (cycles_to_charge (default_ChargingPolicyWithCollateral st) attached) =
     (if IS_DEMO_ACTIVE st then 0
      else min (unat attached + 10000000 * unat (NUM_SUBNET_NODES st)) (2 ^ 128 - 1))"
proof -
  have nodes: "unat (ucast (NUM_SUBNET_NODES st) :: u128) = unat (NUM_SUBNET_NODES st)"
    by (simp add: unsigned_ucast_eq take_bit_nat_eq_self less_trans [OF unsigned_less])
  have "10000000 * unat (NUM_SUBNET_NODES st) \<le> 2 ^ 128 - 1"
    using unsigned_less [of "NUM_SUBNET_NODES st", where ?'a = nat] by simp
  then have "unat (saturating_mul COLLATERAL_CYCLES_PER_NODE (ucast (NUM_SUBNET_NODES st)))
      = 10000000 * unat (NUM_SUBNET_NODES st)"
    by (simp add: unat_saturating_mul nodes evm_constants)
  then show ?thesis
    by (simp add: cycles_to_charge_def default_ChargingPolicyWithCollateral_def
          ChargingPolicyWithCollateral_new_def is_demo_active_def get_num_subnet_nodes_def
          unat_saturating_add)
qed


subsection \<open>Canonical JSON\<close>

definition canonicalize_json ::
  "(bytes \<Rightarrow> 'json option) \<Rightarrow> ('json \<Rightarrow> bytes option) \<Rightarrow> bytes \<Rightarrow> bytes option" where
  "canonicalize_json from_slice to_vec txt = Option.bind (from_slice txt) to_vec"

definition transform_http_request ::
  "(bytes \<Rightarrow> 'json option) \<Rightarrow> ('json \<Rightarrow> bytes option) \<Rightarrow> TransformArgs \<Rightarrow> HttpResponse" where
  "transform_http_request from_slice to_vec args =
     \<lparr>resp_status = resp_status (ta_response args),
      resp_headers = [],
      resp_body = unwrap_or (resp_body (ta_response args))
        (canonicalize_json from_slice to_vec (resp_body (ta_response args)))\<rparr>"

definition hex_to_bytes :: "(string \<Rightarrow> bytes option) \<Rightarrow> string \<Rightarrow> bytes option" where
  "hex_to_bytes hex_decode h = (if \<not> starts_with h ''0x'' then None else hex_decode (drop 2 h))"


subsection \<open>Observability\<close>

record 'id MetricData =
  md_method :: MetricRpcMethod
  md_host :: MetricRpcHost
  md_request_id :: 'id

definition add_request :: "MetricRpcMethod \<times> MetricRpcHost \<Rightarrow> ('m, 'lf) canister \<Rightarrow> ('m, 'lf) canister" where
  "add_request k st =
     st\<lparr>UNSTABLE_METRICS := (UNSTABLE_METRICS st)
       \<lparr>requests := add_metric_entry (requests (UNSTABLE_METRICS st)) k 1\<rparr>\<rparr>"

definition observe_response ::
  "MetricRpcMethod \<Rightarrow> MetricRpcHost \<Rightarrow> u16 \<Rightarrow> ('m, 'lf) canister \<Rightarrow> ('m, 'lf) canister" where
  "observe_response method host status st =
     (let status32 = ucast status :: u32
      in st\<lparr>UNSTABLE_METRICS := (UNSTABLE_METRICS st)
           \<lparr>responses := add_metric_entry (responses (UNSTABLE_METRICS st))
              (method, host, MetricHttpStatusCode_from status32) 1\<rparr>\<rparr>)"

text \<open>The host of the request is unwrapped: a URI without host traps (\<open>uri_host\<close> is \<open>Uri::host\<close>).\<close>

definition on_request ::
  "(string \<Rightarrow> string option) \<Rightarrow> ('body \<Rightarrow> 'id) \<Rightarrow> MetricRpcMethod \<Rightarrow> 'body http_request
     \<Rightarrow> ('m, 'lf) canister \<Rightarrow> ('id MetricData \<times> ('m, 'lf) canister) trapping" where
  "on_request uri_host body_id rpc_method req st =
     (case uri_host (hr_uri req) of
        None \<Rightarrow> Inl ''called `Option::unwrap()` on a `None` value''
      | Some host \<Rightarrow>
          (let req_data = \<lparr>md_method = rpc_method, md_host = MetricRpcHost host,
                           md_request_id = body_id (hr_body req)\<rparr>
           in Inr (req_data, add_request (md_method req_data, md_host req_data) st)))"

definition on_response :: "'id MetricData \<Rightarrow> u16 \<Rightarrow> ('m, 'lf) canister \<Rightarrow> ('m, 'lf) canister" where
  "on_response req_data status st = observe_response (md_method req_data) (md_host req_data) status st"

fun on_error ::
  "(RejectCode \<Rightarrow> string \<Rightarrow> bool) \<Rightarrow> 'id MetricData \<Rightarrow> HttpClientError \<Rightarrow> ('m, 'lf) canister
     \<Rightarrow> ('m, 'lf) canister" where
  "on_error ic_too_large req_data (IcErr c msg) st =
     (if is_response_too_large ic_too_large (IcErr c msg)
      then st\<lparr>UNSTABLE_METRICS := (UNSTABLE_METRICS st)
             \<lparr>err_max_response_size_exceeded :=
                add_metric_entry (err_max_response_size_exceeded (UNSTABLE_METRICS st))
                  (md_method req_data, md_host req_data) 1\<rparr>\<rparr>
      else st\<lparr>UNSTABLE_METRICS := (UNSTABLE_METRICS st)
             \<lparr>err_http_outcall := add_metric_entry (err_http_outcall (UNSTABLE_METRICS st))
                (md_method req_data, md_host req_data, LegacyRejectionCode_from c) 1\<rparr>\<rparr>)"
| "on_error ic_too_large req_data (UnsuccessfulHttpResponse status b) st =
     observe_response (md_method req_data) (md_host req_data) status st"
| "on_error ic_too_large req_data (InvalidJsonResponse status b e) st =
     observe_response (md_method req_data) (md_host req_data) status st"
| "on_error ic_too_large req_data (InvalidJsonResponseId status e) st =
     observe_response (md_method req_data) (md_host req_data) status st"
| "on_error ic_too_large req_data (NotHandledError e) st = st"
| "on_error ic_too_large req_data (InsufficientCycles e r) st = st"


subsection \<open>The client of one call\<close>

text \<open>
  \<open>http_client(rpc_method, retry)\<close> on one request: with \<open>retry\<close>, every attempt gets a fresh request id
  and a failed attempt is repeated when the retry policy of \<open>canhttp\<close> returns a new request; the callbacks
  run around every attempt; the last error is converted. \<open>outcome i\<close> is what the rest of the stack
  returns for the \<open>i\<close>-th attempt, a response with its status or an error. The loop has fuel; running
  out is \<open>None\<close>.
\<close>

record ('body, 'id, 'resp) client_env =
  env_set_id :: "'body \<Rightarrow> u64 \<Rightarrow> 'body"
  env_body_id :: "'body \<Rightarrow> 'id"
  env_uri_host :: "string \<Rightarrow> string option"
  env_too_large :: "RejectCode \<Rightarrow> string \<Rightarrow> bool"
  env_lossy :: "bytes \<Rightarrow> string"
  env_retry_policy :: "'body http_request \<Rightarrow> HttpClientError \<Rightarrow> 'body http_request option"

fun http_client ::
  "nat \<Rightarrow> ('body, 'id, 'resp) client_env \<Rightarrow> MetricRpcMethod \<Rightarrow> bool
     \<Rightarrow> (nat \<Rightarrow> 'body http_request \<Rightarrow> HttpClientError + u16 \<times> 'resp) \<Rightarrow> nat
     \<Rightarrow> 'body http_request \<Rightarrow> ('m, 'lf) canister
     \<Rightarrow> (('resp RpcResult \<times> ('m, 'lf) canister) trapping) option" where
  "http_client 0 E rpc_method retry outcome i request st = None"
| "http_client (Suc fuel) E rpc_method retry outcome i request st =
     (let (req, st1) = (if retry then generate_request_id (env_set_id E) st request else (request, st))
      in case on_request (env_uri_host E) (env_body_id E) rpc_method req st1 of
           Inl trap \<Rightarrow> Some (Inl trap)
         | Inr (req_data, st2) \<Rightarrow>
             (case outcome i req of
                Inr (status, resp) \<Rightarrow> Some (Inr (Ok resp, on_response req_data status st2))
              | Inl e \<Rightarrow>
                  (let st3 = on_error (env_too_large E) req_data e st2
                   in case (if retry then env_retry_policy E request e else None) of
                        Some request' \<Rightarrow>
                          http_client fuel E rpc_method retry outcome (Suc i) request' st3
                      | None \<Rightarrow>
                          Some (Inr (Err (RpcError_from_HttpClientError (env_lossy E) e), st3)))))"

text \<open>A raw request is sent once, so that one unit of fuel is enough.\<close>

definition json_rpc_request ::
  "'rx regex_ops \<Rightarrow> (request_builder \<Rightarrow> string option) \<Rightarrow> (string \<Rightarrow> string + 'body)
     \<Rightarrow> ('body, 'id, 'resp) client_env \<Rightarrow> (nat \<Rightarrow> 'body http_request \<Rightarrow> HttpClientError + u16 \<times> 'resp)
     \<Rightarrow> ResolvedRpcService \<Rightarrow> string \<Rightarrow> u64 \<Rightarrow> ('m, 'lf) canister
     \<Rightarrow> (('resp RpcResult \<times> ('m, 'lf) canister) trapping) option" where
  "json_rpc_request rx build_error parse_request E outcome service json_rpc_payload max_response_bytes st =
     (case json_rpc_request_arg rx build_error parse_request st service json_rpc_payload max_response_bytes of
        Inl trap \<Rightarrow> Some (Inl trap)
      | Inr (Inl e) \<Rightarrow> Some (Inr (Err e, st))
      | Inr (Inr request) \<Rightarrow>
          http_client 1 E (MetricRpcMethod ''request'') False outcome 0 request st)"

text \<open>\<open>DoubleMaxResponseBytes\<close>: a retry at least doubles the maximum response size, up to two megabytes.\<close>

definition doubles_max_response_bytes ::
  "('body http_request \<Rightarrow> HttpClientError \<Rightarrow> 'body http_request option) \<Rightarrow> bool" where
  "doubles_max_response_bytes policy \<longleftrightarrow>
     (\<forall>req e req'. policy req e = Some req' \<longrightarrow>
        hr_max_response_bytes req < hr_max_response_bytes req'
        \<and> unat (hr_max_response_bytes req') \<le> 2000000
        \<and> (2 * unat (hr_max_response_bytes req) \<le> unat (hr_max_response_bytes req')
           \<or> unat (hr_max_response_bytes req') = 2000000))"

lemma http_client_no_retry:
  assumes "\<And>e. retry \<Longrightarrow> env_retry_policy E request e = None"
  shows "\<exists>r. http_client (Suc fuel) E rpc_method retry outcome i request st = Some r"
  using assms
  by (auto simp: Let_def split: prod.split sum.split option.split)

lemma http_client_step:
  fixes st :: "('m, 'lf) canister"
  assumes "\<And>e request' i (st :: ('m, 'lf) canister). retry \<Longrightarrow> env_retry_policy E request e = Some request' \<Longrightarrow>
      \<exists>r. http_client fuel E rpc_method retry outcome i request' st = Some r"
  shows "\<exists>r. http_client (Suc fuel) E rpc_method retry outcome i request st = Some r"
proof (cases retry)
  case True
  from assms [OF True] show ?thesis
    unfolding True by (auto simp: Let_def split: prod.split sum.split option.split)
next
  case False
  then show ?thesis by (auto simp: Let_def split: sum.split)
qed

lemma http_client_doubling:
  fixes st :: "('m, 'lf) canister"
  assumes "doubles_max_response_bytes (env_retry_policy E)"
    and "2000000 \<le> unat (hr_max_response_bytes request) * 2 ^ n"
  shows "\<exists>r. http_client (Suc n) E rpc_method retry outcome i request st = Some r"
  using assms(2)
proof (induction n arbitrary: request i st)
  case 0
  have "env_retry_policy E request e = None" for e
  proof (rule ccontr)
    assume "env_retry_policy E request e \<noteq> None"
    then obtain request' where "env_retry_policy E request e = Some request'" by blast
    with assms(1) have "hr_max_response_bytes request < hr_max_response_bytes request'"
      "unat (hr_max_response_bytes request') \<le> 2000000"
      by (auto simp: doubles_max_response_bytes_def)
    with 0 show False by (simp add: word_less_nat_alt)
  qed
  then show ?case by (rule http_client_no_retry)
next
  case (Suc n)
  show ?case
  proof (rule http_client_step)
    fix e request' i and st :: "('m, 'lf) canister"
    assume "env_retry_policy E request e = Some request'"
    with assms(1) have "2 * unat (hr_max_response_bytes request) \<le> unat (hr_max_response_bytes request')
        \<or> unat (hr_max_response_bytes request') = 2000000"
      by (auto simp: doubles_max_response_bytes_def)
    then have "2000000 \<le> unat (hr_max_response_bytes request') * 2 ^ n"
    proof
      assume "2 * unat (hr_max_response_bytes request) \<le> unat (hr_max_response_bytes request')"
      then have le: "2 * unat (hr_max_response_bytes request) * 2 ^ n
          \<le> unat (hr_max_response_bytes request') * 2 ^ n" by (rule mult_le_mono1)
      have eq: "2 * unat (hr_max_response_bytes request) * 2 ^ n
          = unat (hr_max_response_bytes request) * 2 ^ Suc n" by simp
      from Suc.prems le show ?thesis unfolding eq by (rule le_trans)
    qed simp
    then show "\<exists>r. http_client (Suc n) E rpc_method retry outcome i request' st = Some r"
      by (rule Suc.IH)
  qed
qed


subsection \<open>Interleaved calls\<close>

text \<open>
  The callbacks of concurrent calls. The history records what happened, by the keys of the counters; it is
  not part of the program.
\<close>

datatype event =
    Requested "MetricRpcMethod \<times> MetricRpcHost"
  | Answered "MetricRpcMethod \<times> MetricRpcHost \<times> MetricHttpStatusCode"
  | TooLarge "MetricRpcMethod \<times> MetricRpcHost"
  | Rejected "MetricRpcMethod \<times> MetricRpcHost \<times> LegacyRejectionCode"
  | Unobserved "MetricRpcMethod \<times> MetricRpcHost"

fun finished_key :: "event \<Rightarrow> (MetricRpcMethod \<times> MetricRpcHost) option" where
  "finished_key (Requested k) = None"
| "finished_key (Answered (m, h, s)) = Some (m, h)"
| "finished_key (TooLarge k) = Some k"
| "finished_key (Rejected (m, h, c)) = Some (m, h)"
| "finished_key (Unobserved k) = Some k"

definition answered :: "'id MetricData \<Rightarrow> u16 \<Rightarrow> event" where
  "answered d status = Answered (md_method d, md_host d, MetricHttpStatusCode_from (ucast status))"

fun failed :: "(RejectCode \<Rightarrow> string \<Rightarrow> bool) \<Rightarrow> 'id MetricData \<Rightarrow> HttpClientError \<Rightarrow> event" where
  "failed ic d (IcErr c msg) =
     (if ic c msg then TooLarge (md_method d, md_host d)
      else Rejected (md_method d, md_host d, LegacyRejectionCode_from c))"
| "failed ic d (UnsuccessfulHttpResponse status b) = answered d status"
| "failed ic d (InvalidJsonResponse status b e) = answered d status"
| "failed ic d (InvalidJsonResponseId status e) = answered d status"
| "failed ic d (NotHandledError e) = Unobserved (md_method d, md_host d)"
| "failed ic d (InsufficientCycles e r) = Unobserved (md_method d, md_host d)"

record ('m, 'lf, 'id) world =
  memory :: "('m, 'lf) canister"
  in_flight :: "'id MetricData list"
  history :: "event list"

text \<open>Everything else the canister does keeps the counters of this component.\<close>

definition keeps_outcall_counters :: "('m, 'lf) canister \<Rightarrow> ('m, 'lf) canister \<Rightarrow> bool" where
  "keeps_outcall_counters st st' \<longleftrightarrow>
     (\<exists>i. UNSTABLE_METRICS st' = (UNSTABLE_METRICS st)\<lparr>inconsistent_responses := i\<rparr>)"

inductive outcall_step ::
  "('body, 'id, 'resp) client_env \<Rightarrow> ('m, 'lf, 'id) world \<Rightarrow> ('m, 'lf, 'id) world \<Rightarrow> bool"
  for E :: "('body, 'id, 'resp) client_env" where
  send: "on_request (env_uri_host E) (env_body_id E) rpc_method req (memory w) = Inr (d, st') \<Longrightarrow>
    outcall_step E w
      \<lparr>memory = st', in_flight = d # in_flight w,
       history = Requested (md_method d, md_host d) # history w\<rparr>"
| receive: "in_flight w = ds @ d # ds' \<Longrightarrow>
    outcall_step E w
      \<lparr>memory = on_response d status (memory w), in_flight = ds @ ds',
       history = answered d status # history w\<rparr>"
| fail: "in_flight w = ds @ d # ds' \<Longrightarrow>
    outcall_step E w
      \<lparr>memory = on_error (env_too_large E) d e (memory w), in_flight = ds @ ds',
       history = failed (env_too_large E) d e # history w\<rparr>"
| other: "keeps_outcall_counters (memory w) st' \<Longrightarrow>
    outcall_step E w (w\<lparr>memory := st'\<rparr>)"

inductive_cases outcall_stepE: "outcall_step E w w'"

text \<open>A counter that has been incremented \<open>n\<close> times by one, from absent.\<close>

definition counter :: "nat \<Rightarrow> u64 option" where
  "counter n = (if n = 0 then None else Some (of_nat n))"

definition occurrences :: "event \<Rightarrow> event list \<Rightarrow> nat" where
  "occurrences e es = count_list es e"

definition counters_ok :: "('m, 'lf, 'id) world \<Rightarrow> bool" where
  "counters_ok w \<longleftrightarrow>
     requests (UNSTABLE_METRICS (memory w)) = (\<lambda>k. counter (occurrences (Requested k) (history w)))
     \<and> responses (UNSTABLE_METRICS (memory w)) = (\<lambda>k. counter (occurrences (Answered k) (history w)))
     \<and> err_max_response_size_exceeded (UNSTABLE_METRICS (memory w))
         = (\<lambda>k. counter (occurrences (TooLarge k) (history w)))
     \<and> err_http_outcall (UNSTABLE_METRICS (memory w))
         = (\<lambda>k. counter (occurrences (Rejected k) (history w)))
     \<and> cycles_charged (UNSTABLE_METRICS (memory w)) = Map.empty"

definition balance_ok :: "('m, 'lf, 'id) world \<Rightarrow> bool" where
  "balance_ok w \<longleftrightarrow>
     (\<forall>k. occurrences (Requested k) (history w)
          = length (filter (\<lambda>d. (md_method d, md_host d) = k) (in_flight w))
            + length (filter (\<lambda>e. finished_key e = Some k) (history w)))"

lemma add_metric_entry_counter:
  "add_metric_entry (\<lambda>k. counter (f k)) k 1 = (\<lambda>k'. counter (f k' + (if k = k' then 1 else 0)))"
  by (rule ext) (auto simp: add_metric_entry_def counter_def)

lemma occurrences_Cons [simp]:
  "occurrences e (e' # es) = occurrences e es + (if e' = e then 1 else 0)"
  by (simp add: occurrences_def)

lemma finished_key_answered [simp]: "finished_key (answered d status) = Some (md_method d, md_host d)"
  by (simp add: answered_def)

lemma finished_key_failed [simp]: "finished_key (failed ic d e) = Some (md_method d, md_host d)"
  by (cases e) simp_all

lemma occurrences_failed [simp]: "failed ic d e \<noteq> Requested k" "answered d status \<noteq> Requested k"
  using finished_key_failed [of ic d e] finished_key_answered [of d status] by (metis finished_key.simps(1) option.distinct(1))+

lemma observe_response_counters:
  assumes "counters_ok w"
  shows "counters_ok \<lparr>memory = observe_response (md_method d) (md_host d) status (memory w),
           in_flight = ds, history = answered d status # history w\<rparr>"
  using assms
  by (auto simp: counters_ok_def observe_response_def answered_def Let_def add_metric_entry_counter)

lemma on_error_counters:
  assumes "counters_ok w"
  shows "counters_ok \<lparr>memory = on_error ic d e (memory w), in_flight = ds, history = failed ic d e # history w\<rparr>"
  using assms observe_response_counters [OF assms]
  by (cases e)
    (auto simp: counters_ok_def add_metric_entry_counter)

lemma outcall_step_counters:
  assumes "outcall_step E w w'" "counters_ok w"
  shows "counters_ok w'"
  using assms
proof (cases rule: outcall_step.cases)
  case (send rpc_method req d st')
  then show ?thesis
    using assms(2)
    by (auto simp: counters_ok_def on_request_def add_request_def Let_def add_metric_entry_counter
         split: option.splits)
next
  case (receive ds d ds' status)
  then show ?thesis using observe_response_counters [OF assms(2)] by (simp add: on_response_def)
next
  case (fail ds d ds' e)
  then show ?thesis using on_error_counters [OF assms(2)] by simp
next
  case (other st')
  then show ?thesis using assms(2) by (auto simp: counters_ok_def keeps_outcall_counters_def)
qed

lemma outcall_step_balance:
  assumes "outcall_step E w w'" "balance_ok w"
  shows "balance_ok w'"
  using assms
  by (cases rule: outcall_step.cases) (auto simp: balance_ok_def)

interpretation counters: step_invariant "outcall_step E" counters_ok for E
  by unfold_locales (rule outcall_step_counters)

interpretation balance: step_invariant "outcall_step E" balance_ok for E
  by unfold_locales (rule outcall_step_balance)

lemma fresh_world:
  assumes "UNSTABLE_METRICS st = default_Metrics"
  shows "counters_ok \<lparr>memory = st, in_flight = [], history = []\<rparr>"
    and "balance_ok \<lparr>memory = st, in_flight = [], history = []\<rparr>"
  using assms
  by (simp_all add: counters_ok_def balance_ok_def default_Metrics_def occurrences_def counter_def)


subsection \<open>Building requests in a good state\<close>

lemma OverrideProvider_apply_cases:
  assumes "override_compiles rx p"
  shows "\<exists>api'. OverrideProvider_apply rx p api = Ok api'
    \<and> (case override_url p of
          None \<Rightarrow> api' = api
        | Some s \<Rightarrow> headers api' = None
            \<and> (\<exists>regex. compile rx (pattern s) = Ok regex
                 \<and> url api' = replace_all rx regex (url api) (replacement s)))"
  using assms
  by (auto simp: override_compiles_def OverrideProvider_apply_def Let_def split: option.splits)

lemma ResolvedRpcService_post_eq:
  "ResolvedRpcService_post rx st service ov =
     map_ok (\<lambda>api. map_ok
         (\<lambda>api. \<lparr>rb_uri = url api,
                  rb_headers = map (\<lambda>h. (hdr_name h, hdr_value h)) (unwrap_or [] (headers api))\<rparr>)
         (map_err
            (\<lambda>regex_error. RpcError.ValidationError (ValidationError.Custom
               (''BUG: regex should have been validated when initially set. Error: '' @ regex_error)))
            (OverrideProvider_apply rx ov api)))
       (case service of
          ResolvedRpcService.Api api \<Rightarrow> Inr api
        | ResolvedRpcService.Provider provider \<Rightarrow> Provider_api st provider)"
  by (simp add: ResolvedRpcService_post_def ResolvedRpcService_api_def map_ok_comp comp_def
        rb_add_headers_spec)

lemma ResolvedRpcService_post_ok:
  assumes "override_compiles rx ov"
  shows "ResolvedRpcService_post rx st service ov \<noteq> Inr (Inl e)"
proof
  assume "ResolvedRpcService_post rx st service ov = Inr (Inl e)"
  then obtain e' where "ResolvedRpcService_api rx st service ov = Inr (Inl e')"
    unfolding ResolvedRpcService_post_def map_ok_eq_Inr
    by (metis map_ok_eq_Inl)
  with ResolvedRpcService_api_override_ok [OF assms] show False by blast
qed


subsection \<open>Properties\<close>

text \<open>C2. The counters account for every call, in every interleaving: after any sequence of sends,
  answers, failures and other activity from fresh counters, each counter is absent if nothing was
  counted and otherwise the number of the corresponding events modulo \<open>2^64\<close>; and for every method and
  host the number of requests sent is the number of requests in flight plus the number of those that
  ended. The counter of charged cycles is always empty.\<close>

theorem outcall_metrics_account:
  assumes "(outcall_step E)\<^sup>*\<^sup>* \<lparr>memory = st, in_flight = [], history = []\<rparr> w"
    and "UNSTABLE_METRICS st = default_Metrics"
  defines "metrics \<equiv> UNSTABLE_METRICS (memory w)"
  shows "requests metrics k = counter (count_list (history w) (Requested k))
    \<and> responses metrics ks = counter (count_list (history w) (Answered ks))
    \<and> err_max_response_size_exceeded metrics k = counter (count_list (history w) (TooLarge k))
    \<and> err_http_outcall metrics kc = counter (count_list (history w) (Rejected kc))
    \<and> cycles_charged metrics = Map.empty
    \<and> count_list (history w) (Requested k)
        = length (filter (\<lambda>d. (md_method d, md_host d) = k) (in_flight w))
          + length (filter (\<lambda>e. finished_key e = Some k) (history w))"
  using counters.reachable [OF assms(1) fresh_world(1) [OF assms(2)]]
    balance.reachable [OF assms(1) fresh_world(2) [OF assms(2)], unfolded balance_ok_def, rule_format, of k]
  by (simp add: counters_ok_def occurrences_def metrics_def)

definition example_env :: "(unit, unit, unit) client_env" where
  "example_env =
     \<lparr>env_set_id = (\<lambda>b _. b), env_body_id = (\<lambda>_. ()), env_uri_host = Some,
      env_too_large = (\<lambda>_ _. False), env_lossy = (\<lambda>_. []),
      env_retry_policy = (\<lambda>req _. if hr_max_response_bytes req = 1 then Some (req\<lparr>hr_max_response_bytes := 2\<rparr>) else None)\<rparr>"

definition example_request :: "unit http_request" where
  "example_request =
     \<lparr>hr_uri = ''h'', hr_headers = [], hr_max_response_bytes = 1, hr_transform_name = [],
      hr_transform_context = [], hr_body = ()\<rparr>"

definition example_sent :: "(ref_usage, unit, unit) world" where
  "example_sent =
     \<lparr>memory = add_request (MetricRpcMethod ''m'', MetricRpcHost ''h'') (initial_memory ref_timed_ops ()),
      in_flight = [\<lparr>md_method = MetricRpcMethod ''m'', md_host = MetricRpcHost ''h'', md_request_id = ()\<rparr>],
      history = [Requested (MetricRpcMethod ''m'', MetricRpcHost ''h'')]\<rparr>"

lemma example_run:
  "outcall_step example_env
     \<lparr>memory = initial_memory ref_timed_ops (), in_flight = [], history = []\<rparr> example_sent"
  using outcall_step.send [of example_env "MetricRpcMethod ''m''" example_request
      "\<lparr>memory = initial_memory ref_timed_ops (), in_flight = [], history = []\<rparr>"]
  by (simp add: on_request_def example_env_def example_request_def example_sent_def)

theorem outcall_metrics_account_witness:
  "requests (UNSTABLE_METRICS (memory example_sent)) (MetricRpcMethod ''m'', MetricRpcHost ''h'') = Some 1"
  using outcall_metrics_account
    [OF r_into_rtranclp [of "outcall_step example_env", OF example_run],
      of "(MetricRpcMethod ''m'', MetricRpcHost ''h'')" undefined undefined]
  by (simp add: initial_memory_def counter_def) (simp add: example_sent_def)

text \<open>C22. A call ends: whatever the outcomes of its attempts are, the client with or without retries
  returns after at most 23 attempts, because every retry at least doubles the maximum response size and
  never exceeds two megabytes.\<close>

theorem http_client_returns:
  fixes st :: "('m, 'lf) canister"
  assumes "doubles_max_response_bytes (env_retry_policy E)"
  shows "\<exists>r. http_client 23 E rpc_method retry outcome i request st = Some r"
proof -
  have fuel: "\<exists>r. http_client 22 E rpc_method retry outcome i request st = Some r"
    if "0 < unat (hr_max_response_bytes request)" for i request and st :: "('m, 'lf) canister"
  proof -
    have "1 * 2 ^ 21 \<le> unat (hr_max_response_bytes request) * 2 ^ 21"
      using that by (intro mult_le_mono1) simp
    then have "2000000 \<le> unat (hr_max_response_bytes request) * 2 ^ 21" by simp
    from http_client_doubling [OF assms this] show ?thesis by simp
  qed
  have "\<exists>r. http_client (Suc 22) E rpc_method retry outcome i request st = Some r"
  proof (rule http_client_step)
    fix e request' i and st :: "('m, 'lf) canister"
    assume "env_retry_policy E request e = Some request'"
    with assms have "hr_max_response_bytes request < hr_max_response_bytes request'"
      by (auto simp: doubles_max_response_bytes_def)
    then have "0 < unat (hr_max_response_bytes request')" by (simp add: word_less_nat_alt)
    then show "\<exists>r. http_client 22 E rpc_method retry outcome i request' st = Some r" by (rule fuel)
  qed
  then show ?thesis by simp
qed

theorem http_client_returns_witness:
  "\<exists>r. http_client 23 example_env (MetricRpcMethod ''m'') True (\<lambda>_ _. Inl (NotHandledError [])) 0
     example_request (initial_memory ref_timed_ops ()) = Some r"
  by (rule http_client_returns) (auto simp: doubles_max_response_bytes_def example_env_def)

text \<open>What a call costs: nothing in demo mode; otherwise the attached cycles plus ten million cycles per
  node of the subnet, capped at the largest 128-bit number (the collateral itself never saturates).\<close>

theorem cycles_to_charge_exact:
  "unat (cycles_to_charge (default_ChargingPolicyWithCollateral st) attached) =
     (if IS_DEMO_ACTIVE st then 0
      else min (unat attached + 10000000 * unat (NUM_SUBNET_NODES st)) (2 ^ 128 - 1))"
  by (rule charge_value)

text \<open>
  Where a request to \<open>api\<close> goes under an override: to the rewriting of its URL by the compiled pattern, and
  then without any header; without an override to its own URL, with its own headers.
\<close>

definition addressed :: "'rx regex_ops \<Rightarrow> OverrideProvider \<Rightarrow> RpcApi \<Rightarrow> request_builder \<Rightarrow> bool" where
  "addressed rx ov api builder \<longleftrightarrow>
     (case override_url ov of
        None \<Rightarrow> builder = \<lparr>rb_uri = url api,
                  rb_headers = map (\<lambda>h. (hdr_name h, hdr_value h)) (unwrap_or [] (headers api))\<rparr>
      | Some s \<Rightarrow> \<exists>regex. compile rx (pattern s) = Ok regex
                  \<and> builder = \<lparr>rb_uri = replace_all rx regex (url api) (replacement s), rb_headers = []\<rparr>)"

lemma post_addressed:
  assumes "override_compiles rx ov"
    and "(case service of ResolvedRpcService.Api api \<Rightarrow> Inr api
          | ResolvedRpcService.Provider provider \<Rightarrow> Provider_api st provider) = Inr api"
  obtains builder where "ResolvedRpcService_post rx st service ov = Inr (Ok builder)" "addressed rx ov api builder"
  using OverrideProvider_apply_cases [OF assms(1), of api] assms(2)
  by (cases "override_url ov") (auto simp: ResolvedRpcService_post_eq addressed_def)

lemma post_traps:
  assumes "(case service of ResolvedRpcService.Api api \<Rightarrow> Inr api
          | ResolvedRpcService.Provider provider \<Rightarrow> Provider_api st provider) = Inl trap"
  shows "ResolvedRpcService_post rx st service ov = Inl trap"
  using assms by (simp add: ResolvedRpcService_post_eq)

text \<open>The one service whose address needs a key: provider 6 has no public URL.\<close>

definition key_missing :: "('m, 'lf) canister \<Rightarrow> ResolvedRpcService \<Rightarrow> bool" where
  "key_missing st service \<longleftrightarrow>
     (case service of
        ResolvedRpcService.Api api \<Rightarrow> False
      | ResolvedRpcService.Provider provider \<Rightarrow> provider_id provider = 6 \<and> API_KEY_MAP st 6 = None)"

lemma service_api_cases:
  assumes "resolve_rpc_service svc = Ok service"
  shows "if key_missing st service
    then \<exists>trap. (case service of ResolvedRpcService.Api api \<Rightarrow> Inr api
                | ResolvedRpcService.Provider provider \<Rightarrow> Provider_api st provider) = Inl trap
    else \<exists>api. (case service of ResolvedRpcService.Api api \<Rightarrow> Inr api
               | ResolvedRpcService.Provider provider \<Rightarrow> Provider_api st provider) = Inr api"
proof (cases service)
  case (Provider p)
  from resolved_provider_listed [OF assms [unfolded Provider]]
  have traps: "(\<exists>msg. Provider_api st p = Inl msg) \<longleftrightarrow> provider_id p = 6 \<and> get_api_key st 6 = None"
    by (rule Provider_api_traps_iff)
  then show ?thesis
    by (cases "Provider_api st p") (auto simp: Provider key_missing_def get_api_key_def)
qed (simp add: key_missing_def)

text \<open>C33. In a state with the canister's invariant, the request of a raw call for a known service is built as
  follows. A payload that does not parse is refused with the parser's message. Otherwise the call traps
  exactly when the service is provider 6 and its key is not stored; else exactly one builder is made: for
  the provider's URL and headers, or, under a stored override, for the rewriting of that URL and then
  without any header, so that no authorisation header reaches an overriding address. The call is refused
  exactly when the HTTP library refuses that builder, with its message, and otherwise sends it unchanged,
  with the parsed payload and the given size limit.\<close>

theorem json_rpc_request_arg_correct:
  assumes "canister_ok rx st" "resolve_rpc_service svc = Ok service"
  shows "case parse_request payload of
      Inl malformed \<Rightarrow>
        json_rpc_request_arg rx build_error parse_request st service payload max_bytes
          = Inr (Err (RpcError.ValidationError (ValidationError.Custom
              (''Invalid JSON RPC request: '' @ malformed))))
    | Inr body \<Rightarrow>
        (if key_missing st service
         then \<exists>trap. json_rpc_request_arg rx build_error parse_request st service payload max_bytes = Inl trap
         else \<exists>api builder.
           (case service of
              ResolvedRpcService.Api a \<Rightarrow> api = a
            | ResolvedRpcService.Provider provider \<Rightarrow> Provider_api st provider = Inr api)
           \<and> addressed rx (OVERRIDE_PROVIDER st) api builder
           \<and> json_rpc_request_arg rx build_error parse_request st service payload max_bytes
               = Inr (case build_error builder of
                   Some e \<Rightarrow> Err (RpcError.ValidationError (ValidationError.Custom (''Invalid request: '' @ e)))
                 | None \<Rightarrow> Ok \<lparr>hr_uri = rb_uri builder, hr_headers = rb_headers builder,
                       hr_max_response_bytes = max_bytes, hr_transform_name = ''__transform_json_rpc'',
                       hr_transform_context = [], hr_body = body\<rparr>))"
proof (cases "parse_request payload")
  case (Inl e)
  then show ?thesis by (simp add: json_rpc_request_arg_def)
next
  case (Inr body)
  note service_api = service_api_cases [OF assms(2), of st]
  have compiles: "override_compiles rx (OVERRIDE_PROVIDER st)" using assms(1) by (simp add: canister_ok_def)
  show ?thesis
  proof (cases "key_missing st service")
    case True
    with service_api obtain trap where
      "(case service of ResolvedRpcService.Api api \<Rightarrow> Inr api
        | ResolvedRpcService.Provider provider \<Rightarrow> Provider_api st provider) = Inl trap" by auto
    then have "ResolvedRpcService_post rx st service (OVERRIDE_PROVIDER st) = Inl trap" by (rule post_traps)
    with Inr True show ?thesis by (simp add: json_rpc_request_arg_def get_override_provider_def)
  next
    case False
    with service_api obtain api where
      api: "(case service of ResolvedRpcService.Api api \<Rightarrow> Inr api
             | ResolvedRpcService.Provider provider \<Rightarrow> Provider_api st provider) = Inr api" by auto
    obtain builder where builder: "ResolvedRpcService_post rx st service (OVERRIDE_PROVIDER st) = Inr (Ok builder)"
      "addressed rx (OVERRIDE_PROVIDER st) api builder"
      by (rule post_addressed [OF compiles api])
    have "case service of ResolvedRpcService.Api a \<Rightarrow> api = a
        | ResolvedRpcService.Provider provider \<Rightarrow> Provider_api st provider = Inr api"
      using api by (cases service) simp_all
    moreover have "json_rpc_request_arg rx build_error parse_request st service payload max_bytes
        = Inr (case build_error builder of
            Some e \<Rightarrow> Err (RpcError.ValidationError (ValidationError.Custom (''Invalid request: '' @ e)))
          | None \<Rightarrow> Ok \<lparr>hr_uri = rb_uri builder, hr_headers = rb_headers builder,
                hr_max_response_bytes = max_bytes, hr_transform_name = ''__transform_json_rpc'',
                hr_transform_context = [], hr_body = body\<rparr>)"
      using Inr builder(1)
      by (simp add: json_rpc_request_arg_def get_override_provider_def build_request_def split: option.split)
    ultimately show ?thesis using Inr False builder(2) by auto
  qed
qed

text \<open>A raw call to a custom API with a bearer token, in a canister whose override replaces every address.\<close>

definition overriding_state :: "(ref_usage, unit) canister" where
  "overriding_state = (initial_memory ref_timed_ops ())
     \<lparr>OVERRIDE_PROVIDER := \<lparr>override_url = Some \<lparr>pattern = ''.*'', replacement = ''local''\<rparr>\<rparr>\<rparr>"

theorem json_rpc_request_arg_correct_witness:
  "json_rpc_request_arg \<lparr>compile = Ok, replace_all = (\<lambda>r s t. t)\<rparr> (\<lambda>_. None) Ok overriding_state
      (ResolvedRpcService.Api \<lparr>url = ''u'', headers = Some [\<lparr>hdr_name = ''Authorization'', hdr_value = ''k''\<rparr>]\<rparr>)
      ''p'' 7
    = Inr (Ok \<lparr>hr_uri = ''local'', hr_headers = [], hr_max_response_bytes = 7,
        hr_transform_name = ''__transform_json_rpc'', hr_transform_context = [], hr_body = ''p''\<rparr>)"
proof -
  let ?api = "\<lparr>url = ''u'', headers = Some [\<lparr>hdr_name = ''Authorization'', hdr_value = ''k''\<rparr>]\<rparr>"
  let ?rx = "\<lparr>compile = Ok :: string \<Rightarrow> string + string, replace_all = (\<lambda>r s t. t)\<rparr>"
  have "canister_ok ?rx overriding_state"
    using canister_ok_initial [of ?rx ref_timed_ops "()"]
    by (simp add: canister_ok_def overriding_state_def override_compiles_def)
  moreover have "resolve_rpc_service (RpcService.Custom ?api) = Ok (ResolvedRpcService.Api ?api)" by simp
  ultimately show ?thesis
    using json_rpc_request_arg_correct [where rx = ?rx and st = overriding_state and svc = "RpcService.Custom ?api"
        and parse_request = Ok and payload = "''p''" and build_error = "\<lambda>_. None" and max_bytes = 7]
    by (simp add: key_missing_def addressed_def overriding_state_def)
qed

end
