(* ===== verification/Rpc_Client.thy ===== *)
theory Rpc_Client
  imports Provider_Selection Http_Outcall
begin

section \<open>The multi-provider client\<close>

text \<open>
  The second half of \<^verbatim>\<open>src/rpc_client/mod.rs\<close>: \<open>EthRpcClient\<close>, the parallel call of all chosen providers,
  the seven Ethereum methods and the reduction of their results.

  \<open>canhttp::multi\<close> is the record \<open>multi_ops\<close>: the two uses of \<open>MultiResults\<close> (the requests \<open>'rq\<close> and the
  results \<open>'rs\<close>), the fan-out over the HTTP client and the two reductions. \<open>multi_spec\<close> states what the
  code relies on.
\<close>

subsection \<open>The interface of canhttp::multi\<close>

datatype 'rs ReductionError = ConsistentError RpcError | InconsistentResults 'rs

type_synonym ('rs, 'o) ReducedResult = "'rs ReductionError + 'o"

record ('rq, 'rs, 'req, 'resp, 'o, 'st) multi_ops =
  mr_default :: 'rq
  mr_insert_once :: "'rq \<Rightarrow> RpcService \<Rightarrow> 'req RpcResult \<Rightarrow> 'rq trapping"
  mr_into_inner :: "'rq \<Rightarrow> (RpcService \<times> 'req) list \<times> (RpcService \<times> RpcError) list"
  mr_parallel_call :: "MetricRpcMethod \<Rightarrow> ('resp RpcResult \<Rightarrow> 'o RpcResult)
    \<Rightarrow> (RpcService \<times> 'req) list \<Rightarrow> 'st \<Rightarrow> ('rs \<times> 'st) trapping"
  mr_add_errors :: "'rs \<Rightarrow> (RpcService \<times> RpcError) list \<Rightarrow> 'rs trapping"
  mr_ok_keys :: "'rs \<Rightarrow> RpcService list"
  mr_len :: "'rs \<Rightarrow> nat"
  mr_into_iter :: "'rs \<Rightarrow> (RpcService \<times> 'o RpcResult) list"
  mr_reduce_equality :: "'rs \<Rightarrow> ('rs, 'o) ReducedResult"
  mr_reduce_threshold :: "u8 \<Rightarrow> 'rs \<Rightarrow> ('rs, 'o) ReducedResult"

text \<open>
  Inserting a new key files the request or the error under it, in key order; the fan-out returns one
  result per request; errors of other keys can be added; \<open>len\<close> and \<open>ok_results\<close> are those of the results.
\<close>

definition inserts_once :: "('rq, 'rs, 'req, 'resp, 'o, 'st) multi_ops \<Rightarrow> bool" where
  "inserts_once M \<longleftrightarrow>
     (\<forall>rq k r oks errs. mr_into_inner M rq = (oks, errs) \<and> k \<notin> fst ` set oks \<union> fst ` set errs \<longrightarrow>
        (\<exists>rq'. mr_insert_once M rq k r = Inr rq'
           \<and> mr_into_inner M rq' = (case r of
                Inr req \<Rightarrow> (insort_key fst (k, req) oks, errs)
              | Inl e \<Rightarrow> (oks, insort_key fst (k, e) errs))))"

definition calls_each :: "('rq, 'rs, 'req, 'resp, 'o, 'st) multi_ops \<Rightarrow> bool" where
  "calls_each M \<longleftrightarrow>
     (\<forall>m f reqs st rs st'. mr_parallel_call M m f reqs st = Inr (rs, st') \<and> distinct (map fst reqs) \<longrightarrow>
        distinct (map fst (mr_into_iter M rs)) \<and> fst ` set (mr_into_iter M rs) = fst ` set reqs)"

definition adds_errors :: "('rq, 'rs, 'req, 'resp, 'o, 'st) multi_ops \<Rightarrow> bool" where
  "adds_errors M \<longleftrightarrow>
     (\<forall>rs errs. distinct (map fst (mr_into_iter M rs) @ map fst errs) \<longrightarrow>
        (\<exists>rs'. mr_add_errors M rs errs = Inr rs'
           \<and> distinct (map fst (mr_into_iter M rs'))
           \<and> set (mr_into_iter M rs') = set (mr_into_iter M rs) \<union> (\<lambda>(k, e). (k, Inl e)) ` set errs))"

definition multi_spec :: "('rq, 'rs, 'req, 'resp, 'o, 'st) multi_ops \<Rightarrow> bool" where
  "multi_spec M \<longleftrightarrow>
     mr_into_inner M (mr_default M) = ([], [])
     \<and> inserts_once M \<and> calls_each M \<and> adds_errors M
     \<and> (\<forall>rs. mr_len M rs = length (mr_into_iter M rs))
     \<and> (\<forall>rs. mr_ok_keys M rs = map fst (filter (\<lambda>kr. \<not> isl (snd kr)) (mr_into_iter M rs)))"


subsection \<open>The client\<close>

record EthRpcClient =
  client_providers :: Providers
  client_config :: RpcConfig

definition EthRpcClient_new ::
  "('m, 'v) timed_map_ops \<Rightarrow> ('m, 'lf) canister \<Rightarrow> RpcServices \<Rightarrow> RpcConfig option \<Rightarrow> Timestamp
     \<Rightarrow> ((ProviderError + EthRpcClient) \<times> ('m, 'lf) canister) trapping" where
  "EthRpcClient_new ops st source config_opt now =
     (let config = unwrap_or default_RpcConfig config_opt;
          strategy = unwrap_or default_ConsensusStrategy (response_consensus config)
      in map_ok
           (\<lambda>(result, st').
              (map_ok (\<lambda>providers. \<lparr>client_providers = providers, client_config = config\<rparr>) result, st'))
           (Providers_new ops st source strategy now))"

definition client_response_size_estimate :: "EthRpcClient \<Rightarrow> u64 \<Rightarrow> ResponseSizeEstimate trapping" where
  "client_response_size_estimate self estimate =
     ResponseSizeEstimate_new (unwrap_or estimate (response_size_estimate (client_config self)))"

datatype ReductionStrategy = ByEquality | ByThreshold u8

primrec ReductionStrategy_from :: "ConsensusStrategy \<Rightarrow> ReductionStrategy" where
  "ReductionStrategy_from Equality = ByEquality"
| "ReductionStrategy_from (Threshold tot mn) = ByThreshold mn"

definition consensus_strategy :: "EthRpcClient \<Rightarrow> ReductionStrategy" where
  "consensus_strategy self =
     ReductionStrategy_from
       (unwrap_or default_ConsensusStrategy (response_consensus (client_config self)))"

primrec reduce_with ::
  "('rq, 'rs, 'req, 'resp, 'o, 'st) multi_ops \<Rightarrow> ReductionStrategy \<Rightarrow> 'rs \<Rightarrow> ('rs, 'o) ReducedResult"
where
  "reduce_with M ByEquality results = mr_reduce_equality M results"
| "reduce_with M (ByThreshold mn) results = mr_reduce_threshold M mn results"

text \<open>What the client is called with besides the canister's memory.\<close>

record ('m, 'v, 'rx) rpc_env =
  re_timed :: "('m, 'v) timed_map_ops"
  re_regex :: "'rx regex_ops"
  re_build_error :: "request_builder \<Rightarrow> string option"
  re_encode :: "ResponseTransform \<Rightarrow> bytes"  \<comment> \<open>\<open>minicbor::encode\<close>\<close>
  re_time :: Timestamp  \<comment> \<open>the time when the results are in\<close>

definition transform_op :: "('m, 'v, 'rx) rpc_env \<Rightarrow> payload \<Rightarrow> bytes" where
  "transform_op R kind = unwrap_or [] (map_option (re_encode R) (response_transform kind))"

text \<open>The request of one provider: an error of the provider is kept, an invalid request traps.\<close>

definition provider_request ::
  "('m, 'v, 'rx) rpc_env \<Rightarrow> ('m, 'lf) canister \<Rightarrow> bytes \<Rightarrow> u64 \<Rightarrow> 'body \<Rightarrow> RpcService
     \<Rightarrow> 'body http_request RpcResult trapping" where
  "provider_request R st transform_context max_response_bytes content provider =
     (case map_err RpcError.ProviderError (resolve_rpc_service provider) of
        Inl e \<Rightarrow> Inr (Err e)
      | Inr rpc_service \<Rightarrow>
          and_then (ResolvedRpcService_post (re_regex R) st rpc_service (get_override_provider st))
            (\<lambda>posted. case posted of
               Inl e \<Rightarrow> Inr (Err e)
             | Inr builder \<Rightarrow>
                 map_err (\<lambda>e. ''BUG: invalid request: '' @ e)
                   (map_ok Ok (build_request (re_build_error R) builder max_response_bytes
                      ''cleanup_response'' transform_context content))))"

fun insert_requests ::
  "('rq, 'rs, 'req, 'resp, 'o, 'st) multi_ops \<Rightarrow> (RpcService \<Rightarrow> 'req RpcResult trapping)
     \<Rightarrow> RpcService list \<Rightarrow> 'rq \<Rightarrow> 'rq trapping" where
  "insert_requests M request [] rqs = Inr rqs"
| "insert_requests M request (provider # providers) rqs =
     and_then (request provider) (\<lambda>r.
       and_then (mr_insert_once M rqs provider r) (insert_requests M request providers))"

text \<open>\<open>client.map_result\<close>: a JSON-RPC error of the answer becomes an error of the call.\<close>

definition into_rpc_result :: "('d JsonRpcErr + 'o) RpcResult \<Rightarrow> 'o RpcResult" where
  "into_rpc_result r =
     and_then r (\<lambda>answer. map_err
       (\<lambda>json_rpc_error. RpcError.JsonRpcError
          \<lparr>json_rpc_code = err_code json_rpc_error, json_rpc_message = err_message json_rpc_error\<rparr>) answer)"

definition parallel_call ::
  "('m, 'v, 'rx) rpc_env
     \<Rightarrow> ('rq, 'rs, 'body http_request, 'd JsonRpcErr + 'o, 'o, ('m, 'lf) canister) multi_ops
     \<Rightarrow> (string \<Rightarrow> 'p \<Rightarrow> 'body) \<Rightarrow> EthRpcClient \<Rightarrow> string \<Rightarrow> 'p \<Rightarrow> payload \<Rightarrow> ResponseSizeEstimate
     \<Rightarrow> ('m, 'lf) canister \<Rightarrow> ('rs \<times> ('m, 'lf) canister) trapping" where
  "parallel_call R M new_request self rpc_name params kind estimate st =
     (let providers = chosen (client_providers self)
      in and_then
           (insert_requests M
              (provider_request R st (transform_op R kind) (size_estimate estimate) (new_request rpc_name params))
              providers (mr_default M))
           (\<lambda>collected.
              let (rqs, errors) = mr_into_inner M collected
              in and_then (mr_parallel_call M (MetricRpcMethod rpc_name) into_rpc_result rqs st)
                   (\<lambda>(results, st1).
                      and_then (mr_add_errors M results errors)
                        (\<lambda>results'.
                           let services = List.map_filter SupportedRpcService_new (mr_ok_keys M results');
                               st2 = fold (\<lambda>service st. record_ok_result (re_timed R) st service (re_time R))
                                       services st1
                           in if mr_len M results' = length providers
                              then Inr (results', st2)
                              else Inl ''BUG: expected 1 result per provider''))))"

text \<open>Every method: estimate, parallel call, reduction.\<close>

definition call_and_reduce ::
  "('m, 'v, 'rx) rpc_env
     \<Rightarrow> ('rq, 'rs, 'body http_request, 'd JsonRpcErr + 'o, 'o, ('m, 'lf) canister) multi_ops
     \<Rightarrow> (string \<Rightarrow> 'p \<Rightarrow> 'body) \<Rightarrow> EthRpcClient \<Rightarrow> string \<Rightarrow> 'p \<Rightarrow> payload \<Rightarrow> u64
     \<Rightarrow> ('m, 'lf) canister \<Rightarrow> (('rs, 'o) ReducedResult \<times> ('m, 'lf) canister) trapping" where
  "call_and_reduce R M new_request self rpc_name params kind estimate st =
     and_then (client_response_size_estimate self estimate) (\<lambda>e.
       map_ok (\<lambda>(results, st'). (reduce_with M (consensus_strategy self) results, st'))
         (parallel_call R M new_request self rpc_name params kind e st))"

definition eth_get_logs where
  "eth_get_logs R M new_request self (params :: GetLogsParam) =
     call_and_reduce R M new_request self ''eth_getLogs'' [params] LogEntriesPayload
       (1024 + HEADER_SIZE_LIMIT)"

definition expected_block_size :: "EthereumNetwork \<Rightarrow> u64" where
  "expected_block_size network =
     (if network = SEPOLIA then 12 * 1024 else if network = MAINNET then 24 * 1024 else 24 * 1024)"

definition eth_get_block_by_number where
  "eth_get_block_by_number R M new_request self spec =
     call_and_reduce R M new_request self ''eth_getBlockByNumber''
       \<lparr>gbn_block = spec, include_full_transactions = False\<rparr> BlockPayload
       (expected_block_size (chain (client_providers self)) + HEADER_SIZE_LIMIT)"

definition eth_get_transaction_receipt where
  "eth_get_transaction_receipt R M new_request self (tx_hash :: Hash) =
     call_and_reduce R M new_request self ''eth_getTransactionReceipt'' [tx_hash]
       (OptionPayload TransactionReceiptPayload) (700 + HEADER_SIZE_LIMIT)"

definition eth_fee_history where
  "eth_fee_history R M new_request self (params :: FeeHistoryParams) =
     call_and_reduce R M new_request self ''eth_feeHistory'' params FeeHistoryPayload
       (512 + HEADER_SIZE_LIMIT)"

definition eth_send_raw_transaction where
  "eth_send_raw_transaction R M new_request self (raw_signed_transaction_hex :: string) =
     call_and_reduce R M new_request self ''eth_sendRawTransaction'' [raw_signed_transaction_hex]
       SendRawTransactionPayload (256 + HEADER_SIZE_LIMIT)"

definition eth_get_transaction_count where
  "eth_get_transaction_count R M new_request self (params :: GetTransactionCountParams) =
     call_and_reduce R M new_request self ''eth_getTransactionCount'' params TransactionCountPayload
       (50 + HEADER_SIZE_LIMIT)"

definition eth_call where
  "eth_call R M new_request self (params :: EthCallParams) =
     call_and_reduce R M new_request self ''eth_call'' params DataPayload (256 + HEADER_SIZE_LIMIT)"


subsection \<open>One result per provider\<close>

lemma insert_inner:
  assumes "multi_spec M" "mr_into_inner M rq = (oks, errs)" "k \<notin> fst ` set oks \<union> fst ` set errs"
  obtains rq' where "mr_insert_once M rq k r = Inr rq'"
    "mr_into_inner M rq' = (case r of Inr req \<Rightarrow> (insort_key fst (k, req) oks, errs)
                                    | Inl e \<Rightarrow> (oks, insort_key fst (k, e) errs))"
proof -
  have "inserts_once M" using assms(1) by (simp add: multi_spec_def)
  from this [unfolded inserts_once_def, rule_format, OF conjI, OF assms(2,3)] show thesis
    using that by blast
qed

lemma call_keys:
  assumes "multi_spec M" "mr_parallel_call M m f reqs st = Inr (rs, st')" "distinct (map fst reqs)"
  shows "distinct (map fst (mr_into_iter M rs))" "fst ` set (mr_into_iter M rs) = fst ` set reqs"
proof -
  have "calls_each M" using assms(1) by (simp add: multi_spec_def)
  from this [unfolded calls_each_def, rule_format, OF conjI, OF assms(2,3)]
  show "distinct (map fst (mr_into_iter M rs))" "fst ` set (mr_into_iter M rs) = fst ` set reqs"
    by blast+
qed

lemma add_errors_keys:
  assumes "multi_spec M" "distinct (map fst (mr_into_iter M rs) @ map fst errs)"
  obtains rs' where "mr_add_errors M rs errs = Inr rs'" "distinct (map fst (mr_into_iter M rs'))"
    "set (mr_into_iter M rs') = set (mr_into_iter M rs) \<union> (\<lambda>(k, e). (k, Inl e)) ` set errs"
proof -
  have "adds_errors M" using assms(1) by (simp add: multi_spec_def)
  from this [unfolded adds_errors_def, rule_format, OF assms(2)] show thesis
    using that by blast
qed

lemma insert_request_step:
  assumes M: "multi_spec M" and "mr_into_inner M rq = (oks, errs)"
    and "distinct (map fst oks @ map fst errs @ p # ps)"
  obtains rq' oks1 errs1 where "mr_insert_once M rq p r = Inr rq'" "mr_into_inner M rq' = (oks1, errs1)"
    "distinct (map fst oks1 @ map fst errs1 @ ps)"
    "fst ` set oks1 \<union> fst ` set errs1 = insert p (fst ` set oks \<union> fst ` set errs)"
    "set errs1 = set errs \<union> {(q, e). q = p \<and> r = Inl e}"
proof -
  from assms(3) have new: "p \<notin> fst ` set oks \<union> fst ` set errs" by auto
  obtain rq' where
    rq': "mr_insert_once M rq p r = Inr rq'"
      "mr_into_inner M rq' = (case r of Inr req \<Rightarrow> (insort_key fst (p, req) oks, errs)
                                      | Inl e \<Rightarrow> (oks, insort_key fst (p, e) errs))"
    by (rule insert_inner [OF M assms(2) new])
  obtain oks1 errs1 where inner: "mr_into_inner M rq' = (oks1, errs1)"
    by (cases "mr_into_inner M rq'")
  have keys: "fst ` set oks1 \<union> fst ` set errs1 = insert p (fst ` set oks \<union> fst ` set errs)"
    "set errs1 = set errs \<union> {(q, e). q = p \<and> r = Inl e}"
    using rq'(2) inner by (cases r; auto simp: set_insort_key)+
  have "mset (map fst oks1 @ map fst errs1) = add_mset p (mset (map fst oks @ map fst errs))"
    using rq'(2) inner by (cases r) (auto simp: mset_insort)
  moreover have "distinct (p # map fst oks @ map fst errs)" using assms(3) new by auto
  ultimately have "distinct (map fst oks1 @ map fst errs1)"
    by (metis mset.simps(2) mset_eq_imp_distinct_iff)
  moreover have "(fst ` set oks1 \<union> fst ` set errs1) \<inter> set ps = {}"
    unfolding keys(1) using assms(3) by auto
  ultimately have "distinct (map fst oks1 @ map fst errs1 @ ps)"
    using assms(3) by (simp add: Int_Un_distrib Int_Un_distrib2)
  then show thesis by (rule that [OF rq'(1) inner _ keys])
qed

text \<open>What the requests hold after \<open>ps\<close> were added to \<open>oks\<close> and \<open>errs\<close>: every provider once, errors with their cause.\<close>

definition requests_hold where
  "requests_hold M request ps oks errs rq \<longleftrightarrow>
     (\<exists>oks' errs'. mr_into_inner M rq = (oks', errs')
        \<and> distinct (map fst oks' @ map fst errs')
        \<and> fst ` set oks' \<union> fst ` set errs' = fst ` set oks \<union> fst ` set errs \<union> set ps
        \<and> set errs' = set errs \<union> {(p, e). p \<in> set ps \<and> request p = Inr (Inl e)})"

lemma requests_hold_Cons:
  assumes "requests_hold M request ps oks1 errs1 rq" "request p = Inr r"
    and "fst ` set oks1 \<union> fst ` set errs1 = insert p (fst ` set oks \<union> fst ` set errs)"
    and "set errs1 = set errs \<union> {(q, e). q = p \<and> r = Inl e}"
  shows "requests_hold M request (p # ps) oks errs rq"
proof -
  from assms(1) obtain oks' errs' where out: "mr_into_inner M rq = (oks', errs')" "distinct (map fst oks' @ map fst errs')"
    "fst ` set oks' \<union> fst ` set errs' = fst ` set oks1 \<union> fst ` set errs1 \<union> set ps"
    "set errs' = set errs1 \<union> {(p, e). p \<in> set ps \<and> request p = Inr (Inl e)}"
    unfolding requests_hold_def by blast
  have "fst ` set oks' \<union> fst ` set errs' = fst ` set oks \<union> fst ` set errs \<union> set (p # ps)"
    unfolding out(3) assms(3) by auto
  moreover have "set errs' = set errs \<union> {(q, e). q \<in> set (p # ps) \<and> request q = Inr (Inl e)}"
    unfolding out(4) assms(4) using assms(2) by auto
  ultimately show ?thesis unfolding requests_hold_def using out(1,2) by blast
qed

lemma insert_requests_correct:
  assumes M: "multi_spec M"
    and "mr_into_inner M rq = (oks, errs)"
    and "distinct (map fst oks @ map fst errs @ ps)"
  shows "case insert_requests M request ps rq of
      Inl trap \<Rightarrow> (\<exists>p \<in> set ps. request p = Inl trap)
    | Inr rq' \<Rightarrow> requests_hold M request ps oks errs rq'"
  using assms(2,3)
proof (induction ps arbitrary: rq oks errs)
  case Nil
  then show ?case by (auto simp: requests_hold_def)
next
  case (Cons p ps)
  show ?case
  proof (cases "request p")
    case (Inr r)
    obtain rq' oks1 errs1 where rq': "mr_insert_once M rq p r = Inr rq'"
      and inner: "mr_into_inner M rq' = (oks1, errs1)"
      and fresh: "distinct (map fst oks1 @ map fst errs1 @ ps)"
      and keys: "fst ` set oks1 \<union> fst ` set errs1 = insert p (fst ` set oks \<union> fst ` set errs)"
        "set errs1 = set errs \<union> {(q, e). q = p \<and> r = Inl e}"
      by (rule insert_request_step [OF M Cons.prems])
    have step: "insert_requests M request (p # ps) rq = insert_requests M request ps rq'"
      using Inr rq' by simp
    note IH = Cons.IH [OF inner fresh]
    show ?thesis
    proof (cases "insert_requests M request ps rq'")
      case (Inl trap)
      with IH show ?thesis unfolding step by auto
    next
      case ended: (Inr rq'')
      with IH have "requests_hold M request ps oks1 errs1 rq''" by simp
      then have "requests_hold M request (p # ps) oks errs rq''"
        using Inr keys by (rule requests_hold_Cons)
      with ended show ?thesis unfolding step by simp
    qed
  qed simp
qed

text \<open>Adding the errors of the requests that could not be built completes the results: one for each provider.\<close>

lemma results_with_errors:
  assumes "multi_spec M" "distinct ps"
    and "distinct (map fst oks @ map fst errs)" "fst ` set oks \<union> fst ` set errs = set ps"
    and "mr_parallel_call M method into oks st = Inr (rs, st1)"
  obtains rs' where "mr_add_errors M rs errs = Inr rs'" "distinct (map fst (mr_into_iter M rs'))"
    "fst ` set (mr_into_iter M rs') = set ps" "mr_len M rs' = length ps"
    "set (mr_into_iter M rs') = set (mr_into_iter M rs) \<union> (\<lambda>(k, e). (k, Inl e)) ` set errs"
proof -
  from assms(3) have "distinct (map fst oks)" by simp
  note keys = call_keys [OF assms(1,5) this]
  have "distinct (map fst (mr_into_iter M rs) @ map fst errs)"
    using keys assms(3) by simp
  then obtain rs' where rs': "mr_add_errors M rs errs = Inr rs'" "distinct (map fst (mr_into_iter M rs'))"
    "set (mr_into_iter M rs') = set (mr_into_iter M rs) \<union> (\<lambda>(k, e). (k, Inl e)) ` set errs"
    by (rule add_errors_keys [OF assms(1)])
  have all: "fst ` set (mr_into_iter M rs') = set ps"
    unfolding rs'(3) image_Un keys(2) using assms(4) by (force simp: image_image split_def)
  then have "length (map fst (mr_into_iter M rs')) = length ps"
    using distinct_card [OF rs'(2)] distinct_card [OF assms(2)] by simp
  then have "mr_len M rs' = length ps" using assms(1) by (simp add: multi_spec_def)
  with rs' all show thesis using that by blast
qed

lemma parallel_call_results:
  assumes "multi_spec M" "distinct (chosen (client_providers self))"
  shows "case parallel_call R M new_request self rpc_name params kind estimate st of
      Inl trap \<Rightarrow>
        (\<exists>p \<in> set (chosen (client_providers self)).
           provider_request R st (transform_op R kind) (size_estimate estimate)
             (new_request rpc_name params) p = Inl trap)
        \<or> (\<exists>reqs. mr_parallel_call M (MetricRpcMethod rpc_name) into_rpc_result reqs st = Inl trap)
    | Inr (results, st') \<Rightarrow>
        distinct (map fst (mr_into_iter M results))
        \<and> fst ` set (mr_into_iter M results) = set (chosen (client_providers self))
        \<and> (\<forall>p \<in> set (chosen (client_providers self)). \<forall>e.
             provider_request R st (transform_op R kind) (size_estimate estimate)
               (new_request rpc_name params) p = Inr (Inl e)
             \<longrightarrow> (p, Inl e) \<in> set (mr_into_iter M results))"
proof -
  let ?ps = "chosen (client_providers self)"
  let ?request = "provider_request R st (transform_op R kind) (size_estimate estimate) (new_request rpc_name params)"
  have inner: "mr_into_inner M (mr_default M) = ([], [])" using assms(1) by (simp add: multi_spec_def)
  note inserted = insert_requests_correct [OF assms(1) inner, of ?ps ?request, simplified, OF assms(2)]
  show ?thesis
  proof (cases "insert_requests M ?request ?ps (mr_default M)")
    case (Inl trap)
    with inserted show ?thesis by (simp add: parallel_call_def Let_def)
  next
    case (Inr rq)
    with inserted obtain oks errs where
      rq: "mr_into_inner M rq = (oks, errs)" "distinct (map fst oks @ map fst errs)"
        "fst ` set oks \<union> fst ` set errs = set ?ps"
        "set errs = {(p, e). p \<in> set ?ps \<and> ?request p = Inr (Inl e)}" by (auto simp: requests_hold_def)
    show ?thesis
    proof (cases "mr_parallel_call M (MetricRpcMethod rpc_name) into_rpc_result oks st")
      case trap: (Inl trap)
      with Inr rq(1) show ?thesis by (auto simp: parallel_call_def Let_def)
    next
      case run: (Inr out)
      obtain rs st1 where out: "out = (rs, st1)" by (cases out)
      obtain rs' where rs': "mr_add_errors M rs errs = Inr rs'" "distinct (map fst (mr_into_iter M rs'))"
        "fst ` set (mr_into_iter M rs') = set ?ps" "mr_len M rs' = length ?ps"
        "set (mr_into_iter M rs') = set (mr_into_iter M rs) \<union> (\<lambda>(k, e). (k, Inl e)) ` set errs"
        by (rule results_with_errors [OF assms rq(2,3) run [unfolded out]])
      then have "parallel_call R M new_request self rpc_name params kind estimate st
          = Inr (rs', fold (\<lambda>service st. record_ok_result (re_timed R) st service (re_time R))
              (List.map_filter SupportedRpcService_new (mr_ok_keys M rs')) st1)"
        using Inr rq(1) run out by (simp add: parallel_call_def Let_def)
      moreover have "(p, Inl e) \<in> set (mr_into_iter M rs')"
        if "p \<in> set ?ps" "?request p = Inr (Inl e)" for p e
        using that rq(4) by (force simp: rs'(5))
      ultimately show ?thesis using rs'(2,3) by simp
    qed
  qed
qed

lemma parallel_call_keys:
  assumes "multi_spec M" "distinct (chosen (client_providers self))"
    and "parallel_call R M new_request self rpc_name params kind estimate st = Inr (results, st')"
  shows "distinct (map fst (mr_into_iter M results))
    \<and> fst ` set (mr_into_iter M results) = set (chosen (client_providers self))"
  using parallel_call_results [OF assms(1,2), where R = R and new_request = new_request and rpc_name = rpc_name
      and params = params and kind = kind and estimate = estimate and st = st]
  by (simp add: assms(3))


subsection \<open>A reference instance of the interface\<close>

text \<open>Association lists, and a network on which every provider gives the same answer.
A reduction by threshold takes the first result that enough providers share.\<close>

definition ref_multi ::
  "'resp RpcResult \<Rightarrow> ((RpcService \<times> 'req) list \<times> (RpcService \<times> RpcError) list,
     (RpcService \<times> 'o RpcResult) list, 'req, 'resp, 'o, 'st) multi_ops" where
  "ref_multi answer =
     \<lparr>mr_default = ([], []),
      mr_insert_once = (\<lambda>(oks, errs) k r.
        if k \<in> fst ` set oks \<union> fst ` set errs then Inl ''duplicate key''
        else Inr (case r of Inr req \<Rightarrow> (insort_key fst (k, req) oks, errs)
                          | Inl e \<Rightarrow> (oks, insort_key fst (k, e) errs))),
      mr_into_inner = (\<lambda>rq. rq),
      mr_parallel_call = (\<lambda>m f reqs st. Inr (map (\<lambda>(k, req). (k, f answer)) reqs, st)),
      mr_add_errors = (\<lambda>rs errs. Inr (rs @ map (\<lambda>(k, e). (k, Inl e)) errs)),
      mr_ok_keys = (\<lambda>rs. map fst (filter (\<lambda>kr. \<not> isl (snd kr)) rs)),
      mr_len = length,
      mr_into_iter = (\<lambda>rs. rs),
      mr_reduce_equality = (\<lambda>rs.
        case rs of
          [] \<Rightarrow> Inl (InconsistentResults rs)
        | (k, first) # _ \<Rightarrow>
            (if list_all (\<lambda>kr. snd kr = first) rs then map_err ConsistentError first
             else Inl (InconsistentResults rs))),
      mr_reduce_threshold = (\<lambda>mn rs.
        case find (\<lambda>kr. \<not> isl (snd kr)
                     \<and> unat mn \<le> card (set (map fst (filter (\<lambda>kr'. snd kr' = snd kr) rs)))) rs of
          None \<Rightarrow> Inl (InconsistentResults rs)
        | Some kr \<Rightarrow> map_err ConsistentError (snd kr))\<rparr>"

lemma ref_multi_spec: "multi_spec (ref_multi answer)"
proof -
  have "inserts_once (ref_multi answer)"
    by (auto simp: inserts_once_def ref_multi_def)
  moreover have "calls_each (ref_multi answer)"
    by (simp add: calls_each_def ref_multi_def image_image comp_def split_def)
  moreover have "adds_errors (ref_multi answer)"
    by (simp add: adds_errors_def ref_multi_def image_image comp_def split_def)
  ultimately show ?thesis by (simp add: multi_spec_def ref_multi_def)
qed


subsection \<open>Properties\<close>

text \<open>C11. Querying all chosen providers traps only if the request of some provider traps or the fan-out
  itself does; otherwise there is exactly one result per chosen provider (so the final assertion never
  fires), a provider whose request could not be built keeps that error, and no other provider gets a
  result from it.\<close>

theorem parallel_call_correct:
  assumes "multi_spec M" "distinct (chosen (client_providers self))"
  shows "case parallel_call R M new_request self rpc_name params kind estimate st of
      Inl trap \<Rightarrow>
        (\<exists>p \<in> set (chosen (client_providers self)).
           provider_request R st (transform_op R kind) (size_estimate estimate)
             (new_request rpc_name params) p = Inl trap)
        \<or> (\<exists>reqs. mr_parallel_call M (MetricRpcMethod rpc_name) into_rpc_result reqs st = Inl trap)
    | Inr (results, st') \<Rightarrow>
        distinct (map fst (mr_into_iter M results))
        \<and> fst ` set (mr_into_iter M results) = set (chosen (client_providers self))
        \<and> (\<forall>p \<in> set (chosen (client_providers self)). \<forall>e.
             provider_request R st (transform_op R kind) (size_estimate estimate)
               (new_request rpc_name params) p = Inr (Inl e)
             \<longrightarrow> (p, Inl e) \<in> set (mr_into_iter M results))"
  using assms by (rule parallel_call_results)

definition example_rpc_env :: "(ref_usage, Timestamp list, string) rpc_env" where
  "example_rpc_env =
     \<lparr>re_timed = ref_timed_ops, re_regex = \<lparr>compile = (\<lambda>s. Inr s), replace_all = (\<lambda>r s t. t)\<rparr>,
      re_build_error = (\<lambda>b. if rb_uri b = ''bad'' then Some ''invalid uri'' else None),
      re_encode = (\<lambda>_. [1]), re_time = 0\<rparr>"

definition example_answer :: "(unit JsonRpcErr + unit) RpcResult" where
  "example_answer = Inr (Inr ())"

definition example_client :: "string \<Rightarrow> EthRpcClient" where
  "example_client u =
     \<lparr>client_providers = \<lparr>chain = MAINNET, chosen = [RpcService.Custom \<lparr>url = u, headers = None\<rparr>]\<rparr>,
      client_config = default_RpcConfig\<rparr>"

theorem parallel_call_correct_witness:
  "case parallel_call example_rpc_env (ref_multi example_answer) (\<lambda>m (p :: unit). ()) (example_client ''good'')
      ''m'' () DataPayload (ResponseSizeEstimate 9) (initial_memory ref_timed_ops ()) of
     Inl trap \<Rightarrow> False
   | Inr (results, st') \<Rightarrow> fst ` set results = {RpcService.Custom \<lparr>url = ''good'', headers = None\<rparr>}"
proof -
  have request: "provider_request example_rpc_env (initial_memory ref_timed_ops ()) c n ()
      (RpcService.Custom \<lparr>url = ''good'', headers = None\<rparr>) \<noteq> Inl trap" for c n trap
    by (simp add: provider_request_def ResolvedRpcService_post_eq get_override_provider_def
          initial_memory_def default_OverrideProvider_def OverrideProvider_apply_def build_request_def
          example_rpc_env_def)
  have iter: "mr_into_iter (ref_multi a) = (\<lambda>rs. rs)" "mr_parallel_call (ref_multi a) m f reqs st \<noteq> Inl trap"
    for a m f reqs st trap by (simp_all add: ref_multi_def)
  have "distinct (chosen (client_providers (example_client ''good'')))" by (simp add: example_client_def)
  from parallel_call_correct [OF ref_multi_spec this, where R = example_rpc_env
      and new_request = "\<lambda>m (p :: unit). ()" and rpc_name = "''m''" and params = "()"
      and kind = DataPayload and estimate = "ResponseSizeEstimate 9"
      and st = "initial_memory ref_timed_ops ()" and answer1 = example_answer]
  show ?thesis
    by (auto simp: iter request example_client_def split: sum.splits)
qed

text \<open>The default size estimates of all seven methods are accepted, with the expected sizes; an estimate
  given by the caller is used instead, and traps exactly when it is zero or above 1,997,952.\<close>

theorem estimates_in_bounds:
  "case response_size_estimate (client_config self) of
     None \<Rightarrow>
       list_all (\<lambda>n. client_response_size_estimate self (n + HEADER_SIZE_LIMIT)
                     = Inr (ResponseSizeEstimate (n + 2048)))
         [1024, expected_block_size (chain (client_providers self)), 700, 512, 256, 50]
   | Some n \<Rightarrow>
       client_response_size_estimate self estimate =
         (if n = 0 then Inl ''assertion failed: num_bytes > 0''
          else if unat n > 1997952 then Inl ''assertion failed: num_bytes <= MAX_PAYLOAD_SIZE''
          else Inr (ResponseSizeEstimate n))"
proof -
  have payload: "MAX_PAYLOAD_SIZE = 1997952" "HEADER_SIZE_LIMIT = 2048"
    by (simp_all add: MAX_PAYLOAD_SIZE_def HTTP_MAX_SIZE_def HEADER_SIZE_LIMIT_def)
  show ?thesis
    by (simp add: client_response_size_estimate_def ResponseSizeEstimate_new_def payload
          expected_block_size_def word_less_nat_alt word_le_nat_alt not_le
          unat_eq_0 split: option.split)
qed

text \<open>The receipt call never asks for the receipt transformation, nor for any other: its answer is
  optional, and optional answers have no transformation, so its requests carry an empty context.\<close>

lemma receipts_not_transformed:
  "transform_op R (OptionPayload kind) = []"
  by (simp add: transform_op_def)

text \<open>
  A custom provider whose address or headers, as they are sent under the stored override, the HTTP library
  refuses.
\<close>

definition refused_custom ::
  "('u, 'v, 'rx) rpc_env \<Rightarrow> ('m, 'lf) canister \<Rightarrow> RpcApi \<Rightarrow> string \<Rightarrow> bool" where
  "refused_custom R st api e \<longleftrightarrow>
     (\<exists>builder. ResolvedRpcService_post (re_regex R) st (ResolvedRpcService.Api api) (get_override_provider st)
                  = Inr (Ok builder)
        \<and> re_build_error R builder = Some e)"

lemma refused_request_traps:
  assumes "refused_custom R st api e"
  shows "provider_request R st c n body (RpcService.Custom api) = Inl (''BUG: invalid request: '' @ e)"
  using assms by (cases api) (auto simp: refused_custom_def provider_request_def build_request_def)

lemma insert_requests_ok:
  "insert_requests M request ps rq = Inr rq' \<Longrightarrow> p \<in> set ps \<Longrightarrow> \<exists>r. request p = Inr r"
  by (induction ps arbitrary: rq) (auto simp: and_then_eq_Inr)

lemma parallel_call_traps:
  fixes new_request :: "string \<Rightarrow> 'p \<Rightarrow> 'body"
  assumes "p \<in> set (chosen (client_providers self))"
    and "\<And>c n (body :: 'body). \<exists>trap. provider_request R st c n body p = Inl trap"
  shows "\<exists>trap. parallel_call R M new_request self rpc_name params kind estimate st = Inl trap"
proof (cases "parallel_call R M new_request self rpc_name params kind estimate st")
  case (Inr out)
  then obtain rq where
    "insert_requests M (provider_request R st (transform_op R kind) (size_estimate estimate)
        (new_request rpc_name params)) (chosen (client_providers self)) (mr_default M) = Inr rq"
    by (auto simp: parallel_call_def Let_def and_then_eq_Inr)
  from insert_requests_ok [OF this assms(1)]
    assms(2) [of "transform_op R kind" "size_estimate estimate" "new_request rpc_name params"]
  show ?thesis by auto
qed simp

text \<open>What traps before the fan-out is the request of a chosen provider.\<close>

lemma parallel_call_trap_request:
  assumes "multi_spec M" "distinct (chosen (client_providers self))"
    and "p \<in> set (chosen (client_providers self))"
    and "provider_request R st (transform_op R kind) (size_estimate estimate) (new_request rpc_name params) p = Inl t"
  shows "\<exists>q \<in> set (chosen (client_providers self)). \<exists>trap.
    provider_request R st (transform_op R kind) (size_estimate estimate) (new_request rpc_name params) q = Inl trap
    \<and> parallel_call R M new_request self rpc_name params kind estimate st = Inl trap"
proof -
  let ?ps = "chosen (client_providers self)"
  let ?request = "provider_request R st (transform_op R kind) (size_estimate estimate) (new_request rpc_name params)"
  have inner: "mr_into_inner M (mr_default M) = ([], [])" using assms(1) by (simp add: multi_spec_def)
  note inserted = insert_requests_correct [OF assms(1) inner, of ?ps ?request, simplified, OF assms(2)]
  show ?thesis
  proof (cases "insert_requests M ?request ?ps (mr_default M)")
    case (Inl trap)
    with inserted show ?thesis by (auto simp: parallel_call_def Let_def)
  next
    case (Inr rq)
    from insert_requests_ok [OF this assms(3)] assms(4) show ?thesis by auto
  qed
qed

text \<open>C40. Whatever the other chosen providers, a custom provider whose address or headers the HTTP library
  refuses, as they are sent under the stored override, makes the whole call trap with the trap of a chosen
  provider's request: its own when every other provider's request can be built. A raw call to the same
  provider, with any payload, returns a validation error instead.\<close>

theorem invalid_custom_provider_traps:
  assumes "multi_spec M" "distinct (chosen (client_providers self))"
    and "RpcService.Custom api \<in> set (chosen (client_providers self))"
    and "refused_custom R st api e"
  shows "(\<exists>q \<in> set (chosen (client_providers self)). \<exists>trap.
       provider_request R st (transform_op R kind) (size_estimate estimate) (new_request rpc_name params) q
         = Inl trap
       \<and> parallel_call R M new_request self rpc_name params kind estimate st = Inl trap
       \<and> (q = RpcService.Custom api \<longrightarrow> trap = ''BUG: invalid request: '' @ e))
    \<and> json_rpc_request_arg (re_regex R) (re_build_error R) parse_request st (ResolvedRpcService.Api api)
          payload max_bytes
        = Inr (Err (RpcError.ValidationError (ValidationError.Custom
            (case parse_request payload of
               Inl malformed \<Rightarrow> ''Invalid JSON RPC request: '' @ malformed
             | Inr _ \<Rightarrow> ''Invalid request: '' @ e))))"
proof (rule conjI)
  obtain q trap where q: "q \<in> set (chosen (client_providers self))"
    "provider_request R st (transform_op R kind) (size_estimate estimate) (new_request rpc_name params) q = Inl trap"
    "parallel_call R M new_request self rpc_name params kind estimate st = Inl trap"
    using parallel_call_trap_request [OF assms(1,2,3) refused_request_traps [OF assms(4)],
        where new_request = new_request and rpc_name = rpc_name and params = params and kind = kind
          and estimate = estimate] by blast
  moreover have "trap = ''BUG: invalid request: '' @ e" if "q = RpcService.Custom api"
    using q(2) unfolding that refused_request_traps [OF assms(4)] sum.inject by (rule sym)
  ultimately show "\<exists>q \<in> set (chosen (client_providers self)). \<exists>trap.
       provider_request R st (transform_op R kind) (size_estimate estimate) (new_request rpc_name params) q
         = Inl trap
       \<and> parallel_call R M new_request self rpc_name params kind estimate st = Inl trap
       \<and> (q = RpcService.Custom api \<longrightarrow> trap = ''BUG: invalid request: '' @ e)"
    by blast
next
  show "json_rpc_request_arg (re_regex R) (re_build_error R) parse_request st (ResolvedRpcService.Api api)
          payload max_bytes
        = Inr (Err (RpcError.ValidationError (ValidationError.Custom
            (case parse_request payload of
               Inl malformed \<Rightarrow> ''Invalid JSON RPC request: '' @ malformed
             | Inr _ \<Rightarrow> ''Invalid request: '' @ e))))"
    using assms(4) by (auto simp: refused_custom_def json_rpc_request_arg_def build_request_def split: sum.split)
qed

text \<open>Two custom providers, of which the stored override makes one unusable.\<close>

definition rewriting_env :: "(ref_usage, Timestamp list, string) rpc_env" where
  "rewriting_env = example_rpc_env
     \<lparr>re_regex := \<lparr>compile = Ok, replace_all = (\<lambda>r s t. if s = r then t else s)\<rparr>\<rparr>"

definition rewriting_state :: "(ref_usage, unit) canister" where
  "rewriting_state = (initial_memory ref_timed_ops ())
     \<lparr>OVERRIDE_PROVIDER := \<lparr>override_url = Some \<lparr>pattern = ''node'', replacement = ''bad''\<rparr>\<rparr>\<rparr>"

definition two_customs :: "RpcService list" where
  "two_customs = [RpcService.Custom \<lparr>url = ''good'', headers = None\<rparr>,
                  RpcService.Custom \<lparr>url = ''node'', headers = None\<rparr>]"

definition two_custom_client :: EthRpcClient where
  "two_custom_client =
     \<lparr>client_providers = \<lparr>chain = MAINNET, chosen = two_customs\<rparr>, client_config = default_RpcConfig\<rparr>"

theorem invalid_custom_provider_traps_witness:
  "parallel_call rewriting_env (ref_multi example_answer) (\<lambda>m (p :: unit). ''p'') two_custom_client
     ''m'' () DataPayload (ResponseSizeEstimate 9) rewriting_state
     = Inl (''BUG: invalid request: '' @ ''invalid uri'')"
proof -
  let ?request = "provider_request rewriting_env rewriting_state"
  have refused: "refused_custom rewriting_env rewriting_state \<lparr>url = ''node'', headers = None\<rparr> ''invalid uri''"
    by (simp add: refused_custom_def ResolvedRpcService_post_eq get_override_provider_def rewriting_state_def
          rewriting_env_def example_rpc_env_def OverrideProvider_apply_def Let_def)
  have good: "?request c n body (RpcService.Custom \<lparr>url = ''good'', headers = None\<rparr>) \<noteq> Inl trap"
    for c n trap and body :: string
    by (simp add: provider_request_def ResolvedRpcService_post_eq get_override_provider_def rewriting_state_def
          rewriting_env_def example_rpc_env_def OverrideProvider_apply_def Let_def build_request_def)
  have providers: "chosen (client_providers two_custom_client) = two_customs" "distinct two_customs"
    by (simp_all add: two_custom_client_def two_customs_def)
  have "RpcService.Custom \<lparr>url = ''node'', headers = None\<rparr> \<in> set two_customs"
    by (simp add: two_customs_def)
  from invalid_custom_provider_traps [where self = two_custom_client and M = "ref_multi example_answer"
      and new_request = "\<lambda>m (p :: unit). ''p''" and rpc_name = "''m''" and params = "()" and kind = DataPayload
      and estimate = "ResponseSizeEstimate 9", unfolded providers(1),
      OF ref_multi_spec providers(2) this refused, THEN conjunct1]
  obtain q trap where q: "q \<in> set two_customs"
    "?request (transform_op rewriting_env DataPayload) (size_estimate (ResponseSizeEstimate 9)) ''p'' q = Inl trap"
    "parallel_call rewriting_env (ref_multi example_answer) (\<lambda>m (p :: unit). ''p'') two_custom_client
       ''m'' () DataPayload (ResponseSizeEstimate 9) rewriting_state = Inl trap"
    "q = RpcService.Custom \<lparr>url = ''node'', headers = None\<rparr> \<longrightarrow> trap = ''BUG: invalid request: '' @ ''invalid uri''"
    by blast
  then show ?thesis using good by (auto simp: two_customs_def)
qed

end
