(* ===== verification/Candid_Conversion.thy ===== *)
theory Candid_Conversion
  imports Eth_Json
begin

section \<open>Candid types and their conversion\<close>

text \<open>
  The Candid arguments and answers (\<^verbatim>\<open>evm_rpc_types/src/request/mod.rs\<close>,
  \<^verbatim>\<open>evm_rpc_types/src/response/mod.rs\<close>) and their conversion to and from the JSON types
  (\<^verbatim>\<open>src/candid_rpc/cketh_conversion.rs\<close>). The conversions of numbers contain assertions (theory
  \<open>Eth_Numbers\<close>), so every conversion of a structure with numbers is \<open>trapping\<close>.
\<close>

subsection \<open>Arguments\<close>

datatype CandidBlockTag = Latest | Finalized | Safe | Earliest | Pending | Number Nat256

definition default_CandidBlockTag :: CandidBlockTag where
  "default_CandidBlockTag = CandidBlockTag.Latest"

record FeeHistoryArgs =
  fha_block_count :: Nat256
  fha_newest_block :: CandidBlockTag
  fha_reward_percentiles :: "u8 list option"

definition FeeHistoryArgs_from :: "Nat256 \<times> CandidBlockTag \<Rightarrow> FeeHistoryArgs" where
  "FeeHistoryArgs_from p =
     \<lparr>fha_block_count = fst p, fha_newest_block = snd p, fha_reward_percentiles = None\<rparr>"

record GetLogsArgs =
  gla_from_block :: "CandidBlockTag option"
  gla_to_block :: "CandidBlockTag option"
  gla_addresses :: "Hex20 list"
  gla_topics :: "Hex32 list list option"

record GetTransactionCountArgs =
  gtca_address :: Hex20
  gtca_block :: CandidBlockTag

definition GetTransactionCountArgs_from :: "Hex20 \<times> CandidBlockTag \<Rightarrow> GetTransactionCountArgs" where
  "GetTransactionCountArgs_from p = \<lparr>gtca_address = fst p, gtca_block = snd p\<rparr>"

record AccessListEntry =
  ale_address :: Hex20
  ale_storage_keys :: "Hex32 list"

datatype CandidAccessList = CandidAccessList (access_entries: "AccessListEntry list")

record CandidTransactionRequest =
  ctr_tx_type :: "HexByte option"
  ctr_nonce :: "Nat256 option"
  ctr_to :: "Hex20 option"
  ctr_from :: "Hex20 option"
  ctr_gas :: "Nat256 option"
  ctr_value :: "Nat256 option"
  ctr_input :: "Hex option"
  ctr_gas_price :: "Nat256 option"
  ctr_max_priority_fee_per_gas :: "Nat256 option"
  ctr_max_fee_per_gas :: "Nat256 option"
  ctr_max_fee_per_blob_gas :: "Nat256 option"
  ctr_access_list :: "CandidAccessList option"
  ctr_blob_versioned_hashes :: "Hex32 list option"
  ctr_blobs :: "Hex list option"
  ctr_chain_id :: "Nat256 option"

record CallArgs =
  ca_transaction :: CandidTransactionRequest
  ca_block :: "CandidBlockTag option"


subsection \<open>Answers\<close>

record 'f CandidFeeHistory =
  cfh_oldest_block :: Nat256
  cfh_base_fee_per_gas :: "Nat256 list"
  cfh_gas_used_ratio :: "'f list"
  cfh_reward :: "Nat256 list list"

record CandidLogEntry =
  clog_address :: Hex20
  clog_topics :: "Hex32 list"
  clog_data :: Hex
  clog_block_number :: "Nat256 option"
  clog_transaction_hash :: "Hex32 option"
  clog_transaction_index :: "Nat256 option"
  clog_block_hash :: "Hex32 option"
  clog_log_index :: "Nat256 option"
  clog_removed :: bool

record CandidTransactionReceipt =
  crc_block_hash :: Hex32
  crc_block_number :: Nat256
  crc_effective_gas_price :: Nat256
  crc_gas_used :: Nat256
  crc_cumulative_gas_used :: Nat256
  crc_status :: "Nat256 option"
  crc_root :: "Hex32 option"
  crc_transaction_hash :: Hex32
  crc_contract_address :: "Hex20 option"
  crc_from :: Hex20
  crc_logs :: "CandidLogEntry list"
  crc_logs_bloom :: Hex256
  crc_to :: "Hex20 option"
  crc_transaction_index :: Nat256
  crc_tx_type :: HexByte

record CandidBlock =
  cblk_base_fee_per_gas :: "Nat256 option"
  cblk_number :: Nat256
  cblk_difficulty :: "Nat256 option"
  cblk_extra_data :: Hex
  cblk_gas_limit :: Nat256
  cblk_gas_used :: Nat256
  cblk_hash :: Hex32
  cblk_logs_bloom :: Hex256
  cblk_miner :: Hex20
  cblk_mix_hash :: Hex32
  cblk_nonce :: Nat256
  cblk_parent_hash :: Hex32
  cblk_receipts_root :: Hex32
  cblk_sha3_uncles :: Hex32
  cblk_size :: Nat256
  cblk_state_root :: Hex32
  cblk_timestamp :: Nat256
  cblk_total_difficulty :: "Nat256 option"
  cblk_transactions :: "Hex32 list"
  cblk_transactions_root :: "Hex32 option"
  cblk_uncles :: "Hex32 list"

datatype SendRawTransactionStatus =
  StatusOk "Hex32 option" | InsufficientFunds | NonceTooLow | NonceTooHigh


subsection \<open>Arguments to requests\<close>

text \<open>\<open>Option::map\<close> and \<open>collect\<close> with a conversion that may trap.\<close>

definition opt_conv :: "('a \<Rightarrow> 'b trapping) \<Rightarrow> 'a option \<Rightarrow> 'b option trapping" where
  "opt_conv f x = transpose_result (map_option f x)"

definition list_conv :: "('a \<Rightarrow> 'b trapping) \<Rightarrow> 'a list \<Rightarrow> 'b list trapping" where
  "list_conv f xs = collect_results (map f xs)"

fun into_block_spec :: "num_ops \<Rightarrow> CandidBlockTag \<Rightarrow> BlockSpec trapping" where
  "into_block_spec N (CandidBlockTag.Number n) = map_ok BlockSpec.Number (Amount_from_Nat256 N n)"
| "into_block_spec N CandidBlockTag.Latest = Inr (Tag BlockTag.Latest)"
| "into_block_spec N CandidBlockTag.Safe = Inr (Tag BlockTag.Safe)"
| "into_block_spec N CandidBlockTag.Finalized = Inr (Tag BlockTag.Finalized)"
| "into_block_spec N CandidBlockTag.Earliest = Inr (Tag BlockTag.Earliest)"
| "into_block_spec N CandidBlockTag.Pending = Inr (Tag BlockTag.Pending)"

definition into_address :: "Hex20 \<Rightarrow> Address" where
  "into_address a = Address (hex20 a)"

definition into_hash :: "Hex32 \<Rightarrow> Hash" where
  "into_hash v = Hash (hex32 v)"

definition into_data :: "Hex \<Rightarrow> Data" where
  "into_data v = Data (hex v)"

definition from_data :: "Data \<Rightarrow> Hex" where
  "from_data v = Hex (data_bytes v)"

definition into_get_logs_param :: "num_ops \<Rightarrow> GetLogsArgs \<Rightarrow> GetLogsParam trapping" where
  "into_get_logs_param N v =
     and_then (opt_conv (into_block_spec N) (gla_from_block v)) (\<lambda>f.
     and_then (opt_conv (into_block_spec N) (gla_to_block v)) (\<lambda>t.
       Inr \<lparr>gl_from_block = unwrap_or default_BlockSpec f,
            gl_to_block = unwrap_or default_BlockSpec t,
            gl_address = map into_address (gla_addresses v),
            gl_topics = map (map (\<lambda>t. FixedSizeData (hex32 t))) (unwrap_or [] (gla_topics v))\<rparr>))"

definition into_fee_history_params :: "num_ops \<Rightarrow> FeeHistoryArgs \<Rightarrow> FeeHistoryParams trapping" where
  "into_fee_history_params N v =
     and_then (Amount_from_Nat256 N (fha_block_count v)) (\<lambda>count.
     and_then (into_block_spec N (fha_newest_block v)) (\<lambda>block.
       Inr \<lparr>fhp_block_count = count, fhp_highest_block = block,
            fhp_reward_percentiles = unwrap_or [] (fha_reward_percentiles v)\<rparr>))"

definition into_get_transaction_count_params ::
  "num_ops \<Rightarrow> GetTransactionCountArgs \<Rightarrow> GetTransactionCountParams trapping" where
  "into_get_transaction_count_params N v =
     map_ok (\<lambda>block. \<lparr>gtc_address = into_address (gtca_address v), gtc_block = block\<rparr>)
       (into_block_spec N (gtca_block v))"

definition map_access_list :: "CandidAccessList \<Rightarrow> AccessList" where
  "map_access_list l =
     AccessList (map (\<lambda>entry. \<lparr>al_address = into_address (ale_address entry),
                                 al_storage_keys = map (\<lambda>k. StorageKey (hex32 k)) (ale_storage_keys entry)\<rparr>)
                   (access_entries l))"

definition into_transaction_request :: "num_ops \<Rightarrow> CandidTransactionRequest \<Rightarrow> TransactionRequest trapping"
where
  "into_transaction_request N v =
     and_then (opt_conv (Amount_from_Nat256 N) (ctr_nonce v)) (\<lambda>nonce.
     and_then (opt_conv (Amount_from_Nat256 N) (ctr_gas v)) (\<lambda>gas.
     and_then (opt_conv (Amount_from_Nat256 N) (ctr_value v)) (\<lambda>val.
     and_then (opt_conv (Amount_from_Nat256 N) (ctr_gas_price v)) (\<lambda>gas_price.
     and_then (opt_conv (Amount_from_Nat256 N) (ctr_max_priority_fee_per_gas v)) (\<lambda>max_priority_fee.
     and_then (opt_conv (Amount_from_Nat256 N) (ctr_max_fee_per_gas v)) (\<lambda>max_fee.
     and_then (opt_conv (Amount_from_Nat256 N) (ctr_max_fee_per_blob_gas v)) (\<lambda>max_blob_fee.
     and_then (opt_conv (Amount_from_Nat256 N) (ctr_chain_id v)) (\<lambda>chain_id.
       Inr \<lparr>tr_tx_type = map_option (\<lambda>t. JsonByte_new (u8_from_HexByte t)) (ctr_tx_type v),
            tr_nonce = nonce,
            tr_to = map_option into_address (ctr_to v),
            tr_from = map_option into_address (ctr_from v),
            tr_gas = gas,
            tr_value = val,
            tr_input = map_option into_data (ctr_input v),
            tr_gas_price = gas_price,
            tr_max_priority_fee_per_gas = max_priority_fee,
            tr_max_fee_per_gas = max_fee,
            tr_max_fee_per_blob_gas = max_blob_fee,
            tr_access_list = map_option map_access_list (ctr_access_list v),
            tr_blob_versioned_hashes = map_option (map into_hash) (ctr_blob_versioned_hashes v),
            tr_blobs = map_option (map into_data) (ctr_blobs v),
            tr_chain_id = chain_id\<rparr>))))))))"

definition into_eth_call_params :: "num_ops \<Rightarrow> CallArgs \<Rightarrow> EthCallParams trapping" where
  "into_eth_call_params N v =
     and_then (into_transaction_request N (ca_transaction v)) (\<lambda>transaction.
     and_then (into_block_spec N (unwrap_or default_CandidBlockTag (ca_block v))) (\<lambda>block.
       Inr \<lparr>ecp_transaction = transaction, ecp_block = block\<rparr>))"


subsection \<open>Responses to answers\<close>

definition from_log_entry :: "num_ops \<Rightarrow> LogEntry \<Rightarrow> CandidLogEntry trapping" where
  "from_log_entry N v =
     and_then (opt_conv (Nat256_from_Amount N) (log_block_number v)) (\<lambda>block_number.
     and_then (opt_conv (Nat256_from_Amount N) (log_transaction_index v)) (\<lambda>transaction_index.
     and_then (opt_conv (Nat256_from_Amount N) (log_log_index v)) (\<lambda>log_index.
       Inr \<lparr>clog_address = Hex20 (Address_into_bytes (log_address v)),
            clog_topics = map (\<lambda>t. Hex32 (FixedSizeData_into_bytes t)) (log_topics v),
            clog_data = Hex (data_bytes (log_data v)),
            clog_block_number = block_number,
            clog_transaction_hash = map_option (\<lambda>x. Hex32 (Hash_into_bytes x)) (log_transaction_hash v),
            clog_transaction_index = transaction_index,
            clog_block_hash = map_option (\<lambda>x. Hex32 (Hash_into_bytes x)) (log_block_hash v),
            clog_log_index = log_index,
            clog_removed = log_removed v\<rparr>)))"

definition from_log_entries :: "num_ops \<Rightarrow> LogEntry list \<Rightarrow> CandidLogEntry list trapping" where
  "from_log_entries N v = list_conv (from_log_entry N) v"

definition from_fee_history :: "num_ops \<Rightarrow> 'f FeeHistory \<Rightarrow> 'f CandidFeeHistory trapping" where
  "from_fee_history N v =
     and_then (Nat256_from_Amount N (fh_oldest_block v)) (\<lambda>oldest.
     and_then (list_conv (Nat256_from_Amount N) (fh_base_fee_per_gas v)) (\<lambda>fees.
     and_then (list_conv (list_conv (Nat256_from_Amount N)) (fh_reward v)) (\<lambda>reward.
       Inr \<lparr>cfh_oldest_block = oldest, cfh_base_fee_per_gas = fees,
            cfh_gas_used_ratio = fh_gas_used_ratio v, cfh_reward = reward\<rparr>)))"

fun from_status :: "num_ops \<Rightarrow> TransactionStatus \<Rightarrow> Nat256 trapping" where
  "from_status N Success = Nat256_from_uint N (1 :: u8)"
| "from_status N Failure = Nat256_from_uint N (0 :: u8)"

definition from_transaction_receipt ::
  "num_ops \<Rightarrow> TransactionReceipt \<Rightarrow> CandidTransactionReceipt trapping" where
  "from_transaction_receipt N v =
     and_then (Nat256_from_Amount N (rc_block_number v)) (\<lambda>block_number.
     and_then (Nat256_from_Amount N (rc_effective_gas_price v)) (\<lambda>effective_gas_price.
     and_then (Nat256_from_Amount N (rc_gas_used v)) (\<lambda>gas_used.
     and_then (Nat256_from_Amount N (rc_cumulative_gas_used v)) (\<lambda>cumulative_gas_used.
     and_then (opt_conv (from_status N) (rc_status v)) (\<lambda>status.
     and_then (from_log_entries N (rc_logs v)) (\<lambda>logs.
     and_then (Nat256_from_Amount N (rc_transaction_index v)) (\<lambda>transaction_index.
       Inr \<lparr>crc_block_hash = Hex32 (Hash_into_bytes (rc_block_hash v)),
            crc_block_number = block_number,
            crc_effective_gas_price = effective_gas_price,
            crc_gas_used = gas_used,
            crc_cumulative_gas_used = cumulative_gas_used,
            crc_status = status,
            crc_root = map_option (\<lambda>x. Hex32 (Hash_into_bytes x)) (rc_root v),
            crc_transaction_hash = Hex32 (Hash_into_bytes (rc_transaction_hash v)),
            crc_contract_address = map_option (\<lambda>a. Hex20 (Address_into_bytes a)) (rc_contract_address v),
            crc_from = Hex20 (Address_into_bytes (rc_from v)),
            crc_logs = logs,
            crc_logs_bloom = Hex256 (LogsBloom_into_bytes (rc_logs_bloom v)),
            crc_to = map_option (\<lambda>a. Hex20 (Address_into_bytes a)) (rc_to v),
            crc_transaction_index = transaction_index,
            crc_tx_type = HexByte_from_u8 (JsonByte_into_byte (rc_tx_type v))\<rparr>)))))))"

definition from_block :: "num_ops \<Rightarrow> Block \<Rightarrow> CandidBlock trapping" where
  "from_block N v =
     and_then (opt_conv (Nat256_from_Amount N) (blk_base_fee_per_gas v)) (\<lambda>base_fee.
     and_then (Nat256_from_Amount N (blk_number v)) (\<lambda>num.
     and_then (opt_conv (Nat256_from_Amount N) (blk_difficulty v)) (\<lambda>difficulty.
     and_then (Nat256_from_Amount N (blk_gas_limit v)) (\<lambda>gas_limit.
     and_then (Nat256_from_Amount N (blk_gas_used v)) (\<lambda>gas_used.
     and_then (Nat256_from_Amount N (blk_nonce v)) (\<lambda>nonce.
     and_then (Nat256_from_Amount N (blk_size v)) (\<lambda>sz.
     and_then (Nat256_from_Amount N (blk_timestamp v)) (\<lambda>timestamp.
       Inr \<lparr>cblk_base_fee_per_gas = base_fee,
            cblk_number = num,
            cblk_difficulty = difficulty,
            cblk_extra_data = Hex (data_bytes (blk_extra_data v)),
            cblk_gas_limit = gas_limit,
            cblk_gas_used = gas_used,
            cblk_hash = Hex32 (Hash_into_bytes (blk_hash v)),
            cblk_logs_bloom = Hex256 (LogsBloom_into_bytes (blk_logs_bloom v)),
            cblk_miner = Hex20 (Address_into_bytes (blk_miner v)),
            cblk_mix_hash = Hex32 (Hash_into_bytes (blk_mix_hash v)),
            cblk_nonce = nonce,
            cblk_parent_hash = Hex32 (Hash_into_bytes (blk_parent_hash v)),
            cblk_receipts_root = Hex32 (Hash_into_bytes (blk_receipts_root v)),
            cblk_sha3_uncles = Hex32 (Hash_into_bytes (blk_sha3_uncles v)),
            cblk_size = sz,
            cblk_state_root = Hex32 (Hash_into_bytes (blk_state_root v)),
            cblk_timestamp = timestamp,
            cblk_total_difficulty = None,
            cblk_transactions = map (\<lambda>tx. Hex32 (Hash_into_bytes tx)) (blk_transactions v),
            cblk_transactions_root = map_option (\<lambda>x. Hex32 (Hash_into_bytes x)) (blk_transactions_root v),
            cblk_uncles = map (\<lambda>tx. Hex32 (Hash_into_bytes tx)) (blk_uncles v)\<rparr>))))))))"

fun from_send_raw_transaction_result ::
  "Hex32 option \<Rightarrow> SendRawTransactionResult \<Rightarrow> SendRawTransactionStatus" where
  "from_send_raw_transaction_result h TxOk = StatusOk h"
| "from_send_raw_transaction_result h SendRawTransactionResult.InsufficientFunds =
     SendRawTransactionStatus.InsufficientFunds"
| "from_send_raw_transaction_result h SendRawTransactionResult.NonceTooLow =
     SendRawTransactionStatus.NonceTooLow"
| "from_send_raw_transaction_result h SendRawTransactionResult.NonceTooHigh =
     SendRawTransactionStatus.NonceTooHigh"


subsection \<open>Conversions by value\<close>

definition nat_of_amount :: "'unit Amount \<Rightarrow> Nat256" where
  "nat_of_amount a = Nat256 (unat (inner a))"

definition amount_of_nat :: "Nat256 \<Rightarrow> 'unit Amount" where
  "amount_of_nat n = Amount (of_nat (nat256 n))"

definition fits :: "Nat256 option \<Rightarrow> bool" where
  "fits x = (case x of None \<Rightarrow> True | Some n \<Rightarrow> nat256 n < 2 ^ 256)"

lemma fits_simps [simp]: "fits None" "fits (Some n) \<longleftrightarrow> nat256 n < 2 ^ 256"
  by (simp_all add: fits_def)

lemma nat_of_amount_inj [simp]: "nat_of_amount a = nat_of_amount b \<longleftrightarrow> a = b"
  by (auto simp: nat_of_amount_def intro: Amount.expand unsigned_word_eqI)

lemma inj_wrappers [simp]:
  "inj nat_of_amount"
  "inj (\<lambda>x. Hex32 (Hash_into_bytes x))" "inj (\<lambda>x. Hex32 (FixedSizeData_into_bytes x))"
  "inj (\<lambda>x. Hex20 (Address_into_bytes x))"
  "inj into_address" "inj into_hash" "inj into_data" "inj (\<lambda>k. StorageKey (hex32 k))"
  "inj (\<lambda>t. JsonByte_new (u8_from_HexByte t))"
  by (auto simp: inj_def into_address_def into_hash_def into_data_def JsonByte_new_def
       u8_from_HexByte_def intro: Hash.expand FixedSizeData.expand Address.expand Hex20.expand
       Hex32.expand Hex.expand HexByte.expand Byte.expand)

lemma map_option_inj_eq: "inj f \<Longrightarrow> map_option f x = map_option f y \<longleftrightarrow> x = y"
  by (cases x; cases y) (auto dest: injD)

lemmas by_inj = map_option_inj_eq inj_map_eq_map

lemma collect_results_all: "(\<And>x. x \<in> set xs \<Longrightarrow> f x = Inr (g x)) \<Longrightarrow>
    collect_results (map f xs) = Inr (map g xs)"
  by (induction xs) auto

lemma list_conv_total: "(\<And>x. f x = Inr (g x)) \<Longrightarrow> list_conv f xs = Inr (map g xs)"
  by (simp add: list_conv_def collect_results_all)

lemma opt_conv_total: "(\<And>x. f x = Inr (g x)) \<Longrightarrow> opt_conv f x = Inr (map_option g x)"
  by (cases x) (simp_all add: opt_conv_def)

lemma Nat256_from_Amount_total: "num_spec N \<Longrightarrow> Nat256_from_Amount N a = Inr (nat_of_amount a)"
  by (simp add: nat_of_amount_def)

lemma from_amounts:
  assumes "num_spec N"
  shows "Nat256_from_Amount N a = Inr (nat_of_amount a)"
    and "opt_conv (Nat256_from_Amount N) x = Inr (map_option nat_of_amount x)"
    and "list_conv (Nat256_from_Amount N) xs = Inr (map nat_of_amount xs)"
    and "list_conv (list_conv (Nat256_from_Amount N)) xss = Inr (map (map nat_of_amount) xss)"
  by (intro Nat256_from_Amount_total opt_conv_total list_conv_total assms)+

lemma from_status_total:
  "num_spec N \<Longrightarrow> from_status N s = Inr (Nat256 (unat (u256_from_TransactionStatus s)))"
  by (cases s) (simp_all add: Nat256_from_uint_value)

lemma Amount_from_Nat256_fits:
  "num_spec N \<Longrightarrow> nat256 n < 2 ^ 256 \<Longrightarrow> Amount_from_Nat256 N n = Inr (amount_of_nat n)"
  by (simp add: Amount_from_Nat256_value amount_of_nat_def)

lemma opt_amount_fits:
  "num_spec N \<Longrightarrow> fits x \<Longrightarrow> opt_conv (Amount_from_Nat256 N) x = Inr (map_option amount_of_nat x)"
  by (cases x) (simp_all add: opt_conv_def Amount_from_Nat256_fits)

lemma amount_of_nat_inj:
  assumes "nat256 m < 2 ^ 256" "nat256 n < 2 ^ 256"
  shows "(amount_of_nat m :: 'unit Amount) = amount_of_nat n \<longleftrightarrow> m = n"
proof -
  have "unat (of_nat (nat256 m) :: u256) = nat256 m" "unat (of_nat (nat256 n) :: u256) = nat256 n"
    using assms by (simp_all add: unsigned_of_nat take_bit_nat_eq_self)
  then have "(of_nat (nat256 m) :: u256) = of_nat (nat256 n) \<longleftrightarrow> nat256 m = nat256 n"
    by metis
  then show ?thesis by (auto simp: amount_of_nat_def intro: Nat256.expand)
qed

lemma opt_amount_inj:
  "fits x \<Longrightarrow> fits y \<Longrightarrow>
     (map_option amount_of_nat x :: 'unit Amount option) = map_option amount_of_nat y \<longleftrightarrow> x = y"
  by (cases x; cases y) (simp_all add: amount_of_nat_inj)

lemma map_access_list_inj: "map_access_list x = map_access_list y \<longleftrightarrow> x = y"
proof -
  have "inj (\<lambda>entry :: AccessListEntry. \<lparr>al_address = into_address (ale_address entry),
                     al_storage_keys = map (\<lambda>k. StorageKey (hex32 k)) (ale_storage_keys entry)\<rparr>)"
  proof (rule injI)
    fix a b :: AccessListEntry
    assume "\<lparr>al_address = into_address (ale_address a),
             al_storage_keys = map (\<lambda>k. StorageKey (hex32 k)) (ale_storage_keys a)\<rparr>
          = \<lparr>al_address = into_address (ale_address b),
             al_storage_keys = map (\<lambda>k. StorageKey (hex32 k)) (ale_storage_keys b)\<rparr>"
    then have "ale_address a = ale_address b" "ale_storage_keys a = ale_storage_keys b"
      by (simp_all add: inj_map_eq_map inj_eq)
    then show "a = b" by simp
  qed
  then show ?thesis
    by (auto simp: map_access_list_def inj_map_eq_map intro: CandidAccessList.expand)
qed


text \<open>Conversions that never trap and never identify two values lift to lists.\<close>

lemma list_conv_faithful:
  assumes "\<And>x. \<exists>c. f x = Inr c" "\<And>x y. f x = f y \<longleftrightarrow> x = y"
  shows "(\<exists>cs. list_conv f xs = Inr cs \<and> length cs = length xs)
    \<and> (list_conv f xs = list_conv f ys \<longleftrightarrow> xs = ys)"
proof -
  from assms(1) obtain g where g: "\<And>x. f x = Inr (g x)" by metis
  with assms(2) have "inj g" by (auto simp: inj_def)
  then show ?thesis
    unfolding list_conv_total [OF g] by (simp add: inj_map_eq_map)
qed

lemma wrapped_eq [simp]:
  "Hash_into_bytes h = Hash_into_bytes h' \<longleftrightarrow> h = h'"
  "LogsBloom_into_bytes l = LogsBloom_into_bytes l' \<longleftrightarrow> l = l'"
  "Address_into_bytes a = Address_into_bytes a' \<longleftrightarrow> a = a'"
  "data_bytes d = data_bytes d' \<longleftrightarrow> d = d'"
  "JsonByte_into_byte j = JsonByte_into_byte j' \<longleftrightarrow> j = j'"
  by (auto simp: JsonByte_into_byte_def intro: Hash.expand LogsBloom.expand Address.expand Data.expand
       JsonByte.expand Byte.expand)

lemma from_log_entry_faithful:
  assumes "num_spec N"
  shows "\<exists>c. from_log_entry N v = Inr c" "from_log_entry N v = from_log_entry N w \<longleftrightarrow> v = w"
  by (simp add: from_log_entry_def from_amounts [OF assms])
    (cases v; cases w; auto simp: from_log_entry_def from_amounts [OF assms] by_inj)

lemma from_log_entries_faithful:
  assumes "num_spec N"
  shows "\<exists>c. from_log_entries N vs = Inr c \<and> length c = length vs"
    "from_log_entries N vs = from_log_entries N ws \<longleftrightarrow> vs = ws"
  using list_conv_faithful [of "from_log_entry N" vs ws] from_log_entry_faithful [OF assms]
  unfolding from_log_entries_def by blast+

lemma from_block_faithful:
  assumes "num_spec N"
  shows "\<exists>c. from_block N v = Inr c \<and> cblk_total_difficulty c = None
           \<and> cblk_number c = Nat256 (unat (inner (blk_number v)))"
    "from_block N v = from_block N w \<longleftrightarrow> v = w"
  by (simp add: from_block_def from_amounts [OF assms] nat_of_amount_def [of "blk_number v"])
    (cases v; cases w; auto simp: from_block_def from_amounts [OF assms] by_inj)

lemma from_fee_history_faithful:
  assumes "num_spec N"
  shows "\<exists>c. from_fee_history N v = Inr c" "from_fee_history N v = from_fee_history N w \<longleftrightarrow> v = w"
proof -
  have "inj (map (nat_of_amount :: WeiPerGas \<Rightarrow> Nat256))" by (simp add: inj_mapI)
  then show "from_fee_history N v = from_fee_history N w \<longleftrightarrow> v = w"
    by (cases v; cases w) (auto simp: from_fee_history_def from_amounts [OF assms] by_inj)
qed (simp add: from_fee_history_def from_amounts [OF assms])

lemma status_inj: "inj (\<lambda>s. Nat256 (unat (u256_from_TransactionStatus s)))"
proof (rule injI)
  fix s t assume "Nat256 (unat (u256_from_TransactionStatus s)) = Nat256 (unat (u256_from_TransactionStatus t))"
  then show "s = t" by (cases s; cases t) simp_all
qed

lemma from_transaction_receipt_faithful:
  assumes "num_spec N"
  shows "\<exists>c. from_transaction_receipt N v = Inr c"
    "from_transaction_receipt N v = from_transaction_receipt N w \<longleftrightarrow> v = w"
proof -
  have status: "opt_conv (from_status N) x
      = Inr (map_option (\<lambda>s. Nat256 (unat (u256_from_TransactionStatus s))) x)" for x
    by (rule opt_conv_total, rule from_status_total, rule assms)
  obtain lv lw where logs: "from_log_entries N (rc_logs v) = Inr lv" "from_log_entries N (rc_logs w) = Inr lw"
    using from_log_entries_faithful(1) [OF assms] by metis
  then have "lv = lw \<longleftrightarrow> rc_logs v = rc_logs w"
    using from_log_entries_faithful(2) [OF assms, of "rc_logs v" "rc_logs w"] by simp
  with logs show "from_transaction_receipt N v = from_transaction_receipt N w \<longleftrightarrow> v = w"
    by (cases v; cases w)
      (auto simp: from_transaction_receipt_def from_amounts [OF assms] status by_inj status_inj
         HexByte_from_u8_def)
  show "\<exists>c. from_transaction_receipt N v = Inr c"
    using logs by (simp add: from_transaction_receipt_def from_amounts [OF assms] status)
qed


subsection \<open>Mapping an answer with a conversion\<close>

text \<open>
  \<open>MultiRpcResult::map\<close> and \<open>and_then\<close> over conversions that may trap. On conversions that do not trap they are
  the maps of theory \<open>Rpc_Result\<close>.
\<close>

fun result_conv :: "('a \<Rightarrow> 'b trapping) \<Rightarrow> 'a RpcResult \<Rightarrow> 'b RpcResult trapping" where
  "result_conv f (Inl e) = Inr (Err e)"
| "result_conv f (Inr x) = map_ok Ok (f x)"

fun multi_map_conv ::
  "('b \<Rightarrow> 'b \<Rightarrow> bool) \<Rightarrow> ('a \<Rightarrow> 'b trapping) \<Rightarrow> 'a MultiRpcResult \<Rightarrow> 'b MultiRpcResult trapping" where
  "multi_map_conv eq f (Consistent result) = map_ok Consistent (result_conv f result)"
| "multi_map_conv eq f (Inconsistent results) =
     map_ok (\<lambda>converted. collapse eq (Inconsistent converted))
       (list_conv (\<lambda>(service, result). map_ok (Pair service) (result_conv f result)) results)"

fun result_and_then_conv ::
  "('a \<Rightarrow> 'b RpcResult trapping) \<Rightarrow> 'a RpcResult \<Rightarrow> 'b RpcResult trapping" where
  "result_and_then_conv f (Inl e) = Inr (Err e)"
| "result_and_then_conv f (Inr x) = f x"

fun multi_and_then_conv ::
  "('b \<Rightarrow> 'b \<Rightarrow> bool) \<Rightarrow> ('a \<Rightarrow> 'b RpcResult trapping) \<Rightarrow> 'a MultiRpcResult
     \<Rightarrow> 'b MultiRpcResult trapping" where
  "multi_and_then_conv eq f (Consistent result) = map_ok Consistent (result_and_then_conv f result)"
| "multi_and_then_conv eq f (Inconsistent results) =
     map_ok (\<lambda>converted. collapse eq (Inconsistent converted))
       (list_conv (\<lambda>(service, result). map_ok (Pair service) (result_and_then_conv f result)) results)"

lemma result_conv_total: "(\<And>x. f x = Inr (g x)) \<Longrightarrow> result_conv f r = Inr (map_ok g r)"
  by (cases r) auto

lemma multi_map_conv_total:
  assumes "\<And>x. f x = Inr (g x)"
  shows "multi_map_conv eq f m = Inr (multi_map eq g m)"
proof (cases m)
  case (Inconsistent v)
  have "(\<lambda>(s, r). map_ok (Pair s) (result_conv f r)) sr = Inr ((\<lambda>(s, r). (s, map_ok g r)) sr)"
    for sr :: "RpcService \<times> 'a RpcResult"
    by (cases sr) (simp add: result_conv_total [OF assms])
  then have "list_conv (\<lambda>(s, r). map_ok (Pair s) (result_conv f r)) v = Inr (map (\<lambda>(s, r). (s, map_ok g r)) v)"
    by (rule list_conv_total)
  then show ?thesis by (simp add: Inconsistent)
qed (simp add: result_conv_total [OF assms])

lemma multi_and_then_conv_total:
  assumes "\<And>x. f x = Inr (g x)"
  shows "multi_and_then_conv eq f m = Inr (multi_and_then eq g m)"
proof -
  have conv: "result_and_then_conv f r = Inr (and_then r g)" for r
    by (cases r) (simp_all add: assms)
  show ?thesis
  proof (cases m)
    case (Inconsistent v)
    have "(\<lambda>(s, r). map_ok (Pair s) (result_and_then_conv f r)) sr = Inr ((\<lambda>(s, r). (s, and_then r g)) sr)"
      for sr :: "RpcService \<times> 'a RpcResult"
      by (cases sr) (simp add: conv)
    then have "list_conv (\<lambda>(s, r). map_ok (Pair s) (result_and_then_conv f r)) v
        = Inr (map (\<lambda>(s, r). (s, and_then r g)) v)"
      by (rule list_conv_total)
    then show ?thesis by (simp add: Inconsistent)
  qed (simp add: conv)
qed

lemma multi_map_conv_inj:
  assumes "\<And>x. f x = Inr (g x)" "inj g"
  shows "multi_map_conv (=) f (Inconsistent v) =
    Inr (if uniform (=) v then Consistent (map_ok g (snd (hd v)))
         else Inconsistent (map (\<lambda>(s, r). (s, map_ok g r)) v))"
proof -
  have "map_ok g x = map_ok g y \<longleftrightarrow> x = y" for x y :: "'a RpcResult"
    using assms(2) by (cases x; cases y) (auto dest: injD)
  then have "uniform (=) (map (\<lambda>(s, r). (s, map_ok g r)) v) \<longleftrightarrow> uniform (=) v"
    by (cases v) (auto simp: uniform_HOL split_beta)
  moreover have "uniform (=) v \<Longrightarrow> v \<noteq> []" by (simp add: uniform_HOL)
  ultimately show ?thesis
    unfolding multi_map_conv_total [OF assms(1)] multi_map.simps collapse_Inconsistent
    by (auto simp: hd_map split_beta)
qed


subsection \<open>Properties\<close>

text \<open>The conversion of a provider's answers to Candid is lossless and never traps: different blocks,
  receipts, lists of log entries or fee histories convert to different answers, so two answers that
  disagree before the conversion still disagree after it; the total difficulty is always left out.\<close>

lemma answers_lossless:
  assumes "num_spec N"
  shows "(\<exists>c. from_block N b = Inr c \<and> cblk_total_difficulty c = None
           \<and> cblk_number c = Nat256 (unat (inner (blk_number b))))
    \<and> (from_block N b = from_block N b' \<longleftrightarrow> b = b')
    \<and> (\<exists>c. from_log_entries N ls = Inr c \<and> length c = length ls)
    \<and> (from_log_entries N ls = from_log_entries N ls' \<longleftrightarrow> ls = ls')
    \<and> (\<exists>c. from_transaction_receipt N r = Inr c)
    \<and> (from_transaction_receipt N r = from_transaction_receipt N r' \<longleftrightarrow> r = r')
    \<and> (\<exists>c. from_fee_history N h = Inr c)
    \<and> (from_fee_history N h = from_fee_history N h' \<longleftrightarrow> h = h')"
  by (intro conjI from_block_faithful from_log_entries_faithful from_transaction_receipt_faithful
        from_fee_history_faithful assms)

lemma answers_lossless_witness:
  "\<exists>c. from_log_entries ref_num_ops [] = Inr c \<and> length c = length ([] :: LogEntry list)"
  using answers_lossless [OF ref_num_spec] by blast

text \<open>C36. The conversion of a call's transaction is lossless: when its numbers fit in 256 bits, as every
  decoded \<open>Nat256\<close> does, it never traps and different transactions become different requests,
  with the same value.\<close>

theorem transaction_request_lossless:
  assumes "num_spec N"
    and "list_all fits [ctr_nonce x, ctr_gas x, ctr_value x, ctr_gas_price x, ctr_max_priority_fee_per_gas x,
           ctr_max_fee_per_gas x, ctr_max_fee_per_blob_gas x, ctr_chain_id x]"
    and "list_all fits [ctr_nonce y, ctr_gas y, ctr_value y, ctr_gas_price y, ctr_max_priority_fee_per_gas y,
           ctr_max_fee_per_gas y, ctr_max_fee_per_blob_gas y, ctr_chain_id y]"
  shows "(\<exists>t. into_transaction_request N x = Inr t
            \<and> (case ctr_value x of None \<Rightarrow> tr_value t = None
               | Some n \<Rightarrow> (\<exists>a. tr_value t = Some a \<and> unat (inner a) = nat256 n)))
    \<and> (into_transaction_request N x = into_transaction_request N y \<longleftrightarrow> x = y)"
proof -
  have run: "into_transaction_request N z =
      Inr \<lparr>tr_tx_type = map_option (\<lambda>t. JsonByte_new (u8_from_HexByte t)) (ctr_tx_type z),
           tr_nonce = map_option amount_of_nat (ctr_nonce z),
           tr_to = map_option into_address (ctr_to z), tr_from = map_option into_address (ctr_from z),
           tr_gas = map_option amount_of_nat (ctr_gas z),
           tr_value = map_option amount_of_nat (ctr_value z),
           tr_input = map_option into_data (ctr_input z),
           tr_gas_price = map_option amount_of_nat (ctr_gas_price z),
           tr_max_priority_fee_per_gas = map_option amount_of_nat (ctr_max_priority_fee_per_gas z),
           tr_max_fee_per_gas = map_option amount_of_nat (ctr_max_fee_per_gas z),
           tr_max_fee_per_blob_gas = map_option amount_of_nat (ctr_max_fee_per_blob_gas z),
           tr_access_list = map_option map_access_list (ctr_access_list z),
           tr_blob_versioned_hashes = map_option (map into_hash) (ctr_blob_versioned_hashes z),
           tr_blobs = map_option (map into_data) (ctr_blobs z),
           tr_chain_id = map_option amount_of_nat (ctr_chain_id z)\<rparr>"
    if "list_all fits [ctr_nonce z, ctr_gas z, ctr_value z, ctr_gas_price z, ctr_max_priority_fee_per_gas z,
          ctr_max_fee_per_gas z, ctr_max_fee_per_blob_gas z, ctr_chain_id z]" for z
    using that by (simp add: into_transaction_request_def opt_amount_fits [OF assms(1)])
  have "inj map_access_list" by (simp add: inj_def map_access_list_inj)
  then have "into_transaction_request N x = into_transaction_request N y \<longleftrightarrow> x = y"
    unfolding run [OF assms(2)] run [OF assms(3)]
    using assms(2,3) inj_mapI [OF inj_wrappers(6)] inj_mapI [OF inj_wrappers(7)]
    by (cases x; cases y) (auto simp: by_inj opt_amount_inj)
  moreover have "unat (inner (amount_of_nat n :: Wei)) = nat256 n" if "nat256 n < 2 ^ 256" for n
    using that by (simp add: amount_of_nat_def unsigned_of_nat take_bit_nat_eq_self)
  ultimately show ?thesis
    using assms(2) by (auto simp: run [OF assms(2)] split: option.split)
qed

definition example_transaction :: CandidTransactionRequest where
  "example_transaction =
     \<lparr>ctr_tx_type = None, ctr_nonce = None, ctr_to = None, ctr_from = None, ctr_gas = Some (Nat256 21000),
      ctr_value = Some (Nat256 7), ctr_input = None, ctr_gas_price = None,
      ctr_max_priority_fee_per_gas = None, ctr_max_fee_per_gas = None, ctr_max_fee_per_blob_gas = None,
      ctr_access_list = None, ctr_blob_versioned_hashes = None, ctr_blobs = None, ctr_chain_id = None\<rparr>"

theorem transaction_request_lossless_witness:
  "\<exists>t a. into_transaction_request ref_num_ops example_transaction = Inr t
     \<and> tr_value t = Some a \<and> unat (inner a) = 7"
  using transaction_request_lossless [OF ref_num_spec, of example_transaction example_transaction]
  by (auto simp: example_transaction_def)

end
