(* ===== verification/Candid_Rpc.thy ===== *)
theory Candid_Rpc
  imports Rpc_Client Candid_Conversion
begin

section \<open>The Candid interface of the client\<close>

text \<open>
  \<^verbatim>\<open>src/candid_rpc/mod.rs\<close>: \<open>process_result\<close>, which counts the providers of an inconsistent answer,
  \<open>CandidRpcClient\<close> with its seven methods, and the block range check of \<open>eth_getLogs\<close>.

  The conversions may trap, so \<open>MultiRpcResult::map\<close> is used in its trapping form \<open>multi_map_conv\<close>.
\<close>

subsection \<open>Inconsistent answers\<close>

text \<open>The counter of a provider of the table; custom APIs are not counted.\<close>

definition inconsistent_key ::
  "(string \<Rightarrow> UrlHost option) \<Rightarrow> RpcMethod \<Rightarrow> RpcService \<Rightarrow> (MetricRpcMethod \<times> MetricRpcHost) option" where
  "inconsistent_key url_host rpc_name service =
     (case resolve_rpc_service service of
        Inr (ResolvedRpcService.Provider provider) \<Rightarrow>
          Some (MetricRpcMethod_from rpc_name,
                MetricRpcHost (unwrap_or ''(unknown)'' (Provider_hostname url_host provider)))
      | _ \<Rightarrow> None)"

definition add_inconsistent ::
  "(string \<Rightarrow> UrlHost option) \<Rightarrow> RpcMethod \<Rightarrow> RpcService \<Rightarrow> ('m, 'lf) canister \<Rightarrow> ('m, 'lf) canister"
where
  "add_inconsistent url_host rpc_name service st =
     (case inconsistent_key url_host rpc_name service of
        None \<Rightarrow> st
      | Some k \<Rightarrow>
          st\<lparr>UNSTABLE_METRICS := (UNSTABLE_METRICS st)
            \<lparr>inconsistent_responses := add_metric_entry (inconsistent_responses (UNSTABLE_METRICS st)) k 1\<rparr>\<rparr>)"

fun process_result ::
  "('rq, 'rs, 'req, 'resp, 'o, 'st) multi_ops \<Rightarrow> (string \<Rightarrow> UrlHost option) \<Rightarrow> RpcMethod
     \<Rightarrow> ('rs, 'o) ReducedResult \<Rightarrow> ('m, 'lf) canister \<Rightarrow> 'o MultiRpcResult \<times> ('m, 'lf) canister" where
  "process_result M url_host rpc_name (Inr v) st = (Consistent (Ok v), st)"
| "process_result M url_host rpc_name (Inl (ConsistentError e)) st = (Consistent (Err e), st)"
| "process_result M url_host rpc_name (Inl (InconsistentResults multi_call_results)) st =
     (let results = mr_into_iter M multi_call_results
      in (Inconsistent results, fold (\<lambda>(service, _). add_inconsistent url_host rpc_name service) results st))"


subsection \<open>The client\<close>

text \<open>What the seven methods are called with besides the canister's memory.\<close>

record ('m, 'v, 'rx) candid_env =
  ce_rpc :: "('m, 'v, 'rx) rpc_env"
  ce_num :: num_ops
  ce_hex :: hex_ops
  ce_url_host :: "string \<Rightarrow> UrlHost option"
  ce_show_nat :: "nat \<Rightarrow> string"  \<comment> \<open>\<open>candid::Nat\<close> as displayed\<close>
  ce_rlp_decode :: "bytes \<Rightarrow> bytes option"  \<comment> \<open>\<open>rlp::decode\<close>: the hash of the transaction\<close>

record CandidRpcClient =
  eth_client :: EthRpcClient

definition CandidRpcClient_new ::
  "('m, 'v) timed_map_ops \<Rightarrow> ('m, 'lf) canister \<Rightarrow> RpcServices \<Rightarrow> RpcConfig option \<Rightarrow> Timestamp
     \<Rightarrow> (CandidRpcClient RpcResult \<times> ('m, 'lf) canister) trapping" where
  "CandidRpcClient_new ops st source config now =
     map_ok
       (\<lambda>(result, st'). (map_ok (\<lambda>c. \<lparr>eth_client = c\<rparr>) (map_err RpcError.ProviderError result), st'))
       (EthRpcClient_new ops st source config now)"

text \<open>\<open>process_result(method, ..).map(conversion)\<close>, the tail of every method.\<close>

definition candid_answer ::
  "('m, 'v, 'rx) candid_env \<Rightarrow> ('rq, 'rs, 'req, 'resp, 'o, 'st) multi_ops \<Rightarrow> RpcMethod
     \<Rightarrow> ('b \<Rightarrow> 'b \<Rightarrow> bool) \<Rightarrow> ('o \<Rightarrow> 'b trapping) \<Rightarrow> ('rs, 'o) ReducedResult \<times> ('m, 'lf) canister
     \<Rightarrow> ('b MultiRpcResult \<times> ('m, 'lf) canister) trapping" where
  "candid_answer C M rpc_name eq conversion out =
     (let (answer, st') = process_result M (ce_url_host C) rpc_name (fst out) (snd out)
      in map_ok (\<lambda>converted. (converted, st')) (multi_map_conv eq conversion answer))"

text \<open>The derived \<open>PartialEq\<close> of \<open>FeeHistory\<close> uses that of \<open>f64\<close>.\<close>

definition eq_FeeHistory :: "('f \<Rightarrow> 'f \<Rightarrow> bool) \<Rightarrow> 'f CandidFeeHistory \<Rightarrow> 'f CandidFeeHistory \<Rightarrow> bool" where
  "eq_FeeHistory eq_f64 a b \<longleftrightarrow>
     cfh_oldest_block a = cfh_oldest_block b \<and> cfh_base_fee_per_gas a = cfh_base_fee_per_gas b
     \<and> list_all2 eq_f64 (cfh_gas_used_ratio a) (cfh_gas_used_ratio b) \<and> cfh_reward a = cfh_reward b"

definition block_range_error :: "(nat \<Rightarrow> string) \<Rightarrow> nat \<Rightarrow> u32 \<Rightarrow> RpcError" where
  "block_range_error show_Nat block_count block_range_limit =
     RpcError.ValidationError (ValidationError.Custom
       (''Requested '' @ show_Nat block_count @ '' blocks; limited to ''
        @ show_nat (unat block_range_limit) @ '' when specifying a start and end block''))"

fun exceeds_block_range :: "CandidBlockTag option \<Rightarrow> CandidBlockTag option \<Rightarrow> u32 \<Rightarrow> nat option" where
  "exceeds_block_range (Some (CandidBlockTag.Number start_block)) (Some (CandidBlockTag.Number end_block))
       block_range_limit =
     (let f = nat256 start_block;
          t = nat256 end_block;
          block_count = (if t > f then t - f else f - t)
      in if block_count > unat block_range_limit then Some block_count else None)"
| "exceeds_block_range _ _ block_range_limit = None"

definition CandidRpcClient_eth_get_logs where
  "CandidRpcClient_eth_get_logs C M new_request self args block_range_limit st =
     (case exceeds_block_range (gla_from_block args) (gla_to_block args) block_range_limit of
        Some block_count \<Rightarrow>
          Inr (Consistent (Err (block_range_error (ce_show_nat C) block_count block_range_limit)), st)
      | None \<Rightarrow>
          and_then (into_get_logs_param (ce_num C) args) (\<lambda>params.
          and_then (eth_get_logs (ce_rpc C) M new_request (eth_client self) params st)
            (candid_answer C M EthGetLogs (=) (from_log_entries (ce_num C)))))"

definition CandidRpcClient_eth_get_block_by_number where
  "CandidRpcClient_eth_get_block_by_number C M new_request self block st =
     and_then (into_block_spec (ce_num C) block) (\<lambda>spec.
     and_then (eth_get_block_by_number (ce_rpc C) M new_request (eth_client self) spec st)
       (candid_answer C M EthGetBlockByNumber (=) (from_block (ce_num C))))"

definition CandidRpcClient_eth_get_transaction_receipt where
  "CandidRpcClient_eth_get_transaction_receipt C M new_request self tx_hash st =
     and_then (eth_get_transaction_receipt (ce_rpc C) M new_request (eth_client self) (into_hash tx_hash) st)
       (candid_answer C M EthGetTransactionReceipt (=)
          (opt_conv (from_transaction_receipt (ce_num C))))"

definition CandidRpcClient_eth_get_transaction_count where
  "CandidRpcClient_eth_get_transaction_count C M new_request self args st =
     and_then (into_get_transaction_count_params (ce_num C) args) (\<lambda>params.
     and_then (eth_get_transaction_count (ce_rpc C) M new_request (eth_client self) params st)
       (candid_answer C M EthGetTransactionCount (=)
          (\<lambda>n :: TransactionCount. Nat256_from_Amount (ce_num C) n)))"

definition CandidRpcClient_eth_fee_history where
  "CandidRpcClient_eth_fee_history C M new_request eq_f64 self args st =
     and_then (into_fee_history_params (ce_num C) args) (\<lambda>params.
     and_then (eth_fee_history (ce_rpc C) M new_request (eth_client self) params st)
       (candid_answer C M EthFeeHistory (eq_FeeHistory eq_f64) (from_fee_history (ce_num C))))"

definition get_transaction_hash :: "(bytes \<Rightarrow> bytes option) \<Rightarrow> Hex \<Rightarrow> Hex32 option" where
  "get_transaction_hash rlp_decode raw_signed_transaction_hex =
     map_option Hex32 (rlp_decode (hex raw_signed_transaction_hex))"

definition CandidRpcClient_eth_send_raw_transaction where
  "CandidRpcClient_eth_send_raw_transaction C M new_request self raw_signed_transaction_hex st =
     (let transaction_hash = get_transaction_hash (ce_rlp_decode C) raw_signed_transaction_hex
      in and_then
           (eth_send_raw_transaction (ce_rpc C) M new_request (eth_client self)
              (hex_to_string (ce_hex C) (hex raw_signed_transaction_hex)) st)
           (candid_answer C M EthSendRawTransaction (=)
              (\<lambda>result. Inr (from_send_raw_transaction_result transaction_hash result))))"

definition CandidRpcClient_eth_call where
  "CandidRpcClient_eth_call C M new_request self args st =
     and_then (into_eth_call_params (ce_num C) args) (\<lambda>params.
     and_then (eth_call (ce_rpc C) M new_request (eth_client self) params st)
       (candid_answer C M EthCall (=) (\<lambda>d. Inr (from_data d))))"


subsection \<open>Counting inconsistent providers\<close>

lemma add_inconsistent_counts:
  "inconsistent_responses (UNSTABLE_METRICS (fold (\<lambda>(service, _). add_inconsistent url_host rpc_name service) results st)) k =
     (let n = length (filter (\<lambda>sr. inconsistent_key url_host rpc_name (fst sr) = Some k) results);
          old = inconsistent_responses (UNSTABLE_METRICS st) k
      in if n = 0 then old else Some (unwrap_or 0 old + of_nat n))"
proof (induction results arbitrary: st)
  case (Cons sr results)
  show ?case
    unfolding fold_Cons o_apply Cons.IH
    by (cases sr; cases "inconsistent_key url_host rpc_name (fst sr)")
      (auto simp: add_inconsistent_def add_metric_entry_def Let_def split: option.split)
qed simp

lemma add_inconsistent_frame:
  "\<exists>m. fold (\<lambda>(service, _). add_inconsistent url_host rpc_name service) results st
     = st\<lparr>UNSTABLE_METRICS := (UNSTABLE_METRICS st)\<lparr>inconsistent_responses := m\<rparr>\<rparr>"
proof (induction results arbitrary: st)
  case Nil
  then show ?case by (intro exI [of _ "inconsistent_responses (UNSTABLE_METRICS st)"]) simp
next
  case (Cons sr results)
  obtain m where "add_inconsistent url_host rpc_name (fst sr) st
      = st\<lparr>UNSTABLE_METRICS := (UNSTABLE_METRICS st)\<lparr>inconsistent_responses := m\<rparr>\<rparr>"
    by (cases "inconsistent_key url_host rpc_name (fst sr)")
      (auto simp: add_inconsistent_def intro: that [of "inconsistent_responses (UNSTABLE_METRICS st)"])
  with Cons.IH [of "add_inconsistent url_host rpc_name (fst sr) st"] show ?case by (auto simp: split_beta)
qed

lemma process_result_frame:
  "\<exists>m. snd (process_result M url_host rpc_name r st)
     = st\<lparr>UNSTABLE_METRICS := (UNSTABLE_METRICS st)\<lparr>inconsistent_responses := m\<rparr>\<rparr>"
proof (cases "(M, url_host, rpc_name, r, st)" rule: process_result.cases)
  case 1
  then show ?thesis by (intro exI [of _ "inconsistent_responses (UNSTABLE_METRICS st)"]) simp
next
  case 2
  then show ?thesis by (intro exI [of _ "inconsistent_responses (UNSTABLE_METRICS st)"]) simp
next
  case 3
  then show ?thesis using add_inconsistent_frame by (simp add: Let_def)
qed

lemma process_result_keeps_outcall_counters:
  "keeps_outcall_counters st (snd (process_result M url_host rpc_name r st))"
  using process_result_frame [of M url_host rpc_name r st] by (auto simp: keeps_outcall_counters_def)


subsection \<open>Properties\<close>


text \<open>The number of blocks a filter covers, ends included, when both ends are block numbers.\<close>

fun block_span :: "CandidBlockTag option \<Rightarrow> CandidBlockTag option \<Rightarrow> nat option" where
  "block_span (Some (CandidBlockTag.Number a)) (Some (CandidBlockTag.Number b)) =
     Some (card {min (nat256 a) (nat256 b)..max (nat256 a) (nat256 b)})"
| "block_span _ _ = None"

lemma exceeds_block_range_iff:
  "exceeds_block_range a b limit =
     (case block_span a b of
        Some n \<Rightarrow> if n > unat limit + 1 then Some (n - 1) else None
      | None \<Rightarrow> None)"
  by (cases "(a, b)" rule: block_span.cases)
    (auto simp: Let_def min_def max_def)

text \<open>C27. A log query is refused because of its block range exactly when both ends are block numbers, in
  whatever order, and the range covers more than one block above the limit, ends included; then nothing
  is sent and nothing changes. In every other case the limit has no influence on the query. The error
  names one block less than the range covers.\<close>

theorem eth_get_logs_range:
  "CandidRpcClient_eth_get_logs C M new_request self args limit st =
     (case block_span (gla_from_block args) (gla_to_block args) of
        Some n \<Rightarrow>
          if n > unat limit + 1
          then Inr (Consistent (Err (block_range_error (ce_show_nat C) (n - 1) limit)), st)
          else CandidRpcClient_eth_get_logs C M new_request self args (- 1) st
      | None \<Rightarrow> CandidRpcClient_eth_get_logs C M new_request self args (- 1) st)"
proof -
  have "unat limit < 2 ^ 32" using unsigned_less [of limit, where ?'a = nat] by simp
  then have "unat limit \<le> unat (- 1 :: u32)" by (simp add: unat_max_word_nat)
  then show ?thesis
    by (auto simp: CandidRpcClient_eth_get_logs_def exceeds_block_range_iff split: option.split)
qed

text \<open>
  What a conversion does to the providers' results, which agree when all are equal under \<open>eq\<close>: it does not
  trap, it answers consistently exactly when they agree, and otherwise lists every provider in its place
  with the conversion of its own result.
\<close>

definition keeps_disagreement ::
  "('a \<Rightarrow> 'a \<Rightarrow> bool) \<Rightarrow> ('a \<Rightarrow> 'b trapping) \<Rightarrow> (RpcService \<times> 'a RpcResult) list
     \<Rightarrow> 'b MultiRpcResult trapping \<Rightarrow> bool" where
  "keeps_disagreement eq f v converted =
     (case converted of
        Inl trap \<Rightarrow> False
      | Inr (Consistent r) \<Rightarrow> uniform eq v \<and> result_conv f (snd (hd v)) = Inr r
      | Inr (Inconsistent w) \<Rightarrow> \<not> uniform eq v
          \<and> list_all2 (\<lambda>(s, r) (s', r'). s' = s \<and> result_conv f r = Inr r') v w)"

lemma keeps_disagreement_conv:
  assumes f: "\<And>x. f x = Inr (g x)" and eq: "\<And>x y. eq' (g x) (g y) \<longleftrightarrow> eq x y"
  shows "keeps_disagreement eq f v (multi_map_conv eq' f (Inconsistent v))"
proof -
  have "result_eq eq' (map_ok g r) (map_ok g r') \<longleftrightarrow> result_eq eq r r'" for r r' :: "'a RpcResult"
    by (cases r; cases r') (simp_all add: eq)
  then have "uniform eq' (map (\<lambda>(s, r). (s, map_ok g r)) v) \<longleftrightarrow> uniform eq v"
    by (cases v) (auto simp: uniform_def list_all_iff split_beta)
  moreover have "uniform eq v \<Longrightarrow> v \<noteq> []" by (simp add: uniform_def)
  ultimately show ?thesis
    unfolding multi_map_conv_total [OF f] multi_map.simps collapse_Inconsistent
    by (auto simp: keeps_disagreement_def split_beta hd_map result_conv_total [OF f] list_all2_conv_all_nth)
qed

lemma keeps_disagreement_inj:
  assumes "\<And>x. f x = Inr (g x)" "inj g"
  shows "keeps_disagreement (=) f v (multi_map_conv (=) f (Inconsistent v))"
  using assms by (intro keeps_disagreement_conv) (auto dest: injD)

lemma total_inj:
  assumes "\<And>x. \<exists>c. f x = Inr c" "\<And>x y. f x = f y \<longleftrightarrow> x = y"
  obtains g where "\<And>x. f x = Inr (g x)" "inj g"
proof -
  from assms(1) obtain g where g: "\<And>x. f x = Inr (g x)" by metis
  with assms(2) have "inj g" by (auto simp: inj_def)
  with g show thesis by (rule that)
qed

lemma keeps_disagreement_faithful:
  assumes "\<And>x. \<exists>c. f x = Inr c" "\<And>x y. f x = f y \<longleftrightarrow> x = y"
  shows "keeps_disagreement (=) f v (multi_map_conv (=) f (Inconsistent v))"
  using assms by (rule total_inj) (rule keeps_disagreement_inj)

lemma from_send_raw_transaction_result_inj:
  "from_send_raw_transaction_result h r = from_send_raw_transaction_result h r' \<longleftrightarrow> r = r'"
  by (cases r; cases r') auto

text \<open>Two fee histories agree when they are equal, the gas used ratios being compared as the code compares
  its floating point numbers.\<close>

definition same_fees :: "('f \<Rightarrow> 'f \<Rightarrow> bool) \<Rightarrow> 'f FeeHistory \<Rightarrow> 'f FeeHistory \<Rightarrow> bool" where
  "same_fees eq_f64 v w \<longleftrightarrow>
     fh_oldest_block v = fh_oldest_block w \<and> fh_base_fee_per_gas v = fh_base_fee_per_gas w
     \<and> list_all2 eq_f64 (fh_gas_used_ratio v) (fh_gas_used_ratio w) \<and> fh_reward v = fh_reward w"

lemma keeps_fees:
  fixes eq_f64 :: "'f \<Rightarrow> 'f \<Rightarrow> bool"
  assumes "num_spec N"
  shows "keeps_disagreement (same_fees eq_f64) (from_fee_history N) v
    (multi_map_conv (eq_FeeHistory eq_f64) (from_fee_history N) (Inconsistent v))"
proof -
  define g :: "'f FeeHistory \<Rightarrow> 'f CandidFeeHistory" where
    "g x = \<lparr>cfh_oldest_block = nat_of_amount (fh_oldest_block x),
            cfh_base_fee_per_gas = map nat_of_amount (fh_base_fee_per_gas x),
            cfh_gas_used_ratio = fh_gas_used_ratio x,
            cfh_reward = map (map nat_of_amount) (fh_reward x)\<rparr>" for x
  have "from_fee_history N x = Inr (g x)" for x
    by (simp add: from_fee_history_def from_amounts [OF assms] g_def)
  moreover have "inj (map (nat_of_amount :: WeiPerGas \<Rightarrow> Nat256))" by (simp add: inj_mapI)
  then have "eq_FeeHistory eq_f64 (g x) (g y) \<longleftrightarrow> same_fees eq_f64 x y" for x y
    by (auto simp: g_def eq_FeeHistory_def same_fees_def by_inj)
  ultimately show ?thesis by (rule keeps_disagreement_conv)
qed

text \<open>C23. The conversion to Candid never turns disagreeing providers into a consistent answer, for any of the
  seven answers: blocks, logs, receipts (or their absence), transaction counts, fee histories (whose gas
  used ratios are compared as floating point numbers), sent transactions and call results. It is
  consistent exactly when the providers' results already agreed, and then it is the conversion of that
  result; otherwise every provider keeps its place and the conversion of its own result.\<close>

theorem conversions_keep_disagreement:
  assumes "num_spec (ce_num C)"
  shows "keeps_disagreement (=) (from_block (ce_num C)) blocks
        (multi_map_conv (=) (from_block (ce_num C)) (Inconsistent blocks))
    \<and> keeps_disagreement (=) (from_log_entries (ce_num C)) logs
        (multi_map_conv (=) (from_log_entries (ce_num C)) (Inconsistent logs))
    \<and> keeps_disagreement (=) (opt_conv (from_transaction_receipt (ce_num C))) receipts
        (multi_map_conv (=) (opt_conv (from_transaction_receipt (ce_num C))) (Inconsistent receipts))
    \<and> keeps_disagreement (=) (\<lambda>n :: TransactionCount. Nat256_from_Amount (ce_num C) n) counts
        (multi_map_conv (=) (\<lambda>n. Nat256_from_Amount (ce_num C) n) (Inconsistent counts))
    \<and> keeps_disagreement (same_fees eq_f64) (from_fee_history (ce_num C)) fees
        (multi_map_conv (eq_FeeHistory eq_f64) (from_fee_history (ce_num C)) (Inconsistent fees))
    \<and> keeps_disagreement (=) (\<lambda>r. Inr (from_send_raw_transaction_result h r)) sent
        (multi_map_conv (=) (\<lambda>r. Inr (from_send_raw_transaction_result h r)) (Inconsistent sent))
    \<and> keeps_disagreement (=) (\<lambda>d. Inr (from_data d)) called
        (multi_map_conv (=) (\<lambda>d. Inr (from_data d)) (Inconsistent called))"
proof (intro conjI)
  show "keeps_disagreement (=) (from_block (ce_num C)) blocks
      (multi_map_conv (=) (from_block (ce_num C)) (Inconsistent blocks))"
    using from_block_faithful [OF assms] by (intro keeps_disagreement_faithful) blast+
  show "keeps_disagreement (=) (from_log_entries (ce_num C)) logs
      (multi_map_conv (=) (from_log_entries (ce_num C)) (Inconsistent logs))"
    using from_log_entries_faithful [OF assms] by (intro keeps_disagreement_faithful) blast+
  show "keeps_disagreement (=) (opt_conv (from_transaction_receipt (ce_num C))) receipts
      (multi_map_conv (=) (opt_conv (from_transaction_receipt (ce_num C))) (Inconsistent receipts))"
  proof (rule total_inj)
    fix g :: "TransactionReceipt \<Rightarrow> CandidTransactionReceipt"
    assume "\<And>r. from_transaction_receipt (ce_num C) r = Inr (g r)" "inj g"
    then show ?thesis
      by (intro keeps_disagreement_inj [where g = "map_option g"] opt_conv_total option.inj_map)
  qed (use from_transaction_receipt_faithful [OF assms] in blast)+
  show "keeps_disagreement (=) (\<lambda>n :: TransactionCount. Nat256_from_Amount (ce_num C) n) counts
      (multi_map_conv (=) (\<lambda>n. Nat256_from_Amount (ce_num C) n) (Inconsistent counts))"
    by (rule keeps_disagreement_inj [where g = nat_of_amount]) (simp_all add: from_amounts [OF assms])
  show "keeps_disagreement (same_fees eq_f64) (from_fee_history (ce_num C)) fees
      (multi_map_conv (eq_FeeHistory eq_f64) (from_fee_history (ce_num C)) (Inconsistent fees))"
    by (rule keeps_fees [OF assms])
  show "keeps_disagreement (=) (\<lambda>r. Inr (from_send_raw_transaction_result h r)) sent
      (multi_map_conv (=) (\<lambda>r. Inr (from_send_raw_transaction_result h r)) (Inconsistent sent))"
    by (intro keeps_disagreement_faithful) (simp_all add: from_send_raw_transaction_result_inj)
  show "keeps_disagreement (=) (\<lambda>d. Inr (from_data d)) called
      (multi_map_conv (=) (\<lambda>d. Inr (from_data d)) (Inconsistent called))"
    by (intro keeps_disagreement_faithful) (auto simp: from_data_def intro: Data.expand)
qed

subsection \<open>Consensus\<close>

text \<open>
  What the canister relies on in the two reductions of \<open>canhttp\<close>: a successful reduction by equality is the
  result of every provider, one by threshold the result of at least that many; what is reported as
  inconsistent by equality does not agree, and what is reported as inconsistent by threshold are the
  results that were to be reduced.
\<close>

definition reduces_soundly :: "('rq, 'rs, 'req, 'resp, 'o, 'st) multi_ops \<Rightarrow> bool" where
  "reduces_soundly M \<longleftrightarrow>
     (\<forall>rs. case mr_reduce_equality M rs of
        Inr x \<Rightarrow> \<forall>kr \<in> set (mr_into_iter M rs). snd kr = Ok x
      | Inl (ConsistentError e) \<Rightarrow> True
      | Inl (InconsistentResults rs') \<Rightarrow> \<not> uniform (=) (mr_into_iter M rs'))
     \<and> (\<forall>mn rs. case mr_reduce_threshold M mn rs of
        Inr x \<Rightarrow> unat mn \<le> card {k. (k, Ok x) \<in> set (mr_into_iter M rs)}
      | Inl (ConsistentError e) \<Rightarrow> True
      | Inl (InconsistentResults rs') \<Rightarrow> rs' = rs)"

lemma ref_multi_reduces_soundly:
  "reduces_soundly (ref_multi answer :: (_, _, 'req, 'resp, 'o, 'st) multi_ops)"
  (is "reduces_soundly ?M")
proof -
  have "case mr_reduce_equality ?M rs of
        Inr x \<Rightarrow> \<forall>kr \<in> set (mr_into_iter ?M rs). snd kr = Ok x
      | Inl (ConsistentError e) \<Rightarrow> True
      | Inl (InconsistentResults rs') \<Rightarrow> \<not> uniform (=) (mr_into_iter ?M rs')"
    for rs :: "(RpcService \<times> 'o RpcResult) list"
  proof (cases rs)
    case Nil
    then show ?thesis by (simp add: ref_multi_def uniform_def)
  next
    case (Cons kr rs')
    then show ?thesis
      by (cases kr; cases "snd kr") (auto simp: ref_multi_def uniform_HOL list_all_iff)
  qed
  moreover have "case mr_reduce_threshold ?M mn rs of
        Inr x \<Rightarrow> unat mn \<le> card {k. (k, Ok x) \<in> set (mr_into_iter ?M rs)}
      | Inl (ConsistentError e) \<Rightarrow> True
      | Inl (InconsistentResults rs') \<Rightarrow> rs' = rs" for mn and rs :: "(RpcService \<times> 'o RpcResult) list"
  proof -
    let ?shared = "\<lambda>kr. \<not> isl (snd kr) \<and> unat mn \<le> card (set (map fst (filter (\<lambda>kr'. snd kr' = snd kr) rs)))"
    have keys: "set (map fst (filter (\<lambda>kr'. snd kr' = Inr x) rs)) = {k. (k, Inr x) \<in> set rs}" for x :: 'o
      by force
    show ?thesis
    proof (cases "find ?shared rs")
      case None
      then show ?thesis by (simp add: ref_multi_def)
    next
      case (Some kr)
      then have "?shared kr" by (auto simp: find_Some_iff)
      then obtain k x where "kr = (k, Inr x)" by (cases kr; cases "snd kr") auto
      with Some \<open>?shared kr\<close> show ?thesis
        by (simp add: ref_multi_def keys del: set_map set_filter)
    qed
  qed
  ultimately show ?thesis by (simp add: reduces_soundly_def)
qed

lemma reduces_soundlyD:
  assumes "reduces_soundly M"
  shows "mr_reduce_equality M rs = Inr x \<Longrightarrow> kr \<in> set (mr_into_iter M rs) \<Longrightarrow> snd kr = Ok x"
    and "mr_reduce_equality M rs = Inl (InconsistentResults rs') \<Longrightarrow> \<not> uniform (=) (mr_into_iter M rs')"
    and "mr_reduce_threshold M mn rs = Inr x \<Longrightarrow> unat mn \<le> card {k. (k, Ok x) \<in> set (mr_into_iter M rs)}"
    and "mr_reduce_threshold M mn rs = Inl (InconsistentResults rs') \<Longrightarrow> rs' = rs"
  using assms [unfolded reduces_soundly_def, THEN conjunct1, rule_format, of rs]
    assms [unfolded reduces_soundly_def, THEN conjunct2, rule_format, where mn = mn and rs = rs]
  by (auto split: sum.splits)

lemma uniform_ok_card:
  assumes "\<forall>kr \<in> set v. snd kr = Ok b"
  shows "card {k. (k, Ok b) \<in> set v} = card (fst ` set v)"
proof -
  from assms have "{k. (k, Ok b) \<in> set v} = fst ` set v" by force
  then show ?thesis by simp
qed

lemma candid_answer_consistent:
  assumes f: "\<And>x. f x = Inr (g x)" "inj g" and M: "reduces_soundly M"
    and answer: "candid_answer C M rpc_name (=) f (reduce_with M strategy results, st1)
                   = Inr (Consistent (Ok c), st')"
  shows "\<exists>b. f b = Inr c \<and>
    (case strategy of
       ByEquality \<Rightarrow> \<forall>kr \<in> set (mr_into_iter M results). snd kr = Ok b
     | ByThreshold mn \<Rightarrow>
         min (unat mn) (card (fst ` set (mr_into_iter M results)))
           \<le> card {k. (k, Ok b) \<in> set (mr_into_iter M results)})"
proof (cases "reduce_with M strategy results")
  case (Inr x)
  with answer have "f x = Inr c" by (auto simp: candid_answer_def f map_ok_eq_Inr)
  moreover have "case strategy of
       ByEquality \<Rightarrow> \<forall>kr \<in> set (mr_into_iter M results). snd kr = Ok x
     | ByThreshold mn \<Rightarrow> unat mn \<le> card {k. (k, Ok x) \<in> set (mr_into_iter M results)}"
    using Inr reduces_soundlyD [OF M] by (cases strategy) auto
  ultimately show ?thesis by (auto split: ReductionStrategy.splits)
next
  case (Inl e)
  then show ?thesis
  proof (cases e)
    case (InconsistentResults rs')
    let ?v = "mr_into_iter M rs'"
    have "uniform (=) ?v \<and> map_ok g (snd (hd ?v)) = Ok c"
      using answer
      by (auto simp: Inl InconsistentResults candid_answer_def Let_def multi_map_conv_inj [OF f]
           simp del: multi_map_conv.simps split: if_splits)
    then obtain b where b: "c = g b" "snd (hd ?v) = Ok b" "uniform (=) ?v"
      by (auto simp: map_ok_eq_Inr)
    have all: "\<forall>kr \<in> set ?v. snd kr = Ok b"
      using b(3) unfolding uniform_HOL b(2) by (rule conjunct2)
    obtain mn where mn: "strategy = ByThreshold mn"
      using reduces_soundlyD(2) [OF M] b(3) Inl InconsistentResults by (cases strategy) auto
    then have "rs' = results" using reduces_soundlyD(4) [OF M] Inl InconsistentResults by auto
    then show ?thesis
      using b(1) f(1) uniform_ok_card [OF all] mn by auto
  qed (use answer Inl in \<open>auto simp: candid_answer_def\<close>)
qed


definition example_block :: Block where
  "example_block =
     \<lparr>blk_base_fee_per_gas = None, blk_number = Amount 5, blk_difficulty = None, blk_extra_data = Data [],
      blk_gas_limit = Amount 0, blk_gas_used = Amount 0, blk_hash = Hash [1], blk_logs_bloom = LogsBloom [],
      blk_miner = Address [], blk_mix_hash = Hash [], blk_nonce = Amount 0, blk_parent_hash = Hash [],
      blk_receipts_root = Hash [], blk_sha3_uncles = Hash [], blk_size = Amount 0, blk_state_root = Hash [],
      blk_timestamp = Amount 0, blk_transactions = [], blk_transactions_root = None, blk_uncles = []\<rparr>"

definition block_answer :: "(unit JsonRpcErr + Block) RpcResult" where
  "block_answer = Inr (Inr example_block)"

definition example_candid_env :: "(ref_usage, Timestamp list, string) candid_env" where
  "example_candid_env =
     \<lparr>ce_rpc = example_rpc_env, ce_num = ref_num_ops, ce_hex = ref_hex_ops, ce_url_host = (\<lambda>_. None),
      ce_show_nat = show_nat, ce_rlp_decode = (\<lambda>_. None)\<rparr>"

definition example_fees :: "u256 list list \<Rightarrow> nat FeeHistory" where
  "example_fees reward =
     \<lparr>fh_oldest_block = Amount 5, fh_base_fee_per_gas = [Amount 7], fh_gas_used_ratio = [1],
      fh_reward = map (map Amount) reward\<rparr>"

lemma conversions_keep_disagreement_witness:
  "\<exists>fees. multi_map_conv (eq_FeeHistory (=)) (from_fee_history ref_num_ops)
        (Inconsistent [(RpcService.Provider 1, Ok (example_fees [[1]])),
                       (RpcService.Provider 2, Ok (example_fees [[2]]))])
      = Inr (Inconsistent fees) \<and> map fst fees = [RpcService.Provider 1, RpcService.Provider 2]"
proof -
  let ?v = "[(RpcService.Provider 1, Ok (example_fees [[1]])), (RpcService.Provider 2, Ok (example_fees [[2]]))]"
  have env: "ce_num example_candid_env = ref_num_ops" by (simp add: example_candid_env_def)
  have "num_spec (ce_num example_candid_env)" unfolding env by (rule ref_num_spec)
  from conversions_keep_disagreement [OF this, unfolded env]
  have "keeps_disagreement (same_fees (=)) (from_fee_history ref_num_ops) ?v
      (multi_map_conv (eq_FeeHistory (=)) (from_fee_history ref_num_ops) (Inconsistent ?v))"
    by blast
  moreover have "\<not> uniform (same_fees (=)) ?v"
    by (simp add: uniform_def same_fees_def example_fees_def)
  ultimately show ?thesis
    by (auto simp: keeps_disagreement_def list_all2_Cons1 split: sum.splits MultiRpcResult.splits
         simp del: multi_map_conv.simps)
qed

lemma example_block_run:
  assumes "from_block ref_num_ops example_block = Inr c"
  shows "\<exists>st'. CandidRpcClient_eth_get_block_by_number example_candid_env (ref_multi block_answer)
      (\<lambda>m (p :: GetBlockByNumberParams). ()) \<lparr>eth_client = example_client ''good''\<rparr> CandidBlockTag.Latest
      (initial_memory ref_timed_ops ()) = Inr (Consistent (Ok c), st')"
  using assms
  by (simp add: CandidRpcClient_eth_get_block_by_number_def eth_get_block_by_number_def call_and_reduce_def
        client_response_size_estimate_def example_client_def default_RpcConfig_def expected_block_size_def
        ResponseSizeEstimate_new_def MAX_PAYLOAD_SIZE_def HTTP_MAX_SIZE_def HEADER_SIZE_LIMIT_def networks
        parallel_call_def Let_def provider_request_def ResolvedRpcService_post_eq
        get_override_provider_def initial_memory_def default_OverrideProvider_def OverrideProvider_apply_def
        build_request_def example_rpc_env_def example_candid_env_def ref_multi_def block_answer_def
        into_rpc_result_def consensus_strategy_def default_ConsensusStrategy_def candid_answer_def)


end
