(* ===== verification/Metrics_Encoding.thy ===== *)
theory Metrics_Encoding
  imports Canister_State
begin

section \<open>Exporting the metrics\<close>

text \<open>
  \<open>encode_metrics\<close> of \<^verbatim>\<open>src/metrics.rs\<close> with the labels of \<^verbatim>\<open>src/types/mod.rs\<close>. The text encoder of
  \<open>ic_metrics_encoder\<close>, the conversion to \<open>f64\<close>, the gauges of the system and the order in which a \<open>HashMap\<close>
  is iterated are parameters.
\<close>

subsection \<open>Labels\<close>

type_synonym labels = "(string \<times> string) list"

fun labels_method :: "MetricRpcMethod \<Rightarrow> labels" where
  "labels_method (MetricRpcMethod v) = [(''method'', v)]"

fun labels_host :: "MetricRpcHost \<Rightarrow> labels" where
  "labels_host (MetricRpcHost v) = [(''host'', v)]"

fun labels_status :: "MetricHttpStatusCode \<Rightarrow> labels" where
  "labels_status (MetricHttpStatusCode v) = [(''status'', v)]"

primrec rejection_label :: "LegacyRejectionCode \<Rightarrow> string" where
  "rejection_label LegacyRejectionCode.NoError = ''NO_ERROR''"
| "rejection_label LegacyRejectionCode.SysFatal = ''SYS_FATAL''"
| "rejection_label LegacyRejectionCode.SysTransient = ''SYS_TRANSIENT''"
| "rejection_label LegacyRejectionCode.DestinationInvalid = ''DESTINATION_INVALID''"
| "rejection_label LegacyRejectionCode.CanisterReject = ''CANISTER_REJECT''"
| "rejection_label LegacyRejectionCode.CanisterError = ''CANISTER_ERROR''"
| "rejection_label LegacyRejectionCode.Unknown = ''UNKNOWN''"

definition labels_rejection :: "LegacyRejectionCode \<Rightarrow> labels" where
  "labels_rejection code = [(''code'', rejection_label code)]"

fun labels_pair :: "('a \<Rightarrow> labels) \<Rightarrow> ('b \<Rightarrow> labels) \<Rightarrow> 'a \<times> 'b \<Rightarrow> labels" where
  "labels_pair f g (a, b) = f a @ g b"

fun labels_triple :: "('a \<Rightarrow> labels) \<Rightarrow> ('b \<Rightarrow> labels) \<Rightarrow> ('c \<Rightarrow> labels) \<Rightarrow> 'a \<times> 'b \<times> 'c \<Rightarrow> labels" where
  "labels_triple f g h (a, b, c) = f a @ g b @ h c"

text \<open>
  The contract of the trait \<open>MetricLabels\<close> that the exported counters need: the labels of a key determine it,
  and all keys of a type have the same number of labels. Pairs and triples inherit it.
\<close>

locale labelled =
  fixes labels_of :: "'a \<Rightarrow> labels"
  assumes inj: "labels_of x = labels_of y \<Longrightarrow> x = y"
    and same_length: "length (labels_of x) = length (labels_of y)"
begin

lemma append_inj: "labels_of x @ l = labels_of y @ l' \<longleftrightarrow> x = y \<and> l = l'"
  using same_length [of x y] by (auto dest: inj)

lemma inject: "labels_of x = labels_of y \<longleftrightarrow> x = y"
  by (auto dest: inj)

lemma distinct_samples:
  "distinct (map fst entries) \<Longrightarrow> distinct (map (\<lambda>(k, v). (name, labels_of k)) entries)"
  by (induction entries) (auto simp: inject image_iff)

end

locale pair_labels = first: labelled f + second: labelled g
  for f :: "'a \<Rightarrow> labels" and g :: "'b \<Rightarrow> labels"

sublocale pair_labels < pair: labelled "labels_pair f g"
proof
  fix x y :: "'a \<times> 'b"
  show "labels_pair f g x = labels_pair f g y \<Longrightarrow> x = y"
    by (cases x; cases y) (simp add: first.append_inj second.inject)
  show "length (labels_pair f g x) = length (labels_pair f g y)"
    using first.same_length [of "fst x" "fst y"] second.same_length [of "snd x" "snd y"]
    by (cases x; cases y) simp
qed

locale triple_labels = pair_labels f g + third: labelled h
  for f :: "'a \<Rightarrow> labels" and g :: "'b \<Rightarrow> labels" and h :: "'c \<Rightarrow> labels"

sublocale triple_labels < triple: labelled "labels_triple f g h"
proof
  fix x y :: "'a \<times> 'b \<times> 'c"
  show "labels_triple f g h x = labels_triple f g h y \<Longrightarrow> x = y"
    by (cases x; cases y) (simp add: first.append_inj second.append_inj third.inject)
  show "length (labels_triple f g h x) = length (labels_triple f g h y)"
    using first.same_length [of "fst x" "fst y"] second.same_length [of "fst (snd x)" "fst (snd y)"]
      third.same_length [of "snd (snd x)" "snd (snd y)"]
    by (cases x; cases y) simp
qed

lemma labels_inj:
  "labels_method m = labels_method m' \<longleftrightarrow> m = m'" "labels_host h = labels_host h' \<longleftrightarrow> h = h'"
  "labels_status s = labels_status s' \<longleftrightarrow> s = s'" "labels_rejection c = labels_rejection c' \<longleftrightarrow> c = c'"
proof -
  show "labels_method m = labels_method m' \<longleftrightarrow> m = m'" by (cases m; cases m') simp
  show "labels_host h = labels_host h' \<longleftrightarrow> h = h'" by (cases h; cases h') simp
  show "labels_status s = labels_status s' \<longleftrightarrow> s = s'" by (cases s; cases s') simp
  show "labels_rejection c = labels_rejection c' \<longleftrightarrow> c = c'"
    by (cases c; cases c') (simp_all add: labels_rejection_def)
qed

lemma labels_length [simp]:
  "length (labels_method m) = 1" "length (labels_host h) = 1" "length (labels_status s) = 1"
  "length (labels_rejection c) = 1"
  by (cases m; cases h; cases s; simp add: labels_rejection_def)+

interpretation per_host: pair_labels labels_method labels_host
  by unfold_locales (simp_all add: labels_inj)

interpretation per_status: triple_labels labels_method labels_host labels_status
  by unfold_locales (simp_all add: labels_inj)

interpretation per_rejection: triple_labels labels_method labels_host labels_rejection
  by unfold_locales (simp_all add: labels_inj)


subsection \<open>The encoder\<close>

text \<open>
  \<open>en_counter\<close> is \<open>counter_vec(name, descr)\<close> followed by \<open>value(labels, v)\<close>; \<open>en_gauge\<close> writes a gauge. Each
  returns an I/O error or succeeds, and the new state of the writer.
\<close>

record ('f, 'w) encoder_ops =
  en_counter :: "string \<Rightarrow> string \<Rightarrow> labels \<Rightarrow> 'f \<Rightarrow> 'w \<Rightarrow> (string + unit) \<times> 'w"
  en_gauge :: "string \<Rightarrow> string \<Rightarrow> labels \<Rightarrow> 'f \<Rightarrow> 'w \<Rightarrow> (string + unit) \<times> 'w"
  en_f64 :: "nat \<Rightarrow> 'f"
  en_times_page_size :: "'f \<Rightarrow> 'f"

text \<open>The iteration order of the maps.\<close>

record map_order =
  mo_requests :: "(MetricRpcMethod \<times> MetricRpcHost \<rightharpoonup> u64) \<Rightarrow> ((MetricRpcMethod \<times> MetricRpcHost) \<times> u64) list"
  mo_responses :: "(MetricRpcMethod \<times> MetricRpcHost \<times> MetricHttpStatusCode \<rightharpoonup> u64)
     \<Rightarrow> ((MetricRpcMethod \<times> MetricRpcHost \<times> MetricHttpStatusCode) \<times> u64) list"
  mo_cycles :: "(MetricRpcMethod \<times> MetricRpcHost \<rightharpoonup> u128) \<Rightarrow> ((MetricRpcMethod \<times> MetricRpcHost) \<times> u128) list"
  mo_rejections :: "(MetricRpcMethod \<times> MetricRpcHost \<times> LegacyRejectionCode \<rightharpoonup> u64)
     \<Rightarrow> ((MetricRpcMethod \<times> MetricRpcHost \<times> LegacyRejectionCode) \<times> u64) list"

text \<open>What the system reports: cycles, version, stable and heap memory.\<close>

record system_gauges =
  sg_balance :: u128
  sg_version :: u64
  sg_stable_pages :: u64
  sg_heap_bytes :: nat

text \<open>The trait \<open>MetricValue\<close>: an unsigned integer of any width, converted with \<open>as f64\<close>.\<close>

definition metric_value :: "('f, 'w) encoder_ops \<Rightarrow> 'n::len word \<Rightarrow> 'f" where
  "metric_value E self = en_f64 E (unat self)"

text \<open>Errors of a single counter are ignored (\<open>unwrap_or(())\<close>).\<close>

definition counter_entries ::
  "('f, 'w) encoder_ops \<Rightarrow> ('k \<Rightarrow> labels) \<Rightarrow> string \<Rightarrow> ('k \<times> 'n::len word) list \<Rightarrow> string \<Rightarrow> 'w \<Rightarrow> 'w" where
  "counter_entries E metric_labels name entries descr w =
     fold (\<lambda>(k, v) w. snd (en_counter E name descr (metric_labels k) (metric_value E v) w)) entries w"

text \<open>\<open>gauge_then\<close> is a gauge followed by \<open>?\<close>.\<close>

fun gauge_then :: "(string + unit) \<times> 'w \<Rightarrow> ('w \<Rightarrow> (string + unit) \<times> 'w) \<Rightarrow> (string + unit) \<times> 'w" where
  "gauge_then (Inl e, w) rest = (Err e, w)"
| "gauge_then (Inr u, w) rest = rest w"

definition encode_metrics ::
  "('f, 'w) encoder_ops \<Rightarrow> map_order \<Rightarrow> system_gauges \<Rightarrow> Metrics \<Rightarrow> 'w \<Rightarrow> (string + unit) \<times> 'w" where
  "encode_metrics E H G m w =
     gauge_then (en_gauge E ''cycle_balance'' ''Cycle balance of this canister'' [(''canister'', ''evmrpc'')]
       (metric_value E (sg_balance G)) w) (\<lambda>w.
     gauge_then (en_gauge E ''evmrpc_canister_version'' ''Canister version'' []
       (metric_value E (sg_version G)) w) (\<lambda>w.
     gauge_then (en_gauge E ''stable_memory_bytes'' ''Size of the stable memory allocated by this canister.'' []
       (en_times_page_size E (en_f64 E (unat (sg_stable_pages G)))) w) (\<lambda>w.
     gauge_then (en_gauge E ''heap_memory_bytes'' ''Size of the heap memory allocated by this canister.'' []
       (en_f64 E (sg_heap_bytes G)) w) (\<lambda>w.
     let w = counter_entries E (labels_pair labels_method labels_host) ''evmrpc_cycles_charged''
           (mo_cycles H (cycles_charged m)) ''Number of cycles charged for RPC calls'' w;
         w = counter_entries E (labels_pair labels_method labels_host) ''evmrpc_requests''
           (mo_requests H (requests m)) ''Number of JSON-RPC requests'' w;
         w = counter_entries E (labels_triple labels_method labels_host labels_status) ''evmrpc_responses''
           (mo_responses H (responses m)) ''Number of JSON-RPC responses'' w;
         w = counter_entries E (labels_pair labels_method labels_host) ''evmrpc_inconsistent_responses''
           (mo_requests H (inconsistent_responses m)) ''Number of inconsistent RPC responses'' w;
         w = counter_entries E (labels_triple labels_method labels_host labels_rejection)
           ''evmrpc_err_http_outcall'' (mo_rejections H (err_http_outcall m))
           ''Number of unsuccessful HTTP outcalls'' w
     in (Ok (), w)))))"

text \<open>The body of \<open>/metrics\<close>: the writer the encoder starts with (\<open>MetricsEncoder::new\<close>) and its contents.\<close>

record ('f, 'w) metrics_export =
  mx_encoder :: "('f, 'w) encoder_ops"
  mx_order :: map_order
  mx_gauges :: system_gauges
  mx_new :: 'w
  mx_into_inner :: "'w \<Rightarrow> string"

definition metrics_text :: "('f, 'w) metrics_export \<Rightarrow> Metrics \<Rightarrow> string + string" where
  "metrics_text X m =
     (let (result, w) = encode_metrics (mx_encoder X) (mx_order X) (mx_gauges X) m (mx_new X)
      in map_ok (\<lambda>_. mx_into_inner X w) result)"


subsection \<open>What is exported\<close>

text \<open>A writer that keeps the counters it was given.\<close>

definition recording_encoder :: "(nat, (string \<times> labels \<times> nat) list) encoder_ops" where
  "recording_encoder =
     \<lparr>en_counter = (\<lambda>name descr labels v w. (Ok (), w @ [(name, labels, v)])),
      en_gauge = (\<lambda>name descr labels v w. (Ok (), w)),
      en_f64 = (\<lambda>n. n), en_times_page_size = (\<lambda>n. n * 65536)\<rparr>"

lemma counter_entries_recorded:
  "counter_entries recording_encoder f name entries descr w
     = w @ map (\<lambda>(k, v). (name, f k, unat v)) entries"
  by (induction entries arbitrary: w) (auto simp: counter_entries_def recording_encoder_def metric_value_def)

text \<open>
  The counters exported are those of five of the six maps, one sample per entry; the sixth, the count of
  responses that were too large, changes nothing in what any encoder writes.
\<close>

lemma encode_metrics_exports:
  "encode_metrics recording_encoder H G m [] =
     (Ok (), map (\<lambda>(k, v). (''evmrpc_cycles_charged'', labels_pair labels_method labels_host k, unat v))
               (mo_cycles H (cycles_charged m))
           @ map (\<lambda>(k, v). (''evmrpc_requests'', labels_pair labels_method labels_host k, unat v))
               (mo_requests H (requests m))
           @ map (\<lambda>(k, v). (''evmrpc_responses'', labels_triple labels_method labels_host labels_status k, unat v))
               (mo_responses H (responses m))
           @ map (\<lambda>(k, v). (''evmrpc_inconsistent_responses'', labels_pair labels_method labels_host k, unat v))
               (mo_requests H (inconsistent_responses m))
           @ map (\<lambda>(k, v). (''evmrpc_err_http_outcall'',
                 labels_triple labels_method labels_host labels_rejection k, unat v))
               (mo_rejections H (err_http_outcall m)))"
proof -
  have gauge: "en_gauge recording_encoder n d l v w = (Ok (), w)" for n d l v w
    by (simp add: recording_encoder_def)
  show ?thesis by (simp add: gauge encode_metrics_def Let_def counter_entries_recorded)
qed

lemma too_large_not_exported:
  "encode_metrics E H G (m\<lparr>err_max_response_size_exceeded := x\<rparr>) w = encode_metrics E H G m w"
  by (simp add: encode_metrics_def)

lemma too_large_not_served: "metrics_text X (m\<lparr>err_max_response_size_exceeded := x\<rparr>) = metrics_text X m"
  by (simp add: metrics_text_def too_large_not_exported)


subsection \<open>Properties\<close>

text \<open>Iterating over a \<open>HashMap\<close> yields each of its entries once.\<close>

definition enumerates :: "('k \<times> 'v) list \<Rightarrow> ('k \<rightharpoonup> 'v) \<Rightarrow> bool" where
  "enumerates entries m \<longleftrightarrow> distinct (map fst entries) \<and> map_of entries = m"

definition metrics_iterated :: "map_order \<Rightarrow> Metrics \<Rightarrow> bool" where
  "metrics_iterated H m \<longleftrightarrow>
     enumerates (mo_requests H (requests m)) (requests m)
     \<and> enumerates (mo_responses H (responses m)) (responses m)
     \<and> enumerates (mo_requests H (inconsistent_responses m)) (inconsistent_responses m)
     \<and> enumerates (mo_cycles H (cycles_charged m)) (cycles_charged m)
     \<and> enumerates (mo_rejections H (err_http_outcall m)) (err_http_outcall m)"

lemma enumerates_entry: "enumerates entries m \<Longrightarrow> (k, v) \<in> set entries \<longleftrightarrow> m k = Some v"
  by (auto simp: enumerates_def)

text \<open>The samples of one counter.\<close>

definition samples_of ::
  "string \<Rightarrow> ('k \<Rightarrow> labels) \<Rightarrow> ('k \<times> 'n::len word) list \<Rightarrow> (string \<times> labels \<times> nat) list" where
  "samples_of name labels_of entries = map (\<lambda>(k, v). (name, labels_of k, unat v)) entries"

lemma samples_of_name: "s \<in> set (samples_of name labels_of entries) \<Longrightarrow> fst s = name"
  by (auto simp: samples_of_def)

lemma samples_of_other [simp]:
  "name \<noteq> name' \<Longrightarrow> (name', l, n) \<notin> set (samples_of name labels_of entries)"
  using samples_of_name by fastforce

context labelled
begin

lemma sample_iff:
  "enumerates entries m \<Longrightarrow>
     (name, labels_of k, n) \<in> set (samples_of name labels_of entries) \<longleftrightarrow> map_option unat (m k) = Some n"
  by (auto simp: samples_of_def inject enumerates_entry)

lemma distinct_series:
  "enumerates entries m \<Longrightarrow> distinct (map (\<lambda>(name, l, n). (name, l)) (samples_of name labels_of entries))"
  using distinct_samples [of entries name]
  by (simp add: enumerates_def samples_of_def comp_def split_def)

end

lemma series_disjoint:
  "name \<noteq> name' \<Longrightarrow>
     set (map (\<lambda>(name, l, n). (name, l)) (samples_of name f entries))
       \<inter> set (map (\<lambda>(name, l, n). (name, l)) (samples_of name' g entries')) = {}"
  by (auto simp: samples_of_def)

text \<open>C38. The text of \<open>/metrics\<close> has exactly one sample for every key of the five exported counters, with the
  counter's value: no two samples are of the same time series, a key without a counter has no sample, and
  nothing else is exported. In particular the sixth counter, of responses that were too large, has no
  influence on what any encoder writes.\<close>

theorem metrics_exported_exactly:
  assumes "metrics_iterated H m"
  shows "\<exists>samples. encode_metrics recording_encoder H G m [] = (Ok (), samples)
    \<and> distinct (map (\<lambda>(name, l, n). (name, l)) samples)
    \<and> (\<forall>k n. (''evmrpc_requests'', labels_pair labels_method labels_host k, n) \<in> set samples
          \<longleftrightarrow> map_option unat (requests m k) = Some n)
    \<and> (\<forall>k n. (''evmrpc_responses'', labels_triple labels_method labels_host labels_status k, n) \<in> set samples
          \<longleftrightarrow> map_option unat (responses m k) = Some n)
    \<and> (\<forall>k n. (''evmrpc_inconsistent_responses'', labels_pair labels_method labels_host k, n) \<in> set samples
          \<longleftrightarrow> map_option unat (inconsistent_responses m k) = Some n)
    \<and> (\<forall>k n. (''evmrpc_cycles_charged'', labels_pair labels_method labels_host k, n) \<in> set samples
          \<longleftrightarrow> map_option unat (cycles_charged m k) = Some n)
    \<and> (\<forall>k n. (''evmrpc_err_http_outcall'', labels_triple labels_method labels_host labels_rejection k, n) \<in> set samples
          \<longleftrightarrow> map_option unat (err_http_outcall m k) = Some n)
    \<and> fst ` set samples \<subseteq> {''evmrpc_requests'', ''evmrpc_responses'', ''evmrpc_inconsistent_responses'',
        ''evmrpc_cycles_charged'', ''evmrpc_err_http_outcall''}
    \<and> encode_metrics E H G (m\<lparr>err_max_response_size_exceeded := x\<rparr>) w = encode_metrics E H G m w"
proof -
  let ?pair = "labels_pair labels_method labels_host"
  let ?status = "labels_triple labels_method labels_host labels_status"
  let ?code = "labels_triple labels_method labels_host labels_rejection"
  let ?samples = "samples_of ''evmrpc_cycles_charged'' ?pair (mo_cycles H (cycles_charged m))
      @ samples_of ''evmrpc_requests'' ?pair (mo_requests H (requests m))
      @ samples_of ''evmrpc_responses'' ?status (mo_responses H (responses m))
      @ samples_of ''evmrpc_inconsistent_responses'' ?pair (mo_requests H (inconsistent_responses m))
      @ samples_of ''evmrpc_err_http_outcall'' ?code (mo_rejections H (err_http_outcall m))"
  have maps: "enumerates (mo_requests H (requests m)) (requests m)"
    "enumerates (mo_requests H (inconsistent_responses m)) (inconsistent_responses m)"
    "enumerates (mo_cycles H (cycles_charged m)) (cycles_charged m)"
    "enumerates (mo_responses H (responses m)) (responses m)"
    "enumerates (mo_rejections H (err_http_outcall m)) (err_http_outcall m)"
    using assms by (simp_all add: metrics_iterated_def)
  have "encode_metrics recording_encoder H G m [] = (Ok (), ?samples)"
    by (simp add: encode_metrics_exports samples_of_def)
  moreover have "distinct (map (\<lambda>(name, l, n). (name, l)) ?samples)"
    using maps unfolding map_append distinct_append set_append Int_Un_distrib Int_Un_distrib2
    by (simp add: per_host.pair.distinct_series per_status.triple.distinct_series
        per_rejection.triple.distinct_series series_disjoint del: set_map)
  moreover have "fst ` set ?samples \<subseteq> {''evmrpc_requests'', ''evmrpc_responses'', ''evmrpc_inconsistent_responses'',
        ''evmrpc_cycles_charged'', ''evmrpc_err_http_outcall''}"
    by (auto dest!: samples_of_name)
  moreover have "encode_metrics E H G (m\<lparr>err_max_response_size_exceeded := x\<rparr>) w = encode_metrics E H G m w"
    by (rule too_large_not_exported)
  ultimately show ?thesis
    by (intro exI [of _ ?samples] conjI)
      (simp_all add: maps(1-3) [THEN per_host.pair.sample_iff] maps(4) [THEN per_status.triple.sample_iff]
         maps(5) [THEN per_rejection.triple.sample_iff] del: split_paired_All)
qed

text \<open>One request was counted, and it is exported.\<close>

definition example_metrics :: Metrics where
  "example_metrics = default_Metrics\<lparr>requests :=
     [(MetricRpcMethod ''eth_call'', MetricRpcHost ''rpc.ankr.com'') \<mapsto> 1]\<rparr>"

definition example_order :: map_order where
  "example_order =
     \<lparr>mo_requests = (\<lambda>m. case m (MetricRpcMethod ''eth_call'', MetricRpcHost ''rpc.ankr.com'') of
        None \<Rightarrow> [] | Some n \<Rightarrow> [((MetricRpcMethod ''eth_call'', MetricRpcHost ''rpc.ankr.com''), n)]),
      mo_responses = (\<lambda>_. []), mo_cycles = (\<lambda>_. []), mo_rejections = (\<lambda>_. [])\<rparr>"

definition example_gauges :: system_gauges where
  "example_gauges = \<lparr>sg_balance = 0, sg_version = 1, sg_stable_pages = 1, sg_heap_bytes = 0\<rparr>"

theorem metrics_exported_exactly_witness:
  "\<exists>samples. encode_metrics recording_encoder example_order example_gauges example_metrics [] = (Ok (), samples)
     \<and> (''evmrpc_requests'', [(''method'', ''eth_call''), (''host'', ''rpc.ankr.com'')], 1) \<in> set samples"
proof -
  have "metrics_iterated example_order example_metrics"
    by (simp add: metrics_iterated_def enumerates_def example_order_def example_metrics_def default_Metrics_def)
  from metrics_exported_exactly [OF this, where G = example_gauges and E = recording_encoder and w = "[]"
      and x = Map.empty]
  obtain samples where
    run: "encode_metrics recording_encoder example_order example_gauges example_metrics [] = (Ok (), samples)"
    and sample: "\<forall>k n. (''evmrpc_requests'', labels_pair labels_method labels_host k, n) \<in> set samples
      \<longleftrightarrow> map_option unat (requests example_metrics k) = Some n"
    by (elim exE conjE)
  have "labels_pair labels_method labels_host (MetricRpcMethod ''eth_call'', MetricRpcHost ''rpc.ankr.com'')
      = [(''method'', ''eth_call''), (''host'', ''rpc.ankr.com'')]" by simp
  then have "(''evmrpc_requests'', [(''method'', ''eth_call''), (''host'', ''rpc.ankr.com'')], 1) \<in> set samples"
    using sample [rule_format, of "(MetricRpcMethod ''eth_call'', MetricRpcHost ''rpc.ankr.com'')" 1]
    by (simp add: example_metrics_def)
  with run show ?thesis by blast
qed

end
