(* ===== verification/Canister_Main.thy ===== *)
theory Canister_Main
  imports Candid_Rpc Metrics_Encoding
begin

section \<open>The canister's endpoints\<close>

text \<open>
  The rest of \<^verbatim>\<open>src/main.rs\<close>: the seven Ethereum endpoints, the raw \<open>request\<close> and its cost, the queries
  on the provider table, and the HTTP queries with the log filter of \<^verbatim>\<open>src/logs/mod.rs\<close>.
\<close>

subsection \<open>The Ethereum endpoints\<close>

text \<open>\<open>match CandidRpcClient::new(source, config, now()) { Ok(source) => .., Err(err) => Err(err).into() }\<close>.\<close>

definition with_client ::
  "('m, 'v, 'rx) candid_env \<Rightarrow> Timestamp \<Rightarrow> RpcServices \<Rightarrow> RpcConfig option
     \<Rightarrow> (CandidRpcClient \<Rightarrow> ('m, 'lf) canister \<Rightarrow> ('b MultiRpcResult \<times> ('m, 'lf) canister) trapping)
     \<Rightarrow> ('m, 'lf) canister \<Rightarrow> ('b MultiRpcResult \<times> ('m, 'lf) canister) trapping" where
  "with_client C now source config call st =
     and_then (CandidRpcClient_new (re_timed (ce_rpc C)) st source config now)
       (\<lambda>(result, st'). case result of
          Inr client \<Rightarrow> call client st'
        | Inl err \<Rightarrow> Inr (MultiRpcResult_from (Err err), st'))"

definition endpoint_eth_getLogs where
  "endpoint_eth_getLogs C M new_request now source config_opt args =
     (let config = unwrap_or default_GetLogsRpcConfig config_opt;
          limit = max_block_range_or_default config
      in with_client C now source (Some (RpcConfig_from_GetLogs config))
           (\<lambda>client. CandidRpcClient_eth_get_logs C M new_request client args limit))"

definition endpoint_eth_getBlockByNumber where
  "endpoint_eth_getBlockByNumber C M new_request now source config block =
     with_client C now source config
       (\<lambda>client. CandidRpcClient_eth_get_block_by_number C M new_request client block)"

definition endpoint_eth_getTransactionReceipt where
  "endpoint_eth_getTransactionReceipt C M new_request now source config tx_hash =
     with_client C now source config
       (\<lambda>client. CandidRpcClient_eth_get_transaction_receipt C M new_request client tx_hash)"

definition endpoint_eth_getTransactionCount where
  "endpoint_eth_getTransactionCount C M new_request now source config args =
     with_client C now source config
       (\<lambda>client. CandidRpcClient_eth_get_transaction_count C M new_request client args)"

definition endpoint_eth_feeHistory where
  "endpoint_eth_feeHistory C M new_request eq_f64 now source config args =
     with_client C now source config
       (\<lambda>client. CandidRpcClient_eth_fee_history C M new_request eq_f64 client args)"

definition endpoint_eth_sendRawTransaction where
  "endpoint_eth_sendRawTransaction C M new_request now source config raw_signed_transaction_hex =
     with_client C now source config
       (\<lambda>client. CandidRpcClient_eth_send_raw_transaction C M new_request client raw_signed_transaction_hex)"

definition endpoint_eth_call where
  "endpoint_eth_call C M new_request now source config args =
     with_client C now source config (\<lambda>client. CandidRpcClient_eth_call C M new_request client args)"


subsection \<open>Raw requests and their cost\<close>

text \<open>\<open>to_string\<close> is \<open>serde_json::to_string\<close> of the body, \<open>show_body\<close> its debug output.\<close>

definition endpoint_request ::
  "'rx regex_ops \<Rightarrow> (request_builder \<Rightarrow> string option) \<Rightarrow> (string \<Rightarrow> string + 'body)
     \<Rightarrow> ('body, 'id, u16 \<times> 'json) client_env
     \<Rightarrow> (nat \<Rightarrow> 'body http_request \<Rightarrow> HttpClientError + u16 \<times> u16 \<times> 'json)
     \<Rightarrow> ('json \<Rightarrow> string + string) \<Rightarrow> ('json \<Rightarrow> string) \<Rightarrow> RpcService \<Rightarrow> string \<Rightarrow> u64
     \<Rightarrow> ('m, 'lf) canister \<Rightarrow> ((string RpcResult \<times> ('m, 'lf) canister) trapping) option" where
  "endpoint_request rx build_error parse_request E outcome to_string show_body service json_rpc_payload
       max_response_bytes st =
     (case resolve_rpc_service service of
        Inl e \<Rightarrow> Some (Inr (Err (RpcError.ProviderError e), st))
      | Inr resolved \<Rightarrow>
          map_option
            (map_ok (\<lambda>(result, st'). (and_then result (\<lambda>(status, body).
               map_err
                 (\<lambda>e. RpcError.HttpOutcallError
                    (InvalidHttpJsonRpcResponse status (show_body body) (Some e)))
                 (to_string body)), st')))
            (json_rpc_request rx build_error parse_request E outcome resolved json_rpc_payload
               max_response_bytes st))"

text \<open>
  \<open>convert\<close> is the middleware of \<open>service_request_builder\<close> and \<open>cost_of_http_request\<close> the estimator of
  \<open>canhttp\<close> for a subnet of the given size.
\<close>

definition endpoint_requestCost ::
  "'rx regex_ops \<Rightarrow> (request_builder \<Rightarrow> string option) \<Rightarrow> (string \<Rightarrow> string + 'body)
     \<Rightarrow> ('body http_request \<Rightarrow> string + 'ic) \<Rightarrow> (u32 \<Rightarrow> 'ic \<Rightarrow> u128) \<Rightarrow> RpcService \<Rightarrow> string \<Rightarrow> u64
     \<Rightarrow> ('m, 'lf) canister \<Rightarrow> u128 RpcResult trapping" where
  "endpoint_requestCost rx build_error parse_request convert cost_of_http_request service json_rpc_payload
       max_response_bytes st =
     (if is_demo_active st then Inr (Ok 0)
      else case resolve_rpc_service service of
        Inl e \<Rightarrow> Inr (Err (RpcError.ProviderError e))
      | Inr resolved \<Rightarrow>
          and_then
            (json_rpc_request_arg rx build_error parse_request st resolved json_rpc_payload max_response_bytes)
            (\<lambda>arg. case arg of
               Inl e \<Rightarrow> Inr (Err e)
             | Inr request \<Rightarrow>
                 and_then (map_err (\<lambda>e. ''Error: invalid request: '' @ e) (convert request))
                   (\<lambda>ic_request.
                      let cycles_to_attach = cost_of_http_request (get_num_subnet_nodes st) ic_request
                      in Inr (Ok (cycles_to_charge (default_ChargingPolicyWithCollateral st)
                                    cycles_to_attach)))))"


subsection \<open>Queries on the provider table\<close>

definition into_provider :: "Provider \<Rightarrow> CandidProvider" where
  "into_provider provider =
     \<lparr>candid_provider_id = provider_id provider,
      candid_chain_id = chain_id provider,
      candid_access = (case access provider of
         RpcAccess.Authenticated auth public_url \<Rightarrow>
           CandidRpcAccess.Authenticated
             (case auth of
                RpcAuth.BearerToken u \<Rightarrow> CandidRpcAuth.BearerToken u
              | RpcAuth.UrlParameter url_pattern \<Rightarrow> CandidRpcAuth.UrlParameter url_pattern)
             public_url
       | RpcAccess.Unauthenticated public_url \<Rightarrow> CandidRpcAccess.Unauthenticated public_url),
      candid_alias = map_option RpcService_from (provider_alias provider)\<rparr>"

definition endpoint_getProviders :: "CandidProvider list" where
  "endpoint_getProviders = map into_provider PROVIDERS"

text \<open>The \<open>BTreeMap\<close> is iterated in the derived order of \<open>SupportedRpcService\<close>, that of \<open>RpcService_from\<close>.\<close>

definition endpoint_getServiceProviderMap :: "(RpcService \<times> ProviderId) list" where
  "endpoint_getServiceProviderMap =
     List.map_filter (\<lambda>k. map_option (Pair (RpcService_from k)) (SERVICE_PROVIDER_MAP k))
       (sort_key RpcService_from all_supported)"

definition endpoint_getNodesInSubnet :: "('m, 'lf) canister \<Rightarrow> u32" where
  "endpoint_getNodesInSubnet st = get_num_subnet_nodes st"

text \<open>\<open>__transform_json_rpc\<close>, the transformation of raw requests.\<close>

definition endpoint_transform where
  "endpoint_transform from_slice to_vec args = transform_http_request from_slice to_vec args"

definition endpoint_getMetrics :: "('m, 'lf) canister \<Rightarrow> Metrics" where
  "endpoint_getMetrics st = UNSTABLE_METRICS st"


subsection \<open>Logs over HTTP\<close>

datatype Priority = Info | Debug | TraceHttp

definition Priority_from_str :: "string \<Rightarrow> string + Priority" where
  "Priority_from_str s =
     (let l = to_lowercase s
      in if l = ''info'' then Ok Info
         else if l = ''trace_http'' then Ok TraceHttp
         else if l = ''debug'' then Ok Debug
         else Err ''could not recognize priority'')"

text \<open>\<open>u64::from_str\<close>: an optional plus sign and at least one decimal digit, without overflow.\<close>

definition digit_value :: "char \<Rightarrow> nat option" where
  "digit_value c = (let n = of_char c :: nat in if 48 \<le> n \<and> n \<le> 57 then Some (n - 48) else None)"

fun digits_value :: "nat \<Rightarrow> string \<Rightarrow> nat option" where
  "digits_value acc [] = Some acc"
| "digits_value acc (c # cs) =
     (case digit_value c of
        None \<Rightarrow> None
      | Some d \<Rightarrow> if acc * 10 + d < 2 ^ 64 then digits_value (acc * 10 + d) cs else None)"

definition u64_from_str :: "string \<Rightarrow> u64 option" where
  "u64_from_str s =
     (let ds = (case s of c # cs \<Rightarrow> if c = CHR ''+'' then cs else s | [] \<Rightarrow> s)
      in if ds = [] then None else map_option of_nat (digits_value 0 ds))"

datatype Sort = Ascending | Descending

text \<open>
  The \<open>canlog\<close> library: the entries \<open>push_logs\<close> adds for a priority, their timestamps, \<open>Sort::from_str\<close>,
  sorting and serialisation; and \<open>raw_query_param\<close> of the request.
\<close>

record 'entry log_ops =
  lg_entries :: "Priority \<Rightarrow> 'entry list"
  lg_timestamp :: "'entry \<Rightarrow> u64"
  lg_sort_from_str :: "string \<Rightarrow> Sort option"
  lg_sort_logs :: "Sort \<Rightarrow> 'entry list \<Rightarrow> 'entry list"
  lg_serialize_logs :: "nat \<Rightarrow> 'entry list \<Rightarrow> string"

definition ordering_from_query_params :: "'entry log_ops \<Rightarrow> string option \<Rightarrow> u64 \<Rightarrow> Sort" where
  "ordering_from_query_params L sort_param max_skip_timestamp =
     (case map_option (lg_sort_from_str L) sort_param of
        Some (Some order) \<Rightarrow> order
      | _ \<Rightarrow> if max_skip_timestamp = 0 then Ascending else Descending)"

definition pushed_logs :: "'entry log_ops \<Rightarrow> string option \<Rightarrow> 'entry list" where
  "pushed_logs L priority_param =
     (case map_option Priority_from_str priority_param of
        Some (Inr priority) \<Rightarrow> lg_entries L priority
      | _ \<Rightarrow> lg_entries L Info @ lg_entries L Debug @ lg_entries L TraceHttp)"

text \<open>The calls of \<open>HttpResponseBuilder\<close>, as values.\<close>

datatype http_reply =
    OkReply (reply_content_type: string) (reply_body: string)
  | ServerError string
  | BadRequest string
  | NotFound

definition logs_served :: "'entry log_ops \<Rightarrow> (string \<Rightarrow> string option) \<Rightarrow> u64 \<Rightarrow> 'entry list" where
  "logs_served L param max_skip_timestamp =
     lg_sort_logs L (ordering_from_query_params L (param ''sort'') max_skip_timestamp)
       (filter (\<lambda>entry. lg_timestamp L entry \<ge> max_skip_timestamp) (pushed_logs L (param ''priority'')))"

definition http_request_query ::
  "'entry log_ops \<Rightarrow> ('f, 'w) metrics_export \<Rightarrow> bool \<Rightarrow> string \<Rightarrow> (string \<Rightarrow> string option)
     \<Rightarrow> ('m, 'lf) canister \<Rightarrow> http_reply trapping" where
  "http_request_query L X in_replicated_execution path param st =
     (if in_replicated_execution then Inl ''Update call rejected''
      else if path = ''/metrics'' then
        Inr (case metrics_text X (UNSTABLE_METRICS st) of
               Inr text \<Rightarrow> OkReply ''text/plain; version=0.0.4'' text
             | Inl err \<Rightarrow> ServerError (''Failed to encode metrics: '' @ err))
      else if path = ''/logs'' then
        Inr (case (case param ''time'' of Some arg \<Rightarrow> u64_from_str arg | None \<Rightarrow> Some 0) of
               None \<Rightarrow> BadRequest (''failed to parse the '' @ [CHR 0x27] @ ''time'' @ [CHR 0x27] @ '' parameter'')
             | Some max_skip_timestamp \<Rightarrow>
                 OkReply ''application/json; charset=utf-8''
                   (lg_serialize_logs L 2000000 (logs_served L param max_skip_timestamp)))
      else Inr NotFound)"


subsection \<open>Parsing decimal numbers\<close>

definition decimal_value :: "string \<Rightarrow> nat" where
  "decimal_value ds = foldl (\<lambda>acc c. acc * 10 + (of_char c - 48)) 0 ds"

definition is_digit :: "char \<Rightarrow> bool" where
  "is_digit c \<longleftrightarrow> 48 \<le> (of_char c :: nat) \<and> (of_char c :: nat) \<le> 57"

lemma digit_value_eq: "digit_value c = (if is_digit c then Some (of_char c - 48) else None)"
  by (simp add: digit_value_def is_digit_def Let_def)

lemma foldl_decimal_ge: "acc \<le> foldl (\<lambda>acc c. acc * 10 + (of_char c - 48)) (acc :: nat) ds"
proof (induction ds arbitrary: acc)
  case (Cons c ds)
  have "acc \<le> acc * 10 + (of_char c - 48)" by simp
  then show ?case using Cons [of "acc * 10 + (of_char c - 48)"] by simp
qed simp

lemma digits_value_eq:
  assumes "acc < 2 ^ 64"
  shows "digits_value acc ds =
    (let v = foldl (\<lambda>acc c. acc * 10 + (of_char c - 48)) acc ds
     in if list_all is_digit ds \<and> v < 2 ^ 64 then Some v else None)"
  using assms
proof (induction ds arbitrary: acc)
  case (Cons c ds)
  let ?acc = "acc * 10 + (of_char c - 48) :: nat"
  show ?case
  proof (cases "?acc < 2 ^ 64")
    case True
    then show ?thesis using Cons.IH [of ?acc] by (simp add: digit_value_eq Let_def)
  next
    case False
    then have "\<not> foldl (\<lambda>acc c. acc * 10 + (of_char c - 48)) ?acc ds < 2 ^ 64"
      using foldl_decimal_ge [of ?acc ds] by linarith
    with False show ?thesis by (simp add: digit_value_eq Let_def)
  qed
qed simp

lemma map_filter_keys:
  "set (List.map_filter (\<lambda>k. map_option (Pair (f k)) (g k)) ks) = {(f k, v) |k v. k \<in> set ks \<and> g k = Some v}"
  by (force simp: List.map_filter_def image_iff)

lemma map_filter_total:
  assumes "\<And>k. g k \<noteq> None"
  shows "map fst (List.map_filter (\<lambda>k. map_option (Pair (f k)) (g k)) ks) = map f ks"
proof (induction ks)
  case (Cons k ks)
  then show ?case using assms [of k] by (auto simp: List.map_filter_def)
qed (simp add: List.map_filter_def)

lemma SERVICE_PROVIDER_MAP_total: "SERVICE_PROVIDER_MAP s \<noteq> None"
  using service_has_provider [of s] SERVICE_PROVIDER_MAP_iff [of s] by auto


subsection \<open>Properties\<close>

text \<open>What a raw request is quoted: zero in demo mode, whatever the request; otherwise the cost of the
  very request that \<open>request\<close> would send, for the subnet's size, plus ten million cycles per node, capped at
  the largest 128-bit number. A quote is refused or traps only outside of demo mode.\<close>

theorem requestCost_exact:
  "case endpoint_requestCost rx build_error parse_request convert cost service payload max_bytes st of
     Inr (Inr c) \<Rightarrow>
       if IS_DEMO_ACTIVE st then c = 0
       else (\<exists>resolved req ic.
          resolve_rpc_service service = Ok resolved \<and> convert req = Ok ic
          \<and> json_rpc_request rx build_error parse_request E outcome resolved payload max_bytes st
              = http_client 1 E (MetricRpcMethod ''request'') False outcome 0 req st
          \<and> unat c = min (unat (cost (NUM_SUBNET_NODES st) ic) + 10000000 * unat (NUM_SUBNET_NODES st))
                        (2 ^ 128 - 1))
   | _ \<Rightarrow> \<not> IS_DEMO_ACTIVE st"
proof (cases "IS_DEMO_ACTIVE st")
  case True
  then show ?thesis by (simp add: endpoint_requestCost_def is_demo_active_def)
next
  case demo: False
  show ?thesis
  proof (cases "endpoint_requestCost rx build_error parse_request convert cost service payload max_bytes st")
    case (Inr quote)
    show ?thesis
    proof (cases quote)
      case quote: (Inr c)
      obtain resolved where resolved: "resolve_rpc_service service = Ok resolved"
        using Inr demo quote
        by (cases "resolve_rpc_service service") (auto simp: endpoint_requestCost_def is_demo_active_def)
      then obtain arg where
        arg: "json_rpc_request_arg rx build_error parse_request st resolved payload max_bytes = Inr arg"
        using Inr demo quote
        by (auto simp: endpoint_requestCost_def is_demo_active_def and_then_eq_Inr)
      then obtain req where req: "arg = Inr req"
        using Inr demo quote resolved
        by (cases arg) (auto simp: endpoint_requestCost_def is_demo_active_def)
      then obtain ic where ic: "convert req = Ok ic"
        "c = cycles_to_charge (default_ChargingPolicyWithCollateral st) (cost (NUM_SUBNET_NODES st) ic)"
        using Inr demo quote resolved arg
        by (auto simp: endpoint_requestCost_def is_demo_active_def and_then_eq_Inr get_num_subnet_nodes_def)
      have "unat c = min (unat (cost (NUM_SUBNET_NODES st) ic) + 10000000 * unat (NUM_SUBNET_NODES st))
                         (2 ^ 128 - 1)"
        using demo by (simp add: ic(2) charge_value)
      then show ?thesis
        using Inr quote demo resolved arg req ic(1)
        by (auto simp: json_rpc_request_def simp del: http_client.simps)
    qed (use Inr demo in simp)
  qed (use demo in simp)
qed

text \<open>The two queries on the provider table agree: the service map lists, in the order of the services
  and each service once, exactly the aliases of the listed providers with their identifiers, and every
  chain-specific service is listed.\<close>

lemma provider_queries_agree:
  "set endpoint_getServiceProviderMap =
     {(s, i). \<exists>p \<in> set endpoint_getProviders. candid_alias p = Some s \<and> candid_provider_id p = i}
   \<and> map fst endpoint_getServiceProviderMap = sort (map RpcService_from all_supported)
   \<and> map candid_provider_id endpoint_getProviders = map of_nat [0..<26]"
proof (intro conjI)
  show "set endpoint_getServiceProviderMap =
     {(s, i). \<exists>p \<in> set endpoint_getProviders. candid_alias p = Some s \<and> candid_provider_id p = i}"
    by (auto simp: endpoint_getServiceProviderMap_def map_filter_keys SERVICE_PROVIDER_MAP_iff
         endpoint_getProviders_def into_provider_def)
  have "map RpcService_from (sort_key RpcService_from all_supported) = sort (map RpcService_from all_supported)"
    by (rule properties_for_sort [symmetric]) (simp_all add: mset_map)
  then show "map fst endpoint_getServiceProviderMap = sort (map RpcService_from all_supported)"
    by (simp add: endpoint_getServiceProviderMap_def map_filter_total SERVICE_PROVIDER_MAP_total)
  show "map candid_provider_id endpoint_getProviders = map of_nat [0..<26]"
    using provider_ids by (simp add: endpoint_getProviders_def into_provider_def comp_def)
qed

text \<open>The time parameter of the log query is read exactly when it is a decimal number, after an optional
  plus sign, that fits in 64 bits: leading zeros are allowed, the empty string and a lone sign are not.\<close>

lemma u64_from_str_exact:
  "u64_from_str s = Some n \<longleftrightarrow>
     (\<exists>ds. s \<in> {ds, CHR ''+'' # ds} \<and> ds \<noteq> [] \<and> list_all is_digit ds \<and> decimal_value ds = unat n)"
proof -
  have plus: "\<not> is_digit (CHR ''+'')" by (simp add: is_digit_def)
  have digits: "map_option of_nat (digits_value 0 ds) = Some n \<longleftrightarrow> list_all is_digit ds \<and> decimal_value ds = unat n"
    for ds
  proof -
    have "decimal_value ds < 2 ^ 64" if "decimal_value ds = unat n"
      using that unsigned_less [of n, where ?'a = nat] by simp
    moreover have "unat (of_nat (decimal_value ds) :: u64) = decimal_value ds" if "decimal_value ds < 2 ^ 64"
      using that by (simp add: unsigned_of_nat take_bit_nat_eq_self)
    ultimately show ?thesis
      by (auto simp: digits_value_eq decimal_value_def [symmetric] Let_def)
  qed
  show ?thesis
  proof (cases s)
    case (Cons c cs)
    have "u64_from_str s = Some n \<longleftrightarrow>
        (if c = CHR ''+'' then cs \<noteq> [] \<and> list_all is_digit cs \<and> decimal_value cs = unat n
         else list_all is_digit (c # cs) \<and> decimal_value (c # cs) = unat n)"
      by (simp add: u64_from_str_def Let_def Cons digits del: digits_value.simps map_option_eq_Some list.pred_inject)
    then show ?thesis using plus by (auto simp: Cons)
  qed (simp add: u64_from_str_def)
qed

text \<open>A log query serves, in some order, exactly the entries of the requested priority that are not older
  than the given time, of all three priorities when none or an unknown one is requested; it is refused
  exactly when the time does not parse.\<close>

theorem logs_served_exact:
  assumes "\<And>order es. mset (lg_sort_logs L order es) = mset es"
  shows "case http_request_query L X False ''/logs'' param st of
      Inr (OkReply content_type body) \<Rightarrow>
        (\<exists>t served. body = lg_serialize_logs L 2000000 served
           \<and> (case param ''time'' of None \<Rightarrow> t = 0 | Some arg \<Rightarrow> u64_from_str arg = Some t)
           \<and> mset served = mset (filter (\<lambda>e. lg_timestamp L e \<ge> t)
               (case param ''priority'' of
                  None \<Rightarrow> concat (map (lg_entries L) [Info, Debug, TraceHttp])
                | Some p \<Rightarrow>
                    (case find (\<lambda>(name, _). name = to_lowercase p)
                         [(''info'', Info), (''debug'', Debug), (''trace_http'', TraceHttp)] of
                       Some (_, priority) \<Rightarrow> lg_entries L priority
                     | None \<Rightarrow> concat (map (lg_entries L) [Info, Debug, TraceHttp])))))
    | Inr (BadRequest msg) \<Rightarrow> (\<exists>arg. param ''time'' = Some arg \<and> u64_from_str arg = None)
    | _ \<Rightarrow> False"
proof -
  have pushed: "pushed_logs L prio = (case prio of
      None \<Rightarrow> concat (map (lg_entries L) [Info, Debug, TraceHttp])
    | Some p \<Rightarrow>
        (case find (\<lambda>(name, _). name = to_lowercase p)
             [(''info'', Info), (''debug'', Debug), (''trace_http'', TraceHttp)] of
           Some (_, priority) \<Rightarrow> lg_entries L priority
         | None \<Rightarrow> concat (map (lg_entries L) [Info, Debug, TraceHttp])))" for prio
  proof (cases prio)
    case (Some p)
    define l where "l = to_lowercase p"
    show ?thesis
      unfolding Some pushed_logs_def Priority_from_str_def Let_def l_def [symmetric] option.case option.map
      by (cases "l = ''info''"; cases "l = ''trace_http''"; cases "l = ''debug''") auto
  qed (simp add: pushed_logs_def)
  have reply: "http_request_query L X False ''/logs'' param st = Inr
      (case (case param ''time'' of Some arg \<Rightarrow> u64_from_str arg | None \<Rightarrow> Some 0) of
         None \<Rightarrow> BadRequest (''failed to parse the '' @ [CHR 0x27] @ ''time'' @ [CHR 0x27] @ '' parameter'')
       | Some t \<Rightarrow> OkReply ''application/json; charset=utf-8'' (lg_serialize_logs L 2000000 (logs_served L param t)))"
    by (simp add: http_request_query_def)
  have served: "mset (logs_served L param t) = mset (filter (\<lambda>e. lg_timestamp L e \<ge> t) (pushed_logs L (param ''priority'')))" for t
    by (simp add: logs_served_def assms)
  show ?thesis
  proof (cases "case param ''time'' of Some arg \<Rightarrow> u64_from_str arg | None \<Rightarrow> Some 0")
    case None
    then show ?thesis by (auto simp: reply split: option.splits)
  next
    case (Some t)
    then have time: "case param ''time'' of None \<Rightarrow> t = 0 | Some arg \<Rightarrow> u64_from_str arg = Some t"
      by (auto split: option.splits)
    show ?thesis
      unfolding reply Some option.case sum.case http_reply.case
      using time served [of t, unfolded pushed] by blast
  qed
qed

definition example_logs :: "(nat \<times> u64) log_ops" where
  "example_logs =
     \<lparr>lg_entries = (\<lambda>p. if p = Debug then [(1, 5), (2, 9)] else [(3, 7)]), lg_timestamp = snd,
      lg_sort_from_str = (\<lambda>_. None), lg_sort_logs = (\<lambda>order es. if order = Ascending then es else rev es),
      lg_serialize_logs = (\<lambda>n es. show_nat (length es))\<rparr>"

definition example_export :: "(nat, (string \<times> labels \<times> nat) list) metrics_export" where
  "example_export =
     \<lparr>mx_encoder = recording_encoder,
      mx_order = \<lparr>mo_requests = (\<lambda>m. []), mo_responses = (\<lambda>m. []), mo_cycles = (\<lambda>m. []), mo_rejections = (\<lambda>m. [])\<rparr>,
      mx_gauges = \<lparr>sg_balance = 0, sg_version = 0, sg_stable_pages = 0, sg_heap_bytes = 0\<rparr>,
      mx_new = [], mx_into_inner = (\<lambda>w. [])\<rparr>"

theorem logs_served_exact_witness:
  "\<exists>served. http_request_query example_logs example_export False ''/logs''
     [''time'' \<mapsto> ''6'', ''priority'' \<mapsto> ''DEBUG''] (initial_memory ref_timed_ops ())
       = Inr (OkReply ''application/json; charset=utf-8'' (show_nat (length (served :: (nat \<times> u64) list))))
     \<and> mset served = {#(2, 9)#}"
proof -
  have sorted: "mset (lg_sort_logs example_logs order es) = mset es" for order es
    by (simp add: example_logs_def)
  have six: "u64_from_str ''6'' = Some 6"
    by (simp add: u64_from_str_def digit_value_def Let_def)
  have low: "to_lowercase ''DEBUG'' = ''debug''"
    by code_simp
  from logs_served_exact [of example_logs, OF sorted, where X = example_export
      and param = "[''time'' \<mapsto> ''6'', ''priority'' \<mapsto> ''DEBUG'']" and st = "initial_memory ref_timed_ops ()"]
  show ?thesis
    by (auto simp: http_request_query_def six low example_logs_def)
qed

end
