(* ===== verification/Call_Effects.thy ===== *)
theory Call_Effects
  imports Canister_Main
begin

section \<open>What a call does to the memory\<close>

text \<open>
  A call of the canister touches the memory through five kinds of actions only. This theory states each by its
  effect on the cells, independently of the functions that perform it, and the list of actions of a whole
  call by what the call was asked and what the providers answered; every endpoint of theory \<open>Canister_Main\<close>
  that returns is shown to change the memory exactly by the actions of that list.
\<close>

subsection \<open>Actions and their effects\<close>

text \<open>
  Ranking the supported services at a time, taking a request id, an event of an outcall (theory
  \<open>Http_Outcall\<close>), a success of a service at a time, and one provider of an inconsistent answer, by the key of
  its counter.
\<close>

datatype action =
    Ranked "SupportedRpcService list" Timestamp
  | Id_taken
  | Outcall event
  | Succeeded SupportedRpcService Timestamp
  | Disagreed "MetricRpcMethod \<times> MetricRpcHost"

definition bumped :: "('k \<rightharpoonup> u64) \<Rightarrow> 'k \<Rightarrow> ('k \<rightharpoonup> u64)" where
  "bumped m k = m(k \<mapsto> unwrap_or 0 (m k) + 1)"

definition with_metrics :: "(Metrics \<Rightarrow> Metrics) \<Rightarrow> ('m, 'lf) canister \<Rightarrow> ('m, 'lf) canister" where
  "with_metrics f st = st\<lparr>UNSTABLE_METRICS := f (UNSTABLE_METRICS st)\<rparr>"

fun counted :: "event \<Rightarrow> Metrics \<Rightarrow> Metrics" where
  "counted (Requested k) m = m\<lparr>requests := bumped (requests m) k\<rparr>"
| "counted (Answered k) m = m\<lparr>responses := bumped (responses m) k\<rparr>"
| "counted (TooLarge k) m = m\<lparr>err_max_response_size_exceeded := bumped (err_max_response_size_exceeded m) k\<rparr>"
| "counted (Rejected k) m = m\<lparr>err_http_outcall := bumped (err_http_outcall m) k\<rparr>"
| "counted (Unobserved k) m = m"

fun effect :: "('m, 'v) timed_map_ops \<Rightarrow> action \<Rightarrow> ('m, 'lf) canister \<Rightarrow> ('m, 'lf) canister" where
  "effect ops (Ranked services now) st =
     st\<lparr>UNSTABLE_RPC_SERVICE_OK_RESULTS_TIMESTAMPS :=
       evict_expired ops (UNSTABLE_RPC_SERVICE_OK_RESULTS_TIMESTAMPS st) services now\<rparr>"
| "effect ops Id_taken st = st\<lparr>UNSTABLE_HTTP_REQUEST_COUNTER := UNSTABLE_HTTP_REQUEST_COUNTER st + 1\<rparr>"
| "effect ops (Outcall e) st = with_metrics (counted e) st"
| "effect ops (Succeeded service now) st =
     st\<lparr>UNSTABLE_RPC_SERVICE_OK_RESULTS_TIMESTAMPS :=
       insert_evict ops (UNSTABLE_RPC_SERVICE_OK_RESULTS_TIMESTAMPS st) now service\<rparr>"
| "effect ops (Disagreed k) st =
     with_metrics (\<lambda>m. m\<lparr>inconsistent_responses := bumped (inconsistent_responses m) k\<rparr>) st"

definition after :: "('m, 'v) timed_map_ops \<Rightarrow> action list \<Rightarrow> ('m, 'lf) canister \<Rightarrow> ('m, 'lf) canister" where
  "after ops actions st = fold (effect ops) actions st"

lemma after_simps [simp]:
  "after ops [] st = st"
  "after ops (a # as) st = after ops as (effect ops a st)"
  "after ops (as @ bs) st = after ops bs (after ops as st)"
  by (simp_all add: after_def)

lemma add_metric_entry_bumped: "add_metric_entry m k 1 = bumped m k"
  by (auto simp: add_metric_entry_def bumped_def split: option.split)


subsection \<open>The operations of the canister by their effects\<close>

lemma generate_request_id_effect:
  "generate_request_id set_id st request = (request', st') \<Longrightarrow>
     st' = effect ops Id_taken st \<and> hr_uri request' = hr_uri request"
  by (auto simp: generate_request_id_def next_request_id_def Let_def)

lemma on_request_effect:
  assumes "on_request uri_host body_id rpc_method req st = Inr (d, st')"
  obtains host where "uri_host (hr_uri req) = Some host"
    "md_method d = rpc_method" "md_host d = MetricRpcHost host"
    "st' = effect ops (Outcall (Requested (rpc_method, MetricRpcHost host))) st"
  using assms
  by (auto simp: on_request_def add_request_def Let_def add_metric_entry_bumped with_metrics_def
       split: option.splits)

lemma observe_response_effect:
  "observe_response m h status st
     = effect ops (Outcall (Answered (m, h, MetricHttpStatusCode_from (ucast status)))) st"
  by (simp add: observe_response_def Let_def add_metric_entry_bumped with_metrics_def)

lemma on_response_effect: "on_response d status st = effect ops (Outcall (answered d status)) st"
  unfolding on_response_def answered_def by (rule observe_response_effect)

lemma on_error_effect: "on_error ic d e st = effect ops (Outcall (failed ic d e)) st"
  by (cases e)
    (simp_all add: add_metric_entry_bumped with_metrics_def observe_response_effect [where ops = ops] answered_def)

lemma record_ok_results_effect:
  "fold (\<lambda>service st. record_ok_result ops st service now) services st
     = after ops (map (\<lambda>s. Succeeded s now) services) st"
  by (induction services arbitrary: st) (simp_all add: record_ok_result_def record_evict_def)

text \<open>The registered providers of an inconsistent answer, by the keys of their counters.\<close>

definition disagreeing ::
  "(string \<Rightarrow> UrlHost option) \<Rightarrow> RpcMethod \<Rightarrow> (RpcService \<times> 'a) list \<Rightarrow> action list" where
  "disagreeing url_host rpc_method results =
     map Disagreed (List.map_filter (inconsistent_key url_host rpc_method) (map fst results))"

lemma add_inconsistents_effect:
  "fold (\<lambda>(service, _). add_inconsistent url_host rpc_method service) results st
     = after ops (disagreeing url_host rpc_method results) st"
  by (induction results arbitrary: st)
    (auto simp: disagreeing_def map_filter_simps add_inconsistent_def add_metric_entry_bumped with_metrics_def
       split: option.split)

definition ranking :: "RpcServices \<Rightarrow> Timestamp \<Rightarrow> action list \<Rightarrow> bool" where
  "ranking source now ranked \<longleftrightarrow> ranked = [] \<or> ranked = [Ranked (snd (supported_providers source)) now]"

lemma rank_providers_effect:
  "rank_providers ops st services now = (ranked, st') \<Longrightarrow> st' = effect ops (Ranked services now) st"
  by (auto simp: rank_providers_def rank_ascending_evict_def Let_def)

lemma choose_providers_effect:
  assumes "choose_providers ops st user_input supported strategy now = Inr (r, st')"
  shows "st' = st \<or> st' = effect ops (Ranked supported now) st"
  using assms
  by (cases strategy)
    (auto simp: choose_providers_def Let_def dest: rank_providers_effect
       split: option.splits prod.splits if_splits)

lemma CandidRpcClient_new_effect:
  assumes "CandidRpcClient_new ops st source config now = Inr (r, st')"
  obtains ranked where "ranking source now ranked" "st' = after ops ranked st"
proof -
  have "st' = st \<or> st' = effect ops (Ranked (snd (supported_providers source)) now) st"
    using assms
    by (auto simp: CandidRpcClient_new_def EthRpcClient_new_def Providers_new_def Let_def map_ok_eq_Inr
         split: prod.splits dest!: choose_providers_effect)
  then show thesis
    using that [of "[]"] that [of "[Ranked (snd (supported_providers source)) now]"]
    by (auto simp: ranking_def)
qed

subsection \<open>The actions of one outcall\<close>

text \<open>
  A client sends one request in one or more attempts: each takes a request id when the client retries, counts
  the request under its method and host, and ends with one event under the same key. A failed attempt
  is followed by another exactly when the retry policy returns a new request; the last one gives the result.
\<close>

definition attempt_actions :: "bool \<Rightarrow> MetricRpcMethod \<times> MetricRpcHost \<Rightarrow> event \<Rightarrow> action list" where
  "attempt_actions retry k e = (if retry then [Id_taken] else []) @ [Outcall (Requested k), Outcall e]"

definition attempt_data :: "MetricRpcMethod \<times> MetricRpcHost \<Rightarrow> unit MetricData" where
  "attempt_data k = \<lparr>md_method = fst k, md_host = snd k, md_request_id = ()\<rparr>"

inductive client_trace ::
  "('body, 'id, 'resp) client_env \<Rightarrow> MetricRpcMethod \<Rightarrow> bool \<Rightarrow> 'body http_request \<Rightarrow> 'a RpcResult
     \<Rightarrow> action list \<Rightarrow> bool"
  for E :: "('body, 'id, 'resp) client_env" and rpc_method retry where
  answered_last: "env_uri_host E (hr_uri req) = Some host \<Longrightarrow> k = (rpc_method, MetricRpcHost host) \<Longrightarrow>
    client_trace E rpc_method retry req (Ok resp) (attempt_actions retry k (answered (attempt_data k) status))"
| failed_last: "env_uri_host E (hr_uri req) = Some host \<Longrightarrow> k = (rpc_method, MetricRpcHost host) \<Longrightarrow>
    (if retry then env_retry_policy E req e else None) = None \<Longrightarrow>
    client_trace E rpc_method retry req (Err (RpcError_from_HttpClientError (env_lossy E) e))
      (attempt_actions retry k (failed (env_too_large E) (attempt_data k) e))"
| repeated: "env_uri_host E (hr_uri req) = Some host \<Longrightarrow> k = (rpc_method, MetricRpcHost host) \<Longrightarrow>
    retry \<Longrightarrow> env_retry_policy E req e = Some req' \<Longrightarrow> client_trace E rpc_method retry req' r t \<Longrightarrow>
    client_trace E rpc_method retry req r
      (attempt_actions retry k (failed (env_too_large E) (attempt_data k) e) @ t)"

lemma answered_data: "k = (md_method d, md_host d) \<Longrightarrow> answered d status = answered (attempt_data k) status"
  by (simp add: answered_def attempt_data_def)

lemma failed_data: "k = (md_method d, md_host d) \<Longrightarrow> failed ic d e = failed ic (attempt_data k) e"
  by (cases e) (simp_all add: answered_def attempt_data_def)

lemma http_client_effect:
  "http_client fuel E rpc_method retry outcome i request st = Some (Inr (r, st')) \<Longrightarrow>
     \<exists>t. client_trace E rpc_method retry request r t \<and> st' = after ops t st"
proof (induction fuel arbitrary: i request st)
  case (Suc fuel)
  let ?taken = "if retry then generate_request_id (env_set_id E) st request else (request, st)"
  obtain req st1 where taken: "?taken = (req, st1)" by (cases ?taken)
  have st1: "st1 = after ops (if retry then [Id_taken] else []) st" "hr_uri req = hr_uri request"
    using taken generate_request_id_effect [of "env_set_id E" st request req st1 ops]
    by (auto split: if_splits)
  obtain d st2 where sent: "on_request (env_uri_host E) (env_body_id E) rpc_method req st1 = Inr (d, st2)"
    using Suc.prems by (auto simp: taken split: sum.splits)
  obtain host where host: "env_uri_host E (hr_uri req) = Some host"
      "md_method d = rpc_method" "md_host d = MetricRpcHost host"
    and st2: "st2 = effect ops (Outcall (Requested (rpc_method, MetricRpcHost host))) st1"
    by (rule on_request_effect [OF sent])
  let ?k = "(rpc_method, MetricRpcHost host)"
  have uri: "env_uri_host E (hr_uri request) = Some host" using host(1) st1(2) by simp
  have key: "?k = (md_method d, md_host d)" using host by simp
  have ended: "effect ops (Outcall e) st2 = after ops (attempt_actions retry ?k e) st" for e
    by (simp add: attempt_actions_def st1(1) st2)
  show ?case
  proof (cases "outcome i req")
    case (Inr answer)
    then obtain status resp where "r = Ok resp" "st' = on_response d status st2"
      using Suc.prems by (auto simp: taken sent split: prod.splits)
    then show ?thesis
      using client_trace.answered_last [OF uri refl, of rpc_method retry resp status]
      unfolding on_response_effect [where ops = ops] ended answered_data [OF key] by blast
  next
    case (Inl e)
    let ?st3 = "on_error (env_too_large E) d e st2"
    let ?t = "attempt_actions retry ?k (failed (env_too_large E) (attempt_data ?k) e)"
    have st3: "?st3 = after ops ?t st"
      unfolding on_error_effect [where ops = ops] ended failed_data [OF key] ..
    show ?thesis
    proof (cases "if retry then env_retry_policy E request e else None")
      case None
      with Suc.prems have "r = Err (RpcError_from_HttpClientError (env_lossy E) e)" "st' = ?st3"
        by (auto simp: taken sent Inl)
      then show ?thesis using client_trace.failed_last [OF uri refl None] st3 by blast
    next
      case (Some request')
      with Suc.prems have run: "http_client fuel E rpc_method retry outcome (Suc i) request' ?st3
          = Some (Inr (r, st'))" by (simp add: taken sent Inl)
      from Suc.IH [OF this] obtain t where
        t: "client_trace E rpc_method retry request' r t" "st' = after ops t ?st3" by blast
      from Some have "retry" "env_retry_policy E request e = Some request'" by (auto split: if_splits)
      from client_trace.repeated [OF uri refl this t(1)] t(2) show ?thesis
        unfolding st3 by (metis after_simps(3))
    qed
  qed
qed simp


subsection \<open>The fan-out\<close>

fun interleavings :: "'a list list \<Rightarrow> 'a list set" where
  "interleavings [] = {[]}"
| "interleavings (t # ts) = (\<Union>u \<in> interleavings ts. shuffles t u)"

text \<open>
  What is assumed of the fan-out of \<open>canhttp\<close>: it runs the canister's client, with retries, once for every
  request, in any interleaving, and keeps the result of each under its provider.
\<close>

definition each_run ::
  "('body, 'id, 'resp) client_env
     \<Rightarrow> ('rq, 'rs, 'body http_request, 'a, 'o, 'st) multi_ops \<Rightarrow> MetricRpcMethod
     \<Rightarrow> ('a RpcResult \<Rightarrow> 'o RpcResult) \<Rightarrow> (RpcService \<times> 'body http_request) list \<Rightarrow> 'rs
     \<Rightarrow> action list list \<Rightarrow> bool" where
  "each_run E M rpc_method f reqs rs ts \<longleftrightarrow>
     list_all2 (\<lambda>(p, req) t. \<exists>r. client_trace E rpc_method True req r t
                  \<and> (p, f r) \<in> set (mr_into_iter M rs)) reqs ts"

definition runs_client ::
  "('m, 'v) timed_map_ops \<Rightarrow> ('body, 'id, 'resp) client_env
     \<Rightarrow> ('rq, 'rs, 'body http_request, 'a, 'o, ('m, 'lf) canister) multi_ops \<Rightarrow> bool" where
  "runs_client ops E M \<longleftrightarrow>
     (\<forall>rpc_method f reqs st rs st'. mr_parallel_call M rpc_method f reqs st = Inr (rs, st') \<longrightarrow>
        (\<exists>ts outcalls. each_run E M rpc_method f reqs rs ts
           \<and> outcalls \<in> interleavings ts \<and> st' = after ops outcalls st))"

text \<open>
  The actions of a parallel call over the providers \<open>ps\<close>: those of its outcalls, one for every request that
  could be built, and one success for every supported service whose result is in order.
\<close>

definition parallel_actions ::
  "('m, 'v, 'rx) rpc_env \<Rightarrow> ('body, 'id, 'resp) client_env
     \<Rightarrow> ('rq, 'rs, 'body http_request, 'd JsonRpcErr + 'o, 'o, ('m, 'lf) canister) multi_ops
     \<Rightarrow> MetricRpcMethod \<Rightarrow> (RpcService \<Rightarrow> 'body http_request RpcResult trapping) \<Rightarrow> RpcService list
     \<Rightarrow> 'rs \<Rightarrow> action list \<Rightarrow> bool" where
  "parallel_actions R E M rpc_method request ps results actions \<longleftrightarrow>
     (\<exists>rq rs ts outcalls.
        insert_requests M request ps (mr_default M) = Inr rq
        \<and> each_run E M rpc_method into_rpc_result (fst (mr_into_inner M rq)) rs ts
        \<and> mr_add_errors M rs (snd (mr_into_inner M rq)) = Inr results
        \<and> mr_len M results = length ps
        \<and> outcalls \<in> interleavings ts
        \<and> actions = outcalls @ map (\<lambda>s. Succeeded s (re_time R))
             (List.map_filter SupportedRpcService_new (mr_ok_keys M results)))"

lemma checked_eq_Inr: "(if c then Inr x else Inl e) = Inr y \<longleftrightarrow> c \<and> x = y"
  by auto

lemma parallel_call_effect:
  assumes "runs_client (re_timed R) E M"
    and "parallel_call R M new_request self rpc_name params kind estimate st = Inr (results, st')"
  obtains actions where
    "parallel_actions R E M (MetricRpcMethod rpc_name)
       (provider_request R st (transform_op R kind) (size_estimate estimate) (new_request rpc_name params))
       (chosen (client_providers self)) results actions"
    "st' = after (re_timed R) actions st"
proof -
  let ?request = "provider_request R st (transform_op R kind) (size_estimate estimate) (new_request rpc_name params)"
  obtain rq rs st1 where
    rq: "insert_requests M ?request (chosen (client_providers self)) (mr_default M) = Inr rq"
    and call: "mr_parallel_call M (MetricRpcMethod rpc_name) into_rpc_result (fst (mr_into_inner M rq)) st
      = Inr (rs, st1)"
    and results: "mr_add_errors M rs (snd (mr_into_inner M rq)) = Inr results"
      "mr_len M results = length (chosen (client_providers self))"
    and st': "st' = fold (\<lambda>service st. record_ok_result (re_timed R) st service (re_time R))
                (List.map_filter SupportedRpcService_new (mr_ok_keys M results)) st1"
    using assms(2)
    by (auto simp: parallel_call_def Let_def and_then_eq_Inr checked_eq_Inr split_beta)
  obtain ts outcalls where
    "each_run E M (MetricRpcMethod rpc_name) into_rpc_result (fst (mr_into_inner M rq)) rs ts"
    "outcalls \<in> interleavings ts" "st1 = after (re_timed R) outcalls st"
    using assms(1) [unfolded runs_client_def, rule_format, OF call] by blast
  with rq results st' show thesis
    by (intro that [of "outcalls @ map (\<lambda>s. Succeeded s (re_time R))
          (List.map_filter SupportedRpcService_new (mr_ok_keys M results))"])
      (auto simp: parallel_actions_def record_ok_results_effect)
qed

subsection \<open>Whole calls\<close>

text \<open>
  What the method of a created client does: the actions of the parallel call over its providers, and then, if
  the reduction of the results fails inconsistently, one disagreement for every registered provider it
  lists; these are the providers that an inconsistent answer lists.
\<close>

definition disagreements ::
  "(string \<Rightarrow> UrlHost option) \<Rightarrow> ('rq, 'rs, 'req, 'resp, 'o, 'st) multi_ops \<Rightarrow> RpcMethod
     \<Rightarrow> ('rs, 'o) ReducedResult \<Rightarrow> action list" where
  "disagreements url_host M rpc_method reduced =
     (case reduced of
        Inl (InconsistentResults rs) \<Rightarrow> disagreeing url_host rpc_method (mr_into_iter M rs)
      | _ \<Rightarrow> [])"

definition method_accounted ::
  "('m, 'v, 'rx) candid_env \<Rightarrow> ('body, 'id, 'resp) client_env
     \<Rightarrow> ('rq, 'rs, 'body http_request, 'd JsonRpcErr + 'o, 'o, ('m, 'lf) canister) multi_ops
     \<Rightarrow> RpcMethod \<Rightarrow> CandidRpcClient \<Rightarrow> ('m, 'lf) canister \<Rightarrow> 'b MultiRpcResult \<Rightarrow> ('m, 'lf) canister
     \<Rightarrow> bool" where
  "method_accounted C E M rpc_method client st answer st' \<longleftrightarrow>
     (\<exists>transform_context max_bytes body results actions disagreed.
        parallel_actions (ce_rpc C) E M (MetricRpcMethod_from rpc_method)
          (provider_request (ce_rpc C) st transform_context max_bytes body)
          (chosen (client_providers (eth_client client))) results actions
        \<and> disagreed = disagreements (ce_url_host C) M rpc_method
            (reduce_with M (consensus_strategy (eth_client client)) results)
        \<and> (\<forall>v. answer = Inconsistent v \<longrightarrow> disagreed = disagreeing (ce_url_host C) rpc_method v)
        \<and> st' = after (re_timed (ce_rpc C)) (actions @ disagreed) st)"

text \<open>
  A call first creates its client, which may rank the supported services. If the client is refused, or the
  call itself is (\<open>refused\<close>), the answer is an error and nothing else happened.
\<close>

definition call_accounted ::
  "('m, 'v, 'rx) candid_env \<Rightarrow> ('body, 'id, 'resp) client_env
     \<Rightarrow> ('rq, 'rs, 'body http_request, 'd JsonRpcErr + 'o, 'o, ('m, 'lf) canister) multi_ops
     \<Rightarrow> RpcMethod \<Rightarrow> bool \<Rightarrow> RpcServices \<Rightarrow> RpcConfig option \<Rightarrow> Timestamp \<Rightarrow> ('m, 'lf) canister
     \<Rightarrow> 'b MultiRpcResult \<Rightarrow> ('m, 'lf) canister \<Rightarrow> bool" where
  "call_accounted C E M rpc_method refused source config now st answer st' \<longleftrightarrow>
     (\<exists>ranked created st1. ranking source now ranked \<and> st1 = after (re_timed (ce_rpc C)) ranked st
        \<and> CandidRpcClient_new (re_timed (ce_rpc C)) st source config now = Inr (created, st1)
        \<and> (case created of
             Inl e \<Rightarrow> answer = Consistent (Err e) \<and> st' = st1
           | Inr client \<Rightarrow>
               (if refused then (\<exists>e. answer = Consistent (Err e)) \<and> st' = st1
                else method_accounted C E M rpc_method client st1 answer st')))"

lemma process_result_effect:
  "snd (process_result M url_host rpc_method r st) = after ops (disagreements url_host M rpc_method r) st"
  by (cases "(M, url_host, rpc_method, r, st)" rule: process_result.cases)
    (simp_all add: disagreements_def add_inconsistents_effect Let_def)

lemma list_conv_keys:
  assumes "list_conv (\<lambda>(service, result). map_ok (Pair service) (f result)) results = Inr v"
  shows "map fst v = map fst results"
proof -
  let ?g = "\<lambda>(service, result). map_ok (Pair service) (f result)"
  have converted: "map ?g results = map Inr v"
    using assms by (simp add: list_conv_def collect_results_Inr)
  show ?thesis
  proof (rule nth_equalityI)
    show "length (map fst v) = length (map fst results)" using arg_cong [OF converted, of length] by simp
    then show "map fst v ! i = map fst results ! i" if "i < length (map fst v)" for i
      using that arg_cong [OF converted, of "\<lambda>xs. xs ! i"]
      by (cases "results ! i") (auto simp: map_ok_eq_Inr)
  qed
qed

lemma multi_map_conv_keys:
  assumes "multi_map_conv eq f m = Inr (Inconsistent v)"
  obtains results where "m = Inconsistent results" "map fst v = map fst results"
proof (cases m)
  case (Inconsistent results)
  obtain w where w: "list_conv (\<lambda>(service, result). map_ok (Pair service) (result_conv f result)) results = Inr w"
    "collapse eq (Inconsistent w) = Inconsistent v"
    using assms by (auto simp: Inconsistent map_ok_eq_Inr)
  from w(2) have "w = v" by (auto simp: collapse_Inconsistent split: if_splits)
  with list_conv_keys [OF w(1)] show thesis by (intro that [OF Inconsistent]) simp
qed (use assms in \<open>auto simp: map_ok_eq_Inr\<close>)

lemma candid_answer_effect:
  assumes "candid_answer C M rpc_method eq conversion (r, st) = Inr (answer, st')"
  shows "st' = after ops (disagreements (ce_url_host C) M rpc_method r) st"
    "answer = Inconsistent v \<Longrightarrow>
       disagreements (ce_url_host C) M rpc_method r = disagreeing (ce_url_host C) rpc_method v"
proof -
  obtain m where m: "process_result M (ce_url_host C) rpc_method r st = (m, st')"
    "multi_map_conv eq conversion m = Inr answer"
    using assms by (auto simp: candid_answer_def map_ok_eq_Inr Let_def split: prod.splits)
  show "st' = after ops (disagreements (ce_url_host C) M rpc_method r) st"
    using process_result_effect [of M "ce_url_host C" rpc_method r st ops] m(1) by simp
  assume "answer = Inconsistent v"
  then obtain results where "m = Inconsistent results" "map fst v = map fst results"
    using m(2) by (auto elim: multi_map_conv_keys)
  with m(1) show "disagreements (ce_url_host C) M rpc_method r = disagreeing (ce_url_host C) rpc_method v"
    by (cases "(M, ce_url_host C, rpc_method, r, st)" rule: process_result.cases)
      (auto simp: disagreements_def disagreeing_def Let_def)
qed

lemma method_effect:
  assumes "runs_client (re_timed (ce_rpc C)) E M"
    and "and_then (call_and_reduce (ce_rpc C) M new_request (eth_client client) (RpcMethod_name rpc_method)
            params kind estimate st)
           (candid_answer C M rpc_method eq conversion) = Inr (answer, st')"
  shows "method_accounted C E M rpc_method client st answer st'"
proof -
  let ?R = "ce_rpc C"
  obtain size results st1 where
    call: "parallel_call ?R M new_request (eth_client client) (RpcMethod_name rpc_method) params kind size st
      = Inr (results, st1)"
    and answer: "candid_answer C M rpc_method eq conversion
      (reduce_with M (consensus_strategy (eth_client client)) results, st1) = Inr (answer, st')"
    using assms(2) by (auto simp: call_and_reduce_def and_then_eq_Inr map_ok_eq_Inr)
  obtain actions where
    "parallel_actions ?R E M (MetricRpcMethod (RpcMethod_name rpc_method))
       (provider_request ?R st (transform_op ?R kind) (size_estimate size)
          (new_request (RpcMethod_name rpc_method) params))
       (chosen (client_providers (eth_client client))) results actions"
    "st1 = after (re_timed ?R) actions st"
    by (rule parallel_call_effect [OF assms(1) call])
  moreover note candid_answer_effect(1) [OF answer, of "re_timed ?R"] candid_answer_effect(2) [OF answer]
  ultimately show ?thesis
    unfolding method_accounted_def MetricRpcMethod_from_def after_simps by blast
qed

lemma with_client_effect:
  assumes "with_client C now source config call st = Inr (answer, st')"
    and "\<And>client st1. call client st1 = Inr (answer, st') \<Longrightarrow>
      (if refused then (\<exists>e. answer = Consistent (Err e)) \<and> st' = st1
       else method_accounted C E M rpc_method client st1 answer st')"
  shows "call_accounted C E M rpc_method refused source config now st answer st'"
proof -
  obtain created st1 where created: "CandidRpcClient_new (re_timed (ce_rpc C)) st source config now = Inr (created, st1)"
    and run: "(case created of Inr client \<Rightarrow> call client st1
      | Inl err \<Rightarrow> Inr (MultiRpcResult_from (Err err), st1)) = Inr (answer, st')"
    using assms(1) by (auto simp: with_client_def and_then_eq_Inr)
  obtain ranked where "ranking source now ranked" "st1 = after (re_timed (ce_rpc C)) ranked st"
    by (rule CandidRpcClient_new_effect [OF created])
  moreover have "case created of
        Inl e \<Rightarrow> answer = Consistent (Err e) \<and> st' = st1
      | Inr client \<Rightarrow>
          (if refused then (\<exists>e. answer = Consistent (Err e)) \<and> st' = st1
           else method_accounted C E M rpc_method client st1 answer st')"
    using run assms(2) by (cases created) (auto simp: MultiRpcResult_from_def)
  ultimately show ?thesis
    unfolding call_accounted_def using created by blast
qed

lemmas candid_methods = CandidRpcClient_eth_get_logs_def CandidRpcClient_eth_get_block_by_number_def
  CandidRpcClient_eth_get_transaction_receipt_def CandidRpcClient_eth_get_transaction_count_def
  CandidRpcClient_eth_fee_history_def CandidRpcClient_eth_send_raw_transaction_def
  CandidRpcClient_eth_call_def
  eth_get_logs_def eth_get_block_by_number_def eth_get_transaction_receipt_def
  eth_get_transaction_count_def eth_fee_history_def eth_send_raw_transaction_def eth_call_def

lemma and_then_InrE:
  assumes "and_then r f = Inr y"
  obtains x where "r = Inr x" "f x = Inr y"
  using assms by (auto simp: and_then_eq_Inr)

lemma converted_method_effect:
  assumes "runs_client (re_timed (ce_rpc C)) E M"
    and "and_then converted (\<lambda>p. and_then
           (call_and_reduce (ce_rpc C) M new_request (eth_client client) (RpcMethod_name rpc_method)
              (params p) kind estimate st)
           (candid_answer C M rpc_method eq conversion)) = Inr (answer, st')"
  shows "if False then (\<exists>e. answer = Consistent (Err e)) \<and> st' = st
    else method_accounted C E M rpc_method client st answer st'"
  using assms(2) by (elim and_then_InrE [of converted]) (simp add: method_effect [OF assms(1)])


subsection \<open>Raw requests\<close>

text \<open>
  A raw request is sent at most once: if it is built, its two events are counted, and an answer in order means
  that it was answered; else nothing happens.
\<close>

definition request_accounted ::
  "('m, 'v) timed_map_ops \<Rightarrow> ('body, 'id, 'resp) client_env
     \<Rightarrow> 'body http_request RpcResult trapping \<Rightarrow> ('m, 'lf) canister \<Rightarrow> string RpcResult
     \<Rightarrow> ('m, 'lf) canister \<Rightarrow> bool" where
  "request_accounted ops E built st answer st' \<longleftrightarrow>
     (case built of
        Inr (Inr req) \<Rightarrow> \<exists>host k e.
          env_uri_host E (hr_uri req) = Some host \<and> k = (MetricRpcMethod ''request'', MetricRpcHost host)
          \<and> finished_key e = Some k
          \<and> (\<not> isl answer \<longrightarrow> (\<exists>status. e = answered (attempt_data k) status))
          \<and> st' = after ops [Outcall (Requested k), Outcall e] st
      | _ \<Rightarrow> isl answer \<and> st' = st)"

lemma single_attempt:
  assumes "client_trace E rpc_method False req r t"
  obtains host k e where "env_uri_host E (hr_uri req) = Some host" "k = (rpc_method, MetricRpcHost host)"
    "finished_key e = Some k" "\<not> isl r \<Longrightarrow> \<exists>status. e = answered (attempt_data k) status"
    "t = [Outcall (Requested k), Outcall e]"
  using assms
  by (cases rule: client_trace.cases) (force simp: attempt_actions_def attempt_data_def)+

lemma endpoint_request_effect:
  assumes "endpoint_request rx build_error parse_request E outcome to_string show_body service payload
      max_bytes st = Some (Inr (answer, st'))"
  shows "case resolve_rpc_service service of
      Inl e \<Rightarrow> isl answer \<and> st' = st
    | Inr resolved \<Rightarrow>
        request_accounted ops E (json_rpc_request_arg rx build_error parse_request st resolved payload max_bytes)
          st answer st'"
proof (cases "resolve_rpc_service service")
  case (Inl e)
  with assms show ?thesis by (auto simp: endpoint_request_def)
next
  case resolved: (Inr resolved)
  obtain r g where run: "json_rpc_request rx build_error parse_request E outcome resolved payload max_bytes st
      = Some (Inr (r, st'))" and "answer = and_then r g"
    using assms by (auto simp: endpoint_request_def resolved map_ok_eq_Inr)
  then have r: "isl r \<longrightarrow> isl answer" by (cases r) auto
  consider e where "json_rpc_request_arg rx build_error parse_request st resolved payload max_bytes = Inr (Inl e)"
    | req where "json_rpc_request_arg rx build_error parse_request st resolved payload max_bytes = Inr (Inr req)"
    using run by (auto simp: json_rpc_request_def split: sum.splits)
  then show ?thesis
  proof cases
    case (1 e)
    with run r show ?thesis by (auto simp: resolved json_rpc_request_def request_accounted_def)
  next
    case (2 req)
    then have "http_client 1 E (MetricRpcMethod ''request'') False outcome 0 req st = Some (Inr (r, st'))"
      using run by (simp add: json_rpc_request_def)
    from http_client_effect [OF this, of ops] obtain t where
      t: "client_trace E (MetricRpcMethod ''request'') False req r t" "st' = after ops t st" by blast
    from t(1) show ?thesis
      by (rule single_attempt) (use t(2) r in \<open>auto simp: resolved 2 request_accounted_def\<close>)
  qed
qed

lemma endpoint_request_returns:
  "endpoint_request rx build_error parse_request E outcome to_string show_body service payload max_bytes st
     \<noteq> None"
proof -
  have "\<exists>r. http_client 1 E m False outcome 0 req st = Some r" for m req
    using http_client_no_retry [where retry = False and fuel = 0] unfolding One_nat_def by blast
  then have "json_rpc_request rx build_error parse_request E outcome resolved payload max_bytes st \<noteq> None"
    for resolved
    by (auto simp: json_rpc_request_def simp del: http_client.simps split: sum.split)
  then show ?thesis by (auto simp: endpoint_request_def split: sum.split)
qed


subsection \<open>Properties\<close>


subsection \<open>A fan-out that runs the client\<close>

text \<open>One request after the other, each to its end.\<close>

fun call_all ::
  "('body, 'id, 'resp) client_env \<Rightarrow> (nat \<Rightarrow> 'body http_request \<Rightarrow> HttpClientError + u16 \<times> 'a)
     \<Rightarrow> MetricRpcMethod \<Rightarrow> ('a RpcResult \<Rightarrow> 'o RpcResult) \<Rightarrow> (RpcService \<times> 'body http_request) list
     \<Rightarrow> ('m, 'lf) canister \<Rightarrow> ((RpcService \<times> 'o RpcResult) list \<times> ('m, 'lf) canister) trapping" where
  "call_all E outcome rpc_method f [] st = Inr ([], st)"
| "call_all E outcome rpc_method f ((p, req) # reqs) st =
     (case http_client 23 E rpc_method True outcome 0 req st of
        None \<Rightarrow> Inl ''out of fuel''
      | Some r \<Rightarrow> and_then r (\<lambda>(result, st1).
          map_ok (\<lambda>(rs, st2). ((p, f result) # rs, st2)) (call_all E outcome rpc_method f reqs st1)))"

definition sequential_multi where
  "sequential_multi E outcome = (ref_multi (Err (RpcError.ValidationError (ValidationError.Custom []))))
     \<lparr>mr_parallel_call := call_all E outcome\<rparr>"

lemma append_interleaved: "t @ u \<in> shuffles t u"
  by (induction t) (auto simp: Cons_in_shuffles_iff)

lemma call_all_runs:
  "call_all E outcome rpc_method f reqs st = Inr (rs, st') \<Longrightarrow>
     \<exists>ts outcalls. list_all2 (\<lambda>(p, req) t. \<exists>r. client_trace E rpc_method True req r t
          \<and> (p, f r) \<in> set rs) reqs ts
       \<and> outcalls \<in> interleavings ts \<and> st' = after ops outcalls st"
proof (induction reqs arbitrary: st rs)
  case (Cons preq reqs)
  obtain p req where preq: "preq = (p, req)" by (cases preq)
  obtain result st1 rs' where
    run: "http_client 23 E rpc_method True outcome 0 req st = Some (Inr (result, st1))"
      "call_all E outcome rpc_method f reqs st1 = Inr (rs', st')" "rs = (p, f result) # rs'"
    using Cons.prems
    by (auto simp: preq and_then_eq_Inr map_ok_eq_Inr simp del: http_client.simps split: option.splits)
  obtain t where t: "client_trace E rpc_method True req result t" "st1 = after ops t st"
    using http_client_effect [OF run(1), of ops] by blast
  obtain ts outcalls where rest:
    "list_all2 (\<lambda>(p, req) t. \<exists>r. client_trace E rpc_method True req r t \<and> (p, f r) \<in> set rs') reqs ts"
    "outcalls \<in> interleavings ts" "st' = after ops outcalls st1"
    using Cons.IH [OF run(2)] by blast
  have "list_all2 (\<lambda>(p, req) t. \<exists>r. client_trace E rpc_method True req r t \<and> (p, f r) \<in> set rs)
      (preq # reqs) (t # ts)"
    using t(1) rest(1) by (auto simp: preq run(3) elim!: list_all2_mono)
  moreover have "t @ outcalls \<in> interleavings (t # ts)"
    using rest(2) append_interleaved by auto
  moreover have "st' = after ops (t @ outcalls) st" by (simp add: rest(3) t(2))
  ultimately show ?case by blast
qed (auto intro: exI [of _ "[]"])

lemma sequential_runs_client: "runs_client ops E (sequential_multi E outcome)"
  using call_all_runs [where ops = ops]
  by (fastforce simp: runs_client_def each_run_def sequential_multi_def ref_multi_def)

definition retrying_env :: "(unit, unit, unit) client_env" where
  "retrying_env =
     \<lparr>env_set_id = (\<lambda>b _. b), env_body_id = (\<lambda>_. ()), env_uri_host = Some,
      env_too_large = (\<lambda>_ _. True), env_lossy = (\<lambda>_. []),
      env_retry_policy = (\<lambda>req _. if hr_max_response_bytes req = 2000000 then None
         else Some (req\<lparr>hr_max_response_bytes := 2000000\<rparr>))\<rparr>"

text \<open>The first attempt asks for too few bytes, the second is answered.\<close>

definition retrying_outcome :: "nat \<Rightarrow> unit http_request \<Rightarrow> HttpClientError + u16 \<times> (unit JsonRpcErr + Block)" where
  "retrying_outcome i req =
     (if i = 0 then Inl (IcErr RejectCode.SysFatal ''too large'') else Inr (200, Inr example_block))"

definition retried_state :: "string \<Rightarrow> ('m, 'lf) canister \<Rightarrow> ('m, 'lf) canister" where
  "retried_state host st =
     (let k = (MetricRpcMethod ''eth_getBlockByNumber'', MetricRpcHost host)
      in st\<lparr>UNSTABLE_HTTP_REQUEST_COUNTER := UNSTABLE_HTTP_REQUEST_COUNTER st + 1 + 1,
            UNSTABLE_METRICS := counted (answered (attempt_data k) 200)
              (counted (Requested k) (counted (TooLarge k) (counted (Requested k) (UNSTABLE_METRICS st))))\<rparr>)"

lemma retrying_client:
  assumes "hr_max_response_bytes req \<noteq> 2000000"
  shows "http_client 23 retrying_env (MetricRpcMethod ''eth_getBlockByNumber'') True retrying_outcome 0 req st
    = Some (Inr (Ok (Inr example_block), retried_state (hr_uri req) st))"
proof -
  have "http_client (Suc (Suc n)) retrying_env (MetricRpcMethod ''eth_getBlockByNumber'') True retrying_outcome 0
      req st = Some (Inr (Ok (Inr example_block), retried_state (hr_uri req) st))" for n
    using assms
    by (simp add: retrying_env_def retrying_outcome_def generate_request_id_def next_request_id_def
          on_request_def add_request_def add_metric_entry_bumped on_response_def observe_response_def
          retried_state_def answered_def attempt_data_def Let_def)
  from this [of 21] show ?thesis by (simp del: http_client.simps)
qed

lemma custom_client:
  "CandidRpcClient_new ops st (RpcServices.Custom 1 [\<lparr>url = ''good'', headers = None\<rparr>]) None now
     = Inr (Inr \<lparr>eth_client = example_client ''good''\<rparr>, st)"
  by (simp add: CandidRpcClient_new_def EthRpcClient_new_def Providers_new_def choose_providers_def
        default_RpcConfig_def default_ConsensusStrategy_def example_client_def MAINNET_def btree_set_def)

definition retried_call where
  "retried_call = endpoint_eth_getBlockByNumber example_candid_env (sequential_multi retrying_env retrying_outcome)
     (\<lambda>m (p :: GetBlockByNumberParams). ()) 9
     (RpcServices.Custom 1 [\<lparr>url = ''good'', headers = None\<rparr>]) None CandidBlockTag.Latest
     (initial_memory ref_timed_ops () :: (ref_usage, unit) canister)"

lemma retried_call_run:
  assumes "from_block ref_num_ops example_block = Inr c"
  shows "retried_call = Inr (Consistent (Ok c), retried_state ''good'' (initial_memory ref_timed_ops ()))"
  using assms
  by (simp add: retried_call_def endpoint_eth_getBlockByNumber_def with_client_def custom_client
        CandidRpcClient_eth_get_block_by_number_def eth_get_block_by_number_def call_and_reduce_def
        client_response_size_estimate_def example_client_def default_RpcConfig_def expected_block_size_def
        ResponseSizeEstimate_new_def MAX_PAYLOAD_SIZE_def HTTP_MAX_SIZE_def HEADER_SIZE_LIMIT_def networks
        parallel_call_def Let_def provider_request_def ResolvedRpcService_post_eq
        get_override_provider_def initial_memory_def default_OverrideProvider_def OverrideProvider_apply_def
        build_request_def example_rpc_env_def example_candid_env_def ref_multi_def sequential_multi_def
        into_rpc_result_def consensus_strategy_def default_ConsensusStrategy_def candid_answer_def
        retrying_client map_filter_simps del: http_client.simps)


end
