(* ===== verification/Canister_System.thy ===== *)
theory Canister_System
  imports Call_Effects
begin

section \<open>The canister as a transition system\<close>

text \<open>
  The messages of the canister interleave at every \<open>await\<close>: a step is an update message of the
  administration, an upgrade, or one of the actions of theory \<open>Call_Effects\<close>, stated by its effect, that some
  call performs. Every endpoint that returns is a sequence of such actions, so that the invariant of the
  steps holds in every state the canister can be in, also between two awaits of a call and after a call
  that trapped there.
\<close>

subsection \<open>Steps\<close>

record ('m, 'v, 'rx) canister_env =
  cn_candid :: "('m, 'v, 'rx) candid_env"
  cn_is_controller :: "Principal \<Rightarrow> bool"

abbreviation cn_regex :: "('m, 'v, 'rx) canister_env \<Rightarrow> 'rx regex_ops" where
  "cn_regex W \<equiv> re_regex (ce_rpc (cn_candid W))"

abbreviation cn_timed :: "('m, 'v, 'rx) canister_env \<Rightarrow> ('m, 'v) timed_map_ops" where
  "cn_timed W \<equiv> re_timed (ce_rpc (cn_candid W))"

inductive canister_step ::
  "('m, 'v, 'rx) canister_env \<Rightarrow> ('m, 'lf) canister \<Rightarrow> ('m, 'lf) canister \<Rightarrow> bool"
  for W :: "('m, 'v, 'rx) canister_env" where
  keys_updated: "update_api_keys (cn_is_controller W) caller api_keys st = Inr st' \<Longrightarrow> canister_step W st st'"
| upgraded: "post_upgrade (cn_regex W) args (reset_unstable (cn_timed W) st) = Inr st' \<Longrightarrow>
    canister_step W st st'"
| call_acted: "canister_step W st (effect (cn_timed W) action st)"

inductive_cases canister_stepE: "canister_step W st st'"


subsection \<open>What a step may change\<close>

text \<open>The settings of the canister: everything but the unstable cells.\<close>

definition same_settings :: "('m, 'lf) canister \<Rightarrow> ('m, 'lf) canister \<Rightarrow> bool" where
  "same_settings st st' \<longleftrightarrow>
     (\<exists>m c u. st' = st\<lparr>UNSTABLE_METRICS := m, UNSTABLE_HTTP_REQUEST_COUNTER := c,
                        UNSTABLE_RPC_SERVICE_OK_RESULTS_TIMESTAMPS := u\<rparr>)"

lemma same_settings_iff:
  "same_settings st st' \<longleftrightarrow>
     IS_DEMO_ACTIVE st' = IS_DEMO_ACTIVE st \<and> API_KEY_MAP st' = API_KEY_MAP st
     \<and> MANAGE_API_KEYS st' = MANAGE_API_KEYS st \<and> LOG_FILTER st' = LOG_FILTER st
     \<and> OVERRIDE_PROVIDER st' = OVERRIDE_PROVIDER st \<and> NUM_SUBNET_NODES st' = NUM_SUBNET_NODES st"
  by (cases st; cases st') (auto simp: same_settings_def)

lemma effect_settings: "same_settings st (effect ops action st)"
  by (cases action) (simp_all add: same_settings_iff with_metrics_def)

lemma CandidRpcClient_new_settings:
  assumes "CandidRpcClient_new ops st source config now = Inr (r, st')"
  shows "same_settings st st'"
  by (rule CandidRpcClient_new_effect [OF assms])
    (auto simp: ranking_def same_settings_iff)

text \<open>Every step is an authorised update of the keys, an upgrade, or changes no setting.\<close>

lemma canister_step_cases:
  assumes "canister_step W st st'"
  shows "(\<exists>caller api_keys. update_api_keys (cn_is_controller W) caller api_keys st = Inr st')
    \<or> (\<exists>args. post_upgrade (cn_regex W) args (reset_unstable (cn_timed W) st) = Inr st')
    \<or> same_settings st st'"
  using assms by (cases rule: canister_step.cases) (auto simp: effect_settings)

lemma canister_step_preserves [canister_inv]:
  assumes "canister_step W st st'" "canister_ok (cn_regex W) st"
  shows "canister_ok (cn_regex W) st'"
  using canister_step_cases [OF assms(1)]
proof (elim disjE exE)
  fix caller api_keys
  assume "update_api_keys (cn_is_controller W) caller api_keys st = Inr st'"
  then show ?thesis
    using assms(2) by (auto simp: update_api_keys_def and_then_eq_Inr intro: update_api_keys_loop_preserves)
next
  fix args
  assume "post_upgrade (cn_regex W) args (reset_unstable (cn_timed W) st) = Inr st'"
  then show ?thesis
    using assms(2) by (auto intro: post_upgrade_preserves reset_unstable_preserves)
next
  assume "same_settings st st'"
  then show ?thesis using assms(2) by (simp add: same_settings_iff canister_ok_def)
qed

interpretation canister: step_invariant "canister_step W" "canister_ok (cn_regex W)" for W
  by unfold_locales (rule canister_step_preserves)


subsection \<open>Calls as sequences of steps\<close>

lemma after_steps: "(canister_step W)\<^sup>*\<^sup>* st (after (cn_timed W) actions st)"
proof (induction actions arbitrary: st)
  case (Cons action actions)
  then show ?case
    using canister_step.call_acted [of W st action] by (auto intro: converse_rtranclp_into_rtranclp)
qed simp

lemma call_accounted_steps:
  assumes "call_accounted (cn_candid W) E M rpc_method refused source config now st answer st'"
  shows "(canister_step W)\<^sup>*\<^sup>* st st'"
proof -
  obtain ranked created where "case created of
       Inl e \<Rightarrow> answer = Consistent (Err e) \<and> st' = after (cn_timed W) ranked st
     | Inr client \<Rightarrow>
         (if refused then (\<exists>e. answer = Consistent (Err e)) \<and> st' = after (cn_timed W) ranked st
          else method_accounted (cn_candid W) E M rpc_method client (after (cn_timed W) ranked st) answer st')"
    using assms unfolding call_accounted_def by blast
  then have "\<exists>actions. st' = after (cn_timed W) (ranked @ actions) st"
    by (cases created)
      (auto simp: method_accounted_def intro: exI [of _ "[]"] split: if_splits, metis after_simps(3))
  then show ?thesis by (metis after_steps)
qed

lemma request_accounted_steps:
  assumes "request_accounted (cn_timed W) E built st answer st'"
  shows "(canister_step W)\<^sup>*\<^sup>* st st'"
proof -
  have "\<exists>actions. st' = after (cn_timed W) actions st"
  proof (cases "\<exists>req. built = Inr (Inr req)")
    case True
    with assms show ?thesis unfolding request_accounted_def by (elim exE) (simp del: after_simps, blast)
  next
    case False
    with assms have "st' = after (cn_timed W) [] st" unfolding request_accounted_def by (auto split: sum.splits)
    then show ?thesis by blast
  qed
  then show ?thesis by (metis after_steps)
qed


subsection \<open>A provider without its key\<close>

lemma blockpi_sepolia_entry [catalogue]:
  "list_all (\<lambda>p. provider_alias p = Some (SupportedRpcService.EthSepolia EthSepoliaService.BlockPi) \<longrightarrow>
     provider_id p = 6 \<and> (\<exists>auth. access p = RpcAccess.Authenticated auth None)) PROVIDERS"
  by (simp add: PROVIDERS_table)

lemma blockpi_sepolia_request_traps:
  assumes "API_KEY_MAP st 6 = None"
  shows "\<exists>trap. provider_request R st c n body (RpcService.EthSepolia EthSepoliaService.BlockPi) = Inl trap"
proof -
  let ?s = "SupportedRpcService.EthSepolia EthSepoliaService.BlockPi"
  obtain p where p: "lookup_provider_for_service ?s = Ok p" "p \<in> set PROVIDERS" "provider_alias p = Some ?s"
    using lookup_provider_for_service_total by blast
  with blockpi_sepolia_entry obtain auth where
    "provider_id p = 6" "access p = RpcAccess.Authenticated auth None"
    by (auto simp: list_all_iff)
  with assms have "\<exists>trap. Provider_api st p = Inl trap"
    by (simp add: Provider_api_def get_api_key_def)
  then show ?thesis
    by (auto simp: provider_request_def p(1) ResolvedRpcService_post_def ResolvedRpcService_api_def)
qed


subsection \<open>Properties\<close>

definition example_canister_env :: "(ref_usage, Timestamp list, string) canister_env" where
  "example_canister_env = \<lparr>cn_candid = example_candid_env, cn_is_controller = (\<lambda>caller. caller = [7])\<rparr>"

text \<open>C12. In every state the canister can reach after its installation, through any interleaving of updates,
  upgrades and running calls: every stored API key is acceptable and belongs to an authenticated
  provider of the table, and the override of a provider never fails.\<close>

theorem reachable_keys_and_override:
  assumes "init (cn_regex W) args (initial_memory (cn_timed W) log_filter) = Inr st0"
    and "(canister_step W)\<^sup>*\<^sup>* st0 st"
  shows "(case get_api_key st i of
      None \<Rightarrow> True
    | Some k \<Rightarrow> read k \<noteq> [] \<and> length (read k) \<le> 200 \<and> set (read k) \<subseteq> set VALID_API_KEY_CHARS
        \<and> (\<exists>p \<in> set PROVIDERS. provider_id p = i \<and> (\<exists>a pub. access p = RpcAccess.Authenticated a pub)))
    \<and> (\<exists>api'. OverrideProvider_apply (cn_regex W) (get_override_provider st) api = Ok api')"
proof -
  have "canister_ok (cn_regex W) st0"
    using assms(1) by (auto simp: init_def intro: post_upgrade_preserves canister_ok_initial)
  then have ok: "canister_ok (cn_regex W) st" by (rule canister.reachable [OF assms(2)])
  then have "\<exists>api'. OverrideProvider_apply (cn_regex W) (get_override_provider st) api = Ok api'"
    by (simp add: canister_ok_def get_override_provider_def OverrideProvider_apply_ok)
  moreover have "key_update_ok (i, Some (read k))" if "get_api_key st i = Some k" for k
    using ok that by (simp add: canister_ok_def keys_ok_def get_api_key_def)
  ultimately show ?thesis
    by (auto simp: key_update_ok_def ApiKey_try_from_iff split: option.split)
qed

definition example_key_update :: "(ProviderId \<times> string option) list" where
  "example_key_update = [(6, Some ''k1'')]"

lemma example_key_update_run:
  "\<exists>st :: (ref_usage, unit) canister.
     update_api_keys (cn_is_controller example_canister_env) [7] example_key_update (initial_memory ref_timed_ops ())
       = Inr st
     \<and> get_api_key st 6 = Some (ApiKey ''k1'')"
proof -
  obtain p where p: "p \<in> set PROVIDERS"
    "provider_alias p = Some (SupportedRpcService.EthSepolia EthSepoliaService.BlockPi)"
    using lookup_provider_for_service_total by blast
  with blockpi_sepolia_entry have "provider_id p = 6 \<and> (\<exists>auth. access p = RpcAccess.Authenticated auth None)"
    by (auto simp: list_all_iff)
  with p(1) have "\<exists>p \<in> set PROVIDERS. provider_id p = 6 \<and> (\<exists>a pub. access p = RpcAccess.Authenticated a pub)"
    by blast
  moreover have "ApiKey_try_from ''k1'' = Ok (ApiKey ''k1'')"
    by (simp add: ApiKey_try_from_iff VALID_API_KEY_CHARS_def)
  ultimately have "key_update_ok (6, Some ''k1'')" by (simp add: key_update_ok_def)
  then have "update_api_keys (cn_is_controller example_canister_env) [7] example_key_update
      (initial_memory ref_timed_ops ()) = Inr (insert_api_key (initial_memory ref_timed_ops ()) 6 (ApiKey ''k1''))"
    by (simp add: update_api_keys_def require_api_key_principal_or_controller_def example_canister_env_def
          example_key_update_def update_api_keys_loop_ok del: update_api_keys_loop.simps)
  then show ?thesis by (simp add: insert_api_key_def get_api_key_def)
qed

lemma example_key_run:
  "\<exists>st :: (ref_usage, unit) canister. canister_step example_canister_env (initial_memory ref_timed_ops ()) st
      \<and> get_api_key st 6 = Some (ApiKey ''k1'')"
  using example_key_update_run canister_step.keys_updated by blast

theorem reachable_keys_and_override_witness:
  "\<exists>st :: (ref_usage, unit) canister. get_api_key st 6 = Some (ApiKey ''k1'') \<and> read (ApiKey ''k1'') \<noteq> []
     \<and> (\<exists>p \<in> set PROVIDERS. provider_id p = 6 \<and> (\<exists>a pub. access p = RpcAccess.Authenticated a pub))"
proof -
  obtain st where run: "canister_step example_canister_env (initial_memory ref_timed_ops ()) st"
    and key: "get_api_key st 6 = Some (ApiKey ''k1'')"
    using example_key_run by blast
  let ?args = "\<lparr>demo = None, manage_api_keys = None, install_log_filter = None,
      install_override_provider = None, nodes_in_subnet = None\<rparr> :: unit InstallArgs"
  have "init (cn_regex example_canister_env) ?args
      (initial_memory (cn_timed example_canister_env) ()) = Inr (initial_memory ref_timed_ops ())"
    by (simp add: init_def post_upgrade_def Let_def example_canister_env_def example_candid_env_def
          example_rpc_env_def)
  from reachable_keys_and_override [OF this r_into_rtranclp [of "canister_step example_canister_env", OF run], of 6]
  show ?thesis using key by auto
qed



text \<open>As long as no key is stored for BlockPi on Sepolia, which has no public URL, every call that has it
  among its providers traps; on a canister without keys this is every default call on Sepolia.\<close>

theorem sepolia_without_key_traps:
  assumes "API_KEY_MAP st 6 = None"
    and "CandidRpcClient_new (re_timed (ce_rpc C)) st source config now = Inr (Inr client, st')"
    and "RpcService.EthSepolia EthSepoliaService.BlockPi \<in> set (chosen (client_providers (eth_client client)))"
  shows "\<exists>trap. endpoint_eth_getBlockByNumber C M new_request now source config block st = Inl trap"
proof -
  have "API_KEY_MAP st' 6 = None"
    using assms(1) CandidRpcClient_new_settings [OF assms(2)] by (simp add: same_settings_iff)
  note traps = parallel_call_traps [OF assms(3) blockpi_sepolia_request_traps [OF this]]
  have "\<exists>trap. call_and_reduce (ce_rpc C) M new_request (eth_client client) rpc_name params kind estimate st' = Inl trap"
    for rpc_name params kind estimate
    using traps by (cases "client_response_size_estimate (eth_client client) estimate")
      (auto simp: call_and_reduce_def)
  then have "\<exists>trap. CandidRpcClient_eth_get_block_by_number C M new_request client block st' = Inl trap"
    unfolding CandidRpcClient_eth_get_block_by_number_def eth_get_block_by_number_def
    by (cases "into_block_spec (ce_num C) block") (auto, metis and_then.simps(1))
  then show ?thesis
    by (simp add: endpoint_eth_getBlockByNumber_def with_client_def assms(2))
qed

lemma sepolia_default_client:
  "\<exists>client st'. CandidRpcClient_new (re_timed (ce_rpc example_candid_env)) (initial_memory ref_timed_ops ())
       (RpcServices.EthSepolia None) None 9 = Inr (Inr client, st')
     \<and> RpcService.EthSepolia EthSepoliaService.BlockPi \<in> set (chosen (client_providers (eth_client client)))"
proof -
  have const: "sort_key (\<lambda>k. r) eth_sepolia = eth_sepolia" for r :: Reverse
    by (simp add: eth_sepolia_def)
  have "rank_providers ref_timed_ops (initial_memory ref_timed_ops ()) eth_sepolia 9
      = (eth_sepolia, initial_memory ref_timed_ops ())"
    by (simp add: rank_providers_def rank_ascending_evict_def ref_timed_ops_def initial_memory_def
          SupportedRpcServiceUsage_new_def ref_lookup_def Let_def const fun_eq_iff)
  then show ?thesis
    by (simp add: CandidRpcClient_new_def EthRpcClient_new_def Providers_new_def choose_providers_def Let_def
          default_RpcConfig_def default_ConsensusStrategy_def DEFAULT_NUM_PROVIDERS_FOR_EQUALITY_def
          eth_sepolia_def example_candid_env_def example_rpc_env_def)
qed

theorem sepolia_without_key_traps_witness:
  "\<exists>trap. endpoint_eth_getBlockByNumber example_candid_env (ref_multi block_answer)
     (\<lambda>m (p :: GetBlockByNumberParams). ()) 9 (RpcServices.EthSepolia None) None CandidBlockTag.Latest
     (initial_memory ref_timed_ops ()) = Inl trap"
proof -
  have "API_KEY_MAP (initial_memory ref_timed_ops ()) 6 = None" by (simp add: initial_memory_def)
  with sepolia_default_client show ?thesis by (blast intro: sepolia_without_key_traps)
qed

end
