(* ===== verification/Canister_Answers.thy ===== *)
theory Canister_Answers
  imports Canister_Main
begin

section \<open>The types of the canister's answers\<close>

text \<open>
  \<open>Nat256\<close> wraps an unbounded \<open>candid::Nat\<close> whose value is meant to fit in 256 bits: the client's conversions
  trap on any other. Here is the proof that every number of every answer of the Ethereum endpoints does.
\<close>

subsection \<open>Payloads of an answer\<close>

fun multi_all :: "('a \<Rightarrow> bool) \<Rightarrow> 'a MultiRpcResult \<Rightarrow> bool" where
  "multi_all P (Consistent r) = (\<forall>x. r = Inr x \<longrightarrow> P x)"
| "multi_all P (Inconsistent v) = (\<forall>sr \<in> set v. \<forall>x. snd sr = Inr x \<longrightarrow> P x)"

lemma multi_all_collapse: "multi_all P m \<Longrightarrow> multi_all P (collapse eq m)"
  by (cases m) (auto simp: collapse_Inconsistent uniform_def dest: hd_in_set)

lemma multi_all_error [simp]: "multi_all P (MultiRpcResult_from (Err e))"
  by (simp add: MultiRpcResult_from_def)

lemma multi_map_conv_images:
  assumes "multi_map_conv eq f m = Inr m'"
  shows "multi_all (\<lambda>c. \<exists>x. f x = Inr c) m'"
proof (cases m)
  case (Consistent r)
  with assms show ?thesis by (cases r) (auto simp: map_ok_eq_Inr)
next
  case (Inconsistent v)
  with assms obtain w where w: "m' = collapse eq (Inconsistent w)"
    "map (\<lambda>(s, r). map_ok (Pair s) (result_conv f r)) v = map Inr w"
    by (auto simp: map_ok_eq_Inr list_conv_def collect_results_Inr)
  have "\<exists>x. f x = Inr c" if "sr \<in> set w" "snd sr = Inr c" for sr c
  proof -
    from that(1) w(2) have "Inr sr \<in> set (map (\<lambda>(s, r). map_ok (Pair s) (result_conv f r)) v)" by simp
    then obtain s r where "map_ok (Pair s) (result_conv f r) = Inr sr" by auto
    with that(2) show ?thesis by (cases r) (auto simp: map_ok_eq_Inr)
  qed
  then have "multi_all (\<lambda>c. \<exists>x. f x = Inr c) (Inconsistent w)" by auto
  then show ?thesis unfolding w(1) by (rule multi_all_collapse)
qed

lemma multi_all_mono: "multi_all P m \<Longrightarrow> (\<And>x. P x \<Longrightarrow> Q x) \<Longrightarrow> multi_all Q m"
  by (cases m) auto

lemma map_ok_exists: "\<exists>x. r = Inr x \<Longrightarrow> \<exists>y. map_ok f r = Inr y"
  by auto

lemma collect_results_exists: "(\<And>x. x \<in> set xs \<Longrightarrow> \<exists>y. f x = Inr y) \<Longrightarrow> \<exists>ys. collect_results (map f xs) = Inr ys"
proof (induction xs)
  case (Cons x xs)
  obtain y where "f x = Inr y" using Cons.prems [of x] by auto
  moreover obtain ys where "collect_results (map f xs) = Inr ys" using Cons.IH Cons.prems by auto
  ultimately show ?case by simp
qed simp

text \<open>Conversions that do not trap on the payloads of an answer do not trap on the answer.\<close>

lemma multi_and_then_conv_all:
  assumes "multi_all (\<lambda>x. \<exists>r. f x = Inr r) m"
  shows "\<exists>m'. multi_and_then_conv eq f m = Inr m'"
proof (cases m)
  case (Consistent r)
  with assms show ?thesis by (cases r) auto
next
  case (Inconsistent v)
  have "\<exists>y. (\<lambda>(s, r). map_ok (Pair s) (result_and_then_conv f r)) sr = Inr y" if "sr \<in> set v" for sr
  proof -
    have "\<exists>y. result_and_then_conv f (snd sr) = Inr y"
      using that assms Inconsistent by (cases "snd sr") auto
    then show ?thesis by (cases sr) auto
  qed
  then have "\<exists>w. list_conv (\<lambda>(s, r). map_ok (Pair s) (result_and_then_conv f r)) v = Inr w"
    unfolding list_conv_def by (rule collect_results_exists)
  then show ?thesis by (auto simp: Inconsistent)
qed


subsection \<open>Answers of an endpoint\<close>

definition all_answers :: "('b \<Rightarrow> bool) \<Rightarrow> ('b MultiRpcResult \<times> 'st) trapping \<Rightarrow> bool" where
  "all_answers P r \<longleftrightarrow> (\<forall>answer st'. r = Inr (answer, st') \<longrightarrow> multi_all P answer)"

lemma all_answers_bind: "(\<And>x. all_answers P (f x)) \<Longrightarrow> all_answers P (and_then r f)"
  by (cases r) (auto simp: all_answers_def)

lemma all_answers_with_client:
  "(\<And>client st. all_answers P (call client st)) \<Longrightarrow> all_answers P (with_client C now source config call st)"
  unfolding with_client_def by (rule all_answers_bind) (auto simp: all_answers_def split: prod.splits sum.splits)

lemma all_answers_candid_answer:
  assumes "\<And>x c. conversion x = Inr c \<Longrightarrow> P c"
  shows "all_answers P (candid_answer C M rpc_name eq conversion out)"
  by (auto simp: all_answers_def candid_answer_def map_ok_eq_Inr assms split: prod.splits
       intro: multi_all_mono [OF multi_map_conv_images])


subsection \<open>Numbers of an answer\<close>

abbreviation nat_fits :: "Nat256 \<Rightarrow> bool" where
  "nat_fits n \<equiv> nat256 n < 2 ^ 256"

definition log_fits :: "CandidLogEntry \<Rightarrow> bool" where
  "log_fits l \<longleftrightarrow> fits (clog_block_number l) \<and> fits (clog_transaction_index l) \<and> fits (clog_log_index l)"

definition block_fits :: "CandidBlock \<Rightarrow> bool" where
  "block_fits b \<longleftrightarrow>
     list_all nat_fits [cblk_number b, cblk_gas_limit b, cblk_gas_used b, cblk_nonce b, cblk_size b,
       cblk_timestamp b]
     \<and> list_all fits [cblk_base_fee_per_gas b, cblk_difficulty b, cblk_total_difficulty b]"

definition receipt_fits :: "CandidTransactionReceipt \<Rightarrow> bool" where
  "receipt_fits r \<longleftrightarrow>
     list_all nat_fits [crc_block_number r, crc_effective_gas_price r, crc_gas_used r,
       crc_cumulative_gas_used r, crc_transaction_index r]
     \<and> fits (crc_status r) \<and> list_all log_fits (crc_logs r)"

definition fee_history_fits :: "'f CandidFeeHistory \<Rightarrow> bool" where
  "fee_history_fits h \<longleftrightarrow>
     nat_fits (cfh_oldest_block h) \<and> list_all nat_fits (cfh_base_fee_per_gas h)
     \<and> list_all (list_all nat_fits) (cfh_reward h)"

lemma nat_of_amount_fits: "nat_fits (nat_of_amount a)"
  using unsigned_less [of "inner a", where ?'a = nat] by (simp add: nat_of_amount_def)

lemmas amount_fits [simp] = nat_of_amount_fits [simplified]
  nat_of_amount_fits [unfolded nat_of_amount_def Nat256.sel, simplified]

lemma opt_amount_fits_256 [simp]: "fits (map_option nat_of_amount x)"
  by (cases x) simp_all

lemma list_conv_all:
  assumes "\<And>x c. f x = Inr c \<Longrightarrow> P c" "list_conv f xs = Inr cs"
  shows "list_all P cs"
  using assms(2)
proof (induction xs arbitrary: cs)
  case (Cons x xs)
  then show ?case
    using assms(1) by (cases "f x") (auto simp: list_conv_def map_ok_eq_Inr)
qed (simp add: list_conv_def)

lemma from_log_entry_fits: "num_spec N \<Longrightarrow> from_log_entry N l = Inr c \<Longrightarrow> log_fits c"
  by (auto simp: from_log_entry_def from_amounts log_fits_def)

lemma from_log_entries_fits: "num_spec N \<Longrightarrow> from_log_entries N ls = Inr cs \<Longrightarrow> list_all log_fits cs"
  unfolding from_log_entries_def by (rule list_conv_all [OF from_log_entry_fits])

lemma from_block_fits: "num_spec N \<Longrightarrow> from_block N b = Inr c \<Longrightarrow> block_fits c"
  by (auto simp: from_block_def from_amounts block_fits_def)

lemma from_fee_history_fits: "num_spec N \<Longrightarrow> from_fee_history N h = Inr c \<Longrightarrow> fee_history_fits c"
  by (auto simp: from_fee_history_def from_amounts fee_history_fits_def list_all_iff)

lemma from_transaction_receipt_fits:
  assumes num: "num_spec N" and "from_transaction_receipt N r = Inr c"
  shows "receipt_fits c"
proof -
  obtain ls where logs: "from_log_entries N (rc_logs r) = Inr ls"
    using from_log_entries_faithful(1) [OF num] by blast
  have status: "opt_conv (from_status N) (rc_status r)
      = Inr (map_option (\<lambda>s. Nat256 (unat (u256_from_TransactionStatus s))) (rc_status r))"
    by (rule opt_conv_total, rule from_status_total, rule num)
  have "fits (map_option (\<lambda>s. Nat256 (unat (u256_from_TransactionStatus s))) (rc_status r))"
    using unsigned_less [where ?'a = nat and ?'b = 256] by (cases "rc_status r") simp_all
  then show ?thesis
    using assms(2) from_log_entries_fits [OF num logs]
    by (auto simp: from_transaction_receipt_def from_amounts [OF num] logs status receipt_fits_def)
qed

definition receipt_option_fits :: "CandidTransactionReceipt option \<Rightarrow> bool" where
  "receipt_option_fits r = (case r of None \<Rightarrow> True | Some x \<Rightarrow> receipt_fits x)"

lemma opt_receipt_fits:
  "num_spec N \<Longrightarrow> opt_conv (from_transaction_receipt N) r = Inr c \<Longrightarrow> receipt_option_fits c"
  by (cases r; cases "from_transaction_receipt N (the r)")
    (auto simp: opt_conv_def receipt_option_fits_def intro: from_transaction_receipt_fits)

lemma getBlockByNumber_answers_fit:
  assumes "num_spec (ce_num C)"
  shows "all_answers block_fits (endpoint_eth_getBlockByNumber C M new_request now source config block st)"
  unfolding endpoint_eth_getBlockByNumber_def CandidRpcClient_eth_get_block_by_number_def
  by (intro all_answers_with_client all_answers_bind all_answers_candid_answer from_block_fits [OF assms])


lemma getTransactionReceipt_answers_fit:
  assumes "num_spec (ce_num C)"
  shows "all_answers receipt_option_fits
    (endpoint_eth_getTransactionReceipt C M new_request now source config tx_hash st)"
  unfolding endpoint_eth_getTransactionReceipt_def CandidRpcClient_eth_get_transaction_receipt_def
  by (intro all_answers_with_client all_answers_bind all_answers_candid_answer) (rule opt_receipt_fits [OF assms])

lemma getTransactionCount_answers_fit:
  assumes "num_spec (ce_num C)"
  shows "all_answers nat_fits (endpoint_eth_getTransactionCount C M new_request now source config count_args st)"
  unfolding endpoint_eth_getTransactionCount_def CandidRpcClient_eth_get_transaction_count_def
  by (intro all_answers_with_client all_answers_bind all_answers_candid_answer) (auto simp: from_amounts [OF assms])


subsection \<open>Properties\<close>

text \<open>C28. The answers keep the type invariant of \<open>Nat256\<close>: whatever the providers returned, every number of every
  payload of an answer of the Ethereum endpoints, consistent or not, fits in 256 bits, so that no
  conversion of the client traps on it.\<close>

theorem answers_fit_Nat256:
  assumes "num_spec (ce_num C)"
  shows "all_answers (list_all log_fits) (endpoint_eth_getLogs C Mlogs nr1 now source logs_config logs_args st)
    \<and> all_answers block_fits (endpoint_eth_getBlockByNumber C Mblock nr2 now source config block st)
    \<and> all_answers receipt_option_fits
        (endpoint_eth_getTransactionReceipt C Mreceipt nr3 now source config tx_hash st)
    \<and> all_answers nat_fits (endpoint_eth_getTransactionCount C Mcount nr4 now source config count_args st)
    \<and> all_answers fee_history_fits
        (endpoint_eth_feeHistory C Mfee nr5 eq_f64 now source config fee_args st)"
proof (intro conjI)
  show "all_answers (list_all log_fits) (endpoint_eth_getLogs C Mlogs nr1 now source logs_config logs_args st)"
    unfolding endpoint_eth_getLogs_def Let_def CandidRpcClient_eth_get_logs_def
    by (intro all_answers_with_client)
      (auto simp: all_answers_def [of _ "Inr _"] split: option.split
        intro!: all_answers_bind all_answers_candid_answer from_log_entries_fits [OF assms])
  show "all_answers block_fits (endpoint_eth_getBlockByNumber C Mblock nr2 now source config block st)"
    by (rule getBlockByNumber_answers_fit [OF assms])
  show "all_answers receipt_option_fits
      (endpoint_eth_getTransactionReceipt C Mreceipt nr3 now source config tx_hash st)"
    by (rule getTransactionReceipt_answers_fit [OF assms])
  show "all_answers nat_fits (endpoint_eth_getTransactionCount C Mcount nr4 now source config count_args st)"
    by (rule getTransactionCount_answers_fit [OF assms])
  show "all_answers fee_history_fits
      (endpoint_eth_feeHistory C Mfee nr5 eq_f64 now source config fee_args st)"
    unfolding endpoint_eth_feeHistory_def CandidRpcClient_eth_fee_history_def
    by (intro all_answers_with_client all_answers_bind all_answers_candid_answer
        from_fee_history_fits [OF assms])
qed

theorem answers_fit_Nat256_witness:
  "all_answers block_fits
     (endpoint_eth_getBlockByNumber example_candid_env (ref_multi block_answer)
        (\<lambda>m (p :: GetBlockByNumberParams). ()) 9 (RpcServices.EthMainnet None) None CandidBlockTag.Latest
        (initial_memory ref_timed_ops ()))"
proof -
  have "num_spec (ce_num example_candid_env)" by (simp add: example_candid_env_def ref_num_spec)
  from answers_fit_Nat256 [OF this, THEN conjunct2, THEN conjunct1] show ?thesis .
qed

end
