(* ===== verification/Alloy_Conversion.thy ===== *)
theory Alloy_Conversion
  imports Candid_Conversion
begin

section \<open>Conversion to and from the alloy types\<close>

text \<open>
  The \<open>alloy\<close> feature of \<^verbatim>\<open>evm_rpc_types\<close> (\<^verbatim>\<open>src/alloy.rs\<close>, \<^verbatim>\<open>src/request/alloy.rs\<close>, \<^verbatim>\<open>src/response/alloy.rs\<close>,
  \<^verbatim>\<open>src/result/alloy.rs\<close>): what the client library does to the canister's answers. The records hold the
  fields of the alloy types that the sources set. What the libraries compute is a parameter: the
  conversions of big integers, the check of the log data and the known transaction types.

  A conversion may trap (an assertion on a \<open>Nat256\<close> that does not fit in 256 bits) or return an error, so
  that its type is \<open>'a RpcResult trapping\<close>.
\<close>

subsection \<open>Traps around results\<close>

fun bind_rpc ::
  "'a RpcResult trapping \<Rightarrow> ('a \<Rightarrow> 'b RpcResult trapping) \<Rightarrow> 'b RpcResult trapping" where
  "bind_rpc (Inl trap) f = Inl trap"
| "bind_rpc (Inr (Inl e)) f = Inr (Err e)"
| "bind_rpc (Inr (Inr x)) f = f x"

definition pure_rpc :: "'a RpcResult \<Rightarrow> 'a RpcResult trapping" where
  "pure_rpc r = Inr r"

definition total_rpc :: "'a trapping \<Rightarrow> 'a RpcResult trapping" where
  "total_rpc r = map_ok Ok r"

lemma bind_rpc_eq_Ok: "bind_rpc r f = Inr (Inr y) \<longleftrightarrow> (\<exists>x. r = Inr (Inr x) \<and> f x = Inr (Inr y))"
  by (cases "(r, f)" rule: bind_rpc.cases) auto

lemma pure_rpc_eq [simp]: "pure_rpc r = Inr s \<longleftrightarrow> r = s" "pure_rpc r \<noteq> Inl trap"
  by (simp_all add: pure_rpc_def)

lemma bind_pure_rpc [simp]: "bind_rpc (pure_rpc r) f = (case r of Inl e \<Rightarrow> Inr (Err e) | Inr x \<Rightarrow> f x)"
  by (cases r) (simp_all add: pure_rpc_def)

definition custom_error :: "string \<Rightarrow> RpcError" where
  "custom_error msg = RpcError.ValidationError (ValidationError.Custom msg)"


subsection \<open>The alloy types\<close>

datatype AlloyAddress = AlloyAddress bytes
datatype B256 = B256 bytes
datatype B64 = B64 u64
datatype Bloom = Bloom bytes
datatype AlloyBytes = AlloyBytes bytes

text \<open>The alloy libraries: \<open>TryFrom<BigUint>\<close>, \<open>LogData::new\<close> and \<open>TxType::try_from\<close>, errors as displayed.\<close>

record ('ld, 'tt) alloy_ops =
  al_num :: num_ops
  al_from_be_bytes :: "bytes \<Rightarrow> u256"  \<comment> \<open>\<open>alloy_primitives::U256\<close>\<close>
  al_to_be_bytes :: "u256 \<Rightarrow> bytes"
  al_big_u128 :: "nat \<Rightarrow> string + u128"
  al_log_data :: "B256 list \<Rightarrow> AlloyBytes \<Rightarrow> 'ld option"
  al_tx_type :: "u8 \<Rightarrow> string + 'tt"

definition alloy_spec :: "('ld, 'tt) alloy_ops \<Rightarrow> bool" where
  "alloy_spec A \<longleftrightarrow>
     num_spec (al_num A)
     \<and> (\<forall>bs. length bs = 32 \<longrightarrow> al_from_be_bytes A bs = of_nat (be_value bs))
     \<and> (\<forall>w. length (al_to_be_bytes A w) = 32 \<and> be_value (al_to_be_bytes A w) = unat w)
     \<and> (\<forall>n. n < 2 ^ 128 \<longrightarrow> al_big_u128 A n = Ok (of_nat n))
     \<and> (\<forall>n. n \<ge> 2 ^ 128 \<longrightarrow> (\<exists>e. al_big_u128 A n = Err e))"

record 'ld AlloyLog =
  alog_address :: AlloyAddress
  alog_data :: 'ld
  alog_block_hash :: "B256 option"
  alog_block_number :: "u64 option"
  alog_block_timestamp :: "u64 option"
  alog_transaction_hash :: "B256 option"
  alog_transaction_index :: "u64 option"
  alog_log_index :: "u64 option"
  alog_removed :: bool

record AlloyHeader =
  ah_parent_hash :: B256
  ah_ommers_hash :: B256
  ah_beneficiary :: AlloyAddress
  ah_state_root :: B256
  ah_transactions_root :: B256
  ah_receipts_root :: B256
  ah_logs_bloom :: Bloom
  ah_difficulty :: u256
  ah_number :: u64
  ah_gas_limit :: u64
  ah_gas_used :: u64
  ah_timestamp :: u64
  ah_extra_data :: AlloyBytes
  ah_mix_hash :: B256
  ah_nonce :: B64
  ah_base_fee_per_gas :: "u64 option"

record AlloyBlock =
  ab_hash :: B256
  ab_header :: AlloyHeader
  ab_total_difficulty :: "u256 option"
  ab_size :: "u256 option"
  ab_uncles :: "B256 list"
  ab_transactions :: "B256 list"

record 'f AlloyFeeHistory =
  afh_base_fee_per_gas :: "u128 list"
  afh_gas_used_ratio :: "'f list"
  afh_base_fee_per_blob_gas :: "u128 list"
  afh_blob_gas_used_ratio :: "'f list"
  afh_oldest_block :: u64
  afh_reward :: "u128 list list option"

datatype Eip658Value = Eip658 bool | PostState B256

record ('ld, 'tt) AlloyReceipt =
  ar_tx_type :: 'tt
  ar_status :: Eip658Value
  ar_cumulative_gas_used :: u64
  ar_logs :: "'ld AlloyLog list"
  ar_logs_bloom :: Bloom
  ar_transaction_hash :: B256
  ar_transaction_index :: "u64 option"
  ar_block_hash :: "B256 option"
  ar_block_number :: "u64 option"
  ar_gas_used :: u64
  ar_effective_gas_price :: u128
  ar_from :: AlloyAddress
  ar_to :: "AlloyAddress option"
  ar_contract_address :: "AlloyAddress option"

datatype BlockNumberOrTag = Latest | Finalized | Safe | Earliest | Pending | Number u64


subsection \<open>Primitive types\<close>

definition AlloyAddress_from :: "Hex20 \<Rightarrow> AlloyAddress" where
  "AlloyAddress_from v = AlloyAddress (hex20 v)"

fun Hex20_from_Address :: "AlloyAddress \<Rightarrow> Hex20" where
  "Hex20_from_Address (AlloyAddress bs) = Hex20 bs"

definition B256_from :: "Hex32 \<Rightarrow> B256" where
  "B256_from v = B256 (hex32 v)"

fun Hex32_from_B256 :: "B256 \<Rightarrow> Hex32" where
  "Hex32_from_B256 (B256 bs) = Hex32 bs"

definition Hex_from_FixedBytes :: "bytes \<Rightarrow> Hex" where
  "Hex_from_FixedBytes v = Hex v"

definition AlloyBytes_from :: "Hex \<Rightarrow> AlloyBytes" where
  "AlloyBytes_from v = AlloyBytes (hex v)"

fun Hex_from_Bytes :: "AlloyBytes \<Rightarrow> Hex" where
  "Hex_from_Bytes (AlloyBytes bs) = Hex bs"

definition Nat256_from_U256 :: "('ld, 'tt) alloy_ops \<Rightarrow> u256 \<Rightarrow> Nat256 trapping" where
  "Nat256_from_U256 A v = Nat256_from_be_bytes (al_num A) (al_to_be_bytes A v)"

definition U256_from_Nat256 :: "('ld, 'tt) alloy_ops \<Rightarrow> Nat256 \<Rightarrow> u256 trapping" where
  "U256_from_Nat256 A v = map_ok (al_from_be_bytes A) (Nat256_into_be_bytes (al_num A) v)"

definition Bloom_from :: "Hex256 \<Rightarrow> Bloom" where
  "Bloom_from v = Bloom (hex256 v)"

fun Hex256_from_Bloom :: "Bloom \<Rightarrow> Hex256" where
  "Hex256_from_Bloom (Bloom bs) = Hex256 bs"

definition B64_try_from :: "num_ops \<Rightarrow> Nat256 \<Rightarrow> B64 RpcResult" where
  "B64_try_from N v = map_ok B64 (u64_try_from_Nat256 N v)"

fun Nat256_from_B64 :: "num_ops \<Rightarrow> B64 \<Rightarrow> Nat256 trapping" where
  "Nat256_from_B64 N (B64 v) = Nat256_from_uint N v"

text \<open>\<open>try_from_nat256\<close>, with the conversion and the name of the target type.\<close>

definition try_from_nat256 ::
  "(nat \<Rightarrow> string + 'w) \<Rightarrow> string \<Rightarrow> Nat256 \<Rightarrow> string \<Rightarrow> 'w RpcResult" where
  "try_from_nat256 try type_name v field_name =
     map_err
       (\<lambda>err. custom_error (''Failed to convert field `'' @ field_name @ ''` to `'' @ type_name @ ''`: '' @ err))
       (try (nat256 v))"

abbreviation try_u64_field :: "('ld, 'tt) alloy_ops \<Rightarrow> Nat256 \<Rightarrow> string \<Rightarrow> u64 RpcResult" where
  "try_u64_field A \<equiv> try_from_nat256 (try_u64 (al_num A)) ''u64''"

abbreviation try_u128_field :: "('ld, 'tt) alloy_ops \<Rightarrow> Nat256 \<Rightarrow> string \<Rightarrow> u128 RpcResult" where
  "try_u128_field A \<equiv> try_from_nat256 (al_big_u128 A) ''u128''"


subsection \<open>Requests\<close>

fun BlockTag_from_alloy :: "num_ops \<Rightarrow> BlockNumberOrTag \<Rightarrow> CandidBlockTag trapping" where
  "BlockTag_from_alloy N BlockNumberOrTag.Latest = Inr CandidBlockTag.Latest"
| "BlockTag_from_alloy N BlockNumberOrTag.Finalized = Inr CandidBlockTag.Finalized"
| "BlockTag_from_alloy N BlockNumberOrTag.Safe = Inr CandidBlockTag.Safe"
| "BlockTag_from_alloy N BlockNumberOrTag.Earliest = Inr CandidBlockTag.Earliest"
| "BlockTag_from_alloy N BlockNumberOrTag.Pending = Inr CandidBlockTag.Pending"
| "BlockTag_from_alloy N (BlockNumberOrTag.Number n) = map_ok CandidBlockTag.Number (Nat256_from_uint N n)"

fun BlockNumberOrTag_try_from :: "num_ops \<Rightarrow> CandidBlockTag \<Rightarrow> BlockNumberOrTag RpcResult" where
  "BlockNumberOrTag_try_from N CandidBlockTag.Latest = Ok BlockNumberOrTag.Latest"
| "BlockNumberOrTag_try_from N CandidBlockTag.Finalized = Ok BlockNumberOrTag.Finalized"
| "BlockNumberOrTag_try_from N CandidBlockTag.Safe = Ok BlockNumberOrTag.Safe"
| "BlockNumberOrTag_try_from N CandidBlockTag.Earliest = Ok BlockNumberOrTag.Earliest"
| "BlockNumberOrTag_try_from N CandidBlockTag.Pending = Ok BlockNumberOrTag.Pending"
| "BlockNumberOrTag_try_from N (CandidBlockTag.Number n) =
     map_ok BlockNumberOrTag.Number (u64_try_from_Nat256 N n)"

definition GetLogsArgs_from :: "('a \<Rightarrow> Hex20) \<Rightarrow> 'a list \<Rightarrow> GetLogsArgs" where
  "GetLogsArgs_from into addresses =
     \<lparr>gla_from_block = None, gla_to_block = None, gla_addresses = map into addresses, gla_topics = None\<rparr>"

datatype TxKind = Create | Call AlloyAddress

text \<open>\<open>try_into_unique_input\<close> of the library is kept as the result it returned.\<close>

record AlloyAccessListItem =
  aal_address :: AlloyAddress
  aal_storage_keys :: "B256 list"

record AlloyTransactionRequest =
  atr_transaction_type :: "u8 option"
  atr_nonce :: "u64 option"
  atr_to :: "TxKind option"
  atr_from :: "AlloyAddress option"
  atr_gas :: "u64 option"
  atr_value :: "u256 option"
  atr_unique_input :: "string + AlloyBytes option"
  atr_gas_price :: "u128 option"
  atr_max_priority_fee_per_gas :: "u128 option"
  atr_max_fee_per_gas :: "u128 option"
  atr_max_fee_per_blob_gas :: "u128 option"
  atr_access_list :: "AlloyAccessListItem list option"
  atr_blob_versioned_hashes :: "B256 list option"
  atr_sidecar_blobs :: "bytes list option"
  atr_chain_id :: "u64 option"

definition AccessList_from :: "AlloyAccessListItem list \<Rightarrow> CandidAccessList" where
  "AccessList_from access_list =
     CandidAccessList (map (\<lambda>item. \<lparr>ale_address = Hex20_from_Address (aal_address item),
                                   ale_storage_keys = map Hex32_from_B256 (aal_storage_keys item)\<rparr>)
                         access_list)"

definition TransactionRequest_try_from ::
  "('ld, 'tt) alloy_ops \<Rightarrow> AlloyTransactionRequest \<Rightarrow> CandidTransactionRequest RpcResult trapping" where
  "TransactionRequest_try_from A r =
     bind_rpc (total_rpc (opt_conv (Nat256_from_uint (al_num A)) (atr_nonce r))) (\<lambda>nonce.
     bind_rpc (total_rpc (opt_conv (Nat256_from_uint (al_num A)) (atr_gas r))) (\<lambda>gas.
     bind_rpc (total_rpc (opt_conv (Nat256_from_U256 A) (atr_value r))) (\<lambda>val.
     bind_rpc (pure_rpc (map_err custom_error (atr_unique_input r))) (\<lambda>input.
     bind_rpc (total_rpc (opt_conv (Nat256_from_uint (al_num A)) (atr_gas_price r))) (\<lambda>gas_price.
     bind_rpc (total_rpc (opt_conv (Nat256_from_uint (al_num A)) (atr_max_priority_fee_per_gas r)))
       (\<lambda>max_priority_fee.
     bind_rpc (total_rpc (opt_conv (Nat256_from_uint (al_num A)) (atr_max_fee_per_gas r))) (\<lambda>max_fee.
     bind_rpc (total_rpc (opt_conv (Nat256_from_uint (al_num A)) (atr_max_fee_per_blob_gas r)))
       (\<lambda>max_blob_fee.
     bind_rpc (total_rpc (opt_conv (Nat256_from_uint (al_num A)) (atr_chain_id r))) (\<lambda>chain_id.
       pure_rpc (Ok
         \<lparr>ctr_tx_type = map_option HexByte_from_u8 (atr_transaction_type r),
          ctr_nonce = nonce,
          ctr_to = (case atr_to r of Some (Call address) \<Rightarrow> Some (Hex20_from_Address address) | _ \<Rightarrow> None),
          ctr_from = map_option Hex20_from_Address (atr_from r),
          ctr_gas = gas,
          ctr_value = val,
          ctr_input = map_option Hex_from_Bytes input,
          ctr_gas_price = gas_price,
          ctr_max_priority_fee_per_gas = max_priority_fee,
          ctr_max_fee_per_gas = max_fee,
          ctr_max_fee_per_blob_gas = max_blob_fee,
          ctr_access_list = map_option AccessList_from (atr_access_list r),
          ctr_blob_versioned_hashes = map_option (map Hex32_from_B256) (atr_blob_versioned_hashes r),
          ctr_blobs = map_option (map Hex_from_FixedBytes) (atr_sidecar_blobs r),
          ctr_chain_id = chain_id\<rparr>))))))))))"

definition CallArgs_try_from ::
  "('ld, 'tt) alloy_ops \<Rightarrow> AlloyTransactionRequest \<Rightarrow> CallArgs RpcResult trapping" where
  "CallArgs_try_from A request =
     bind_rpc (TransactionRequest_try_from A request) (\<lambda>transaction.
       pure_rpc (Ok \<lparr>ca_transaction = transaction, ca_block = None\<rparr>))"


subsection \<open>Responses\<close>

definition Log_try_from :: "('ld, 'tt) alloy_ops \<Rightarrow> CandidLogEntry \<Rightarrow> 'ld AlloyLog RpcResult" where
  "Log_try_from A entry =
     and_then (ok_or (custom_error ''Invalid log data'')
       (al_log_data A (map B256_from (clog_topics entry)) (AlloyBytes_from (clog_data entry)))) (\<lambda>log_data.
     and_then (transpose_result (map_option (\<lambda>v. try_u64_field A v ''block_number'')
       (clog_block_number entry))) (\<lambda>block_number.
     and_then (transpose_result (map_option (\<lambda>v. try_u64_field A v ''transaction_index'')
       (clog_transaction_index entry))) (\<lambda>transaction_index.
     and_then (transpose_result (map_option (\<lambda>v. try_u64_field A v ''log_index'')
       (clog_log_index entry))) (\<lambda>log_index.
       Ok \<lparr>alog_address = AlloyAddress_from (clog_address entry),
           alog_data = log_data,
           alog_block_hash = map_option B256_from (clog_block_hash entry),
           alog_block_number = block_number,
           alog_block_timestamp = None,
           alog_transaction_hash = map_option B256_from (clog_transaction_hash entry),
           alog_transaction_index = transaction_index,
           alog_log_index = log_index,
           alog_removed = clog_removed entry\<rparr>))))"

definition validate_difficulty ::
  "('ld, 'tt) alloy_ops \<Rightarrow> Nat256 \<Rightarrow> Nat256 option \<Rightarrow> u256 RpcResult trapping" where
  "validate_difficulty A block_number difficulty =
     bind_rpc (total_rpc (opt_conv (U256_from_Nat256 A) difficulty)) (\<lambda>d.
       if nat256 block_number < 15537394
       then pure_rpc (ok_or (custom_error ''Missing difficulty field in pre Paris upgrade block'') d)
       else pure_rpc (case d of
           None \<Rightarrow> Ok 0
         | Some v \<Rightarrow> if v = 0 then Ok 0
             else Err (custom_error ''Post Paris upgrade block has non-zero difficulty'')))"

definition validate_transactions_root :: "Hex32 option \<Rightarrow> B256 RpcResult" where
  "validate_transactions_root transactions_root =
     ok_or (custom_error ''Block does not have a transactions root field'')
       (map_option B256_from transactions_root)"

definition Block_try_from ::
  "('ld, 'tt) alloy_ops \<Rightarrow> CandidBlock \<Rightarrow> AlloyBlock RpcResult trapping" where
  "Block_try_from A v =
     bind_rpc (pure_rpc (validate_transactions_root (cblk_transactions_root v))) (\<lambda>transactions_root.
     bind_rpc (validate_difficulty A (cblk_number v) (cblk_difficulty v)) (\<lambda>difficulty.
     bind_rpc (pure_rpc (try_u64_field A (cblk_number v) ''number'')) (\<lambda>block_number.
     bind_rpc (pure_rpc (try_u64_field A (cblk_gas_limit v) ''gas_limit'')) (\<lambda>gas_limit.
     bind_rpc (pure_rpc (try_u64_field A (cblk_gas_used v) ''gas_used'')) (\<lambda>gas_used.
     bind_rpc (pure_rpc (try_u64_field A (cblk_timestamp v) ''timestamp'')) (\<lambda>timestamp.
     bind_rpc (pure_rpc (B64_try_from (al_num A) (cblk_nonce v))) (\<lambda>nonce.
     bind_rpc (pure_rpc (transpose_result
         (map_option (\<lambda>v. try_u64_field A v ''base_fee_per_gas'') (cblk_base_fee_per_gas v)))) (\<lambda>base_fee.
     bind_rpc (total_rpc (opt_conv (U256_from_Nat256 A) (cblk_total_difficulty v))) (\<lambda>total_difficulty.
     bind_rpc (total_rpc (U256_from_Nat256 A (cblk_size v))) (\<lambda>sz.
       pure_rpc (Ok
         \<lparr>ab_hash = B256_from (cblk_hash v),
          ab_header =
            \<lparr>ah_parent_hash = B256_from (cblk_parent_hash v),
             ah_ommers_hash = B256_from (cblk_sha3_uncles v),
             ah_beneficiary = AlloyAddress_from (cblk_miner v),
             ah_state_root = B256_from (cblk_state_root v),
             ah_transactions_root = transactions_root,
             ah_receipts_root = B256_from (cblk_receipts_root v),
             ah_logs_bloom = Bloom_from (cblk_logs_bloom v),
             ah_difficulty = difficulty,
             ah_number = block_number,
             ah_gas_limit = gas_limit,
             ah_gas_used = gas_used,
             ah_timestamp = timestamp,
             ah_extra_data = AlloyBytes_from (cblk_extra_data v),
             ah_mix_hash = B256_from (cblk_mix_hash v),
             ah_nonce = nonce,
             ah_base_fee_per_gas = base_fee\<rparr>,
          ab_total_difficulty = total_difficulty,
          ab_size = Some sz,
          ab_uncles = map B256_from (cblk_uncles v),
          ab_transactions = map B256_from (cblk_transactions v)\<rparr>)))))))))))"

definition FeeHistory_try_from ::
  "('ld, 'tt) alloy_ops \<Rightarrow> 'f CandidFeeHistory \<Rightarrow> 'f AlloyFeeHistory RpcResult" where
  "FeeHistory_try_from A v =
     and_then (collect_results (map (\<lambda>fee. try_u128_field A fee ''base_fee_per_gas'')
       (cfh_base_fee_per_gas v))) (\<lambda>base_fee_per_gas.
     and_then (try_u64_field A (cfh_oldest_block v) ''oldest_block'') (\<lambda>oldest_block.
     and_then (collect_results (map (\<lambda>rewards. collect_results
       (map (\<lambda>reward. try_u128_field A reward ''reward'') rewards)) (cfh_reward v))) (\<lambda>reward.
       Ok \<lparr>afh_base_fee_per_gas = base_fee_per_gas,
           afh_gas_used_ratio = cfh_gas_used_ratio v,
           afh_base_fee_per_blob_gas = [],
           afh_blob_gas_used_ratio = [],
           afh_oldest_block = oldest_block,
           afh_reward = Some reward\<rparr>)))"

definition TxType_try_from :: "('ld, 'tt) alloy_ops \<Rightarrow> HexByte \<Rightarrow> 'tt RpcResult" where
  "TxType_try_from A v =
     map_err (\<lambda>e. custom_error (''Unable to parse transaction type: '' @ e))
       (al_tx_type A (u8_from_HexByte v))"

definition validate_receipt_status ::
  "('ld, 'tt) alloy_ops \<Rightarrow> Nat256 \<Rightarrow> Hex32 option \<Rightarrow> Nat256 option \<Rightarrow> Eip658Value RpcResult trapping"
where
  "validate_receipt_status A block_number root status =
     (if nat256 block_number < 4370000
      then pure_rpc (case root of
          None \<Rightarrow> Err (custom_error
            ''Missing root field in transaction included before the Byzantium upgrade'')
        | Some r \<Rightarrow> Ok (PostState (B256_from r)))
      else bind_rpc (total_rpc (opt_conv (U256_from_Nat256 A) status)) (\<lambda>s.
        pure_rpc (case s of
          None \<Rightarrow> Err (custom_error
            ''Missing status field in transaction included after the Byzantium upgrade'')
        | Some v \<Rightarrow>
            if v = 0 then Ok (Eip658 False) else if v = 1 then Ok (Eip658 True)
            else Err (custom_error ''Post-Byzantium receipt has invalid status (expected 0 or 1)''))))"

definition TransactionReceipt_try_from ::
  "('ld, 'tt) alloy_ops \<Rightarrow> CandidTransactionReceipt \<Rightarrow> ('ld, 'tt) AlloyReceipt RpcResult trapping" where
  "TransactionReceipt_try_from A r =
     bind_rpc (pure_rpc (TxType_try_from A (crc_tx_type r))) (\<lambda>tx_type.
     bind_rpc (validate_receipt_status A (crc_block_number r) (crc_root r) (crc_status r)) (\<lambda>status.
     bind_rpc (pure_rpc (try_u64_field A (crc_cumulative_gas_used r) ''cumulative_gas_used'')) (\<lambda>cumulative.
     bind_rpc (pure_rpc (collect_results (map (Log_try_from A) (crc_logs r)))) (\<lambda>logs.
     bind_rpc (pure_rpc (try_u64_field A (crc_transaction_index r) ''transaction_index'')) (\<lambda>index.
     bind_rpc (pure_rpc (try_u64_field A (crc_block_number r) ''block_number'')) (\<lambda>block_number.
     bind_rpc (pure_rpc (try_u64_field A (crc_gas_used r) ''gas_used'')) (\<lambda>gas_used.
     bind_rpc (pure_rpc (try_u128_field A (crc_effective_gas_price r) ''effective_gas_price''))
       (\<lambda>effective_gas_price.
       pure_rpc (Ok
         \<lparr>ar_tx_type = tx_type, ar_status = status, ar_cumulative_gas_used = cumulative, ar_logs = logs,
          ar_logs_bloom = Bloom_from (crc_logs_bloom r),
          ar_transaction_hash = B256_from (crc_transaction_hash r),
          ar_transaction_index = Some index,
          ar_block_hash = Some (B256_from (crc_block_hash r)),
          ar_block_number = Some block_number,
          ar_gas_used = gas_used,
          ar_effective_gas_price = effective_gas_price,
          ar_from = AlloyAddress_from (crc_from r),
          ar_to = map_option AlloyAddress_from (crc_to r),
          ar_contract_address = map_option AlloyAddress_from (crc_contract_address r)\<rparr>)))))))))"


subsection \<open>Multi-provider results\<close>

definition alloy_logs ::
  "('ld, 'tt) alloy_ops \<Rightarrow> CandidLogEntry list MultiRpcResult \<Rightarrow> 'ld AlloyLog list MultiRpcResult" where
  "alloy_logs A result = multi_and_then (=) (\<lambda>logs. collect_results (map (Log_try_from A) logs)) result"

definition alloy_call :: "Hex MultiRpcResult \<Rightarrow> AlloyBytes MultiRpcResult" where
  "alloy_call result = multi_map (=) AlloyBytes_from result"

definition alloy_block ::
  "('ld, 'tt) alloy_ops \<Rightarrow> CandidBlock MultiRpcResult \<Rightarrow> AlloyBlock MultiRpcResult trapping" where
  "alloy_block A result = multi_and_then_conv (=) (Block_try_from A) result"

definition alloy_fee_history ::
  "('ld, 'tt) alloy_ops \<Rightarrow> 'f CandidFeeHistory MultiRpcResult \<Rightarrow> 'f AlloyFeeHistory MultiRpcResult" where
  "alloy_fee_history A result = multi_and_then (=) (FeeHistory_try_from A) result"

definition alloy_number :: "('ld, 'tt) alloy_ops \<Rightarrow> Nat256 MultiRpcResult \<Rightarrow> u256 MultiRpcResult trapping" where
  "alloy_number A result = multi_map_conv (=) (U256_from_Nat256 A) result"

definition alloy_receipt ::
  "('ld, 'tt) alloy_ops \<Rightarrow> CandidTransactionReceipt option MultiRpcResult
    \<Rightarrow> ('ld, 'tt) AlloyReceipt option MultiRpcResult trapping" where
  "alloy_receipt A result =
     multi_and_then_conv (=)
       (\<lambda>maybe_receipt. case maybe_receipt of
            None \<Rightarrow> Inr (Ok None)
          | Some r \<Rightarrow> map_ok (map_ok Some) (TransactionReceipt_try_from A r)) result"

fun hash_of_status :: "SendRawTransactionStatus \<Rightarrow> B256 RpcResult" where
  "hash_of_status (StatusOk (Some h)) = Ok (B256_from h)"
| "hash_of_status (StatusOk None) = Err (custom_error ''Unable to compute transaction hash'')"
| "hash_of_status SendRawTransactionStatus.InsufficientFunds =
     Err (RpcError.JsonRpcError \<lparr>json_rpc_code = -32000, json_rpc_message = ''Insufficient funds''\<rparr>)"
| "hash_of_status SendRawTransactionStatus.NonceTooLow =
     Err (RpcError.JsonRpcError \<lparr>json_rpc_code = -32000, json_rpc_message = ''Nonce too low''\<rparr>)"
| "hash_of_status SendRawTransactionStatus.NonceTooHigh =
     Err (RpcError.JsonRpcError \<lparr>json_rpc_code = -32000, json_rpc_message = ''Nonce too high''\<rparr>)"

definition alloy_sent :: "SendRawTransactionStatus MultiRpcResult \<Rightarrow> B256 MultiRpcResult" where
  "alloy_sent result = multi_and_then (=) hash_of_status result"


subsection \<open>Conversions by value\<close>

lemma bind_rpc_eq_Inl: "bind_rpc r f = Inl trap \<longleftrightarrow> r = Inl trap \<or> (\<exists>x. r = Inr (Inr x) \<and> f x = Inl trap)"
  by (cases "(r, f)" rule: bind_rpc.cases) auto

lemma total_rpc_simps [simp]:
  "total_rpc (Inr x) = Inr (Ok x)" "total_rpc r = Inr (Inr y) \<longleftrightarrow> r = Inr y"
  "total_rpc r = Inl trap \<longleftrightarrow> r = Inl trap"
  by (cases r; simp add: total_rpc_def)+

lemma alloy_spec_num: "alloy_spec A \<Longrightarrow> num_spec (al_num A)"
  by (simp add: alloy_spec_def)

lemma U256_from_Nat256_fits:
  assumes "alloy_spec A" "nat256 v < 2 ^ 256"
  shows "U256_from_Nat256 A v = Inr (of_nat (nat256 v))"
proof -
  obtain bs where "Nat256_into_be_bytes (al_num A) v = Inr bs" "length bs = 32" "be_value bs = nat256 v"
    using Nat256_into_be_bytes_value [OF alloy_spec_num [OF assms(1)] assms(2)] by auto
  with assms(1) show ?thesis by (simp add: U256_from_Nat256_def alloy_spec_def)
qed

lemma U256_from_Nat256_traps:
  assumes "alloy_spec A" "2 ^ 256 \<le> nat256 v"
  shows "\<exists>trap. U256_from_Nat256 A v = Inl trap"
  using assms(2) to_bytes_be_fits [OF alloy_spec_num [OF assms(1)], of "nat256 v"]
  by (simp add: U256_from_Nat256_def Nat256_into_be_bytes_def)

lemma opt_U256_fits:
  "alloy_spec A \<Longrightarrow> fits x
    \<Longrightarrow> opt_conv (U256_from_Nat256 A) x = Inr (map_option (\<lambda>n. of_nat (nat256 n)) x)"
  by (cases x) (simp_all add: opt_conv_def U256_from_Nat256_fits)

lemma Nat256_from_U256_value:
  assumes "alloy_spec A"
  shows "Nat256_from_U256 A w = Inr (Nat256 (unat w))"
proof -
  have "from_bytes_be (al_num A) (al_to_be_bytes A w) = unat w"
    using assms by (simp add: alloy_spec_def num_spec_def)
  moreover have "unat w < 2 ^ 256"
    using unsigned_less [of w, where ?'a = nat] by simp
  ultimately show ?thesis
    using Nat256_try_from_iff [OF alloy_spec_num [OF assms], of "unat w" "Nat256 (unat w)"]
    by (simp add: Nat256_from_U256_def Nat256_from_be_bytes_def)
qed

lemma try_u64_field_iff:
  assumes "alloy_spec A"
  shows "try_u64_field A v field = Inr w \<longleftrightarrow> nat256 v < 2 ^ 64 \<and> w = of_nat (nat256 v)"
  using assms by (cases "nat256 v < 2 ^ 64")
    (auto simp: try_from_nat256_def alloy_spec_def num_spec_def not_less)

lemma try_u128_field_iff:
  assumes "alloy_spec A"
  shows "try_u128_field A v field = Inr w \<longleftrightarrow> nat256 v < 2 ^ 128 \<and> w = of_nat (nat256 v)"
proof (cases "nat256 v < 2 ^ 128")
  case False
  with assms obtain e where "al_big_u128 A (nat256 v) = Err e"
    by (auto simp: alloy_spec_def not_less)
  with False show ?thesis by (simp add: try_from_nat256_def)
qed (use assms in \<open>auto simp: try_from_nat256_def alloy_spec_def\<close>)

lemma B64_try_from_iff:
  assumes "num_spec N"
  shows "B64_try_from N v = Inr b \<longleftrightarrow> nat256 v < 2 ^ 64 \<and> b = B64 (of_nat (nat256 v))"
  using assms by (cases "nat256 v < 2 ^ 64")
    (auto simp: B64_try_from_def u64_try_from_Nat256_def num_spec_def not_less map_ok_eq_Inr)

definition opt_u64 :: "Nat256 option \<Rightarrow> bool" where
  "opt_u64 x = (case x of None \<Rightarrow> True | Some n \<Rightarrow> nat256 n < 2 ^ 64)"

lemma opt_u64_field_iff:
  assumes "alloy_spec A"
  shows "transpose_result (map_option (\<lambda>v. try_u64_field A v field) x) = Inr w
    \<longleftrightarrow> opt_u64 x \<and> w = map_option (\<lambda>n. of_nat (nat256 n)) x"
proof (cases x)
  case (Some n)
  then show ?thesis
    using try_u64_field_iff [OF assms, of n field]
    by (cases "try_u64_field A n field") (auto simp: opt_u64_def)
qed (auto simp: opt_u64_def)

lemma word_of_fitting_nat:
  "nat256 v < 2 ^ 256 \<Longrightarrow> (of_nat (nat256 v) :: u256) = 0 \<longleftrightarrow> nat256 v = 0"
  "nat256 v < 2 ^ 256 \<Longrightarrow> (of_nat (nat256 v) :: u256) = 1 \<longleftrightarrow> nat256 v = 1"
  using of_nat_inverse [of "nat256 v", where ?'a = 256] by auto


subsection \<open>Blocks and receipts\<close>

text \<open>The block that a Candid block denotes, and when it is a block of the Ethereum mainnet that alloy's types can hold.\<close>

definition alloy_of_block :: "CandidBlock \<Rightarrow> B256 \<Rightarrow> AlloyBlock" where
  "alloy_of_block v root =
     \<lparr>ab_hash = B256 (hex32 (cblk_hash v)),
      ab_header =
        \<lparr>ah_parent_hash = B256 (hex32 (cblk_parent_hash v)),
         ah_ommers_hash = B256 (hex32 (cblk_sha3_uncles v)),
         ah_beneficiary = AlloyAddress (hex20 (cblk_miner v)),
         ah_state_root = B256 (hex32 (cblk_state_root v)),
         ah_transactions_root = root,
         ah_receipts_root = B256 (hex32 (cblk_receipts_root v)),
         ah_logs_bloom = Bloom (hex256 (cblk_logs_bloom v)),
         ah_difficulty = (case cblk_difficulty v of None \<Rightarrow> 0 | Some d \<Rightarrow> of_nat (nat256 d)),
         ah_number = of_nat (nat256 (cblk_number v)),
         ah_gas_limit = of_nat (nat256 (cblk_gas_limit v)),
         ah_gas_used = of_nat (nat256 (cblk_gas_used v)),
         ah_timestamp = of_nat (nat256 (cblk_timestamp v)),
         ah_extra_data = AlloyBytes (hex (cblk_extra_data v)),
         ah_mix_hash = B256 (hex32 (cblk_mix_hash v)),
         ah_nonce = B64 (of_nat (nat256 (cblk_nonce v))),
         ah_base_fee_per_gas = map_option (\<lambda>n. of_nat (nat256 n)) (cblk_base_fee_per_gas v)\<rparr>,
      ab_total_difficulty = map_option (\<lambda>n. of_nat (nat256 n)) (cblk_total_difficulty v),
      ab_size = Some (of_nat (nat256 (cblk_size v))),
      ab_uncles = map (\<lambda>h. B256 (hex32 h)) (cblk_uncles v),
      ab_transactions = map (\<lambda>h. B256 (hex32 h)) (cblk_transactions v)\<rparr>"

definition difficulty_ok :: "Nat256 \<Rightarrow> Nat256 option \<Rightarrow> bool" where
  "difficulty_ok number difficulty \<longleftrightarrow>
     (if nat256 number < 15537394 then difficulty \<noteq> None
      else difficulty = None \<or> difficulty = Some (Nat256 0))"

definition alloy_block_ok :: "CandidBlock \<Rightarrow> bool" where
  "alloy_block_ok v \<longleftrightarrow>
     cblk_transactions_root v \<noteq> None
     \<and> difficulty_ok (cblk_number v) (cblk_difficulty v)
     \<and> list_all (\<lambda>n. nat256 n < 2 ^ 64)
         [cblk_number v, cblk_gas_limit v, cblk_gas_used v, cblk_timestamp v, cblk_nonce v]
     \<and> opt_u64 (cblk_base_fee_per_gas v)"

definition alloy_receipt_status :: "Nat256 \<Rightarrow> Hex32 option \<Rightarrow> Nat256 option \<Rightarrow> Eip658Value option" where
  "alloy_receipt_status number root status =
     (if nat256 number < 4370000 then map_option (\<lambda>r. PostState (B256 (hex32 r))) root
      else if status = Some (Nat256 0) then Some (Eip658 False)
      else if status = Some (Nat256 1) then Some (Eip658 True)
      else None)"

lemma validate_difficulty_iff:
  assumes "alloy_spec A" "fits d"
  shows "(\<exists>r. validate_difficulty A n d = Inr r)
    \<and> (validate_difficulty A n d = Inr (Inr w) \<longleftrightarrow>
         difficulty_ok n d \<and> w = (case d of None \<Rightarrow> 0 | Some x \<Rightarrow> of_nat (nat256 x)))"
proof (cases d)
  case None
  with opt_U256_fits [OF assms] show ?thesis
    by (auto simp: validate_difficulty_def difficulty_ok_def)
next
  case (Some x)
  with assms(2) have "nat256 x < 2 ^ 256" by simp
  with opt_U256_fits [OF assms] Some word_of_fitting_nat [of x] show ?thesis
    by (cases x) (auto simp: validate_difficulty_def difficulty_ok_def)
qed

lemma validate_receipt_status_iff:
  assumes "alloy_spec A" "fits status"
  shows "(\<exists>r. validate_receipt_status A n root status = Inr r)
    \<and> (validate_receipt_status A n root status = Inr (Inr s) \<longleftrightarrow> alloy_receipt_status n root status = Some s)"
proof (cases status)
  case None
  with opt_U256_fits [OF assms] show ?thesis
    by (auto simp: validate_receipt_status_def alloy_receipt_status_def B256_from_def split: option.splits)
next
  case (Some x)
  with assms(2) have "nat256 x < 2 ^ 256" by simp
  with opt_U256_fits [OF assms] Some word_of_fitting_nat [of x] show ?thesis
    by (cases x)
      (auto simp: validate_receipt_status_def alloy_receipt_status_def B256_from_def split: option.splits)
qed

lemma Block_try_from_never_traps:
  assumes "alloy_spec A" "fits (cblk_difficulty v)" "fits (cblk_total_difficulty v)"
    and "nat256 (cblk_size v) < 2 ^ 256"
  shows "\<exists>r. Block_try_from A v = Inr r"
proof (cases "Block_try_from A v")
  case (Inl trap)
  have "validate_difficulty A (cblk_number v) (cblk_difficulty v) \<noteq> Inl trap"
    using validate_difficulty_iff [OF assms(1,2), of "cblk_number v"] by auto
  with Inl opt_U256_fits [OF assms(1,3)] U256_from_Nat256_fits [OF assms(1,4)] show ?thesis
    unfolding Block_try_from_def bind_rpc_eq_Inl by simp
qed simp

lemma Block_try_from_iff:
  assumes "alloy_spec A" "fits (cblk_difficulty v)" "fits (cblk_total_difficulty v)"
    and "nat256 (cblk_size v) < 2 ^ 256"
  shows "Block_try_from A v = Inr (Ok b) \<longleftrightarrow>
    alloy_block_ok v \<and> (\<exists>r. cblk_transactions_root v = Some r \<and> b = alloy_of_block v (B256 (hex32 r)))"
  unfolding Block_try_from_def bind_rpc_eq_Ok pure_rpc_eq total_rpc_simps
    conjunct2 [OF validate_difficulty_iff [OF assms(1,2)]] try_u64_field_iff [OF assms(1)]
    opt_u64_field_iff [OF assms(1)] B64_try_from_iff [OF alloy_spec_num [OF assms(1)]]
    opt_U256_fits [OF assms(1,3)] U256_from_Nat256_fits [OF assms(1,4)]
  by (auto simp: alloy_block_ok_def alloy_of_block_def validate_transactions_root_def B256_from_def
      AlloyAddress_from_def Bloom_from_def AlloyBytes_from_def)

lemma collect_results_Ok_iff:
  "(\<exists>ys. collect_results (map f xs) = Inr ys) \<longleftrightarrow> (\<forall>x\<in>set xs. \<exists>y. f x = Inr y)"
proof (induction xs)
  case (Cons x xs)
  show ?case
  proof (cases "f x")
    case (Inr y)
    with Cons.IH show ?thesis by (cases "collect_results (map f xs)") auto
  qed auto
qed simp

definition alloy_log_ok :: "('ld, 'tt) alloy_ops \<Rightarrow> CandidLogEntry \<Rightarrow> bool" where
  "alloy_log_ok A entry \<longleftrightarrow>
     al_log_data A (map B256_from (clog_topics entry)) (AlloyBytes_from (clog_data entry)) \<noteq> None
     \<and> opt_u64 (clog_block_number entry) \<and> opt_u64 (clog_transaction_index entry)
     \<and> opt_u64 (clog_log_index entry)"

definition alloy_receipt_ok :: "('ld, 'tt) alloy_ops \<Rightarrow> CandidTransactionReceipt \<Rightarrow> bool" where
  "alloy_receipt_ok A r \<longleftrightarrow>
     (\<exists>t. al_tx_type A (u8_from_HexByte (crc_tx_type r)) = Ok t)
     \<and> alloy_receipt_status (crc_block_number r) (crc_root r) (crc_status r) \<noteq> None
     \<and> list_all (\<lambda>n. nat256 n < 2 ^ 64)
         [crc_cumulative_gas_used r, crc_transaction_index r, crc_block_number r, crc_gas_used r]
     \<and> nat256 (crc_effective_gas_price r) < 2 ^ 128
     \<and> list_all (alloy_log_ok A) (crc_logs r)"

lemma Log_try_from_iff:
  assumes "alloy_spec A"
  shows "(\<exists>l. Log_try_from A entry = Inr l) \<longleftrightarrow> alloy_log_ok A entry"
  unfolding Log_try_from_def and_then_eq_Inr opt_u64_field_iff [OF assms] ok_or_eq_Inr
  by (auto simp: alloy_log_ok_def)

lemma FeeHistory_try_from_iff:
  assumes "alloy_spec A"
  shows "(\<exists>h. FeeHistory_try_from A v = Inr h) \<longleftrightarrow>
    nat256 (cfh_oldest_block v) < 2 ^ 64
    \<and> (\<forall>fee\<in>set (cfh_base_fee_per_gas v). nat256 fee < 2 ^ 128)
    \<and> (\<forall>rewards\<in>set (cfh_reward v). \<forall>reward\<in>set rewards. nat256 reward < 2 ^ 128)"
proof -
  have "(\<exists>h. FeeHistory_try_from A v = Inr h) \<longleftrightarrow>
    (\<exists>w. try_u64_field A (cfh_oldest_block v) ''oldest_block'' = Inr w)
    \<and> (\<exists>ws. collect_results (map (\<lambda>fee. try_u128_field A fee ''base_fee_per_gas'') (cfh_base_fee_per_gas v))
          = Inr ws)
    \<and> (\<exists>wss. collect_results (map (\<lambda>rewards. collect_results
          (map (\<lambda>reward. try_u128_field A reward ''reward'') rewards)) (cfh_reward v)) = Inr wss)"
    unfolding FeeHistory_try_from_def and_then_eq_Inr by auto
  then show ?thesis
    unfolding collect_results_Ok_iff try_u64_field_iff [OF assms] try_u128_field_iff [OF assms] by auto
qed

lemma TransactionReceipt_try_from_iff:
  assumes "alloy_spec A" "fits (crc_status r)"
  shows "(\<exists>a. TransactionReceipt_try_from A r = Inr (Ok a)) \<longleftrightarrow> alloy_receipt_ok A r"
proof -
  have logs: "(\<exists>ls. collect_results (map (Log_try_from A) (crc_logs r)) = Inr ls)
      \<longleftrightarrow> list_all (alloy_log_ok A) (crc_logs r)"
    unfolding collect_results_Ok_iff Log_try_from_iff [OF assms(1)] by (simp add: list_all_iff)
  have status: "(\<exists>s. validate_receipt_status A (crc_block_number r) (crc_root r) (crc_status r) = Inr (Inr s))
      \<longleftrightarrow> alloy_receipt_status (crc_block_number r) (crc_root r) (crc_status r) \<noteq> None"
    unfolding conjunct2 [OF validate_receipt_status_iff [OF assms]] by auto
  have tx_type: "(\<exists>t. TxType_try_from A (crc_tx_type r) = Inr t)
      \<longleftrightarrow> (\<exists>t. al_tx_type A (u8_from_HexByte (crc_tx_type r)) = Ok t)"
    by (simp add: TxType_try_from_def)
  have "(\<exists>a. TransactionReceipt_try_from A r = Inr (Ok a)) \<longleftrightarrow>
    (\<exists>t. TxType_try_from A (crc_tx_type r) = Inr t)
    \<and> (\<exists>s. validate_receipt_status A (crc_block_number r) (crc_root r) (crc_status r) = Inr (Inr s))
    \<and> (\<exists>ls. collect_results (map (Log_try_from A) (crc_logs r)) = Inr ls)
    \<and> list_all (\<lambda>n. nat256 n < 2 ^ 64)
         [crc_cumulative_gas_used r, crc_transaction_index r, crc_block_number r, crc_gas_used r]
     \<and> nat256 (crc_effective_gas_price r) < 2 ^ 128"
    unfolding TransactionReceipt_try_from_def bind_rpc_eq_Ok pure_rpc_eq
      try_u64_field_iff [OF assms(1)] try_u128_field_iff [OF assms(1)]
    by auto
  then show ?thesis
    unfolding logs status tx_type alloy_receipt_ok_def by auto
qed

lemma TransactionReceipt_try_from_never_traps:
  assumes "alloy_spec A" "fits (crc_status r)"
  shows "\<exists>a. TransactionReceipt_try_from A r = Inr a"
proof (cases "TransactionReceipt_try_from A r")
  case (Inl trap)
  have "validate_receipt_status A (crc_block_number r) (crc_root r) (crc_status r) \<noteq> Inl trap"
    using validate_receipt_status_iff [OF assms, of "crc_block_number r" "crc_root r"] by auto
  with Inl show ?thesis
    unfolding TransactionReceipt_try_from_def bind_rpc_eq_Inl by simp
qed simp

lemma TransactionReceipt_try_from_fields:
  assumes "alloy_spec A" "fits (crc_status r)" "TransactionReceipt_try_from A r = Inr (Ok a)"
  shows "alloy_receipt_status (crc_block_number r) (crc_root r) (crc_status r) = Some (ar_status a)"
    and "ar_block_number a = Some (of_nat (nat256 (crc_block_number r)))"
    and "ar_effective_gas_price a = of_nat (nat256 (crc_effective_gas_price r))"
    and "ar_gas_used a = of_nat (nat256 (crc_gas_used r))"
    and "ar_transaction_hash a = B256 (hex32 (crc_transaction_hash r))"
    and "length (ar_logs a) = length (crc_logs r)"
  using assms(3)
  unfolding TransactionReceipt_try_from_def bind_rpc_eq_Ok pure_rpc_eq
    try_u64_field_iff [OF assms(1)] try_u128_field_iff [OF assms(1)]
    conjunct2 [OF validate_receipt_status_iff [OF assms(1,2)]]
  by (auto simp: B256_from_def collect_results_Inr dest!: arg_cong [where f = length])


subsection \<open>A reference implementation of the libraries\<close>

text \<open>The documented behaviour of the alloy crates: at most four topics, transaction types 0 to 4.\<close>

definition ref_alloy :: "(B256 list \<times> AlloyBytes, u8) alloy_ops" where
  "ref_alloy =
     \<lparr>al_num = ref_num_ops,
      al_from_be_bytes = u256_from_be_bytes ref_num_ops,
      al_to_be_bytes = u256_to_be_bytes ref_num_ops,
      al_big_u128 = (\<lambda>n. if n < 2 ^ 128 then Ok (of_nat n) else Err ''TryFromBigIntError''),
      al_log_data = (\<lambda>topics data. if length topics \<le> 4 then Some (topics, data) else None),
      al_tx_type = (\<lambda>v. if v \<le> 4 then Ok v else Err ''invalid tx type'')\<rparr>"

lemma ref_alloy_spec: "alloy_spec ref_alloy"
  using ref_num_spec by (auto simp: alloy_spec_def ref_alloy_def num_spec_def)

definition sample_block :: "nat \<Rightarrow> Nat256 option \<Rightarrow> CandidBlock" where
  "sample_block n d =
     \<lparr>cblk_base_fee_per_gas = None, cblk_number = Nat256 n, cblk_difficulty = d, cblk_extra_data = Hex [],
      cblk_gas_limit = Nat256 30000000, cblk_gas_used = Nat256 21000, cblk_hash = Hex32 (replicate 32 1),
      cblk_logs_bloom = Hex256 (replicate 256 0), cblk_miner = Hex20 (replicate 20 0),
      cblk_mix_hash = Hex32 (replicate 32 0), cblk_nonce = Nat256 0,
      cblk_parent_hash = Hex32 (replicate 32 0), cblk_receipts_root = Hex32 (replicate 32 0),
      cblk_sha3_uncles = Hex32 (replicate 32 0), cblk_size = Nat256 500,
      cblk_state_root = Hex32 (replicate 32 0), cblk_timestamp = Nat256 1700000000,
      cblk_total_difficulty = None, cblk_transactions = [],
      cblk_transactions_root = Some (Hex32 (replicate 32 2)), cblk_uncles = []\<rparr>"

definition sample_receipt :: "nat \<Rightarrow> CandidTransactionReceipt" where
  "sample_receipt n =
     \<lparr>crc_block_hash = Hex32 (replicate 32 1), crc_block_number = Nat256 n,
      crc_effective_gas_price = Nat256 7, crc_gas_used = Nat256 21000,
      crc_cumulative_gas_used = Nat256 21000, crc_status = Some (Nat256 1), crc_root = None,
      crc_transaction_hash = Hex32 (replicate 32 3), crc_contract_address = None,
      crc_from = Hex20 (replicate 20 4), crc_logs = [], crc_logs_bloom = Hex256 (replicate 256 0),
      crc_to = None, crc_transaction_index = Nat256 0, crc_tx_type = HexByte_from_u8 2\<rparr>"


subsection \<open>Properties\<close>

text \<open>C29. A block reported by the canister becomes an alloy block exactly when it has a transactions
  root, its number, gas, timestamp, nonce and base fee fit in 64 bits, and its difficulty is the one of
  the Ethereum mainnet at that height: present before block 15,537,394 (Paris), absent or zero from there
  on. The conversion never traps on numbers of 256 bits, and the alloy block holds the values of the block,
  a missing difficulty read as zero.\<close>

theorem alloy_block_exact:
  assumes "alloy_spec A" "fits (cblk_difficulty v)" "fits (cblk_total_difficulty v)"
    and "nat256 (cblk_size v) < 2 ^ 256"
  shows "(\<exists>r. Block_try_from A v = Inr r)
    \<and> (Block_try_from A v = Inr (Ok b) \<longleftrightarrow>
         alloy_block_ok v
         \<and> (\<exists>r. cblk_transactions_root v = Some r \<and> b = alloy_of_block v (B256 (hex32 r))))"
  using Block_try_from_never_traps [OF assms] Block_try_from_iff [OF assms] by (intro conjI)

theorem alloy_block_exact_witness:
  "Block_try_from ref_alloy (sample_block 20000000 None) =
     Inr (Ok (alloy_of_block (sample_block 20000000 None) (B256 (replicate 32 2))))
   \<and> (\<forall>b. Block_try_from ref_alloy (sample_block 20000000 (Some (Nat256 5))) \<noteq> Inr (Ok b))
   \<and> (\<forall>b. Block_try_from ref_alloy (sample_block 100 None) \<noteq> Inr (Ok b))"
proof (intro conjI)
  show "Block_try_from ref_alloy (sample_block 20000000 None) =
     Inr (Ok (alloy_of_block (sample_block 20000000 None) (B256 (replicate 32 2))))"
    using alloy_block_exact [OF ref_alloy_spec, where v = "sample_block 20000000 None"]
    by (simp add: sample_block_def alloy_block_ok_def difficulty_ok_def opt_u64_def)
  show "\<forall>b. Block_try_from ref_alloy (sample_block 20000000 (Some (Nat256 5))) \<noteq> Inr (Ok b)"
    using alloy_block_exact [OF ref_alloy_spec, where v = "sample_block 20000000 (Some (Nat256 5))"]
    by (simp add: sample_block_def alloy_block_ok_def difficulty_ok_def)
  show "\<forall>b. Block_try_from ref_alloy (sample_block 100 None) \<noteq> Inr (Ok b)"
    using alloy_block_exact [OF ref_alloy_spec, where v = "sample_block 100 None"]
    by (simp add: sample_block_def alloy_block_ok_def difficulty_ok_def)
qed

text \<open>C30. A transaction receipt becomes an alloy receipt exactly when its transaction type is known, its logs
  are valid, its numbers fit in the machine integers of alloy and its status is the one of the Ethereum
  mainnet at that height: a state root below block 4,370,000 (Byzantium) whatever the status, a status
  of 0 or 1 from there on whatever the root. The conversion never traps, and the receipt reports that status.\<close>

theorem alloy_receipt_exact:
  assumes "alloy_spec A" "fits (crc_status r)"
  shows "(\<exists>a. TransactionReceipt_try_from A r = Inr a)
    \<and> ((\<exists>a. TransactionReceipt_try_from A r = Inr (Ok a)) \<longleftrightarrow> alloy_receipt_ok A r)
    \<and> (TransactionReceipt_try_from A r = Inr (Ok a) \<longrightarrow>
        alloy_receipt_status (crc_block_number r) (crc_root r) (crc_status r) = Some (ar_status a)
        \<and> ar_block_number a = Some (of_nat (nat256 (crc_block_number r)))
        \<and> ar_effective_gas_price a = of_nat (nat256 (crc_effective_gas_price r))
        \<and> ar_transaction_hash a = B256 (hex32 (crc_transaction_hash r))
        \<and> length (ar_logs a) = length (crc_logs r))"
  using TransactionReceipt_try_from_never_traps [OF assms] TransactionReceipt_try_from_iff [OF assms]
    TransactionReceipt_try_from_fields [OF assms]
  by blast

theorem alloy_receipt_exact_witness:
  "(\<exists>a. TransactionReceipt_try_from ref_alloy (sample_receipt 5000000) = Inr (Ok a) \<and> ar_status a = Eip658 True)
   \<and> (\<forall>a. TransactionReceipt_try_from ref_alloy (sample_receipt 1000) \<noteq> Inr (Ok a))"
proof (intro conjI)
  have fit: "fits (crc_status (sample_receipt n))" for n
    by (simp add: sample_receipt_def)
  have "alloy_receipt_ok ref_alloy (sample_receipt 5000000)"
    by (simp add: alloy_receipt_ok_def sample_receipt_def ref_alloy_def alloy_receipt_status_def
        HexByte_from_u8_def u8_from_HexByte_def)
  with alloy_receipt_exact [OF ref_alloy_spec fit, of 5000000] obtain a where
    a: "TransactionReceipt_try_from ref_alloy (sample_receipt 5000000) = Inr (Ok a)" by blast
  with alloy_receipt_exact [OF ref_alloy_spec fit, of 5000000 a]
  have "ar_status a = Eip658 True" by (auto simp: sample_receipt_def alloy_receipt_status_def)
  with a show "\<exists>a. TransactionReceipt_try_from ref_alloy (sample_receipt 5000000) = Inr (Ok a)
      \<and> ar_status a = Eip658 True" by blast
  have "\<not> alloy_receipt_ok ref_alloy (sample_receipt 1000)"
    by (simp add: alloy_receipt_ok_def sample_receipt_def alloy_receipt_status_def)
  with alloy_receipt_exact [OF ref_alloy_spec fit, of 1000]
  show "\<forall>a. TransactionReceipt_try_from ref_alloy (sample_receipt 1000) \<noteq> Inr (Ok a)" by blast
qed

text \<open>The conversions between the two vocabularies are inverse to each other: a block tag, a 256-bit
  integer, a nonce and the byte arrays that go to the Candid type and back are unchanged, and neither direction
  traps; a natural number comes back when it fits in 256 bits, and the conversion to \<open>U256\<close> traps on any other.\<close>

theorem alloy_roundtrips:
  assumes "alloy_spec A"
  shows "(\<exists>c. BlockTag_from_alloy (al_num A) tag = Inr c \<and> BlockNumberOrTag_try_from (al_num A) c = Ok tag)
    \<and> (\<exists>n. Nat256_from_U256 A w = Inr n \<and> U256_from_Nat256 A n = Inr w)
    \<and> (\<exists>n. Nat256_from_B64 (al_num A) nonce = Inr n \<and> B64_try_from (al_num A) n = Ok nonce)
    \<and> (if nat256 v < 2 ^ 256
       then \<exists>u. U256_from_Nat256 A v = Inr u \<and> Nat256_from_U256 A u = Inr v
       else \<exists>trap. U256_from_Nat256 A v = Inl trap)
    \<and> Hex20_from_Address (AlloyAddress_from address) = address
    \<and> Hex32_from_B256 (B256_from hash) = hash
    \<and> Hex256_from_Bloom (Bloom_from bloom) = bloom
    \<and> Hex_from_Bytes (AlloyBytes_from data) = data"
proof (intro conjI)
  note num = alloy_spec_num [OF assms]
  have small: "unat x < 2 ^ 64" for x :: u64 using unsigned_less [of x, where ?'a = nat] by simp
  have fit: "unat w < 2 ^ 256" for w :: u256 using unsigned_less [of w, where ?'a = nat] by simp
  have u64: "u64_try_from_Nat256 (al_num A) (Nat256 (unat x)) = Ok x" for x
    using num small [of x] by (simp add: u64_try_from_Nat256_def num_spec_def)
  show "\<exists>c. BlockTag_from_alloy (al_num A) tag = Inr c \<and> BlockNumberOrTag_try_from (al_num A) c = Ok tag"
    by (cases tag) (simp_all add: Nat256_from_uint_value [OF num] u64)
  show "\<exists>n. Nat256_from_U256 A w = Inr n \<and> U256_from_Nat256 A n = Inr w"
    using fit [of w] by (simp add: Nat256_from_U256_value [OF assms] U256_from_Nat256_fits [OF assms])
  show "\<exists>n. Nat256_from_B64 (al_num A) nonce = Inr n \<and> B64_try_from (al_num A) n = Ok nonce"
    by (cases nonce) (simp add: Nat256_from_uint_value [OF num] B64_try_from_def u64)
  show "if nat256 v < 2 ^ 256
      then \<exists>u. U256_from_Nat256 A v = Inr u \<and> Nat256_from_U256 A u = Inr v
      else \<exists>trap. U256_from_Nat256 A v = Inl trap"
    using U256_from_Nat256_traps [OF assms, of v] of_nat_inverse [of "nat256 v", where ?'a = 256]
    by (cases v) (simp add: U256_from_Nat256_fits [OF assms] Nat256_from_U256_value [OF assms])
qed (simp_all add: AlloyAddress_from_def B256_from_def Bloom_from_def AlloyBytes_from_def)

theorem alloy_roundtrips_witness:
  "\<exists>c. BlockTag_from_alloy ref_num_ops (BlockNumberOrTag.Number 19000000) = Inr c
     \<and> BlockNumberOrTag_try_from ref_num_ops c = Ok (BlockNumberOrTag.Number 19000000)"
proof -
  have "al_num ref_alloy = ref_num_ops" by (simp add: ref_alloy_def)
  with alloy_roundtrips [OF ref_alloy_spec, where tag = "BlockNumberOrTag.Number 19000000"]
  show ?thesis by metis
qed

end
