(* ===== verification/Evm_Rpc_Client.thy ===== *)
theory Evm_Rpc_Client
  imports Canister_Answers Alloy_Conversion
begin

section \<open>The client library\<close>

text \<open>
  The crate \<^verbatim>\<open>evm_rpc_client\<close>: the builder of a client (\<^verbatim>\<open>src/lib.rs\<close>), the requests of the seven endpoints and
  their builders (\<^verbatim>\<open>src/request/mod.rs\<close>), the runtimes (\<^verbatim>\<open>src/runtime/mod.rs\<close>, \<^verbatim>\<open>src/fixtures/mod.rs\<close>).

  The trait \<open>Runtime\<close> is passed as its method \<open>update_call\<close>, a function that threads the state of the world it
  acts on. Where a Rust function takes \<open>impl Into<T>\<close>, the model takes the converted value; the fallible
  \<open>TryInto\<close> of \<open>call\<close> is an argument. The marker fields of \<open>Request\<close> hold no data and are left out.
\<close>

subsection \<open>Clients\<close>

definition EVM_RPC_CANISTER :: Principal where
  "EVM_RPC_CANISTER = [0, 0, 0, 0, 2, 48, 0, 204, 1, 1]"

record 'r ClientConfig =
  cc_runtime :: 'r
  cc_evm_rpc_canister :: Principal
  cc_rpc_config :: "RpcConfig option"
  cc_rpc_services :: RpcServices

datatype 'r EvmRpcClient = EvmRpcClient (evm_config: "'r ClientConfig")
datatype 'r ClientBuilder = ClientBuilder (builder_config: "'r ClientConfig")

datatype IcRuntime = IcRuntime

definition ClientBuilder_new :: "'r \<Rightarrow> Principal \<Rightarrow> 'r ClientBuilder" where
  "ClientBuilder_new runtime evm_rpc_canister =
     ClientBuilder \<lparr>cc_runtime = runtime, cc_evm_rpc_canister = evm_rpc_canister, cc_rpc_config = None,
                    cc_rpc_services = RpcServices.EthMainnet None\<rparr>"

definition EvmRpcClient_builder :: "'r \<Rightarrow> Principal \<Rightarrow> 'r ClientBuilder" where
  "EvmRpcClient_builder runtime evm_rpc_canister = ClientBuilder_new runtime evm_rpc_canister"

definition builder_for_ic :: "IcRuntime ClientBuilder" where
  "builder_for_ic = ClientBuilder_new IcRuntime EVM_RPC_CANISTER"

definition with_runtime :: "'r ClientBuilder \<Rightarrow> ('r \<Rightarrow> 's) \<Rightarrow> 's ClientBuilder" where
  "with_runtime self other_runtime =
     (let config = builder_config self
      in ClientBuilder \<lparr>cc_runtime = other_runtime (cc_runtime config),
                        cc_evm_rpc_canister = cc_evm_rpc_canister config,
                        cc_rpc_config = cc_rpc_config config,
                        cc_rpc_services = cc_rpc_services config\<rparr>)"

definition with_rpc_sources :: "'r ClientBuilder \<Rightarrow> RpcServices \<Rightarrow> 'r ClientBuilder" where
  "with_rpc_sources self rpc_services =
     ClientBuilder ((builder_config self)\<lparr>cc_rpc_services := rpc_services\<rparr>)"

definition with_rpc_config :: "'r ClientBuilder \<Rightarrow> RpcConfig \<Rightarrow> 'r ClientBuilder" where
  "with_rpc_config self rpc_config =
     ClientBuilder ((builder_config self)\<lparr>cc_rpc_config := Some rpc_config\<rparr>)"

definition with_consensus_strategy :: "'r ClientBuilder \<Rightarrow> ConsensusStrategy \<Rightarrow> 'r ClientBuilder" where
  "with_consensus_strategy self strategy =
     ClientBuilder ((builder_config self)
       \<lparr>cc_rpc_config := Some ((unwrap_or default_RpcConfig (cc_rpc_config (builder_config self)))
           \<lparr>response_consensus := Some strategy\<rparr>)\<rparr>)"

definition with_response_size_estimate :: "'r ClientBuilder \<Rightarrow> u64 \<Rightarrow> 'r ClientBuilder" where
  "with_response_size_estimate self estimate =
     ClientBuilder ((builder_config self)
       \<lparr>cc_rpc_config := Some ((unwrap_or default_RpcConfig (cc_rpc_config (builder_config self)))
           \<lparr>response_size_estimate := Some estimate\<rparr>)\<rparr>)"

definition ClientBuilder_build :: "'r ClientBuilder \<Rightarrow> 'r EvmRpcClient" where
  "ClientBuilder_build self = EvmRpcClient (builder_config self)"


subsection \<open>Requests\<close>

datatype EvmRpcEndpoint =
    Call | FeeHistory | GetBlockByNumber | GetLogs | GetTransactionCount | GetTransactionReceipt
  | SendRawTransaction

primrec endpoint_rpc_method :: "EvmRpcEndpoint \<Rightarrow> string" where
  "endpoint_rpc_method EvmRpcEndpoint.Call = ''eth_call''"
| "endpoint_rpc_method EvmRpcEndpoint.FeeHistory = ''eth_feeHistory''"
| "endpoint_rpc_method EvmRpcEndpoint.GetBlockByNumber = ''eth_getBlockByNumber''"
| "endpoint_rpc_method EvmRpcEndpoint.GetLogs = ''eth_getLogs''"
| "endpoint_rpc_method EvmRpcEndpoint.GetTransactionCount = ''eth_getTransactionCount''"
| "endpoint_rpc_method EvmRpcEndpoint.GetTransactionReceipt = ''eth_getTransactionReceipt''"
| "endpoint_rpc_method EvmRpcEndpoint.SendRawTransaction = ''eth_sendRawTransaction''"

text \<open>The trait \<open>EvmRpcRequest\<close>, as the methods of its instances.\<close>

record ('req, 'p) EvmRpcRequest =
  request_endpoint :: "'req \<Rightarrow> EvmRpcEndpoint"
  request_params :: "'req \<Rightarrow> 'p"

datatype CallRequest = CallRequest (call_args: CallArgs)
datatype FeeHistoryRequest = FeeHistoryRequest (fee_history_args: FeeHistoryArgs)
datatype GetBlockByNumberRequest = GetBlockByNumberRequest (block_args: CandidBlockTag)
datatype GetLogsRequest = GetLogsRequest (logs_args: GetLogsArgs)
datatype GetTransactionCountRequest = GetTransactionCountRequest (count_args: GetTransactionCountArgs)
datatype GetTransactionReceiptRequest = GetTransactionReceiptRequest (receipt_args: Hex32)
datatype SendRawTransactionRequest = SendRawTransactionRequest (send_args: Hex)

definition CallRequest_impl :: "(CallRequest, CallArgs) EvmRpcRequest" where
  "CallRequest_impl = \<lparr>request_endpoint = (\<lambda>self. EvmRpcEndpoint.Call), request_params = call_args\<rparr>"

definition FeeHistoryRequest_impl :: "(FeeHistoryRequest, FeeHistoryArgs) EvmRpcRequest" where
  "FeeHistoryRequest_impl =
     \<lparr>request_endpoint = (\<lambda>self. EvmRpcEndpoint.FeeHistory), request_params = fee_history_args\<rparr>"

definition GetBlockByNumberRequest_impl :: "(GetBlockByNumberRequest, CandidBlockTag) EvmRpcRequest" where
  "GetBlockByNumberRequest_impl =
     \<lparr>request_endpoint = (\<lambda>self. EvmRpcEndpoint.GetBlockByNumber), request_params = block_args\<rparr>"

definition GetLogsRequest_impl :: "(GetLogsRequest, GetLogsArgs) EvmRpcRequest" where
  "GetLogsRequest_impl = \<lparr>request_endpoint = (\<lambda>self. EvmRpcEndpoint.GetLogs), request_params = logs_args\<rparr>"

definition GetTransactionCountRequest_impl ::
  "(GetTransactionCountRequest, GetTransactionCountArgs) EvmRpcRequest" where
  "GetTransactionCountRequest_impl =
     \<lparr>request_endpoint = (\<lambda>self. EvmRpcEndpoint.GetTransactionCount), request_params = count_args\<rparr>"

definition GetTransactionReceiptRequest_impl :: "(GetTransactionReceiptRequest, Hex32) EvmRpcRequest" where
  "GetTransactionReceiptRequest_impl =
     \<lparr>request_endpoint = (\<lambda>self. EvmRpcEndpoint.GetTransactionReceipt), request_params = receipt_args\<rparr>"

definition SendRawTransactionRequest_impl :: "(SendRawTransactionRequest, Hex) EvmRpcRequest" where
  "SendRawTransactionRequest_impl =
     \<lparr>request_endpoint = (\<lambda>self. EvmRpcEndpoint.SendRawTransaction), request_params = send_args\<rparr>"

record ('cfg, 'p) Request =
  rq_endpoint :: EvmRpcEndpoint
  rq_rpc_services :: RpcServices
  rq_rpc_config :: "'cfg option"
  rq_params :: 'p
  rq_cycles :: u128

record ('r, 'cfg, 'p) RequestBuilder =
  rb_client :: "'r EvmRpcClient"
  rb_request :: "('cfg, 'p) Request"

text \<open>
  Requests are compared and copied field by field, with the comparisons and copies of their configuration and
  parameters; the phantom markers are equal always. A builder shares its client with its copy.
\<close>

definition Request_eq ::
  "('cfg \<Rightarrow> 'cfg \<Rightarrow> bool) \<Rightarrow> ('p \<Rightarrow> 'p \<Rightarrow> bool) \<Rightarrow> ('cfg, 'p) Request \<Rightarrow> ('cfg, 'p) Request \<Rightarrow> bool" where
  "Request_eq eq_config eq_params self other \<longleftrightarrow>
     rq_endpoint self = rq_endpoint other \<and> rq_rpc_services self = rq_rpc_services other
     \<and> rel_option eq_config (rq_rpc_config self) (rq_rpc_config other)
     \<and> eq_params (rq_params self) (rq_params other) \<and> rq_cycles self = rq_cycles other"

definition Request_clone ::
  "('cfg \<Rightarrow> 'cfg) \<Rightarrow> ('p \<Rightarrow> 'p) \<Rightarrow> ('cfg, 'p) Request \<Rightarrow> ('cfg, 'p) Request" where
  "Request_clone clone_config clone_params self =
     \<lparr>rq_endpoint = rq_endpoint self, rq_rpc_services = rq_rpc_services self,
      rq_rpc_config = map_option clone_config (rq_rpc_config self), rq_params = clone_params (rq_params self),
      rq_cycles = rq_cycles self\<rparr>"

definition RequestBuilder_clone ::
  "('cfg \<Rightarrow> 'cfg) \<Rightarrow> ('p \<Rightarrow> 'p) \<Rightarrow> ('r, 'cfg, 'p) RequestBuilder \<Rightarrow> ('r, 'cfg, 'p) RequestBuilder" where
  "RequestBuilder_clone clone_config clone_params self =
     \<lparr>rb_client = rb_client self, rb_request = Request_clone clone_config clone_params (rb_request self)\<rparr>"

text \<open>A copy equals its original whenever this holds of the configuration and the parameters.\<close>

lemma Request_clone_eq:
  assumes "\<And>c. eq_config (clone_config c) c" "\<And>p. eq_params (clone_params p) p"
  shows "Request_eq eq_config eq_params (Request_clone clone_config clone_params r) r"
  using assms by (cases "rq_rpc_config r") (simp_all add: Request_eq_def Request_clone_def)

text \<open>\<open>config_from\<close> is \<open>Config::from\<close>: the identity for \<open>RpcConfig\<close>, \<open>GetLogsRpcConfig_from\<close> for \<open>GetLogsRpcConfig\<close>.\<close>

definition RequestBuilder_new ::
  "('req, 'p) EvmRpcRequest \<Rightarrow> (RpcConfig \<Rightarrow> 'cfg) \<Rightarrow> 'r EvmRpcClient \<Rightarrow> 'req \<Rightarrow> u128
     \<Rightarrow> ('r, 'cfg, 'p) RequestBuilder" where
  "RequestBuilder_new I config_from client rpc_request cycles =
     \<lparr>rb_client = client,
      rb_request =
        \<lparr>rq_endpoint = request_endpoint I rpc_request,
         rq_rpc_services = cc_rpc_services (evm_config client),
         rq_rpc_config = map_option config_from (cc_rpc_config (evm_config client)),
         rq_params = request_params I rpc_request,
         rq_cycles = cycles\<rparr>\<rparr>"

definition with_cycles :: "('r, 'cfg, 'p) RequestBuilder \<Rightarrow> u128 \<Rightarrow> ('r, 'cfg, 'p) RequestBuilder" where
  "with_cycles self cycles = self\<lparr>rb_request := (rb_request self)\<lparr>rq_cycles := cycles\<rparr>\<rparr>"

definition modify_params ::
  "('r, 'cfg, 'p) RequestBuilder \<Rightarrow> ('p \<Rightarrow> 'p) \<Rightarrow> ('r, 'cfg, 'p) RequestBuilder" where
  "modify_params self mutator =
     self\<lparr>rb_request := (rb_request self)\<lparr>rq_params := mutator (rq_params (rb_request self))\<rparr>\<rparr>"

definition with_params :: "('r, 'cfg, 'p) RequestBuilder \<Rightarrow> 'p \<Rightarrow> ('r, 'cfg, 'p) RequestBuilder" where
  "with_params self params = self\<lparr>rb_request := (rb_request self)\<lparr>rq_params := params\<rparr>\<rparr>"

definition request_with_rpc_config ::
  "('r, 'cfg, 'p) RequestBuilder \<Rightarrow> 'cfg \<Rightarrow> ('r, 'cfg, 'p) RequestBuilder" where
  "request_with_rpc_config self rpc_config =
     self\<lparr>rb_request := (rb_request self)\<lparr>rq_rpc_config := Some rpc_config\<rparr>\<rparr>"

definition with_max_block_range ::
  "('r, GetLogsRpcConfig, 'p) RequestBuilder \<Rightarrow> u32 \<Rightarrow> ('r, GetLogsRpcConfig, 'p) RequestBuilder" where
  "with_max_block_range self limit =
     (let config = unwrap_or default_GetLogsRpcConfig (rq_rpc_config (rb_request self))
      in self\<lparr>rb_request := (rb_request self)\<lparr>rq_rpc_config := Some (config\<lparr>max_block_range := Some limit\<rparr>)\<rparr>\<rparr>)"


subsection \<open>Parameters of the requests\<close>

type_synonym 'r CallRequestBuilder = "('r, RpcConfig, CallArgs) RequestBuilder"
type_synonym 'r FeeHistoryRequestBuilder = "('r, RpcConfig, FeeHistoryArgs) RequestBuilder"
type_synonym 'r GetBlockByNumberRequestBuilder = "('r, RpcConfig, CandidBlockTag) RequestBuilder"
type_synonym 'r GetLogsRequestBuilder = "('r, GetLogsRpcConfig, GetLogsArgs) RequestBuilder"
type_synonym 'r GetTransactionCountRequestBuilder = "('r, RpcConfig, GetTransactionCountArgs) RequestBuilder"
type_synonym 'r GetTransactionReceiptRequestBuilder = "('r, RpcConfig, Hex32) RequestBuilder"
type_synonym 'r SendRawTransactionRequestBuilder = "('r, RpcConfig, Hex) RequestBuilder"

definition call_with_block :: "'r CallRequestBuilder \<Rightarrow> CandidBlockTag \<Rightarrow> 'r CallRequestBuilder" where
  "call_with_block self block = modify_params self (\<lambda>params. params\<lparr>ca_block := Some block\<rparr>)"

definition with_block_count :: "'r FeeHistoryRequestBuilder \<Rightarrow> Nat256 \<Rightarrow> 'r FeeHistoryRequestBuilder" where
  "with_block_count self block_count = modify_params self (\<lambda>params. params\<lparr>fha_block_count := block_count\<rparr>)"

definition with_newest_block ::
  "'r FeeHistoryRequestBuilder \<Rightarrow> CandidBlockTag \<Rightarrow> 'r FeeHistoryRequestBuilder" where
  "with_newest_block self newest_block = modify_params self (\<lambda>params. params\<lparr>fha_newest_block := newest_block\<rparr>)"

definition with_reward_percentiles ::
  "'r FeeHistoryRequestBuilder \<Rightarrow> u8 list \<Rightarrow> 'r FeeHistoryRequestBuilder" where
  "with_reward_percentiles self percentiles =
     modify_params self (\<lambda>params. params\<lparr>fha_reward_percentiles := Some percentiles\<rparr>)"

definition with_from_block :: "'r GetLogsRequestBuilder \<Rightarrow> CandidBlockTag \<Rightarrow> 'r GetLogsRequestBuilder" where
  "with_from_block self block = modify_params self (\<lambda>params. params\<lparr>gla_from_block := Some block\<rparr>)"

definition with_to_block :: "'r GetLogsRequestBuilder \<Rightarrow> CandidBlockTag \<Rightarrow> 'r GetLogsRequestBuilder" where
  "with_to_block self block = modify_params self (\<lambda>params. params\<lparr>gla_to_block := Some block\<rparr>)"

definition with_addresses :: "'r GetLogsRequestBuilder \<Rightarrow> Hex20 list \<Rightarrow> 'r GetLogsRequestBuilder" where
  "with_addresses self addresses = modify_params self (\<lambda>params. params\<lparr>gla_addresses := addresses\<rparr>)"

definition with_topics :: "'r GetLogsRequestBuilder \<Rightarrow> Hex32 list list \<Rightarrow> 'r GetLogsRequestBuilder" where
  "with_topics self topics = modify_params self (\<lambda>params. params\<lparr>gla_topics := Some topics\<rparr>)"

definition with_address ::
  "'r GetTransactionCountRequestBuilder \<Rightarrow> Hex20 \<Rightarrow> 'r GetTransactionCountRequestBuilder" where
  "with_address self address = modify_params self (\<lambda>params. params\<lparr>gtca_address := address\<rparr>)"

definition count_with_block ::
  "'r GetTransactionCountRequestBuilder \<Rightarrow> CandidBlockTag \<Rightarrow> 'r GetTransactionCountRequestBuilder" where
  "count_with_block self block = modify_params self (\<lambda>params. params\<lparr>gtca_block := block\<rparr>)"


subsection \<open>The calls of a client\<close>

text \<open>\<open>try_into\<close> converts the argument, a conversion of theory \<open>Alloy_Conversion\<close>; \<open>debug\<close> prints its error.\<close>

definition client_call ::
  "('t \<Rightarrow> ('e + CallArgs) trapping) \<Rightarrow> ('e \<Rightarrow> string) \<Rightarrow> 'r EvmRpcClient \<Rightarrow> 't
     \<Rightarrow> 'r CallRequestBuilder trapping" where
  "client_call try_into debug self params =
     and_then (try_into params) (\<lambda>converted.
     and_then (map_err (\<lambda>e. ''Invalid transaction request: '' @ debug e) converted) (\<lambda>args.
       Inr (RequestBuilder_new CallRequest_impl id self (CallRequest args) 10000000000)))"

definition get_block_by_number ::
  "'r EvmRpcClient \<Rightarrow> CandidBlockTag \<Rightarrow> 'r GetBlockByNumberRequestBuilder" where
  "get_block_by_number self params =
     RequestBuilder_new GetBlockByNumberRequest_impl id self (GetBlockByNumberRequest params) 10000000000"

definition fee_history :: "'r EvmRpcClient \<Rightarrow> FeeHistoryArgs \<Rightarrow> 'r FeeHistoryRequestBuilder" where
  "fee_history self params =
     RequestBuilder_new FeeHistoryRequest_impl id self (FeeHistoryRequest params) 10000000000"

definition get_logs :: "'r EvmRpcClient \<Rightarrow> GetLogsArgs \<Rightarrow> 'r GetLogsRequestBuilder" where
  "get_logs self params =
     RequestBuilder_new GetLogsRequest_impl GetLogsRpcConfig_from self (GetLogsRequest params) 10000000000"

definition get_transaction_count ::
  "'r EvmRpcClient \<Rightarrow> GetTransactionCountArgs \<Rightarrow> 'r GetTransactionCountRequestBuilder" where
  "get_transaction_count self params =
     RequestBuilder_new GetTransactionCountRequest_impl id self (GetTransactionCountRequest params) 10000000000"

definition get_transaction_receipt ::
  "'r EvmRpcClient \<Rightarrow> Hex32 \<Rightarrow> 'r GetTransactionReceiptRequestBuilder" where
  "get_transaction_receipt self params =
     RequestBuilder_new GetTransactionReceiptRequest_impl id self (GetTransactionReceiptRequest params)
       10000000000"

definition send_raw_transaction :: "'r EvmRpcClient \<Rightarrow> Hex \<Rightarrow> 'r SendRawTransactionRequestBuilder" where
  "send_raw_transaction self params =
     RequestBuilder_new SendRawTransactionRequest_impl id self (SendRawTransactionRequest params) 10000000000"


subsection \<open>Runtimes\<close>

text \<open>
  \<open>update_call\<close> of a runtime: the canister, its method, the arguments and the cycles attached; the call
  changes the world \<open>'w\<close> and returns the answer or the rejection.
\<close>

type_synonym ('r, 'args, 'o, 'w) update_call =
  "'r \<Rightarrow> Principal \<Rightarrow> string \<Rightarrow> 'args \<Rightarrow> u128 \<Rightarrow> 'w \<Rightarrow> ((RejectCode \<times> string + 'o) \<times> 'w) trapping"

datatype IcCdkRejectionCode =
  NoError | SysFatal | SysTransient | DestinationInvalid | CanisterReject | CanisterError | Unknown

primrec convert_reject_code :: "IcCdkRejectionCode \<Rightarrow> RejectCode trapping" where
  "convert_reject_code IcCdkRejectionCode.SysFatal = Inr RejectCode.SysFatal"
| "convert_reject_code IcCdkRejectionCode.SysTransient = Inr RejectCode.SysTransient"
| "convert_reject_code IcCdkRejectionCode.DestinationInvalid = Inr RejectCode.DestinationInvalid"
| "convert_reject_code IcCdkRejectionCode.CanisterReject = Inr RejectCode.CanisterReject"
| "convert_reject_code IcCdkRejectionCode.CanisterError = Inr RejectCode.CanisterError"
| "convert_reject_code IcCdkRejectionCode.Unknown = Inr RejectCode.SysFatal"
| "convert_reject_code IcCdkRejectionCode.NoError =
     Inl ''inter-canister calls should never produce a RejectionCode::NoError error''"

fun map_rejection ::
  "(IcCdkRejectionCode \<times> string + 'o) \<times> 'w \<Rightarrow> ((RejectCode \<times> string + 'o) \<times> 'w) trapping" where
  "map_rejection (Inr res, w) = Inr (Inr res, w)"
| "map_rejection (Inl (code, message), w) =
     map_ok (\<lambda>converted. (Inl (converted, message), w)) (convert_reject_code code)"

text \<open>\<open>call_with_payment128\<close> and \<open>call\<close> are the inter-canister calls of \<open>ic_cdk\<close>.\<close>

definition IcRuntime_update_call ::
  "(Principal \<Rightarrow> string \<Rightarrow> 'args \<Rightarrow> u128 \<Rightarrow> 'w \<Rightarrow> (IcCdkRejectionCode \<times> string + 'o) \<times> 'w)
     \<Rightarrow> (IcRuntime, 'args, 'o, 'w) update_call" where
  "IcRuntime_update_call call_with_payment128 self canister name args cycles w =
     map_rejection (call_with_payment128 canister name args cycles w)"

definition IcRuntime_query_call ::
  "(Principal \<Rightarrow> string \<Rightarrow> 'args \<Rightarrow> 'w \<Rightarrow> (IcCdkRejectionCode \<times> string + 'o) \<times> 'w)
     \<Rightarrow> IcRuntime \<Rightarrow> Principal \<Rightarrow> string \<Rightarrow> 'args \<Rightarrow> 'w \<Rightarrow> ((RejectCode \<times> string + 'o) \<times> 'w) trapping" where
  "IcRuntime_query_call call self canister name args w = map_rejection (call canister name args w)"

text \<open>The stub of the unit tests: \<open>encode\<close> and \<open>decode\<close> are the macros of \<open>candid\<close>.\<close>

record StubRuntime =
  default_call_result :: "bytes option"
  method_to_call_result_map :: "string \<rightharpoonup> bytes"

definition StubRuntime_new :: StubRuntime where
  "StubRuntime_new = \<lparr>default_call_result = None, method_to_call_result_map = Map.empty\<rparr>"

definition stub_encode :: "('o \<Rightarrow> string + bytes) \<Rightarrow> 'o \<Rightarrow> bytes trapping" where
  "stub_encode encode stub_response =
     map_err (\<lambda>e. ''Failed to encode Candid stub response: '' @ e) (encode stub_response)"

definition StubRuntime_with_default_response ::
  "('o \<Rightarrow> string + bytes) \<Rightarrow> StubRuntime \<Rightarrow> 'o \<Rightarrow> StubRuntime trapping" where
  "StubRuntime_with_default_response encode self stub_response =
     map_ok (\<lambda>result. self\<lparr>default_call_result := Some result\<rparr>) (stub_encode encode stub_response)"

definition StubRuntime_with_response_for_method ::
  "('o \<Rightarrow> string + bytes) \<Rightarrow> StubRuntime \<Rightarrow> string \<Rightarrow> 'o \<Rightarrow> StubRuntime trapping" where
  "StubRuntime_with_response_for_method encode self name stub_response =
     map_ok
       (\<lambda>result. self\<lparr>method_to_call_result_map := (method_to_call_result_map self)(name \<mapsto> result)\<rparr>)
       (stub_encode encode stub_response)"

definition StubRuntime_call :: "(bytes \<Rightarrow> string + 'o) \<Rightarrow> StubRuntime \<Rightarrow> string \<Rightarrow> 'o trapping" where
  "StubRuntime_call decode self name =
     (case (case method_to_call_result_map self name of
              Some encoded \<Rightarrow> Some encoded | None \<Rightarrow> default_call_result self) of
        None \<Rightarrow> Inl (''No available call response value for method `'' @ name @ ''`'')
      | Some encoded \<Rightarrow> map_err (\<lambda>e. ''Failed to decode Candid stub response: '' @ e) (decode encoded))"

definition StubRuntime_update_call ::
  "(bytes \<Rightarrow> string + 'o) \<Rightarrow> (StubRuntime, 'args, 'o, 'w) update_call" where
  "StubRuntime_update_call decode self canister name args cycles w =
     map_ok (\<lambda>out. (Inr out, w)) (StubRuntime_call decode self name)"

definition with_stub_responses :: "'r ClientBuilder \<Rightarrow> StubRuntime ClientBuilder" where
  "with_stub_responses self = with_runtime self (\<lambda>runtime. StubRuntime_new)"

definition StubRuntime_query_call ::
  "(bytes \<Rightarrow> string + 'o) \<Rightarrow> StubRuntime \<Rightarrow> Principal \<Rightarrow> string \<Rightarrow> 'args \<Rightarrow> 'w
     \<Rightarrow> ((RejectCode \<times> string + 'o) \<times> 'w) trapping" where
  "StubRuntime_query_call decode self canister name args w =
     map_ok (\<lambda>out. (Inr out, w)) (StubRuntime_call decode self name)"

text \<open>The closures that the builder hands to \<open>with_runtime\<close> may panic.\<close>

definition builder_with_default_response ::
  "('o \<Rightarrow> string + bytes) \<Rightarrow> StubRuntime ClientBuilder \<Rightarrow> 'o \<Rightarrow> StubRuntime ClientBuilder trapping" where
  "builder_with_default_response encode self stub_response =
     map_ok (\<lambda>runtime. with_runtime self (\<lambda>_. runtime))
       (StubRuntime_with_default_response encode (cc_runtime (builder_config self)) stub_response)"

definition builder_with_response_for_method ::
  "('o \<Rightarrow> string + bytes) \<Rightarrow> StubRuntime ClientBuilder \<Rightarrow> string \<Rightarrow> 'o \<Rightarrow> StubRuntime ClientBuilder trapping"
where
  "builder_with_response_for_method encode self name stub_response =
     map_ok (\<lambda>runtime. with_runtime self (\<lambda>_. runtime))
       (StubRuntime_with_response_for_method encode (cc_runtime (builder_config self)) name stub_response)"

definition with_default_stub_response ::
  "('o \<Rightarrow> string + bytes) \<Rightarrow> 'r ClientBuilder \<Rightarrow> 'o \<Rightarrow> StubRuntime ClientBuilder trapping" where
  "with_default_stub_response encode self stub_response =
     builder_with_default_response encode (with_stub_responses self) stub_response"

text \<open>A stubbed method answers with its own response, the last one given, any other with the default one.\<close>

lemma stub_answers:
  assumes "\<And>x e. encode x = Inr e \<Longrightarrow> decode e = Inr x" "\<And>x. \<exists>e. encode x = Inr e"
  shows "\<exists>rt rt' rt''. StubRuntime_with_default_response encode runtime d = Inr rt
    \<and> StubRuntime_with_response_for_method encode rt name x = Inr rt'
    \<and> StubRuntime_with_response_for_method encode rt' name y = Inr rt''
    \<and> StubRuntime_call decode rt'' name = Inr y
    \<and> (other \<noteq> name \<longrightarrow> method_to_call_result_map runtime other = None \<longrightarrow>
        StubRuntime_call decode rt'' other = Inr d)"
proof -
  obtain ed ex ey where "encode d = Inr ed" "encode x = Inr ex" "encode y = Inr ey" using assms(2) by meson
  moreover from this assms(1) have "decode ed = Inr d" "decode ey = Inr y" by blast+
  ultimately show ?thesis
    by (simp add: StubRuntime_with_default_response_def StubRuntime_with_response_for_method_def
        StubRuntime_call_def stub_encode_def)
qed


subsection \<open>Sending a request\<close>

definition try_execute_request ::
  "('r, RpcServices \<times> 'cfg option \<times> 'p, 'c, 'w) update_call \<Rightarrow> ('c \<Rightarrow> 'o trapping)
     \<Rightarrow> 'r EvmRpcClient \<Rightarrow> ('cfg, 'p) Request \<Rightarrow> 'w \<Rightarrow> ((RejectCode \<times> string + 'o) \<times> 'w) trapping" where
  "try_execute_request update_call into self request w =
     and_then
       (update_call (cc_runtime (evm_config self)) (cc_evm_rpc_canister (evm_config self))
          (endpoint_rpc_method (rq_endpoint request))
          (rq_rpc_services request, rq_rpc_config request, rq_params request) (rq_cycles request) w)
       (\<lambda>(result, w'). case result of
          Inl rejection \<Rightarrow> Inr (Inl rejection, w')
        | Inr out \<Rightarrow> map_ok (\<lambda>converted. (Inr converted, w')) (into out))"

definition execute_request ::
  "('r, RpcServices \<times> 'cfg option \<times> 'p, 'c, 'w) update_call \<Rightarrow> ('c \<Rightarrow> 'o trapping)
     \<Rightarrow> (RejectCode \<times> string \<Rightarrow> string) \<Rightarrow> 'r EvmRpcClient \<Rightarrow> ('cfg, 'p) Request \<Rightarrow> 'w \<Rightarrow> ('o \<times> 'w) trapping" where
  "execute_request update_call into debug self request w =
     (let name = endpoint_rpc_method (rq_endpoint request)
      in and_then (try_execute_request update_call into self request w)
           (\<lambda>(result, w'). case result of
              Inl e \<Rightarrow> Inl (''Client error: failed to call `'' @ name @ ''`: '' @ debug e)
            | Inr out \<Rightarrow> Inr (out, w')))"

definition try_send where
  "try_send update_call into self w = try_execute_request update_call into (rb_client self) (rb_request self) w"

definition send where
  "send update_call into debug self w =
     execute_request update_call into debug (rb_client self) (rb_request self) w"


subsection \<open>What a request carries\<close>

lemma builder_config_simps [simp]:
  "cc_rpc_services (evm_config (ClientBuilder_build (with_rpc_sources b services))) = services"
  "cc_rpc_config (evm_config (ClientBuilder_build (with_rpc_sources b services)))
     = cc_rpc_config (evm_config (ClientBuilder_build b))"
  "cc_rpc_services (evm_config (ClientBuilder_build (with_rpc_config b config)))
     = cc_rpc_services (evm_config (ClientBuilder_build b))"
  "cc_rpc_config (evm_config (ClientBuilder_build (with_rpc_config b config))) = Some config"
  "cc_rpc_services (evm_config (ClientBuilder_build (with_consensus_strategy b strategy)))
     = cc_rpc_services (evm_config (ClientBuilder_build b))"
  "cc_rpc_services (evm_config (ClientBuilder_build (with_response_size_estimate b estimate)))
     = cc_rpc_services (evm_config (ClientBuilder_build b))"
  by (simp_all add: ClientBuilder_build_def with_rpc_sources_def with_rpc_config_def
      with_consensus_strategy_def with_response_size_estimate_def)

lemma builder_target [simp]:
  "cc_evm_rpc_canister (evm_config (ClientBuilder_build (with_rpc_sources b services)))
     = cc_evm_rpc_canister (evm_config (ClientBuilder_build b))"
  "cc_evm_rpc_canister (evm_config (ClientBuilder_build (with_consensus_strategy b strategy)))
     = cc_evm_rpc_canister (evm_config (ClientBuilder_build b))"
  "cc_evm_rpc_canister (evm_config (ClientBuilder_build (with_response_size_estimate b estimate)))
     = cc_evm_rpc_canister (evm_config (ClientBuilder_build b))"
  "cc_runtime (evm_config (ClientBuilder_build (with_rpc_sources b services)))
     = cc_runtime (evm_config (ClientBuilder_build b))"
  "cc_runtime (evm_config (ClientBuilder_build (with_consensus_strategy b strategy)))
     = cc_runtime (evm_config (ClientBuilder_build b))"
  "cc_runtime (evm_config (ClientBuilder_build (with_response_size_estimate b estimate)))
     = cc_runtime (evm_config (ClientBuilder_build b))"
  by (simp_all add: ClientBuilder_build_def with_rpc_sources_def with_consensus_strategy_def
      with_response_size_estimate_def)

text \<open>The two partial settings of the configuration commute and keep what the other one set.\<close>

lemma partial_settings_commute:
  "with_consensus_strategy (with_response_size_estimate b estimate) strategy
     = with_response_size_estimate (with_consensus_strategy b strategy) estimate"
  "cc_rpc_config (evm_config (ClientBuilder_build
      (with_consensus_strategy (with_response_size_estimate b estimate) strategy)))
     = Some \<lparr>response_size_estimate = Some estimate, response_consensus = Some strategy\<rparr>"
  by (simp_all add: ClientBuilder_build_def with_consensus_strategy_def with_response_size_estimate_def
      unwrap_or_def default_RpcConfig_def split: option.split)

text \<open>A runtime that records the calls it is asked to make.\<close>

definition recording_call ::
  "(RejectCode \<times> string + 'o) \<Rightarrow> ('r, 'args, 'o, (Principal \<times> string \<times> 'args \<times> u128) list) update_call" where
  "recording_call reply self canister name args cycles w = Inr (reply, w @ [(canister, name, args, cycles)])"

definition sends ::
  "('r, 'cfg, 'p) RequestBuilder \<Rightarrow> Principal \<Rightarrow> string \<Rightarrow> RpcServices \<times> 'cfg option \<times> 'p \<Rightarrow> u128 \<Rightarrow> bool"
where
  "sends self canister name args cycles \<longleftrightarrow>
     (\<forall>(reply :: RejectCode \<times> string + unit) w.
        try_send (recording_call reply) Inr self w = Inr (reply, w @ [(canister, name, args, cycles)]))"

lemma sends_iff:
  "sends self canister name args cycles \<longleftrightarrow>
     canister = cc_evm_rpc_canister (evm_config (rb_client self))
     \<and> name = endpoint_rpc_method (rq_endpoint (rb_request self))
     \<and> args = (rq_rpc_services (rb_request self), rq_rpc_config (rb_request self), rq_params (rb_request self))
     \<and> cycles = rq_cycles (rb_request self)"
  by (auto simp: sends_def try_send_def try_execute_request_def recording_call_def split: sum.splits)

lemmas request_defs = RequestBuilder_new_def get_block_by_number_def fee_history_def get_logs_def
  get_transaction_count_def get_transaction_receipt_def send_raw_transaction_def client_call_def
  CallRequest_impl_def FeeHistoryRequest_impl_def GetBlockByNumberRequest_impl_def GetLogsRequest_impl_def
  GetTransactionCountRequest_impl_def GetTransactionReceiptRequest_impl_def SendRawTransactionRequest_impl_def

lemmas setter_defs = with_cycles_def modify_params_def with_params_def request_with_rpc_config_def
  with_max_block_range_def call_with_block_def with_block_count_def with_newest_block_def
  with_reward_percentiles_def with_from_block_def with_to_block_def with_addresses_def with_topics_def
  with_address_def count_with_block_def


subsection \<open>A client and its canister\<close>

text \<open>
  The documented behaviour of an update call to a canister whose method \<open>name\<close> runs \<open>handler\<close>: the answer and the
  new state when it returns, a rejection with \<open>CanisterError\<close> when it traps (some of its steps may remain).
\<close>

definition serves ::
  "('r, RpcServices \<times> 'cfg option \<times> 'p, 'o, 'st) update_call \<Rightarrow> 'r \<Rightarrow> Principal \<Rightarrow> string
     \<Rightarrow> (RpcServices \<Rightarrow> 'cfg option \<Rightarrow> 'p \<Rightarrow> 'st \<Rightarrow> ('o \<times> 'st) trapping) \<Rightarrow> bool" where
  "serves update_call runtime canister name handler \<longleftrightarrow>
     (\<forall>services config params cycles st.
        case handler services config params st of
          Inr (answer, st') \<Rightarrow>
            update_call runtime canister name (services, config, params) cycles st = Inr (Inr answer, st')
        | Inl trap \<Rightarrow>
            (\<exists>message st'. update_call runtime canister name (services, config, params) cycles st
               = Inr (Inl (RejectCode.CanisterError, message), st')))"

lemma send_served:
  assumes "serves update_call (cc_runtime (evm_config (rb_client self)))
      (cc_evm_rpc_canister (evm_config (rb_client self))) (endpoint_rpc_method (rq_endpoint (rb_request self))) handler"
    and "handler (rq_rpc_services (rb_request self)) (rq_rpc_config (rb_request self)) (rq_params (rb_request self)) st
      = Inr (answer, st')"
  shows "send update_call into debug self st = map_ok (\<lambda>out. (out, st')) (into answer)"
proof -
  have "update_call (cc_runtime (evm_config (rb_client self))) (cc_evm_rpc_canister (evm_config (rb_client self)))
      (endpoint_rpc_method (rq_endpoint (rb_request self)))
      (rq_rpc_services (rb_request self), rq_rpc_config (rb_request self), rq_params (rb_request self))
      (rq_cycles (rb_request self)) st = Inr (Inr answer, st')"
    using assms(1) unfolding serves_def
    by (elim allE [of _ "rq_rpc_services (rb_request self)"] allE [of _ "rq_rpc_config (rb_request self)"]
        allE [of _ "rq_params (rb_request self)"] allE [of _ "rq_cycles (rb_request self)"] allE [of _ st])
      (simp add: assms(2))
  then show ?thesis
    by (cases "into answer") (simp_all add: send_def execute_request_def try_execute_request_def)
qed

lemma send_rejected:
  assumes "serves update_call (cc_runtime (evm_config (rb_client self)))
      (cc_evm_rpc_canister (evm_config (rb_client self))) (endpoint_rpc_method (rq_endpoint (rb_request self))) handler"
    and "handler (rq_rpc_services (rb_request self)) (rq_rpc_config (rb_request self)) (rq_params (rb_request self)) st
      = Inl trap"
  shows "\<exists>message. send update_call into debug self st
      = Inl (''Client error: failed to call `'' @ endpoint_rpc_method (rq_endpoint (rb_request self)) @ ''`: ''
          @ debug (RejectCode.CanisterError, message))"
proof -
  obtain message st' where "update_call (cc_runtime (evm_config (rb_client self)))
      (cc_evm_rpc_canister (evm_config (rb_client self)))
      (endpoint_rpc_method (rq_endpoint (rb_request self)))
      (rq_rpc_services (rb_request self), rq_rpc_config (rb_request self), rq_params (rb_request self))
      (rq_cycles (rb_request self)) st = Inr (Inl (RejectCode.CanisterError, message), st')"
    using assms(1) unfolding serves_def
    by (elim allE [of _ "rq_rpc_services (rb_request self)"] allE [of _ "rq_rpc_config (rb_request self)"]
        allE [of _ "rq_params (rb_request self)"] allE [of _ "rq_cycles (rb_request self)"] allE [of _ st])
      (auto simp: assms(2))
  then show ?thesis
    by (auto simp: send_def execute_request_def try_execute_request_def Let_def)
qed

lemma block_fits_converts:
  "alloy_spec A \<Longrightarrow> block_fits c \<Longrightarrow> \<exists>r. Block_try_from A c = Inr r"
  by (rule Block_try_from_never_traps) (simp_all add: block_fits_def)

lemma alloy_block_total:
  assumes "alloy_spec A" "multi_all block_fits answer"
  shows "\<exists>out. alloy_block A answer = Inr out"
  unfolding alloy_block_def
  by (intro multi_and_then_conv_all multi_all_mono [OF assms(2)] block_fits_converts [OF assms(1)])

lemma alloy_block_consistent:
  assumes "alloy_spec A" "block_fits c"
  shows "alloy_block A (Consistent (Ok c)) = Inr (Consistent (Ok b)) \<longleftrightarrow>
    alloy_block_ok c \<and> (\<exists>r. cblk_transactions_root c = Some r \<and> b = alloy_of_block c (B256 (hex32 r)))"
  using Block_try_from_iff [OF assms(1), of c b] assms(2)
  by (auto simp: alloy_block_def map_ok_eq_Inr block_fits_def)


subsection \<open>Properties\<close>

text \<open>C37. A request makes exactly one call of the configured canister, with the name of its endpoint, the services
  and the configuration of the client (the partial settings merged), its parameters as last set, and ten
  billion cycles unless changed; a block range limit goes with the configuration of \<open>eth_getLogs\<close> only.\<close>

theorem client_requests_exact:
  fixes b :: "'r ClientBuilder"
  shows "let target = cc_evm_rpc_canister (builder_config b);
    client = ClientBuilder_build (with_rpc_sources
      (with_consensus_strategy (with_response_size_estimate b estimate) strategy) services);
    config = Some \<lparr>response_size_estimate = Some estimate, response_consensus = Some strategy\<rparr>
   in sends (get_block_by_number client tag) target ''eth_getBlockByNumber'' (services, config, tag) 10000000000
    \<and> sends (with_cycles (fee_history client fees) cycles) target ''eth_feeHistory'' (services, config, fees) cycles
    \<and> sends (with_max_block_range (with_to_block (with_from_block (get_logs client filters) first) final) limit)
        target ''eth_getLogs''
        (services, Some \<lparr>logs_response_size_estimate = Some estimate, logs_response_consensus = Some strategy,
                         max_block_range = Some limit\<rparr>,
         filters\<lparr>gla_from_block := Some first, gla_to_block := Some final\<rparr>) 10000000000
    \<and> sends (with_params (get_transaction_count client holder) holder') target ''eth_getTransactionCount''
        (services, config, holder') 10000000000
    \<and> sends (get_transaction_receipt client hash) target ''eth_getTransactionReceipt'' (services, config, hash)
        10000000000
    \<and> sends (send_raw_transaction client raw) target ''eth_sendRawTransaction'' (services, config, raw) 10000000000
    \<and> (\<exists>r. client_call (\<lambda>a. Inr (Ok a)) debug client args = Inr r
         \<and> sends (call_with_block r tag) target ''eth_call'' (services, config, args\<lparr>ca_block := Some tag\<rparr>)
             10000000000)"
  by (simp add: sends_iff request_defs setter_defs partial_settings_commute(2) GetLogsRpcConfig_from_def)
    (simp add: ClientBuilder_build_def with_rpc_sources_def with_consensus_strategy_def
      with_response_size_estimate_def)

text \<open>A block through the whole system: when the client's runtime reaches the canister, sending
  \<open>eth_getBlockByNumber\<close> panics only if the canister traps, with the name of the endpoint. Otherwise it returns the canister's answer in alloy's
  types, and a consistent block of the providers is returned exactly when alloy can hold it.\<close>

theorem block_request_end_to_end:
  assumes "num_spec (ce_num C)" "alloy_spec A"
    and "serves update_call (cc_runtime (evm_config client)) (cc_evm_rpc_canister (evm_config client))
      ''eth_getBlockByNumber'' (\<lambda>source config. endpoint_eth_getBlockByNumber C M new_request now source config)"
  shows "case endpoint_eth_getBlockByNumber C M new_request now (cc_rpc_services (evm_config client))
        (cc_rpc_config (evm_config client)) tag st of
      Inl trap \<Rightarrow> \<exists>message. send update_call (alloy_block A) debug (get_block_by_number client tag) st
        = Inl (''Client error: failed to call `eth_getBlockByNumber`: '' @ debug (RejectCode.CanisterError, message))
    | Inr (answer, st') \<Rightarrow>
        (\<exists>out. alloy_block A answer = Inr out
           \<and> send update_call (alloy_block A) debug (get_block_by_number client tag) st = Inr (out, st')
           \<and> (\<forall>c b. answer = Consistent (Ok c) \<longrightarrow> (out = Consistent (Ok b) \<longleftrightarrow>
                alloy_block_ok c
                \<and> (\<exists>r. cblk_transactions_root c = Some r \<and> b = alloy_of_block c (B256 (hex32 r))))))"
proof -
  let ?run = "endpoint_eth_getBlockByNumber C M new_request now (cc_rpc_services (evm_config client))
        (cc_rpc_config (evm_config client)) tag st"
  let ?r = "get_block_by_number client tag"
  have r: "rb_client ?r = client" "rq_endpoint (rb_request ?r) = EvmRpcEndpoint.GetBlockByNumber"
    "rq_rpc_services (rb_request ?r) = cc_rpc_services (evm_config client)"
    "rq_rpc_config (rb_request ?r) = cc_rpc_config (evm_config client)" "rq_params (rb_request ?r) = tag"
    by (simp_all add: request_defs option.map_id)
  note served = send_served [of update_call ?r, unfolded r endpoint_rpc_method.simps, OF assms(3)]
  note rejected = send_rejected [of update_call ?r, unfolded r endpoint_rpc_method.simps, OF assms(3)]
  show ?thesis
  proof (cases ?run)
    case (Inl trap)
    from rejected [OF Inl] show ?thesis by (simp add: Inl)
  next
    case (Inr out)
    obtain answer st' where out: "out = (answer, st')" by (cases out)
    have fits: "multi_all block_fits answer"
      using getBlockByNumber_answers_fit [OF assms(1)] Inr [unfolded out] unfolding all_answers_def by blast
    then obtain res where res: "alloy_block A answer = Inr res" using alloy_block_total [OF assms(2)] by blast
    have "res = Consistent (Ok b) \<longleftrightarrow> alloy_block_ok c
        \<and> (\<exists>r. cblk_transactions_root c = Some r \<and> b = alloy_of_block c (B256 (hex32 r)))"
      if "answer = Consistent (Ok c)" for c b
      using alloy_block_consistent [OF assms(2), of c b] fits res that by simp
    with res served [OF Inr [unfolded out], of "alloy_block A" debug] show ?thesis
      by (simp add: Inr out)
  qed
qed

text \<open>A runtime that reaches the canister of the examples.\<close>

definition example_runtime ::
  "(RpcServices \<Rightarrow> 'cfg option \<Rightarrow> 'p \<Rightarrow> 'st \<Rightarrow> ('o \<times> 'st) trapping)
     \<Rightarrow> (unit, RpcServices \<times> 'cfg option \<times> 'p, 'o, 'st) update_call" where
  "example_runtime handler runtime canister name args cycles st =
     (case args of (services, config, params) \<Rightarrow>
        (case handler services config params st of
           Inr (answer, st') \<Rightarrow> Inr (Inr answer, st')
         | Inl trap \<Rightarrow> Inr (Inl (RejectCode.CanisterError, trap), st)))"

lemma example_runtime_serves: "serves (example_runtime handler) runtime canister name handler"
  by (auto simp: serves_def example_runtime_def split: sum.split)

definition example_services :: RpcServices where
  "example_services = RpcServices.Custom 1 [\<lparr>url = ''good'', headers = None\<rparr>]"

lemma example_endpoint_run:
  "\<exists>c st'. from_block ref_num_ops example_block = Inr c
     \<and> endpoint_eth_getBlockByNumber example_candid_env (ref_multi block_answer)
         (\<lambda>m (p :: GetBlockByNumberParams). ()) 9 example_services None CandidBlockTag.Latest
         (initial_memory ref_timed_ops ()) = Inr (Consistent (Ok c), st')"
proof -
  obtain c where c: "from_block ref_num_ops example_block = Inr c"
    using from_block_faithful(1) [OF ref_num_spec, of example_block] by blast
  have "CandidRpcClient_new (re_timed (ce_rpc example_candid_env)) (initial_memory ref_timed_ops ())
      example_services None 9
      = Inr (Inr \<lparr>eth_client = example_client ''good''\<rparr>, initial_memory ref_timed_ops ())"
    by (simp add: CandidRpcClient_new_def EthRpcClient_new_def Providers_new_def choose_providers_def Let_def
        default_RpcConfig_def default_ConsensusStrategy_def example_services_def example_client_def btree_set_def
        MAINNET_def)
  with c example_block_run [OF c] show ?thesis
    unfolding endpoint_eth_getBlockByNumber_def with_client_def by auto
qed

text \<open>The canister returns the block all its providers agree on, and the client fails: it has no transactions root.\<close>

theorem block_request_end_to_end_witness:
  "\<exists>c st' out. endpoint_eth_getBlockByNumber example_candid_env (ref_multi block_answer)
      (\<lambda>m (p :: GetBlockByNumberParams). ()) 9 example_services None CandidBlockTag.Latest
      (initial_memory ref_timed_ops ()) = Inr (Consistent (Ok c), st')
    \<and> send (example_runtime (\<lambda>source config. endpoint_eth_getBlockByNumber example_candid_env
            (ref_multi block_answer) (\<lambda>m (p :: GetBlockByNumberParams). ()) 9 source config))
          (alloy_block ref_alloy) snd
          (get_block_by_number (ClientBuilder_build (with_rpc_sources (EvmRpcClient_builder () [1]) example_services))
             CandidBlockTag.Latest)
          (initial_memory ref_timed_ops ()) = Inr (out, st')
    \<and> (\<forall>b. out \<noteq> Consistent (Ok b))"
proof -
  have num: "num_spec (ce_num example_candid_env)" by (simp add: example_candid_env_def ref_num_spec)
  let ?client = "ClientBuilder_build (with_rpc_sources (EvmRpcClient_builder () [1]) example_services)"
  have config: "cc_rpc_services (evm_config ?client) = example_services"
    "cc_rpc_config (evm_config ?client) = None"
    by (simp_all add: ClientBuilder_build_def with_rpc_sources_def EvmRpcClient_builder_def ClientBuilder_new_def)
  obtain c st' where c: "from_block ref_num_ops example_block = Inr c"
    and run: "endpoint_eth_getBlockByNumber example_candid_env (ref_multi block_answer)
         (\<lambda>m (p :: GetBlockByNumberParams). ()) 9 example_services None CandidBlockTag.Latest
         (initial_memory ref_timed_ops ()) = Inr (Consistent (Ok c), st')"
    using example_endpoint_run by blast
  have "cblk_transactions_root c = None"
    using c by (auto simp: from_block_def from_amounts [OF ref_num_spec] example_block_def)
  then show ?thesis
    using block_request_end_to_end [OF num ref_alloy_spec example_runtime_serves,
        where client = ?client and tag = CandidBlockTag.Latest and debug = snd
          and M = "ref_multi block_answer" and new_request = "\<lambda>m (p :: GetBlockByNumberParams). ()"
          and now = 9 and st = "initial_memory ref_timed_ops ()"]
    unfolding config run by auto
qed

end
