(* ===== verification/Stable_Storage.thy ===== *)
theory Stable_Storage
  imports Key_Management Eth_Numbers
begin

section \<open>The cells in stable memory\<close>

text \<open>
  How the cells of theory \<open>Canister_State\<close> are kept: the \<open>Storable\<close> encodings of \<^verbatim>\<open>src/types/mod.rs\<close>, the memory
  identifiers and the initial values of \<open>thread_local!\<close> and the accessors of \<^verbatim>\<open>src/memory.rs\<close>, this time on a
  device that has a stable memory of bytes and loses everything else in an upgrade. The administrative
  endpoints run on the device, and the lemmas show that it behaves as the record \<open>canister\<close> does.

  The structures of \<open>ic_stable_structures\<close> (a region of the memory manager, \<open>Cell\<close>, \<open>StableBTreeMap\<close>,
  \<open>Vec\<close> and the encodings of the standard types) and \<open>serde_json\<close> are parameters; \<open>region_spec\<close> and
  \<open>storable_spec\<close> state what those crates document.
\<close>

subsection \<open>Encodings\<close>

record 'lf storable_ops =
  string_to_bytes :: "string \<Rightarrow> bytes"
  string_from_bytes :: "bytes \<Rightarrow> string"
  u64_to_bytes :: "u64 \<Rightarrow> bytes"
  u64_from_bytes :: "bytes \<Rightarrow> u64"
  u32_to_bytes :: "u32 \<Rightarrow> bytes"
  u32_from_bytes :: "bytes \<Rightarrow> u32"
  bool_to_bytes :: "bool \<Rightarrow> bytes"
  bool_from_bytes :: "bytes \<Rightarrow> bool"
  principal_to_bytes :: "Principal \<Rightarrow> bytes"
  principal_from_bytes :: "bytes \<Rightarrow> Principal"
  filter_to_vec :: "'lf \<Rightarrow> string + bytes"  \<comment> \<open>\<open>serde_json::to_vec\<close> of a \<open>LogFilter\<close>\<close>
  filter_from_slice :: "bytes \<Rightarrow> string + 'lf"
  override_to_vec :: "OverrideProvider \<Rightarrow> string + bytes"  \<comment> \<open>\<open>serde_json::to_vec\<close> of an \<open>OverrideProvider\<close>\<close>
  override_from_slice :: "bytes \<Rightarrow> string + OverrideProvider"

text \<open>What is decoded is what was encoded, and a string takes one byte per byte.\<close>

definition storable_spec :: "'lf storable_ops \<Rightarrow> bool" where
  "storable_spec S \<longleftrightarrow>
     (\<forall>s. string_from_bytes S (string_to_bytes S s) = s \<and> length (string_to_bytes S s) = length s)
     \<and> (\<forall>n. u64_from_bytes S (u64_to_bytes S n) = n)
     \<and> (\<forall>n. u32_from_bytes S (u32_to_bytes S n) = n)
     \<and> (\<forall>b. bool_from_bytes S (bool_to_bytes S b) = b)
     \<and> (\<forall>p. principal_from_bytes S (principal_to_bytes S p) = p)
     \<and> (\<forall>lf bs. filter_to_vec S lf = Ok bs \<longrightarrow> filter_from_slice S bs = Ok lf)
     \<and> (\<forall>ov bs. override_to_vec S ov = Ok bs \<longrightarrow> override_from_slice S bs = Ok ov)"

datatype Bound = Bounded u32 bool | Unbounded

definition expect :: "string \<Rightarrow> string + 'a \<Rightarrow> 'a trapping" where
  "expect msg r = map_err (\<lambda>e. msg @ '': '' @ e) r"

definition ApiKey_to_bytes :: "'lf storable_ops \<Rightarrow> ApiKey \<Rightarrow> bytes" where
  "ApiKey_to_bytes S self = string_to_bytes S (read self)"

definition ApiKey_from_bytes :: "'lf storable_ops \<Rightarrow> bytes \<Rightarrow> ApiKey" where
  "ApiKey_from_bytes S bs = ApiKey (string_from_bytes S bs)"

definition ApiKey_BOUND :: Bound where
  "ApiKey_BOUND = Bounded API_KEY_MAX_SIZE False"

datatype 'lf StorableLogFilter = StorableLogFilter (into_log_filter: 'lf)

definition StorableLogFilter_to_bytes :: "'lf storable_ops \<Rightarrow> 'lf StorableLogFilter \<Rightarrow> bytes trapping" where
  "StorableLogFilter_to_bytes S self =
     expect ''Error while serializing `LogFilter`'' (filter_to_vec S (into_log_filter self))"

definition StorableLogFilter_from_bytes :: "'lf storable_ops \<Rightarrow> bytes \<Rightarrow> 'lf StorableLogFilter trapping" where
  "StorableLogFilter_from_bytes S bs =
     expect ''Error while deserializing `LogFilter`'' (map_ok StorableLogFilter (filter_from_slice S bs))"

definition StorableLogFilter_BOUND :: Bound where
  "StorableLogFilter_BOUND = Bounded MESSAGE_FILTER_MAX_SIZE True"

definition OverrideProvider_to_bytes :: "'lf storable_ops \<Rightarrow> OverrideProvider \<Rightarrow> bytes trapping" where
  "OverrideProvider_to_bytes S self =
     expect ''Error while serializing `OverrideProvider`'' (override_to_vec S self)"

definition OverrideProvider_from_bytes :: "'lf storable_ops \<Rightarrow> bytes \<Rightarrow> OverrideProvider trapping" where
  "OverrideProvider_from_bytes S bs =
     expect ''Error while deserializing `Storable`'' (override_from_slice S bs)"

definition OverrideProvider_BOUND :: Bound where
  "OverrideProvider_BOUND = Unbounded"

lemma expect_eq_Inr [simp]: "expect msg r = Inr x \<longleftrightarrow> r = Inr x"
  by (simp add: expect_def)

lemma ApiKey_bytes_inverse [simp]:
  "storable_spec S \<Longrightarrow> ApiKey_from_bytes S (ApiKey_to_bytes S k) = k"
  by (simp add: ApiKey_from_bytes_def ApiKey_to_bytes_def storable_spec_def)

lemma u64_to_bytes_inj: "storable_spec S \<Longrightarrow> u64_to_bytes S i = u64_to_bytes S j \<longleftrightarrow> i = j"
  by (metis storable_spec_def)


subsection \<open>Regions\<close>

text \<open>
  A region is the virtual memory of one identifier. \<open>cell_load\<close> reads the bytes of a \<open>Cell\<close>, if the region
  was ever written, and \<open>cell_store\<close> is the flush of \<open>Cell::new\<close> and \<open>Cell::set\<close>; \<open>btree_init\<close> and \<open>vec_init\<close>
  format an empty region or reopen one. A map that is bounded refuses a longer value with a panic.
\<close>

record 'r region_ops =
  cell_load :: "'r \<Rightarrow> string + bytes option"
  cell_store :: "'r \<Rightarrow> bytes \<Rightarrow> string + 'r"
  btree_init :: "'r \<Rightarrow> 'r trapping"
  btree_get :: "'r \<Rightarrow> bytes \<Rightarrow> bytes option"
  btree_insert :: "Bound \<Rightarrow> 'r \<Rightarrow> bytes \<Rightarrow> bytes \<Rightarrow> 'r trapping"
  btree_remove :: "'r \<Rightarrow> bytes \<Rightarrow> 'r"
  vec_init :: "'r \<Rightarrow> string + 'r"
  vec_items :: "'r \<Rightarrow> bytes list"
  vec_pop :: "'r \<Rightarrow> 'r"
  vec_push :: "'r \<Rightarrow> bytes \<Rightarrow> string + 'r"

fun within :: "Bound \<Rightarrow> bytes \<Rightarrow> bool" where
  "within (Bounded max_size is_fixed_size) bs = (length bs \<le> unat max_size)"
| "within Unbounded bs = True"

text \<open>
  An initialised map or vector is one that reopens unchanged. \<open>fresh\<close> is the region of a memory that was
  never written.
\<close>

abbreviation is_btree :: "'r region_ops \<Rightarrow> 'r \<Rightarrow> bool" where
  "is_btree R r \<equiv> btree_init R r = Inr r"

abbreviation is_vec :: "'r region_ops \<Rightarrow> 'r \<Rightarrow> bool" where
  "is_vec R r \<equiv> vec_init R r = Inr r"

definition region_spec :: "'r region_ops \<Rightarrow> 'r \<Rightarrow> bool" where
  "region_spec R fresh \<longleftrightarrow>
     cell_load R fresh = Ok None
     \<and> (\<forall>r bs r'. cell_store R r bs = Ok r' \<longrightarrow> cell_load R r' = Ok (Some bs))
     \<and> (\<exists>r. btree_init R fresh = Inr r \<and> is_btree R r \<and> btree_get R r = Map.empty)
     \<and> (\<forall>bound r k v. is_btree R r \<and> within bound v \<longrightarrow>
          (\<exists>r'. btree_insert R bound r k v = Inr r' \<and> is_btree R r' \<and> btree_get R r' = (btree_get R r)(k \<mapsto> v)))
     \<and> (\<forall>r k. is_btree R r \<longrightarrow> is_btree R (btree_remove R r k)
          \<and> btree_get R (btree_remove R r k) = (btree_get R r)(k := None))
     \<and> (\<exists>r. vec_init R fresh = Inr r \<and> is_vec R r \<and> vec_items R r = [])
     \<and> (\<forall>r. is_vec R r \<longrightarrow> is_vec R (vec_pop R r) \<and> vec_items R (vec_pop R r) = butlast (vec_items R r))
     \<and> (\<forall>r bs r'. is_vec R r \<and> vec_push R r bs = Ok r' \<longrightarrow> is_vec R r' \<and> vec_items R r' = vec_items R r @ [bs])"

lemma btree_insert_ok:
  "region_spec R fresh \<Longrightarrow> is_btree R r \<Longrightarrow> within bound v \<Longrightarrow>
     \<exists>r'. btree_insert R bound r k v = Inr r' \<and> is_btree R r' \<and> btree_get R r' = (btree_get R r)(k \<mapsto> v)"
  unfolding region_spec_def by blast

lemma btree_remove_ok:
  "region_spec R fresh \<Longrightarrow> is_btree R r \<Longrightarrow>
     is_btree R (btree_remove R r k) \<and> btree_get R (btree_remove R r k) = (btree_get R r)(k := None)"
  unfolding region_spec_def by blast

lemma vec_pop_ok:
  "region_spec R fresh \<Longrightarrow> is_vec R r \<Longrightarrow>
     is_vec R (vec_pop R r) \<and> vec_items R (vec_pop R r) = butlast (vec_items R r)"
  unfolding region_spec_def by blast

lemma vec_push_ok:
  "region_spec R fresh \<Longrightarrow> is_vec R r \<Longrightarrow> vec_push R r bs = Ok r' \<Longrightarrow>
     is_vec R r' \<and> vec_items R r' = vec_items R r @ [bs]"
  unfolding region_spec_def by blast

type_synonym MemoryId = u8

definition IS_DEMO_ACTIVE_MEMORY_ID :: MemoryId where "IS_DEMO_ACTIVE_MEMORY_ID = 4"
definition API_KEY_MAP_MEMORY_ID :: MemoryId where "API_KEY_MAP_MEMORY_ID = 5"
definition MANAGE_API_KEYS_MEMORY_ID :: MemoryId where "MANAGE_API_KEYS_MEMORY_ID = 6"
definition LOG_FILTER_MEMORY_ID :: MemoryId where "LOG_FILTER_MEMORY_ID = 7"
definition OVERRIDE_PROVIDER_MEMORY_ID :: MemoryId where "OVERRIDE_PROVIDER_MEMORY_ID = 8"
definition NUM_SUBNET_NODES_MEMORY_ID :: MemoryId where "NUM_SUBNET_NODES_MEMORY_ID = 9"

lemmas memory_ids = IS_DEMO_ACTIVE_MEMORY_ID_def API_KEY_MAP_MEMORY_ID_def MANAGE_API_KEYS_MEMORY_ID_def
  LOG_FILTER_MEMORY_ID_def OVERRIDE_PROVIDER_MEMORY_ID_def NUM_SUBNET_NODES_MEMORY_ID_def


subsection \<open>One cell\<close>

type_synonym 'r memory = "MemoryId \<Rightarrow> 'r"

definition Cell_set ::
  "'r region_ops \<Rightarrow> ('a \<Rightarrow> bytes trapping) \<Rightarrow> MemoryId \<Rightarrow> string \<Rightarrow> 'a \<Rightarrow> 'r memory \<Rightarrow> 'r memory trapping" where
  "Cell_set R to_bytes i msg v mem =
     and_then (to_bytes v) (\<lambda>bs. map_ok (\<lambda>r. mem(i := r)) (expect msg (cell_store R (mem i) bs)))"

text \<open>\<open>Cell::init\<close> takes the stored value, which must decode, or stores the initial one.\<close>

definition Cell_init ::
  "'r region_ops \<Rightarrow> ('a \<Rightarrow> bytes trapping) \<Rightarrow> (bytes \<Rightarrow> 'a trapping) \<Rightarrow> MemoryId \<Rightarrow> string \<Rightarrow> 'a
     \<Rightarrow> 'r memory \<Rightarrow> 'r memory trapping" where
  "Cell_init R to_bytes from_bytes i msg v0 mem =
     and_then (expect msg (cell_load R (mem i))) (\<lambda>stored. case stored of
        Some bs \<Rightarrow> map_ok (\<lambda>_. mem) (from_bytes bs)
      | None \<Rightarrow> Cell_set R to_bytes i msg v0 mem)"

text \<open>The value that \<open>Cell::get\<close> shows: what the stored bytes mean.\<close>

definition cell_holds :: "'r region_ops \<Rightarrow> (bytes \<Rightarrow> 'a trapping) \<Rightarrow> 'r \<Rightarrow> 'a \<Rightarrow> bool" where
  "cell_holds R from_bytes r v \<longleftrightarrow>
     (case cell_load R r of Inr (Some bs) \<Rightarrow> from_bytes bs = Inr v | _ \<Rightarrow> False)"

lemma Cell_init_holds [simp]:
  "cell_holds R from_bytes (mem i) v \<Longrightarrow> Cell_init R to_bytes from_bytes i msg v0 mem = Inr mem"
  by (auto simp: cell_holds_def Cell_init_def expect_def split: sum.splits option.splits)

text \<open>The contract of the trait \<open>Storable\<close>, over the parameters \<open>S\<close> an encoding needs.\<close>

locale storable =
  fixes spec :: "'s \<Rightarrow> bool"
    and to_bytes :: "'s \<Rightarrow> 'a \<Rightarrow> bytes trapping"
    and from_bytes :: "'s \<Rightarrow> bytes \<Rightarrow> 'a trapping"
  assumes round_trip: "spec S \<Longrightarrow> to_bytes S v = Inr bs \<Longrightarrow> from_bytes S bs = Inr v"
begin

lemma set_holds:
  assumes "spec S" "region_spec R fresh" "Cell_set R (to_bytes S) i msg v mem = Inr mem'"
  shows "\<exists>r. mem' = mem(i := r) \<and> cell_holds R (from_bytes S) r v"
  using assms round_trip [OF assms(1)]
  by (auto simp: Cell_set_def cell_holds_def and_then_eq_Inr map_ok_eq_Inr region_spec_def)

lemma init_fresh:
  assumes "spec S" "region_spec R fresh" "mem i = fresh"
    and "Cell_init R (to_bytes S) (from_bytes S) i msg v0 mem = Inr mem'"
  shows "\<exists>r. mem' = mem(i := r) \<and> cell_holds R (from_bytes S) r v0"
proof (rule set_holds [OF assms(1,2)])
  show "Cell_set R (to_bytes S) i msg v0 mem = Inr mem'"
    using assms by (simp add: Cell_init_def region_spec_def expect_def)
qed

end

interpretation bool_cell: storable storable_spec "\<lambda>S v. Inr (bool_to_bytes S v)" "\<lambda>S bs. Inr (bool_from_bytes S bs)"
  by unfold_locales (auto simp: storable_spec_def)

interpretation u32_cell: storable storable_spec "\<lambda>S v. Inr (u32_to_bytes S v)" "\<lambda>S bs. Inr (u32_from_bytes S bs)"
  by unfold_locales (auto simp: storable_spec_def)

interpretation api_key_value: storable storable_spec
  "\<lambda>S v. Inr (ApiKey_to_bytes S v)" "\<lambda>S bs. Inr (ApiKey_from_bytes S bs)"
  by unfold_locales auto

interpretation log_filter_cell: storable storable_spec StorableLogFilter_to_bytes StorableLogFilter_from_bytes
  by unfold_locales
    (auto simp: StorableLogFilter_to_bytes_def StorableLogFilter_from_bytes_def storable_spec_def map_ok_eq_Inr
       intro: StorableLogFilter.expand)

interpretation override_cell: storable storable_spec OverrideProvider_to_bytes OverrideProvider_from_bytes
  by unfold_locales (auto simp: OverrideProvider_to_bytes_def OverrideProvider_from_bytes_def storable_spec_def)


subsection \<open>The device\<close>

text \<open>
  The heap cells, which an upgrade loses, and the stable memory. \<open>thread_local!\<close> initialises each cell at its
  first use; here all of them are initialised when the program starts.
\<close>

record ('m, 'r) device =
  heap_metrics :: Metrics
  heap_request_counter :: u64
  heap_ok_results :: 'm
  stable_memory :: "'r memory"

definition thread_local_init ::
  "'lf storable_ops \<Rightarrow> 'r region_ops \<Rightarrow> ('m, 'v) timed_map_ops \<Rightarrow> 'lf \<Rightarrow> 'r memory \<Rightarrow> ('m, 'r) device trapping" where
  "thread_local_init S R ops default_filter mem0 =
     and_then (Cell_init R (\<lambda>v. Inr (bool_to_bytes S v)) (\<lambda>bs. Inr (bool_from_bytes S bs)) IS_DEMO_ACTIVE_MEMORY_ID
        ''Unable to read demo status from stable memory'' False mem0) (\<lambda>mem1.
     and_then (map_ok (\<lambda>r. mem1(API_KEY_MAP_MEMORY_ID := r)) (btree_init R (mem1 API_KEY_MAP_MEMORY_ID))) (\<lambda>mem2.
     and_then (map_ok (\<lambda>r. mem2(MANAGE_API_KEYS_MEMORY_ID := r))
        (expect ''Unable to read API key principals from stable memory''
          (vec_init R (mem2 MANAGE_API_KEYS_MEMORY_ID)))) (\<lambda>mem3.
     and_then (Cell_init R (StorableLogFilter_to_bytes S) (StorableLogFilter_from_bytes S) LOG_FILTER_MEMORY_ID
        ''Unable to read log message filter from stable memory'' (StorableLogFilter default_filter) mem3) (\<lambda>mem4.
     and_then (Cell_init R (OverrideProvider_to_bytes S) (OverrideProvider_from_bytes S) OVERRIDE_PROVIDER_MEMORY_ID
        ''Unable to read provider override from stable memory'' default_OverrideProvider mem4) (\<lambda>mem5.
     and_then (Cell_init R (\<lambda>v. Inr (u32_to_bytes S v)) (\<lambda>bs. Inr (u32_from_bytes S bs)) NUM_SUBNET_NODES_MEMORY_ID
        ''Unable to read number of subnet nodes from stable memory'' NODES_IN_SUBNET mem5) (\<lambda>mem6.
     Inr \<lparr>heap_metrics = default_Metrics, heap_request_counter = 0,
          heap_ok_results = SupportedRpcServiceUsage_new ops, stable_memory = mem6\<rparr>))))))"

definition with_memory ::
  "('r memory \<Rightarrow> 'r memory trapping) \<Rightarrow> ('m, 'r) device \<Rightarrow> ('m, 'r) device trapping" where
  "with_memory f d = map_ok (\<lambda>mem. d\<lparr>stable_memory := mem\<rparr>) (f (stable_memory d))"

text \<open>The accessors of \<^verbatim>\<open>memory.rs\<close> on the device.\<close>

definition stored_get_api_key ::
  "'lf storable_ops \<Rightarrow> 'r region_ops \<Rightarrow> ('m, 'r) device \<Rightarrow> ProviderId \<Rightarrow> ApiKey option" where
  "stored_get_api_key S R d i =
     map_option (ApiKey_from_bytes S)
       (btree_get R (stable_memory d API_KEY_MAP_MEMORY_ID) (u64_to_bytes S i))"

definition stored_insert_api_key ::
  "'lf storable_ops \<Rightarrow> 'r region_ops \<Rightarrow> ('m, 'r) device \<Rightarrow> ProviderId \<Rightarrow> ApiKey \<Rightarrow> ('m, 'r) device trapping" where
  "stored_insert_api_key S R d i api_key =
     with_memory (\<lambda>mem. map_ok (\<lambda>r. mem(API_KEY_MAP_MEMORY_ID := r))
       (btree_insert R ApiKey_BOUND (mem API_KEY_MAP_MEMORY_ID) (u64_to_bytes S i) (ApiKey_to_bytes S api_key))) d"

definition stored_remove_api_key ::
  "'lf storable_ops \<Rightarrow> 'r region_ops \<Rightarrow> ('m, 'r) device \<Rightarrow> ProviderId \<Rightarrow> ('m, 'r) device" where
  "stored_remove_api_key S R d i =
     d\<lparr>stable_memory := (stable_memory d)(API_KEY_MAP_MEMORY_ID :=
        btree_remove R (stable_memory d API_KEY_MAP_MEMORY_ID) (u64_to_bytes S i))\<rparr>"

definition stored_is_api_key_principal ::
  "'lf storable_ops \<Rightarrow> 'r region_ops \<Rightarrow> ('m, 'r) device \<Rightarrow> Principal \<Rightarrow> bool" where
  "stored_is_api_key_principal S R d p =
     list_ex (\<lambda>other. principal_from_bytes S other = p) (vec_items R (stable_memory d MANAGE_API_KEYS_MEMORY_ID))"

text \<open>\<open>while !principals.is_empty() { principals.pop(); }\<close>, one iteration per element.\<close>

fun vec_pop_all :: "'r region_ops \<Rightarrow> nat \<Rightarrow> 'r \<Rightarrow> 'r" where
  "vec_pop_all R 0 r = r"
| "vec_pop_all R (Suc n) r = (if vec_items R r = [] then r else vec_pop_all R n (vec_pop R r))"

fun vec_push_all ::
  "'lf storable_ops \<Rightarrow> 'r region_ops \<Rightarrow> 'r \<Rightarrow> Principal list \<Rightarrow> 'r trapping" where
  "vec_push_all S R r [] = Inr r"
| "vec_push_all S R r (p # ps) =
     and_then (expect ''Error while adding API key principal'' (vec_push R r (principal_to_bytes S p)))
       (\<lambda>r. vec_push_all S R r ps)"

definition stored_set_api_key_principals ::
  "'lf storable_ops \<Rightarrow> 'r region_ops \<Rightarrow> ('m, 'r) device \<Rightarrow> Principal list \<Rightarrow> ('m, 'r) device trapping" where
  "stored_set_api_key_principals S R d new_principals =
     with_memory (\<lambda>mem.
       let r = mem MANAGE_API_KEYS_MEMORY_ID
       in map_ok (\<lambda>r. mem(MANAGE_API_KEYS_MEMORY_ID := r))
            (vec_push_all S R (vec_pop_all R (length (vec_items R r)) r) new_principals)) d"

definition stored_set_demo_active ::
  "'lf storable_ops \<Rightarrow> 'r region_ops \<Rightarrow> ('m, 'r) device \<Rightarrow> bool \<Rightarrow> ('m, 'r) device trapping" where
  "stored_set_demo_active S R d is_active =
     with_memory (Cell_set R (\<lambda>v. Inr (bool_to_bytes S v)) IS_DEMO_ACTIVE_MEMORY_ID
       ''Error while storing new demo status'' is_active) d"

definition stored_set_log_filter ::
  "'lf storable_ops \<Rightarrow> 'r region_ops \<Rightarrow> ('m, 'r) device \<Rightarrow> 'lf \<Rightarrow> ('m, 'r) device trapping" where
  "stored_set_log_filter S R d lf =
     with_memory (Cell_set R (StorableLogFilter_to_bytes S) LOG_FILTER_MEMORY_ID
       ''Error while updating log message filter'' (StorableLogFilter lf)) d"

definition stored_set_override_provider ::
  "'lf storable_ops \<Rightarrow> 'r region_ops \<Rightarrow> ('m, 'r) device \<Rightarrow> OverrideProvider \<Rightarrow> ('m, 'r) device trapping" where
  "stored_set_override_provider S R d provider =
     with_memory (Cell_set R (OverrideProvider_to_bytes S) OVERRIDE_PROVIDER_MEMORY_ID
       ''Error while updating override provider'' provider) d"

definition stored_set_num_subnet_nodes ::
  "'lf storable_ops \<Rightarrow> 'r region_ops \<Rightarrow> ('m, 'r) device \<Rightarrow> u32 \<Rightarrow> ('m, 'r) device trapping" where
  "stored_set_num_subnet_nodes S R d nodes =
     with_memory (Cell_set R (\<lambda>v. Inr (u32_to_bytes S v)) NUM_SUBNET_NODES_MEMORY_ID
       ''Error while updating number of subnet nodes'' nodes) d"


subsection \<open>The administrative endpoints on the device\<close>

definition stored_require_api_key_principal_or_controller ::
  "'lf storable_ops \<Rightarrow> 'r region_ops \<Rightarrow> ('m, 'r) device \<Rightarrow> (Principal \<Rightarrow> bool) \<Rightarrow> Principal \<Rightarrow> string + unit" where
  "stored_require_api_key_principal_or_controller S R d is_controller caller =
     (if stored_is_api_key_principal S R d caller \<or> is_controller caller
      then Ok () else Err ''You are not authorized'')"

fun stored_update_api_keys_loop ::
  "'lf storable_ops \<Rightarrow> 'r region_ops \<Rightarrow> ('m, 'r) device \<Rightarrow> (ProviderId \<times> string option) list
     \<Rightarrow> ('m, 'r) device trapping" where
  "stored_update_api_keys_loop S R d [] = Inr d"
| "stored_update_api_keys_loop S R d ((i, api_key) # rest) =
     (case find_provider (\<lambda>provider. provider_id provider = i) of
        None \<Rightarrow> Inl (''Provider not found: '' @ show_nat (unat i))
      | Some provider \<Rightarrow>
          (case access provider of
             RpcAccess.Unauthenticated _ \<Rightarrow>
               Inl (''Trying to set API key for unauthenticated provider: '' @ show_nat (unat i))
           | RpcAccess.Authenticated _ _ \<Rightarrow>
               (case api_key of
                  Some key \<Rightarrow>
                    (case ApiKey_try_from key of
                       Inl e \<Rightarrow> Inl (''Invalid API key: '' @ [CHR 0x22] @ e @ [CHR 0x22])
                     | Inr k \<Rightarrow> and_then (stored_insert_api_key S R d i k)
                         (\<lambda>d. stored_update_api_keys_loop S R d rest))
                | None \<Rightarrow> stored_update_api_keys_loop S R (stored_remove_api_key S R d i) rest)))"

definition stored_update_api_keys ::
  "'lf storable_ops \<Rightarrow> 'r region_ops \<Rightarrow> (Principal \<Rightarrow> bool) \<Rightarrow> Principal \<Rightarrow> (ProviderId \<times> string option) list
     \<Rightarrow> ('m, 'r) device \<Rightarrow> ('m, 'r) device trapping" where
  "stored_update_api_keys S R is_controller caller api_keys d =
     and_then (stored_require_api_key_principal_or_controller S R d is_controller caller)
       (\<lambda>_. stored_update_api_keys_loop S R d api_keys)"

fun when_given :: "('a \<Rightarrow> 'd \<Rightarrow> 'd trapping) \<Rightarrow> 'a option \<Rightarrow> 'd \<Rightarrow> 'd trapping" where
  "when_given f (Some x) d = f x d"
| "when_given f None d = Inr d"

definition stored_post_upgrade ::
  "'lf storable_ops \<Rightarrow> 'r region_ops \<Rightarrow> 'rx regex_ops \<Rightarrow> 'lf InstallArgs \<Rightarrow> ('m, 'r) device
     \<Rightarrow> ('m, 'r) device trapping" where
  "stored_post_upgrade S R rx args d =
     and_then (when_given (\<lambda>b d. stored_set_demo_active S R d b) (demo args) d) (\<lambda>d.
     and_then (when_given (\<lambda>ps d. stored_set_api_key_principals S R d ps) (manage_api_keys args) d) (\<lambda>d.
     and_then (when_given (\<lambda>lf d. stored_set_log_filter S R d lf) (install_log_filter args) d) (\<lambda>d.
     and_then (when_given (\<lambda>override_provider d.
         case OverrideProvider_try_from rx override_provider of
           Inl e \<Rightarrow> Inl (''ERROR: invalid override provider: '' @ e)
         | Inr provider \<Rightarrow> stored_set_override_provider S R d provider) (install_override_provider args) d) (\<lambda>d.
     when_given (\<lambda>nodes d. stored_set_num_subnet_nodes S R d nodes) (nodes_in_subnet args) d))))"

text \<open>
  An installation starts on a memory that was never written, an upgrade on the memory the previous program
  left; both run the same code.
\<close>

definition stored_start ::
  "'lf storable_ops \<Rightarrow> 'r region_ops \<Rightarrow> ('m, 'v) timed_map_ops \<Rightarrow> 'rx regex_ops \<Rightarrow> 'lf \<Rightarrow> 'lf InstallArgs
     \<Rightarrow> 'r memory \<Rightarrow> ('m, 'r) device trapping" where
  "stored_start S R ops rx default_filter args mem =
     and_then (thread_local_init S R ops default_filter mem) (stored_post_upgrade S R rx args)"


subsection \<open>The device implements the record\<close>

definition stores ::
  "'lf storable_ops \<Rightarrow> 'r region_ops \<Rightarrow> ('m, 'r) device \<Rightarrow> ('m, 'lf) canister \<Rightarrow> bool" where
  "stores S R d st \<longleftrightarrow>
     heap_metrics d = UNSTABLE_METRICS st
     \<and> heap_request_counter d = UNSTABLE_HTTP_REQUEST_COUNTER st
     \<and> heap_ok_results d = UNSTABLE_RPC_SERVICE_OK_RESULTS_TIMESTAMPS st
     \<and> cell_holds R (\<lambda>bs. Inr (bool_from_bytes S bs)) (stable_memory d IS_DEMO_ACTIVE_MEMORY_ID) (IS_DEMO_ACTIVE st)
     \<and> is_btree R (stable_memory d API_KEY_MAP_MEMORY_ID)
     \<and> stored_get_api_key S R d = API_KEY_MAP st
     \<and> is_vec R (stable_memory d MANAGE_API_KEYS_MEMORY_ID)
     \<and> map (principal_from_bytes S) (vec_items R (stable_memory d MANAGE_API_KEYS_MEMORY_ID)) = MANAGE_API_KEYS st
     \<and> cell_holds R (StorableLogFilter_from_bytes S) (stable_memory d LOG_FILTER_MEMORY_ID)
          (StorableLogFilter (LOG_FILTER st))
     \<and> cell_holds R (OverrideProvider_from_bytes S) (stable_memory d OVERRIDE_PROVIDER_MEMORY_ID) (OVERRIDE_PROVIDER st)
     \<and> cell_holds R (\<lambda>bs. Inr (u32_from_bytes S bs)) (stable_memory d NUM_SUBNET_NODES_MEMORY_ID) (NUM_SUBNET_NODES st)"

lemma with_memory_eq_Inr:
  "with_memory f d = Inr d' \<longleftrightarrow> (\<exists>mem. f (stable_memory d) = Inr mem \<and> d' = d\<lparr>stable_memory := mem\<rparr>)"
  by (simp add: with_memory_def map_ok_eq_Inr)

text \<open>Each setter of a cell writes its own region and no other.\<close>

lemma stores_set_demo_active:
  assumes "storable_spec S" "region_spec R fresh" "stores S R d st"
    and "stored_set_demo_active S R d b = Inr d'"
  shows "stores S R d' (set_demo_active st b)"
  using assms(3,4)
  by (auto simp: stored_set_demo_active_def with_memory_eq_Inr set_demo_active_def stores_def
       stored_get_api_key_def memory_ids fun_eq_iff dest!: bool_cell.set_holds [OF assms(1,2)])

lemma stores_set_log_filter:
  assumes "storable_spec S" "region_spec R fresh" "stores S R d st"
    and "stored_set_log_filter S R d lf = Inr d'"
  shows "stores S R d' (set_log_filter st lf)"
  using assms(3,4)
  by (auto simp: stored_set_log_filter_def with_memory_eq_Inr set_log_filter_def stores_def
       stored_get_api_key_def memory_ids fun_eq_iff dest!: log_filter_cell.set_holds [OF assms(1,2)])

lemma stores_set_override_provider:
  assumes "storable_spec S" "region_spec R fresh" "stores S R d st"
    and "stored_set_override_provider S R d provider = Inr d'"
  shows "stores S R d' (set_override_provider st provider)"
  using assms(3,4)
  by (auto simp: stored_set_override_provider_def with_memory_eq_Inr set_override_provider_def stores_def
       stored_get_api_key_def memory_ids fun_eq_iff dest!: override_cell.set_holds [OF assms(1,2)])

lemma stores_set_num_subnet_nodes:
  assumes "storable_spec S" "region_spec R fresh" "stores S R d st"
    and "stored_set_num_subnet_nodes S R d nodes = Inr d'"
  shows "stores S R d' (set_num_subnet_nodes st nodes)"
  using assms(3,4)
  by (auto simp: stored_set_num_subnet_nodes_def with_memory_eq_Inr set_num_subnet_nodes_def stores_def
       stored_get_api_key_def memory_ids fun_eq_iff dest!: u32_cell.set_holds [OF assms(1,2)])

lemma vec_pop_all_empties:
  assumes "region_spec R fresh" "is_vec R r" "length (vec_items R r) \<le> n"
  shows "is_vec R (vec_pop_all R n r) \<and> vec_items R (vec_pop_all R n r) = []"
  using assms(2,3)
proof (induction n arbitrary: r)
  case (Suc n)
  show ?case
  proof (cases "vec_items R r = []")
    case False
    from vec_pop_ok [OF assms(1) Suc.prems(1)] Suc False show ?thesis by simp
  qed (simp add: Suc.prems)
qed simp

lemma vec_push_all_appends:
  assumes "storable_spec S" "region_spec R fresh"
  shows "is_vec R r \<Longrightarrow> vec_push_all S R r ps = Inr r' \<Longrightarrow>
    is_vec R r' \<and> map (principal_from_bytes S) (vec_items R r')
      = map (principal_from_bytes S) (vec_items R r) @ ps"
proof (induction ps arbitrary: r)
  case (Cons p ps)
  then obtain r1 where r1: "vec_push R r (principal_to_bytes S p) = Inr r1" "vec_push_all S R r1 ps = Inr r'"
    by (auto simp: and_then_eq_Inr)
  have "is_vec R r1 \<and> vec_items R r1 = vec_items R r @ [principal_to_bytes S p]"
    by (rule vec_push_ok [OF assms(2) Cons.prems(1) r1(1)])
  with Cons.IH [OF _ r1(2)] assms(1) show ?case by (simp add: storable_spec_def)
qed simp

lemma stores_set_api_key_principals:
  assumes "storable_spec S" "region_spec R fresh" "stores S R d st"
    and "stored_set_api_key_principals S R d new_principals = Inr d'"
  shows "stores S R d' (set_api_key_principals st new_principals)"
proof -
  let ?r = "stable_memory d MANAGE_API_KEYS_MEMORY_ID"
  let ?popped = "vec_pop_all R (length (vec_items R ?r)) ?r"
  obtain r' where r': "vec_push_all S R ?popped new_principals = Inr r'"
    and d': "d' = d\<lparr>stable_memory := (stable_memory d)(MANAGE_API_KEYS_MEMORY_ID := r')\<rparr>"
    using assms(4) by (auto simp: stored_set_api_key_principals_def with_memory_eq_Inr Let_def map_ok_eq_Inr)
  have "is_vec R ?r" using assms(3) by (simp add: stores_def)
  then have r0: "is_vec R ?popped" "vec_items R ?popped = []"
    using vec_pop_all_empties [OF assms(2), of ?r "length (vec_items R ?r)"] by simp_all
  have "is_vec R r' \<and> map (principal_from_bytes S) (vec_items R r') = new_principals"
    using vec_push_all_appends [OF assms(1,2) r0(1) r'] r0(2) by simp
  with assms(3) show ?thesis
    by (simp add: d' stores_def stored_get_api_key_def memory_ids set_api_key_principals_def fun_eq_iff)
qed

text \<open>A validated key always fits the bound of the map, so storing it does not trap.\<close>

lemma valid_key_within:
  assumes "storable_spec S" "ApiKey_try_from key = Ok k"
  shows "within ApiKey_BOUND (ApiKey_to_bytes S k)"
  using assms by (auto simp: ApiKey_try_from_iff ApiKey_BOUND_def ApiKey_to_bytes_def storable_spec_def evm_constants)

lemma stores_insert_api_key:
  assumes "storable_spec S" "region_spec R fresh" "stores S R d st"
    and "within ApiKey_BOUND (ApiKey_to_bytes S k)"
  shows "\<exists>d'. stored_insert_api_key S R d i k = Inr d' \<and> stores S R d' (insert_api_key st i k)"
proof -
  let ?r = "stable_memory d API_KEY_MAP_MEMORY_ID"
  have "is_btree R ?r" using assms(3) by (simp add: stores_def)
  with btree_insert_ok [OF assms(2) _ assms(4)] obtain r' where
    "btree_insert R ApiKey_BOUND ?r (u64_to_bytes S i) (ApiKey_to_bytes S k) = Inr r'"
    "is_btree R r'" "btree_get R r' = (btree_get R ?r)(u64_to_bytes S i \<mapsto> ApiKey_to_bytes S k)"
    by blast
  then show ?thesis
    using assms(1,3) u64_to_bytes_inj [OF assms(1)]
    by (auto simp: stored_insert_api_key_def with_memory_def stores_def stored_get_api_key_def memory_ids
         insert_api_key_def fun_eq_iff)
qed

lemma stores_remove_api_key:
  assumes "storable_spec S" "region_spec R fresh" "stores S R d st"
  shows "stores S R (stored_remove_api_key S R d i) (remove_api_key st i)"
proof -
  let ?r = "stable_memory d API_KEY_MAP_MEMORY_ID"
  have "is_btree R ?r" using assms(3) by (simp add: stores_def)
  note btree_remove_ok [OF assms(2) this, of "u64_to_bytes S i"]
  then show ?thesis
    using assms(3) u64_to_bytes_inj [OF assms(1)]
    by (auto simp: stored_remove_api_key_def stores_def stored_get_api_key_def memory_ids
         remove_api_key_def fun_eq_iff)
qed

lemma stores_readers:
  assumes "stores S R d st"
  shows "stored_get_api_key S R d i = get_api_key st i"
    and "stored_is_api_key_principal S R d p = is_api_key_principal st p"
proof -
  show "stored_get_api_key S R d i = get_api_key st i"
    using assms by (simp add: stores_def get_api_key_def)
  have "MANAGE_API_KEYS st = map (principal_from_bytes S) (vec_items R (stable_memory d MANAGE_API_KEYS_MEMORY_ID))"
    using assms by (simp add: stores_def)
  then show "stored_is_api_key_principal S R d p = is_api_key_principal st p"
    by (auto simp: stored_is_api_key_principal_def list_ex_iff)
qed


subsection \<open>Refinement\<close>

text \<open>
  An operation of the device refines one of the record: what it stores is what the record holds, and it
  traps only as the record does, unless the storage fails to encode or to write a value.
\<close>

definition storage_works :: "'lf storable_ops \<Rightarrow> 'r region_ops \<Rightarrow> bool" where
  "storage_works S R \<longleftrightarrow>
     (\<forall>r bs. \<exists>r'. cell_store R r bs = Ok r') \<and> (\<forall>r bs. \<exists>r'. vec_push R r bs = Ok r')
     \<and> (\<forall>lf. \<exists>bs. filter_to_vec S lf = Ok bs) \<and> (\<forall>ov. \<exists>bs. override_to_vec S ov = Ok bs)"

fun refines ::
  "'lf storable_ops \<Rightarrow> 'r region_ops \<Rightarrow> ('m, 'r) device trapping \<Rightarrow> ('m, 'lf) canister trapping \<Rightarrow> bool" where
  "refines S R (Inr d) r = (\<exists>st. r = Inr st \<and> stores S R d st)"
| "refines S R (Inl trap) r = (r = Inl trap \<or> \<not> storage_works S R)"

lemma refines_then:
  assumes "refines S R dr r" "\<And>d st. stores S R d st \<Longrightarrow> refines S R (f d) (g st)"
  shows "refines S R (and_then dr f) (and_then r g)"
  using assms by (cases dr) auto

lemma refines_Inr:
  assumes "\<And>d'. dr = Inr d' \<Longrightarrow> stores S R d' st" "storage_works S R \<Longrightarrow> \<exists>d'. dr = Inr d'"
  shows "refines S R dr (Inr st)"
  using assms by (cases dr) auto

lemma refines_when_given:
  assumes "stores S R d st" "\<And>x. stores S R d st \<Longrightarrow> refines S R (f x d) (g x st)"
  shows "refines S R (when_given f x d) (when_given g x st)"
  using assms by (cases x) auto

lemma Cell_set_works:
  "storage_works S R \<Longrightarrow> \<exists>bs. to_bytes v = Inr bs \<Longrightarrow> \<exists>d'. with_memory (Cell_set R to_bytes i msg v) d = Inr d'"
proof (elim exE)
  fix bs
  assume "storage_works S R" and bs: "to_bytes v = Inr bs"
  then obtain r where "cell_store R (stable_memory d i) bs = Ok r"
    unfolding storage_works_def by blast
  with bs show ?thesis by (simp add: with_memory_def Cell_set_def expect_def)
qed

lemma vec_push_all_works: "storage_works S R \<Longrightarrow> \<exists>r'. vec_push_all S R r ps = Inr r'"
proof (induction ps arbitrary: r)
  case (Cons p ps)
  then obtain r1 where "vec_push R r (principal_to_bytes S p) = Inr r1"
    unfolding storage_works_def by blast
  with Cons show ?case by (simp add: expect_def)
qed simp

lemmas setters_of_device = stored_set_demo_active_def stored_set_log_filter_def stored_set_override_provider_def
  stored_set_num_subnet_nodes_def

lemma refines_setters:
  assumes "storable_spec S" "region_spec R fresh" "stores S R d st"
  shows "refines S R (stored_set_demo_active S R d b) (Inr (set_demo_active st b))"
    and "refines S R (stored_set_log_filter S R d lf) (Inr (set_log_filter st lf))"
    and "refines S R (stored_set_override_provider S R d ov) (Inr (set_override_provider st ov))"
    and "refines S R (stored_set_num_subnet_nodes S R d n) (Inr (set_num_subnet_nodes st n))"
    and "refines S R (stored_set_api_key_principals S R d ps) (Inr (set_api_key_principals st ps))"
proof -
  note stored = stores_set_demo_active [OF assms] stores_set_log_filter [OF assms]
    stores_set_override_provider [OF assms] stores_set_num_subnet_nodes [OF assms]
    stores_set_api_key_principals [OF assms]
  show "refines S R (stored_set_demo_active S R d b) (Inr (set_demo_active st b))"
    by (rule refines_Inr) (auto simp: setters_of_device intro: stored Cell_set_works)
  show "refines S R (stored_set_num_subnet_nodes S R d n) (Inr (set_num_subnet_nodes st n))"
    by (rule refines_Inr) (auto simp: setters_of_device intro: stored Cell_set_works)
  show "refines S R (stored_set_log_filter S R d lf) (Inr (set_log_filter st lf))"
    by (rule refines_Inr, erule stored)
      (auto simp: setters_of_device StorableLogFilter_to_bytes_def storage_works_def intro!: Cell_set_works)
  show "refines S R (stored_set_override_provider S R d ov) (Inr (set_override_provider st ov))"
    by (rule refines_Inr, erule stored)
      (auto simp: setters_of_device OverrideProvider_to_bytes_def storage_works_def intro!: Cell_set_works)
  show "refines S R (stored_set_api_key_principals S R d ps) (Inr (set_api_key_principals st ps))"
  proof (rule refines_Inr, erule stored)
    let ?r = "stable_memory d MANAGE_API_KEYS_MEMORY_ID"
    assume works: "storage_works S R"
    obtain r' where "vec_push_all S R (vec_pop_all R (length (vec_items R ?r)) ?r) ps = Inr r'"
      using vec_push_all_works [OF works] by blast
    then show "\<exists>d'. stored_set_api_key_principals S R d ps = Inr d'"
      by (simp add: stored_set_api_key_principals_def with_memory_def Let_def)
  qed
qed

lemma post_upgrade_in_order:
  "post_upgrade rx args st =
     and_then (when_given (\<lambda>b st. Inr (set_demo_active st b)) (demo args) st) (\<lambda>st.
     and_then (when_given (\<lambda>ps st. Inr (set_api_key_principals st ps)) (manage_api_keys args) st) (\<lambda>st.
     and_then (when_given (\<lambda>lf st. Inr (set_log_filter st lf)) (install_log_filter args) st) (\<lambda>st.
     and_then (when_given (\<lambda>override_provider st.
         case OverrideProvider_try_from rx override_provider of
           Inl e \<Rightarrow> Inl (''ERROR: invalid override provider: '' @ e)
         | Inr provider \<Rightarrow> Inr (set_override_provider st provider)) (install_override_provider args) st) (\<lambda>st.
     when_given (\<lambda>nodes st. Inr (set_num_subnet_nodes st nodes)) (nodes_in_subnet args) st))))"
  unfolding post_upgrade_def Let_def
  by (cases "demo args"; cases "manage_api_keys args"; cases "install_log_filter args";
      cases "install_override_provider args"; cases "nodes_in_subnet args") (simp_all split: sum.split)

lemma stored_post_upgrade_refines:
  assumes "storable_spec S" "region_spec R fresh" "stores S R d st"
  shows "refines S R (stored_post_upgrade S R rx args d) (post_upgrade rx args st)"
  unfolding stored_post_upgrade_def post_upgrade_in_order
  by (intro refines_then refines_when_given refines_setters [OF assms(1,2)] assms(3))
    (auto split: sum.split intro: refines_setters [OF assms(1,2)])

lemma stored_update_api_keys_loop_refines:
  assumes "storable_spec S" "region_spec R fresh"
  shows "stores S R d st \<Longrightarrow>
    rel_sum (=) (stores S R) (stored_update_api_keys_loop S R d ups) (update_api_keys_loop st ups)"
proof (induction st ups arbitrary: d rule: update_api_keys_loop.induct)
  case (2 st i api_key rest)
  let ?find = "find_provider (\<lambda>provider. provider_id provider = i)"
  consider "?find = None" | p u where "?find = Some p" "access p = RpcAccess.Unauthenticated u"
    | p a pub where "?find = Some p" "access p = RpcAccess.Authenticated a pub"
    by (metis RpcAccess.exhaust option.exhaust)
  then show ?case
  proof cases
    case (3 p a pub)
    show ?thesis
    proof (cases api_key)
      case None
      then show ?thesis
        using 2 3 stores_remove_api_key [OF assms "2.prems", of i] by simp
    next
      case (Some key)
      show ?thesis
      proof (cases "ApiKey_try_from key")
        case (Inr k)
        from stores_insert_api_key [OF assms "2.prems" valid_key_within [OF assms(1) Inr]]
        obtain d' where "stored_insert_api_key S R d i k = Inr d'" "stores S R d' (insert_api_key st i k)"
          by blast
        with 2 3 Some Inr show ?thesis by simp
      qed (simp add: 3 Some)
    qed
  qed simp_all
qed simp


lemma stored_update_api_keys_refines:
  assumes "storable_spec S" "region_spec R fresh" "stores S R d st"
  shows "rel_sum (=) (stores S R) (stored_update_api_keys S R is_controller caller api_keys d)
    (update_api_keys is_controller caller api_keys st)"
  using stored_update_api_keys_loop_refines [OF assms]
  by (simp add: stored_update_api_keys_def update_api_keys_def stores_readers [OF assms(3)]
        stored_require_api_key_principal_or_controller_def require_api_key_principal_or_controller_def)

text \<open>A restart on a memory that holds a record changes nothing in it, and only the heap cells are lost.\<close>

lemma thread_local_init_reload:
  assumes "stores S R d st"
  shows "\<exists>d'. thread_local_init S R ops default_filter (stable_memory d) = Inr d'
    \<and> stable_memory d' = stable_memory d \<and> stores S R d' (reset_unstable ops st)"
  using assms
  by (auto simp: thread_local_init_def stores_def expect_def reset_unstable_def stored_get_api_key_def fun_eq_iff)

text \<open>On a memory that was never written every cell takes its initial value.\<close>

lemma thread_local_init_fresh:
  assumes "storable_spec S" "region_spec R fresh"
    and "thread_local_init S R ops default_filter (\<lambda>_. fresh) = Inr d"
  shows "stores S R d (initial_memory ops default_filter)"
proof -
  obtain bt where bt: "btree_init R fresh = Inr bt" "is_btree R bt" "btree_get R bt = Map.empty"
    using assms(2) unfolding region_spec_def by blast
  obtain v where v: "vec_init R fresh = Inr v" "is_vec R v" "vec_items R v = []"
    using assms(2) unfolding region_spec_def by blast
  from assms(3) obtain m1 m2 m3 m4 m5 m6 where
    m1: "Cell_init R (\<lambda>v. Inr (bool_to_bytes S v)) (\<lambda>bs. Inr (bool_from_bytes S bs)) 4
       ''Unable to read demo status from stable memory'' False (\<lambda>_. fresh) = Inr m1"
    and m2: "map_ok (\<lambda>r. m1(5 := r)) (btree_init R (m1 5)) = Inr m2"
    and m3: "map_ok (\<lambda>r. m2(6 := r))
       (expect ''Unable to read API key principals from stable memory'' (vec_init R (m2 6))) = Inr m3"
    and m4: "Cell_init R (StorableLogFilter_to_bytes S) (StorableLogFilter_from_bytes S) 7
       ''Unable to read log message filter from stable memory'' (StorableLogFilter default_filter) m3 = Inr m4"
    and m5: "Cell_init R (OverrideProvider_to_bytes S) (OverrideProvider_from_bytes S) 8
       ''Unable to read provider override from stable memory'' default_OverrideProvider m4 = Inr m5"
    and m6: "Cell_init R (\<lambda>v. Inr (u32_to_bytes S v)) (\<lambda>bs. Inr (u32_from_bytes S bs)) 9
       ''Unable to read number of subnet nodes from stable memory'' NODES_IN_SUBNET m5 = Inr m6"
    and d: "d = \<lparr>heap_metrics = default_Metrics, heap_request_counter = 0,
          heap_ok_results = SupportedRpcServiceUsage_new ops, stable_memory = m6\<rparr>"
    by (auto simp only: thread_local_init_def and_then_eq_Inr memory_ids sum.inject)
  obtain r1 where r1: "m1 = (\<lambda>_. fresh)(4 := r1)"
    "cell_holds R (\<lambda>bs. Inr (bool_from_bytes S bs)) r1 False"
    using bool_cell.init_fresh [OF assms(1,2) refl m1] by blast
  have m3_eq: "m3 = m1(5 := bt, 6 := v)" using m2 m3 bt v r1 by (auto simp: expect_def)
  then have "m3 7 = fresh" using r1 by simp
  from log_filter_cell.init_fresh [OF assms(1,2) this m4] obtain r4 where r4: "m4 = m3(7 := r4)"
    "cell_holds R (StorableLogFilter_from_bytes S) r4 (StorableLogFilter default_filter)" by blast
  then have "m4 8 = fresh" using m3_eq r1 by simp
  from override_cell.init_fresh [OF assms(1,2) this m5] obtain r5 where r5: "m5 = m4(8 := r5)"
    "cell_holds R (OverrideProvider_from_bytes S) r5 default_OverrideProvider" by blast
  then have "m5 9 = fresh" using r4 m3_eq r1 by simp
  from u32_cell.init_fresh [OF assms(1,2) this m6] obtain r6 where "m6 = m5(9 := r6)"
    "cell_holds R (\<lambda>bs. Inr (u32_from_bytes S bs)) r6 NODES_IN_SUBNET" by blast
  with r1 r4 r5 m3_eq bt v show ?thesis
    by (simp add: d stores_def initial_memory_def stored_get_api_key_def memory_ids fun_eq_iff)
qed

lemma stored_start_refines:
  assumes "storable_spec S" "region_spec R fresh" "stores S R d st"
  shows "refines S R (stored_start S R ops rx default_filter args (stable_memory d))
    (post_upgrade rx args (reset_unstable ops st))"
  using thread_local_init_reload [OF assms(3), of ops default_filter]
    stored_post_upgrade_refines [OF assms(1,2)]
  by (auto simp: stored_start_def)

text \<open>The record a device stores is determined by its bytes.\<close>

lemma stores_unique:
  assumes "stores S R d st" "stores S R d st'"
  shows "st = st'"
  using assms
  by (cases st; cases st') (auto simp: stores_def cell_holds_def split: sum.splits option.splits)


lemma Cell_init_fresh_works:
  assumes "storage_works S R" "region_spec R fresh" "mem i = fresh" "\<exists>bs. to_bytes v0 = Inr bs"
  shows "\<exists>r. Cell_init R to_bytes from_bytes i msg v0 mem = Inr (mem(i := r))"
proof -
  from assms(4) obtain bs where bs: "to_bytes v0 = Inr bs" ..
  obtain r where "cell_store R fresh bs = Ok r"
    using assms(1) unfolding storage_works_def by blast
  with bs assms(2,3) show ?thesis
    by (auto simp: Cell_init_def Cell_set_def expect_def region_spec_def)
qed

lemma thread_local_init_works:
  assumes works: "storage_works S R" and region: "region_spec R fresh"
  shows "\<exists>d. thread_local_init S R ops default_filter (\<lambda>_. fresh) = Inr d"
proof -
  note cell = Cell_init_fresh_works [OF works region]
  have filter: "\<exists>bs. StorableLogFilter_to_bytes S (StorableLogFilter default_filter) = Inr bs"
    and override: "\<exists>bs. OverrideProvider_to_bytes S default_OverrideProvider = Inr bs"
    using works by (auto simp: StorableLogFilter_to_bytes_def OverrideProvider_to_bytes_def storage_works_def)
  obtain bt v where init: "btree_init R fresh = Inr bt" "vec_init R fresh = Inr v"
    using region unfolding region_spec_def by blast
  obtain r1 where r1: "Cell_init R (\<lambda>v. Inr (bool_to_bytes S v)) (\<lambda>bs. Inr (bool_from_bytes S bs)) 4
       ''Unable to read demo status from stable memory'' False (\<lambda>_. fresh) = Inr ((\<lambda>_. fresh)(4 := r1))"
    using cell [of "\<lambda>_. fresh" 4 "\<lambda>v. Inr (bool_to_bytes S v)" False] by auto
  let ?m3 = "(\<lambda>_. fresh)(4 := r1, 5 := bt, 6 := v)"
  obtain r4 where r4: "Cell_init R (StorableLogFilter_to_bytes S) (StorableLogFilter_from_bytes S) 7
       ''Unable to read log message filter from stable memory'' (StorableLogFilter default_filter) ?m3
       = Inr (?m3(7 := r4))"
    using cell [of ?m3 7 "StorableLogFilter_to_bytes S" "StorableLogFilter default_filter"] filter by auto
  obtain r5 where r5: "Cell_init R (OverrideProvider_to_bytes S) (OverrideProvider_from_bytes S) 8
       ''Unable to read provider override from stable memory'' default_OverrideProvider (?m3(7 := r4))
       = Inr (?m3(7 := r4, 8 := r5))"
    using cell [of "?m3(7 := r4)" 8 "OverrideProvider_to_bytes S" default_OverrideProvider] override by auto
  obtain r6 where "Cell_init R (\<lambda>v. Inr (u32_to_bytes S v)) (\<lambda>bs. Inr (u32_from_bytes S bs)) 9
       ''Unable to read number of subnet nodes from stable memory'' NODES_IN_SUBNET (?m3(7 := r4, 8 := r5))
       = Inr (?m3(7 := r4, 8 := r5, 9 := r6))"
    using cell [of "?m3(7 := r4, 8 := r5)" 9 "\<lambda>v. Inr (u32_to_bytes S v)" NODES_IN_SUBNET] by auto
  with r1 r4 r5 init show ?thesis by (simp add: thread_local_init_def memory_ids expect_def)
qed

lemma stored_install_refines:
  assumes "storable_spec S" "region_spec R fresh"
  shows "refines S R (stored_start S R ops rx default_filter args (\<lambda>_. fresh))
    (init rx args (initial_memory ops default_filter))"
proof (cases "thread_local_init S R ops default_filter (\<lambda>_. fresh)")
  case (Inl trap)
  then have "\<not> storage_works S R"
    using thread_local_init_works [OF _ assms(2), of S ops default_filter] by auto
  with Inl show ?thesis by (simp add: stored_start_def)
next
  case (Inr d)
  from stored_post_upgrade_refines [OF assms thread_local_init_fresh [OF assms Inr]] show ?thesis
    by (simp add: stored_start_def init_def Inr)
qed


subsection \<open>A reference implementation\<close>

datatype ref_region = RefFresh | RefCell bytes | RefMap "bytes \<rightharpoonup> bytes" | RefVec "bytes list"

fun ref_map_of :: "ref_region \<Rightarrow> bytes \<rightharpoonup> bytes" where
  "ref_map_of (RefMap m) = m"
| "ref_map_of r = Map.empty"

fun ref_vec_of :: "ref_region \<Rightarrow> bytes list" where
  "ref_vec_of (RefVec xs) = xs"
| "ref_vec_of r = []"

definition ref_region_ops :: "ref_region region_ops" where
  "ref_region_ops =
     \<lparr>cell_load = (\<lambda>r. case r of RefFresh \<Rightarrow> Ok None | RefCell bs \<Rightarrow> Ok (Some bs) | _ \<Rightarrow> Err ''Bad magic''),
      cell_store = (\<lambda>r bs. Ok (RefCell bs)),
      btree_init = (\<lambda>r. case r of RefFresh \<Rightarrow> Inr (RefMap Map.empty) | RefMap m \<Rightarrow> Inr r | _ \<Rightarrow> Inl ''Bad magic''),
      btree_get = (\<lambda>r. ref_map_of r),
      btree_insert = (\<lambda>bound r k v. if within bound v then Inr (RefMap ((ref_map_of r)(k \<mapsto> v))) else Inl ''too large''),
      btree_remove = (\<lambda>r k. RefMap ((ref_map_of r)(k := None))),
      vec_init = (\<lambda>r. case r of RefFresh \<Rightarrow> Ok (RefVec []) | RefVec xs \<Rightarrow> Ok r | _ \<Rightarrow> Err ''Bad magic''),
      vec_items = ref_vec_of,
      vec_pop = (\<lambda>r. RefVec (butlast (ref_vec_of r))),
      vec_push = (\<lambda>r bs. Ok (RefVec (ref_vec_of r @ [bs])))\<rparr>"

lemma ref_region_spec: "region_spec ref_region_ops RefFresh"
  unfolding region_spec_def ref_region_ops_def by (auto split: ref_region.splits)

definition ref_string :: "string \<Rightarrow> bytes" where
  "ref_string s = map (\<lambda>c. of_nat (of_char c)) s"

definition ref_unstring :: "bytes \<Rightarrow> string" where
  "ref_unstring bs = map (\<lambda>b. char_of (unat b)) bs"

lemma ref_unstring_string [simp]: "ref_unstring (ref_string s) = s"
proof -
  have "char_of (unat (of_nat (of_char c) :: u8)) = c" for c :: char
  proof -
    have "(of_char c :: nat) = of_char c mod 256" by (metis char_of_char of_char_of)
    then have "unat (of_nat (of_char c) :: u8) = of_char c" by (simp add: unat_of_nat)
    then show ?thesis by simp
  qed
  then show ?thesis by (simp add: ref_unstring_def ref_string_def comp_def)
qed

lemma length_ref_string [simp]: "length (ref_string s) = length s"
  by (simp add: ref_string_def)

text \<open>An override is written with the length of its pattern in unary.\<close>

definition ref_override :: "OverrideProvider \<Rightarrow> bytes" where
  "ref_override ov =
     (case override_url ov of
        None \<Rightarrow> []
      | Some s \<Rightarrow> replicate (length (pattern s)) 1 @ [0] @ ref_string (pattern s) @ ref_string (replacement s))"

definition ref_unoverride :: "bytes \<Rightarrow> OverrideProvider" where
  "ref_unoverride bs =
     (let n = length (takeWhile (\<lambda>b. b = 1) bs); rest = drop (Suc n) bs
      in \<lparr>override_url = (if bs = [] then None
            else Some \<lparr>pattern = ref_unstring (take n rest), replacement = ref_unstring (drop n rest)\<rparr>)\<rparr>)"

lemma ref_unoverride_override [simp]: "ref_unoverride (ref_override ov) = ov"
  by (cases ov) (simp add: ref_unoverride_def ref_override_def Let_def takeWhile_append split: option.split)

definition ref_storable_ops :: "unit storable_ops" where
  "ref_storable_ops =
     \<lparr>string_to_bytes = ref_string, string_from_bytes = ref_unstring,
      u64_to_bytes = (\<lambda>n. ref_be (unat n)), u64_from_bytes = (\<lambda>bs. of_nat (be_value bs)),
      u32_to_bytes = (\<lambda>n. ref_be (unat n)), u32_from_bytes = (\<lambda>bs. of_nat (be_value bs)),
      bool_to_bytes = (\<lambda>b. [if b then 1 else 0]), bool_from_bytes = (\<lambda>bs. bs = [1]),
      principal_to_bytes = (\<lambda>p. p), principal_from_bytes = (\<lambda>bs. bs),
      filter_to_vec = (\<lambda>_. Ok []), filter_from_slice = (\<lambda>_. Ok ()),
      override_to_vec = (\<lambda>ov. Ok (ref_override ov)), override_from_slice = (\<lambda>bs. Ok (ref_unoverride bs))\<rparr>"

lemma ref_storable_spec: "storable_spec ref_storable_ops"
  by (auto simp: storable_spec_def ref_storable_ops_def be_value_ref_be)

lemma ref_storage_works: "storage_works ref_storable_ops ref_region_ops"
  by (simp add: storage_works_def ref_storable_ops_def ref_region_ops_def)


subsection \<open>Properties\<close>

text \<open>C4. The canister on its bytes implements the canister on its record: an installation starts with the initial
  values, \<open>update_api_keys\<close> succeeds and traps exactly as on the record and leaves the bytes of the new keys
  (a validated key never exceeds the bound of the map), and an upgrade finds in the stable memory every
  setting and key that was there before and starts with empty counters. An installation or an upgrade traps
  for no other reason than the record does, unless a value cannot be encoded or written.\<close>

theorem stable_memory_refines:
  assumes "storable_spec S" "region_spec R fresh"
  shows "refines S R (stored_start S R ops rx default_filter args (\<lambda>_. fresh))
      (init rx args (initial_memory ops default_filter))
    \<and> (stores S R d st \<longrightarrow>
        rel_sum (=) (stores S R) (stored_update_api_keys S R is_controller caller api_keys d)
          (update_api_keys is_controller caller api_keys st)
        \<and> refines S R (stored_start S R ops rx default_filter args (stable_memory d))
            (post_upgrade rx args (reset_unstable ops st))
        \<and> stored_get_api_key S R d i = get_api_key st i)"
proof (intro conjI impI)
  show "refines S R (stored_start S R ops rx default_filter args (\<lambda>_. fresh))
      (init rx args (initial_memory ops default_filter))"
    by (rule stored_install_refines [OF assms])
next
  assume st: "stores S R d st"
  then show "refines S R (stored_start S R ops rx default_filter args (stable_memory d))
      (post_upgrade rx args (reset_unstable ops st))"
    by (rule stored_start_refines [OF assms])
  show "rel_sum (=) (stores S R) (stored_update_api_keys S R is_controller caller api_keys d)
      (update_api_keys is_controller caller api_keys st)"
    by (rule stored_update_api_keys_refines [OF assms st])
  show "stored_get_api_key S R d i = get_api_key st i" by (rule stores_readers [OF st])
qed

text \<open>A key stored on the reference device by a controller is there after an upgrade without arguments.\<close>

definition no_install_args :: "'lf InstallArgs" where
  "no_install_args = \<lparr>demo = None, manage_api_keys = None, install_log_filter = None,
     install_override_provider = None, nodes_in_subnet = None\<rparr>"

lemma post_upgrade_no_args [simp]: "post_upgrade rx no_install_args st = Inr st"
  by (simp add: post_upgrade_def no_install_args_def Let_def)

lemma rel_sum_Inr: "rel_sum (=) P r (Inr y) \<Longrightarrow> \<exists>x. r = Inr x \<and> P x y"
  by (cases r) auto

lemma refines_Inr_works:
  "refines S R dr (Inr st) \<Longrightarrow> storage_works S R \<Longrightarrow> \<exists>d. dr = Inr d \<and> stores S R d st"
  by (cases dr) auto

theorem stable_memory_refines_witness:
  "\<exists>d0 d1 d2. stored_start ref_storable_ops ref_region_ops ref_timed_ops
        \<lparr>compile = (\<lambda>s. Inr s), replace_all = (\<lambda>r s t. t)\<rparr> () no_install_args (\<lambda>_. RefFresh) = Inr d0
     \<and> stored_update_api_keys ref_storable_ops ref_region_ops (\<lambda>_. True) [7] [(6, Some ''k1'')] d0 = Inr d1
     \<and> stored_start ref_storable_ops ref_region_ops ref_timed_ops
        \<lparr>compile = (\<lambda>s. Inr s), replace_all = (\<lambda>r s t. t)\<rparr> () no_install_args (stable_memory d1) = Inr d2
     \<and> stored_get_api_key ref_storable_ops ref_region_ops d2 6 = Some (ApiKey ''k1'')"
proof -
  let ?S = ref_storable_ops and ?R = ref_region_ops
  let ?rx = "\<lparr>compile = (\<lambda>s. Inr s), replace_all = (\<lambda>r s t. t)\<rparr> :: string regex_ops"
  let ?st0 = "initial_memory ref_timed_ops () :: (ref_usage, unit) canister"
  note ref = stable_memory_refines [OF ref_storable_spec ref_region_spec, where ops = ref_timed_ops and rx = ?rx
      and args = no_install_args and default_filter = "()"]
  note refs = ref [THEN conjunct2, THEN mp]
  have "init ?rx no_install_args ?st0 = Inr ?st0" by (simp add: init_def)
  then obtain d0 where d0: "stored_start ?S ?R ref_timed_ops ?rx () no_install_args (\<lambda>_. RefFresh) = Inr d0"
    "stores ?S ?R d0 ?st0"
    using refines_Inr_works [OF _ ref_storage_works] ref [THEN conjunct1] by fastforce
  let ?st1 = "insert_api_key ?st0 6 (ApiKey ''k1'')"
  have "update_api_keys (\<lambda>_. True) [7] [(6, Some ''k1'')] ?st0 = Inr ?st1"
    by (simp add: update_api_keys_def require_api_key_principal_or_controller_def find_provider_def
          PROVIDERS_table ApiKey_try_from_def validate_api_key_def VALID_API_KEY_CHARS_def)
  with refs [OF d0(2), THEN conjunct1, of "\<lambda>_. True" "[7]" "[(6, Some ''k1'')]"] obtain d1 where
    d1: "stored_update_api_keys ?S ?R (\<lambda>_. True) [7] [(6, Some ''k1'')] d0 = Inr d1" "stores ?S ?R d1 ?st1"
    by (auto dest: rel_sum_Inr)
  let ?st2 = "reset_unstable ref_timed_ops ?st1"
  note restarted = refs [OF d1(2), THEN conjunct2]
  obtain d2 where
    d2: "stored_start ?S ?R ref_timed_ops ?rx () no_install_args (stable_memory d1) = Inr d2" "stores ?S ?R d2 ?st2"
    using refines_Inr_works [OF _ ref_storage_works] restarted [THEN conjunct1] by fastforce
  have "stored_get_api_key ?S ?R d2 6 = get_api_key ?st2 6"
    using refs [OF d2(2), THEN conjunct2, THEN conjunct2] by blast
  then have "stored_get_api_key ?S ?R d2 6 = Some (ApiKey ''k1'')"
    by (simp add: reset_unstable_def insert_api_key_def get_api_key_def)
  with d0(1) d1(1) d2(1) show ?thesis by blast
qed

end
