(* ===== verification/Http_Stack.thy ===== *)
theory Http_Stack
  imports Http_Outcall
begin

section \<open>The layers below the observability of an outcall\<close>

text \<open>
  \<open>http_client\<close> of \<^verbatim>\<open>src/http.rs\<close> below its \<open>ObservabilityLayer\<close>: the request is checked for its JSON-RPC id,
  converted and paid for before the outcall, the response is converted, filtered and parsed after it, and the
  error of every layer becomes an \<open>HttpClientError\<close> by one of the \<open>From\<close> implementations. Theory \<open>Http_Outcall\<close>
  takes what an attempt returns as an argument; here it is the composition of the layers, in the order in which
  \<open>ServiceBuilder\<close> stacks them. The layers themselves belong to \<open>canhttp\<close> and are parameters.
\<close>

subsection \<open>Errors of the layers\<close>

text \<open>An error the code only displays is its text.\<close>

definition HttpClientError_from_IcError :: "RejectCode \<times> string \<Rightarrow> HttpClientError" where
  "HttpClientError_from_IcError e = (case e of (code, message) \<Rightarrow> IcErr code message)"

definition HttpClientError_from_HttpResponseConversionError :: "string \<Rightarrow> HttpClientError" where
  "HttpClientError_from_HttpResponseConversionError e = NotHandledError e"

definition HttpClientError_from_FilterNonSuccessfulHttpResponseError :: "u16 \<times> bytes \<Rightarrow> HttpClientError" where
  "HttpClientError_from_FilterNonSuccessfulHttpResponseError e =
     (case e of (status, body) \<Rightarrow> UnsuccessfulHttpResponse status body)"

definition HttpClientError_from_JsonResponseConversionError :: "u16 \<times> string \<times> string \<Rightarrow> HttpClientError" where
  "HttpClientError_from_JsonResponseConversionError e =
     (case e of (status, body, parsing_error) \<Rightarrow> InvalidJsonResponse status body parsing_error)"

definition HttpClientError_from_CyclesAccountingError :: "u128 \<times> u128 \<Rightarrow> HttpClientError" where
  "HttpClientError_from_CyclesAccountingError e =
     (case e of (expected, received) \<Rightarrow> InsufficientCycles expected received)"

definition HttpClientError_from_HttpRequestConversionError :: "string \<Rightarrow> HttpClientError" where
  "HttpClientError_from_HttpRequestConversionError e = NotHandledError e"

definition HttpClientError_from_JsonRequestConversionError :: "string \<Rightarrow> HttpClientError" where
  "HttpClientError_from_JsonRequestConversionError e = NotHandledError e"

definition HttpClientError_from_ConsistentResponseIdFilterError :: "u16 \<times> string \<Rightarrow> HttpClientError" where
  "HttpClientError_from_ConsistentResponseIdFilterError e =
     (case e of (status, displayed) \<Rightarrow> InvalidJsonResponseId status displayed)"

lemmas HttpClientError_from = HttpClientError_from_IcError_def
  HttpClientError_from_HttpResponseConversionError_def
  HttpClientError_from_FilterNonSuccessfulHttpResponseError_def
  HttpClientError_from_JsonResponseConversionError_def HttpClientError_from_CyclesAccountingError_def
  HttpClientError_from_HttpRequestConversionError_def HttpClientError_from_JsonRequestConversionError_def
  HttpClientError_from_ConsistentResponseIdFilterError_def


subsection \<open>The stack\<close>

text \<open>
  The layers: a response is its status and its body. \<open>sk_accounting\<close> is that of the \<open>i\<close>-th attempt, since
  earlier attempts have accepted cycles; it is told the number of nodes and the charging policy (what to
  charge for a request that costs so much). \<open>sk_client\<close> is the management canister on the \<open>i\<close>-th attempt,
  \<open>sk_id_filter\<close> compares the id of a response with that of the request.
\<close>

record ('body, 'ic, 'raw, 'resp) stack_ops =
  sk_insert_header :: "string \<Rightarrow> string \<Rightarrow> 'body http_request \<Rightarrow> 'body http_request"
  sk_json_request :: "'body http_request \<Rightarrow> string + bytes http_request"
  sk_http_request :: "bytes http_request \<Rightarrow> string + 'ic"
  sk_accounting :: "nat \<Rightarrow> u32 \<Rightarrow> ('ic \<Rightarrow> u128 \<Rightarrow> u128) \<Rightarrow> 'ic \<Rightarrow> u128 \<times> u128 + 'ic"
  sk_client :: "nat \<Rightarrow> 'ic \<Rightarrow> RejectCode \<times> string + 'raw"
  sk_http_response :: "'raw \<Rightarrow> string + u16 \<times> bytes"
  sk_filter_success :: "u16 \<times> bytes \<Rightarrow> u16 \<times> bytes + u16 \<times> bytes"
  sk_json_response :: "u16 \<times> bytes \<Rightarrow> u16 \<times> string \<times> string + u16 \<times> 'resp"
  sk_id_filter :: "'body http_request \<Rightarrow> u16 \<times> 'resp \<Rightarrow> u16 \<times> string + u16 \<times> 'resp"

definition attempt ::
  "('body, 'ic, 'raw, 'resp) stack_ops \<Rightarrow> ('m, 'lf) canister \<Rightarrow> nat \<Rightarrow> 'body http_request
     \<Rightarrow> HttpClientError + u16 \<times> 'resp" where
  "attempt S st i req =
     (let policy = default_ChargingPolicyWithCollateral st in
      and_then (service_request_builder (sk_insert_header S)
          (\<lambda>r. map_err HttpClientError_from_JsonRequestConversionError (sk_json_request S r))
          (\<lambda>r. map_err HttpClientError_from_HttpRequestConversionError (sk_http_request S r)) req) (\<lambda>ic.
      and_then (map_err HttpClientError_from_CyclesAccountingError
          (sk_accounting S i (get_num_subnet_nodes st) (\<lambda>_ attached. cycles_to_charge policy attached) ic)) (\<lambda>ic.
      and_then (map_err HttpClientError_from_IcError (sk_client S i ic)) (\<lambda>raw.
      and_then (map_err HttpClientError_from_HttpResponseConversionError (sk_http_response S raw)) (\<lambda>response.
      and_then (map_err HttpClientError_from_FilterNonSuccessfulHttpResponseError
          (sk_filter_success S response)) (\<lambda>response.
      and_then (map_err HttpClientError_from_JsonResponseConversionError (sk_json_response S response)) (\<lambda>response.
      map_err HttpClientError_from_ConsistentResponseIdFilterError (sk_id_filter S req response))))))))"

text \<open>The whole client: the policy and the number of nodes are read when it is built.\<close>

definition http_client_call ::
  "nat \<Rightarrow> ('body, 'ic, 'raw, 'resp) stack_ops \<Rightarrow> ('body, 'id, 'resp) client_env \<Rightarrow> MetricRpcMethod \<Rightarrow> bool
     \<Rightarrow> 'body http_request \<Rightarrow> ('m, 'lf) canister \<Rightarrow> (('resp RpcResult \<times> ('m, 'lf) canister) trapping) option" where
  "http_client_call fuel S E rpc_method retry request st =
     http_client fuel E rpc_method retry (attempt S st) 0 request st"

text \<open>
  What \<open>canhttp\<close> documents of its layers: a conversion reports errors as text; the accounting layer attaches the
  cost of a request and fails exactly when the cycles still available to the attempt do not cover the charge; a
  status from 200 to 299 is successful; the JSON layer keeps the status and reports the body and the error of
  the parser; the id filter passes a response on or reports its status.
\<close>

record ('body, 'ic, 'resp) stack_laws =
  sl_cost :: "u32 \<Rightarrow> 'ic \<Rightarrow> u128"
  sl_available :: "nat \<Rightarrow> u128"  \<comment> \<open>before the \<open>i\<close>-th attempt\<close>
  sl_parse :: "bytes \<Rightarrow> string + 'resp"
  sl_lossy :: "bytes \<Rightarrow> string"
  sl_ids_match :: "'body \<Rightarrow> 'resp \<Rightarrow> bool"

definition is_success :: "u16 \<Rightarrow> bool" where
  "is_success status \<longleftrightarrow> 200 \<le> status \<and> status < 300"

definition stack_spec ::
  "('body, 'ic, 'raw, 'resp) stack_ops \<Rightarrow> ('body, 'ic, 'resp) stack_laws \<Rightarrow> bool" where
  "stack_spec S L \<longleftrightarrow>
     (\<forall>i n policy ic. let charge = policy ic (sl_cost L n ic) in
        (\<forall>ic'. sk_accounting S i n policy ic = Ok ic' \<longrightarrow> charge \<le> sl_available L i)
        \<and> (\<forall>e r. sk_accounting S i n policy ic = Err (e, r) \<longrightarrow>
              e = charge \<and> r = sl_available L i \<and> r < e))
     \<and> (\<forall>status body. sk_filter_success S (status, body) =
          (if is_success status then Ok (status, body) else Err (status, body)))
     \<and> (\<forall>status body. sk_json_response S (status, body) =
          (case sl_parse L body of Inl e \<Rightarrow> Err (status, sl_lossy L body, e) | Inr resp \<Rightarrow> Ok (status, resp)))
     \<and> (\<forall>req status resp. sl_ids_match L (hr_body req) resp \<longrightarrow>
          sk_id_filter S req (status, resp) = Ok (status, resp))
     \<and> (\<forall>req status resp. \<not> sl_ids_match L (hr_body req) resp \<longrightarrow>
          (\<exists>e. sk_id_filter S req (status, resp) = Err (status, e)))"

subsection \<open>What an attempt returns\<close>

text \<open>What the user is charged for a request of some cost.\<close>

definition charge_for ::
  "('body, 'ic, 'resp) stack_laws \<Rightarrow> ('m, 'lf) canister \<Rightarrow> 'ic \<Rightarrow> u128" where
  "charge_for L st ic =
     cycles_to_charge (default_ChargingPolicyWithCollateral st) (sl_cost L (get_num_subnet_nodes st) ic)"

text \<open>What is converted and paid for, as one request of the management canister.\<close>

definition converted :: "('body, 'ic, 'raw, 'resp) stack_ops \<Rightarrow> 'body http_request \<Rightarrow> string + 'ic" where
  "converted S = service_request_builder (sk_insert_header S) (sk_json_request S) (sk_http_request S)"

definition accounted ::
  "('body, 'ic, 'raw, 'resp) stack_ops \<Rightarrow> ('m, 'lf) canister \<Rightarrow> nat \<Rightarrow> 'ic \<Rightarrow> u128 \<times> u128 + 'ic" where
  "accounted S st i ic = sk_accounting S i (get_num_subnet_nodes st)
     (\<lambda>_ attached. cycles_to_charge (default_ChargingPolicyWithCollateral st) attached) ic"

definition response_layers :: "('body, 'ic, 'raw, 'resp) stack_ops \<Rightarrow> 'body http_request \<Rightarrow> u16 \<times> bytes
     \<Rightarrow> HttpClientError + u16 \<times> 'resp" where
  "response_layers S req response =
     and_then (map_err HttpClientError_from_FilterNonSuccessfulHttpResponseError (sk_filter_success S response))
       (\<lambda>response. and_then (map_err HttpClientError_from_JsonResponseConversionError (sk_json_response S response))
       (\<lambda>response. map_err HttpClientError_from_ConsistentResponseIdFilterError (sk_id_filter S req response)))"

lemma attempt_eq:
  "attempt S st i req =
     and_then (map_err NotHandledError (converted S req)) (\<lambda>ic.
     and_then (map_err (\<lambda>(expected, received). InsufficientCycles expected received) (accounted S st i ic)) (\<lambda>ic.
     and_then (map_err (\<lambda>(code, message). IcErr code message) (sk_client S i ic)) (\<lambda>raw.
     and_then (map_err NotHandledError (sk_http_response S raw)) (response_layers S req))))"
proof -
  have "service_request_builder (sk_insert_header S) (\<lambda>r. map_err NotHandledError (sk_json_request S r))
      (\<lambda>r. map_err NotHandledError (sk_http_request S r)) req = map_err NotHandledError (converted S req)"
    by (cases "sk_json_request S (sk_insert_header S CONTENT_TYPE_HEADER_LOWERCASE CONTENT_TYPE_VALUE req)")
      (simp_all add: service_request_builder_def converted_def)
  then show ?thesis
    by (simp add: attempt_def accounted_def response_layers_def [abs_def] Let_def HttpClientError_from [abs_def] case_prod_unfold)
qed

lemma paid_exact:
  assumes "stack_spec S L"
  shows "accounted S st i ic = Ok ic' \<Longrightarrow> charge_for L st ic \<le> sl_available L i"
    and "accounted S st i ic = Err (e, r) \<Longrightarrow> e = charge_for L st ic \<and> r = sl_available L i \<and> r < e"
  using assms unfolding stack_spec_def accounted_def charge_for_def Let_def by blast+

lemma demo_charge: "IS_DEMO_ACTIVE st \<Longrightarrow> charge_for L st ic = 0"
  using charge_value [of st "sl_cost L (get_num_subnet_nodes st) ic"] by (simp add: charge_for_def unat_eq_0)

text \<open>
  The cycles due for a request: none in demo mode, else its cost and ten million for every node, up to the
  largest 128-bit number.
\<close>

definition due :: "('body, 'ic, 'resp) stack_laws \<Rightarrow> ('m, 'lf) canister \<Rightarrow> 'ic \<Rightarrow> nat" where
  "due L st ic =
     (if IS_DEMO_ACTIVE st then 0
      else min (unat (sl_cost L (NUM_SUBNET_NODES st) ic) + 10000000 * unat (NUM_SUBNET_NODES st)) (2 ^ 128 - 1))"

lemma unat_charge_for: "unat (charge_for L st ic) = due L st ic"
  unfolding charge_for_def due_def get_num_subnet_nodes_def by (rule charge_value)

lemma charge_for_due: "charge_for L st ic = of_nat (due L st ic)"
  unfolding unat_charge_for [symmetric] by simp


subsection \<open>The attempts of a call\<close>

text \<open>
  The request that the \<open>i\<close>-th attempt sends: with retries, it carries the id that the attempt took. The
  \<open>i\<close>-th attempt is made with the request \<open>r\<close> when every earlier attempt failed and the retry policy turned
  its request and error into the next request.
\<close>

definition sent_request ::
  "('body, 'id, 'resp) client_env \<Rightarrow> ('m, 'lf) canister \<Rightarrow> bool \<Rightarrow> nat \<Rightarrow> 'body http_request
     \<Rightarrow> 'body http_request" where
  "sent_request E st retry i r =
     (if retry
      then r\<lparr>hr_body := env_set_id E (hr_body r) (UNSTABLE_HTTP_REQUEST_COUNTER st + of_nat i)\<rparr>
      else r)"

inductive attempted ::
  "('body, 'ic, 'raw, 'resp) stack_ops \<Rightarrow> ('body, 'id, 'resp) client_env \<Rightarrow> ('m, 'lf) canister \<Rightarrow> bool
     \<Rightarrow> 'body http_request \<Rightarrow> nat \<Rightarrow> 'body http_request \<Rightarrow> bool"
  for S :: "('body, 'ic, 'raw, 'resp) stack_ops" and E :: "('body, 'id, 'resp) client_env"
    and st :: "('m, 'lf) canister" and retry and request where
  first_attempt: "attempted S E st retry request 0 request"
| next_attempt: "attempted S E st retry request i r \<Longrightarrow> retry \<Longrightarrow>
    attempt S st i (sent_request E st retry i r) = Inl e \<Longrightarrow> env_retry_policy E r e = Some r' \<Longrightarrow>
    attempted S E st retry request (Suc i) r'"

text \<open>No attempt follows: it was answered, or it failed and is not repeated.\<close>

definition last_attempt ::
  "('body, 'ic, 'raw, 'resp) stack_ops \<Rightarrow> ('body, 'id, 'resp) client_env \<Rightarrow> ('m, 'lf) canister \<Rightarrow> bool
     \<Rightarrow> nat \<Rightarrow> 'body http_request \<Rightarrow> bool" where
  "last_attempt S E st retry i r \<longleftrightarrow>
     (case attempt S st i (sent_request E st retry i r) of
        Inr answer \<Rightarrow> True
      | Inl e \<Rightarrow> (if retry then env_retry_policy E r e else None) = None)"

fun result_of :: "('body, 'id, 'resp) client_env \<Rightarrow> HttpClientError + u16 \<times> 'resp \<Rightarrow> 'resp RpcResult" where
  "result_of E (Inr (status, resp)) = Ok resp"
| "result_of E (Inl e) = Err (RpcError_from_HttpClientError (env_lossy E) e)"

lemma on_request_counter:
  "on_request uri_host body_id rpc_method req st = Inr (d, st') \<Longrightarrow>
     UNSTABLE_HTTP_REQUEST_COUNTER st' = UNSTABLE_HTTP_REQUEST_COUNTER st"
  by (auto simp: on_request_def add_request_def Let_def split: option.splits)

lemma on_error_counter:
  "UNSTABLE_HTTP_REQUEST_COUNTER (on_error ic d e st) = UNSTABLE_HTTP_REQUEST_COUNTER st"
  by (cases e) (simp_all add: observe_response_def Let_def)

lemma http_client_attempts:
  "http_client fuel E rpc_method retry (attempt S st) i r now = Some (Inr (result, st')) \<Longrightarrow>
     attempted S E st retry request i r \<Longrightarrow>
     (retry \<longrightarrow> UNSTABLE_HTTP_REQUEST_COUNTER now = UNSTABLE_HTTP_REQUEST_COUNTER st + of_nat i) \<Longrightarrow>
     \<exists>j r'. attempted S E st retry request j r' \<and> last_attempt S E st retry j r'
       \<and> result = result_of E (attempt S st j (sent_request E st retry j r'))"
proof (induction fuel arbitrary: i r now)
  case (Suc fuel)
  let ?taken = "if retry then generate_request_id (env_set_id E) now r else (r, now)"
  let ?req = "sent_request E st retry i r"
  obtain st1 where taken: "?taken = (?req, st1)"
    and id: "retry \<longrightarrow> UNSTABLE_HTTP_REQUEST_COUNTER st1 = UNSTABLE_HTTP_REQUEST_COUNTER st + of_nat (Suc i)"
    using Suc.prems(3)
    by (cases retry) (simp_all add: sent_request_def generate_request_id_def next_request_id_def Let_def)
  obtain d st2 where called: "on_request (env_uri_host E) (env_body_id E) rpc_method ?req st1 = Inr (d, st2)"
    using Suc.prems(1) by (auto simp: taken split: sum.splits)
  show ?case
  proof (cases "attempt S st i ?req")
    case (Inr answer)
    then have "result = result_of E (attempt S st i ?req)"
      using Suc.prems(1) by (auto simp: taken called split: prod.splits)
    moreover have "last_attempt S E st retry i r" using Inr by (simp add: last_attempt_def)
    ultimately show ?thesis using Suc.prems(2) by blast
  next
    case (Inl e)
    show ?thesis
    proof (cases "if retry then env_retry_policy E r e else None")
      case None
      then have "result = result_of E (attempt S st i ?req)"
        using Suc.prems(1) by (auto simp: taken called Inl)
      moreover have "last_attempt S E st retry i r" using Inl None by (simp add: last_attempt_def)
      ultimately show ?thesis using Suc.prems(2) by blast
    next
      case (Some r')
      then have policy: "retry" "env_retry_policy E r e = Some r'" by (auto split: if_splits)
      let ?now = "on_error (env_too_large E) d e st2"
      have "http_client fuel E rpc_method retry (attempt S st) (Suc i) r' ?now = Some (Inr (result, st'))"
        using Some Suc.prems(1) by (simp add: taken called Inl Let_def)
      moreover have "attempted S E st retry request (Suc i) r'"
        by (rule attempted.next_attempt [OF Suc.prems(2) policy(1) Inl policy(2)])
      moreover have "retry \<longrightarrow> UNSTABLE_HTTP_REQUEST_COUNTER ?now = UNSTABLE_HTTP_REQUEST_COUNTER st + of_nat (Suc i)"
        using id on_request_counter [OF called] by (simp add: on_error_counter)
      ultimately show ?thesis by (rule Suc.IH)
    qed
  qed
qed simp


subsection \<open>What an attempt returns\<close>

text \<open>
  What becomes of a response, by the first thing that goes wrong: its status is not successful; its body does
  not parse; it has another id.
\<close>

fun response_explained ::
  "('body, 'ic, 'raw, 'resp) stack_ops \<Rightarrow> ('body, 'ic, 'resp) stack_laws \<Rightarrow> (bytes \<Rightarrow> string)
     \<Rightarrow> 'body http_request \<Rightarrow> u16 \<times> bytes \<Rightarrow> 'resp RpcResult \<Rightarrow> bool" where
  "response_explained S L lossy req (status, body) result \<longleftrightarrow>
     (if \<not> is_success status
      then result = Err (RpcError.HttpOutcallError (InvalidHttpJsonRpcResponse status (lossy body) None))
      else (case sl_parse L body of
         Inl e \<Rightarrow>
           result = Err (RpcError.HttpOutcallError (InvalidHttpJsonRpcResponse status (sl_lossy L body) (Some e)))
       | Inr resp \<Rightarrow>
           if sl_ids_match L (hr_body req) resp then result = Ok resp
           else \<exists>e. sk_id_filter S req (status, resp) = Err (status, e)
                  \<and> result = Err (RpcError.ValidationError (ValidationError.Custom e))))"

text \<open>
  The result of the \<open>i\<close>-th attempt, which sends \<open>req\<close>: the request cannot be converted; the cycles available
  do not cover what is due; the system rejects the outcall; the response cannot be converted; or the response
  decides.
\<close>

definition explained ::
  "('body, 'ic, 'raw, 'resp) stack_ops \<Rightarrow> ('body, 'ic, 'resp) stack_laws \<Rightarrow> ('m, 'lf) canister
     \<Rightarrow> (bytes \<Rightarrow> string) \<Rightarrow> nat \<Rightarrow> 'body http_request \<Rightarrow> 'resp RpcResult \<Rightarrow> bool" where
  "explained S L st lossy i req result \<longleftrightarrow>
     (case converted S req of
        Inl e \<Rightarrow> result = Err (RpcError.ValidationError (ValidationError.Custom e))
      | Inr ic \<Rightarrow>
          if unat (sl_available L i) < due L st ic
          then result = Err (RpcError.ProviderError (TooFewCycles (of_nat (due L st ic)) (sl_available L i)))
          else \<exists>paid. accounted S st i ic = Ok paid
            \<and> (case sk_client S i paid of
                 Inl (code, message) \<Rightarrow>
                   result = Err (RpcError.HttpOutcallError
                     (HttpOutcallError.IcError (LegacyRejectionCode_from code) message))
               | Inr raw \<Rightarrow>
                   (case sk_http_response S raw of
                      Inl e \<Rightarrow> result = Err (RpcError.ValidationError (ValidationError.Custom e))
                    | Inr response \<Rightarrow> response_explained S L lossy req response result)))"

lemma response_layers_explained:
  assumes "stack_spec S L"
  shows "response_explained S L (env_lossy E) req (status, body) (result_of E (response_layers S req (status, body)))"
proof -
  note spec = assms [unfolded stack_spec_def]
  have filter: "sk_filter_success S (status, body) = (if is_success status then Ok (status, body) else Err (status, body))"
    and json: "sk_json_response S (status, body) =
        (case sl_parse L body of Inl e \<Rightarrow> Err (status, sl_lossy L body, e) | Inr resp \<Rightarrow> Ok (status, resp))"
    and id_ok: "\<And>resp. sl_ids_match L (hr_body req) resp \<Longrightarrow> sk_id_filter S req (status, resp) = Ok (status, resp)"
    and id_bad: "\<And>resp. \<not> sl_ids_match L (hr_body req) resp \<Longrightarrow> \<exists>e. sk_id_filter S req (status, resp) = Err (status, e)"
    using spec by blast+
  show ?thesis
  proof (cases "sl_parse L body")
    case (Inr resp)
    show ?thesis
    proof (cases "sl_ids_match L (hr_body req) resp")
      case True
      then show ?thesis by (simp add: response_layers_def filter json HttpClientError_from id_ok Inr)
    next
      case False
      with id_bad obtain e where "sk_id_filter S req (status, resp) = Err (status, e)" by blast
      with False show ?thesis by (simp add: response_layers_def filter json HttpClientError_from Inr)
    qed
  qed (simp add: response_layers_def filter json HttpClientError_from)
qed

lemma attempt_explained:
  assumes "stack_spec S L"
  shows "explained S L st (env_lossy E) i req (result_of E (attempt S st i req))"
proof (cases "converted S req")
  case (Inl e)
  then show ?thesis by (simp add: explained_def attempt_eq)
next
  case ic: (Inr ic)
  show ?thesis
  proof (cases "accounted S st i ic")
    case (Inl unpaid)
    then obtain e r where "accounted S st i ic = Err (e, r)" by (cases unpaid) simp
    moreover from paid_exact(2) [OF assms this] have "e = of_nat (due L st ic)" "r = sl_available L i"
      "unat (sl_available L i) < due L st ic"
      by (auto simp: charge_for_due [symmetric] unat_charge_for [symmetric] word_less_nat_alt)
    ultimately show ?thesis using ic by (simp add: explained_def attempt_eq)
  next
    case paid: (Inr paid)
    have enough: "\<not> unat (sl_available L i) < due L st ic"
      using paid_exact(1) [OF assms paid] by (simp add: unat_charge_for [symmetric] word_le_nat_alt)
    note response = response_layers_explained [OF assms, of E req]
    show ?thesis
    proof (cases "sk_client S i paid")
      case (Inl rejected)
      then show ?thesis using ic paid enough by (cases rejected) (simp add: explained_def attempt_eq)
    next
      case raw: (Inr raw)
      show ?thesis
      proof (cases "sk_http_response S raw")
        case (Inl e)
        then show ?thesis using ic paid enough raw by (simp add: explained_def attempt_eq)
      next
        case (Inr answer)
        then show ?thesis
          using ic paid enough raw response
          by (cases answer) (simp add: explained_def attempt_eq del: response_explained.simps)
      qed
    qed
  qed
qed


subsection \<open>Properties\<close>

text \<open>C10. A call never makes up an answer, and its result says what happened. It is the result of the last of its
  attempts, which are numbered from 0: every attempt before failed and was repeated with the request
  of the retry policy, and the last was answered or is not repeated. What the last attempt sent decides:
  a request that cannot be converted is a validation error with the text of the conversion; too few cycles
  is returned exactly when those still available do not cover the cost and the collateral of all nodes (so
  never in demo mode), with both numbers; an IC error exactly when the system rejected the outcall, with
  its code and message; a response that cannot be converted is a validation error with that text; an
  unsuccessful status, a body that does not parse and a foreign id are reported in this order, the last with
  the text of the filter; and only a body with a status from 200 to 299 that parses and carries the id of the
  request is returned as a value.\<close>

theorem http_client_answers_explained:
  assumes "stack_spec S L"
    and "http_client_call fuel S E rpc_method retry request st = Some (Inr (result, st'))"
  shows "\<exists>j r. attempted S E st retry request j r \<and> last_attempt S E st retry j r
    \<and> explained S L st (env_lossy E) j (sent_request E st retry j r) result"
proof -
  obtain j r where "attempted S E st retry request j r" "last_attempt S E st retry j r"
    "result = result_of E (attempt S st j (sent_request E st retry j r))"
    using http_client_attempts [OF assms(2) [unfolded http_client_call_def] attempted.first_attempt] by auto
  then show ?thesis using attempt_explained [OF assms(1)] by blast
qed

text \<open>A stack whose provider answers \<open>[7]\<close> with status 200, and a caller who attached no cycles.\<close>

definition example_stack :: "nat \<Rightarrow> (unit, unit, u16 \<times> bytes, u8) stack_ops" where
  "example_stack available =
     \<lparr>sk_insert_header = (\<lambda>name v r. r),
      sk_json_request = (\<lambda>r. Ok \<lparr>hr_uri = hr_uri r, hr_headers = hr_headers r,
         hr_max_response_bytes = hr_max_response_bytes r, hr_transform_name = hr_transform_name r,
         hr_transform_context = hr_transform_context r, hr_body = []\<rparr>),
      sk_http_request = (\<lambda>_. Ok ()),
      sk_accounting = (\<lambda>i n policy ic. if policy ic 5 \<le> of_nat available then Ok ic
         else Err (policy ic 5, of_nat available)),
      sk_client = (\<lambda>i ic. Ok (200, [7])),
      sk_http_response = (\<lambda>raw. Ok raw),
      sk_filter_success = (\<lambda>(status, body). if is_success status then Ok (status, body) else Err (status, body)),
      sk_json_response = (\<lambda>(status, body). case body of [b] \<Rightarrow> Ok (status, b)
         | _ \<Rightarrow> Err (status, [], ''expected one byte'')),
      sk_id_filter = (\<lambda>req response. Ok response)\<rparr>"

definition example_laws :: "nat \<Rightarrow> (unit, unit, u8) stack_laws" where
  "example_laws available =
     \<lparr>sl_cost = (\<lambda>n ic. 5), sl_available = (\<lambda>i. of_nat available),
      sl_parse = (\<lambda>body. case body of [b] \<Rightarrow> Ok b | _ \<Rightarrow> Err ''expected one byte''),
      sl_lossy = (\<lambda>_. []), sl_ids_match = (\<lambda>_ _. True)\<rparr>"

lemma example_stack_spec: "stack_spec (example_stack available) (example_laws available)"
  by (auto simp: stack_spec_def example_stack_def example_laws_def Let_def not_le split: list.splits)

definition example_http_env :: "(unit, unit, u8) client_env" where
  "example_http_env =
     \<lparr>env_set_id = (\<lambda>b _. b), env_body_id = (\<lambda>_. ()), env_uri_host = (\<lambda>u. Some u),
      env_too_large = (\<lambda>_ _. False), env_lossy = (\<lambda>_. []), env_retry_policy = (\<lambda>_ _. None)\<rparr>"

definition example_call :: "unit http_request" where
  "example_call = \<lparr>hr_uri = ''rpc.ankr.com'', hr_headers = [], hr_max_response_bytes = 1024,
     hr_transform_name = [], hr_transform_context = [], hr_body = ()\<rparr>"

text \<open>A provider whose first answer is too large: the call is repeated once, with a larger bound.\<close>

definition retry_stack :: "(unit, unit, u16 \<times> bytes, u8) stack_ops" where
  "retry_stack = (example_stack 340000005)
     \<lparr>sk_client := (\<lambda>i ic. if i = 0 then Err (RejectCode.SysFatal, ''too large'') else Ok (404, []))\<rparr>"

definition retry_http_env :: "(unit, unit, u8) client_env" where
  "retry_http_env = example_http_env
     \<lparr>env_retry_policy := (\<lambda>req e. if hr_max_response_bytes req = 2048 then None
        else Some (req\<lparr>hr_max_response_bytes := 2048\<rparr>))\<rparr>"

lemma retry_stack_spec: "stack_spec retry_stack (example_laws 340000005)"
  using example_stack_spec [of 340000005] by (simp add: stack_spec_def retry_stack_def)

theorem http_client_answers_explained_witness:
  "\<exists>result st' j r. http_client_call 2 retry_stack retry_http_env (MetricRpcMethod ''eth_call'') True
        example_call (initial_memory ref_timed_ops () :: (ref_usage, unit) canister) = Some (Inr (result, st'))
    \<and> result = Err (RpcError.HttpOutcallError (InvalidHttpJsonRpcResponse 404 [] None))
    \<and> attempted retry_stack retry_http_env (initial_memory ref_timed_ops () :: (ref_usage, unit) canister) True
        example_call j r
    \<and> explained retry_stack (example_laws 340000005) (initial_memory ref_timed_ops () :: (ref_usage, unit) canister)
        (env_lossy retry_http_env) j (sent_request retry_http_env (initial_memory ref_timed_ops ()
           :: (ref_usage, unit) canister) True j r) result"
proof -
  let ?st = "initial_memory ref_timed_ops () :: (ref_usage, unit) canister"
  have two: "(2 :: nat) = Suc (Suc 0)" by simp
  have charged: "unat (cycles_to_charge (default_ChargingPolicyWithCollateral ?st) 5) = 340000005"
    using charge_value [of ?st 5] by (simp add: initial_memory_def evm_constants)
  then have "cycles_to_charge (default_ChargingPolicyWithCollateral ?st) 5 = of_nat 340000005"
    by (intro word_unat_eq_iff [THEN iffD2]) simp
  then have attempts: "attempt retry_stack ?st i req =
      (if i = 0 then Inl (IcErr RejectCode.SysFatal ''too large'') else Inl (UnsuccessfulHttpResponse 404 []))" for i req
    by (simp add: attempt_def Let_def retry_stack_def example_stack_def service_request_builder_def
          HttpClientError_from is_success_def)
  have run: "\<exists>st'. http_client_call 2 retry_stack retry_http_env (MetricRpcMethod ''eth_call'') True example_call ?st
      = Some (Inr (Err (RpcError.HttpOutcallError (InvalidHttpJsonRpcResponse 404 [] None)), st'))"
    unfolding two
    by (simp add: http_client_call_def attempts retry_http_env_def example_http_env_def example_call_def Let_def
          on_request_def generate_request_id_def next_request_id_def)
  then show ?thesis using http_client_answers_explained [OF retry_stack_spec] by blast
qed

end
