(* ===== verification/Call_Logs.thy ===== *)
theory Call_Logs
  imports Canister_Main
begin

section \<open>What is logged\<close>

text \<open>
  The \<open>log!\<close> calls of \<^verbatim>\<open>src/http.rs\<close> around an outcall and the one of \<open>update_api_keys\<close> in \<^verbatim>\<open>src/main.rs\<close>,
  as the entries they add. How the libraries print an id, a body, a status, a code, an error or a principal is
  a parameter; the message is put together from these as the format strings do.
\<close>

type_synonym log_entry = "Priority \<times> string"

record ('id, 'body, 'resp) log_shows =
  sh_id :: "'id \<Rightarrow> string"
  sh_body :: "'body \<Rightarrow> string"
  sh_resp :: "'resp \<Rightarrow> string"
  sh_status :: "u16 \<Rightarrow> string"
  sh_code :: "RejectCode \<Rightarrow> string"
  sh_bytes :: "bytes \<Rightarrow> string"  \<comment> \<open>\<open>String::from_utf8_lossy\<close>\<close>
  sh_error :: "HttpClientError \<Rightarrow> string"

definition request_log ::
  "('id, 'body, 'resp) log_shows \<Rightarrow> 'id MetricData \<Rightarrow> 'body http_request \<Rightarrow> log_entry list" where
  "request_log D req_data req =
     (case md_host req_data of MetricRpcHost host \<Rightarrow>
       [(TraceHttp, ''JSON-RPC request with id `'' @ sh_id D (md_request_id req_data) @ ''` to '' @ host
           @ '': '' @ sh_body D (hr_body req))])"

definition response_log ::
  "('id, 'body, 'resp) log_shows \<Rightarrow> 'id MetricData \<Rightarrow> u16 \<Rightarrow> 'resp \<Rightarrow> log_entry list" where
  "response_log D req_data status response =
     [(TraceHttp, ''Got response for request with id `'' @ sh_id D (md_request_id req_data)
         @ ''`. Response with status '' @ sh_status D status @ '': '' @ sh_resp D response)]"

fun error_log ::
  "('id, 'body, 'resp) log_shows \<Rightarrow> (RejectCode \<Rightarrow> string \<Rightarrow> bool) \<Rightarrow> 'id MetricData \<Rightarrow> HttpClientError
     \<Rightarrow> log_entry list" where
  "error_log D ic_too_large req_data (IcErr c msg) =
     (if is_response_too_large ic_too_large (IcErr c msg) then []
      else [(TraceHttp, ''IC Error for request with id `'' @ sh_id D (md_request_id req_data)
              @ ''` with code `'' @ sh_code D c @ ''` and message `'' @ msg @ ''`'')])"
| "error_log D ic_too_large req_data (UnsuccessfulHttpResponse status b) =
     [(TraceHttp, ''Unsuccessful HTTP response for request with id `'' @ sh_id D (md_request_id req_data)
         @ ''`. Response with status '' @ sh_status D status @ '': '' @ sh_bytes D b)]"
| "error_log D ic_too_large req_data (InvalidJsonResponse status b e) =
     [(TraceHttp, ''Invalid JSON RPC response for request with id `'' @ sh_id D (md_request_id req_data)
         @ ''`: '' @ sh_error D (InvalidJsonResponse status b e))]"
| "error_log D ic_too_large req_data (InvalidJsonResponseId status e) =
     [(TraceHttp, ''Invalid JSON RPC response for request with id `'' @ sh_id D (md_request_id req_data)
         @ ''`: '' @ sh_error D (InvalidJsonResponseId status e))]"
| "error_log D ic_too_large req_data (NotHandledError e) = [(Info, ''BUG: Unexpected error: '' @ e)]"
| "error_log D ic_too_large req_data (InsufficientCycles e r) = []"

text \<open>All that one attempt logs, from its request to its end; a request that traps logs nothing.\<close>

definition attempt_log ::
  "('id, 'body, 'resp) log_shows \<Rightarrow> (string \<Rightarrow> string option) \<Rightarrow> ('body \<Rightarrow> 'id)
     \<Rightarrow> (RejectCode \<Rightarrow> string \<Rightarrow> bool) \<Rightarrow> MetricRpcMethod \<Rightarrow> 'body http_request
     \<Rightarrow> HttpClientError + u16 \<times> 'resp \<Rightarrow> ('m, 'lf) canister \<Rightarrow> log_entry list" where
  "attempt_log D uri_host body_id ic_too_large rpc_method req outcome st =
     (case on_request uri_host body_id rpc_method req st of
        Inl trap \<Rightarrow> []
      | Inr (req_data, _) \<Rightarrow>
          request_log D req_data req
          @ (case outcome of
               Inr (status, response) \<Rightarrow> response_log D req_data status response
             | Inl e \<Rightarrow> error_log D ic_too_large req_data e))"

definition update_api_keys_log ::
  "(Principal \<Rightarrow> string) \<Rightarrow> Principal \<Rightarrow> (ProviderId \<times> string option) list \<Rightarrow> log_entry list" where
  "update_api_keys_log show_principal caller api_keys =
     [(Info, ''['' @ show_principal caller @ ''] Updating API keys for providers: ''
         @ join '', '' (map (\<lambda>(i, _). show_nat (unat i)) api_keys))]"

text \<open>Of the request only the body is logged, of its address only the host.\<close>

lemma request_log_address:
  "request_log D req_data (req\<lparr>hr_uri := u, hr_headers := hs\<rparr>) = request_log D req_data req"
  by (cases "md_host req_data") (simp add: request_log_def)

lemma update_api_keys_log_ids:
  assumes "map fst ups = map fst ups'"
  shows "update_api_keys_log show_principal caller ups = update_api_keys_log show_principal caller ups'"
proof -
  have "map (\<lambda>(i, _). show_nat (unat i)) us = map (\<lambda>i. show_nat (unat i)) (map fst us)"
    for us :: "(ProviderId \<times> string option) list" by (simp add: split_beta)
  with assms show ?thesis by (simp only: update_api_keys_log_def)
qed

end
