(* ===== verification/Canister_Life.thy ===== *)
theory Canister_Life
  imports Canister_System Stable_Storage Call_Logs
begin

section \<open>The life of a canister\<close>

text \<open>
  What holds over a whole life, from the installation through calls, administration and upgrades: the bytes of
  the stable memory always hold a reachable state of theory \<open>Canister_System\<close> (forward simulation), a provider that
  traps for want of a key can always be repaired by one update (liveness), and without an override the values
  of the keys are not observable in the canister's metrics, log entries and debug output (noninterference).
\<close>

subsection \<open>A device that lives\<close>

text \<open>
  A device takes a step when \<open>update_api_keys\<close> succeeds on it, when it is upgraded, or when a running message
  changes the heap cells as a step of the canister does.
\<close>

inductive device_step ::
  "'lf storable_ops \<Rightarrow> 'r region_ops \<Rightarrow> 'lf \<Rightarrow> ('m, 'v, 'rx) canister_env
     \<Rightarrow> ('m, 'r) device \<Rightarrow> ('m, 'r) device \<Rightarrow> bool"
  for S :: "'lf storable_ops" and R :: "'r region_ops" and default_filter :: 'lf
    and W :: "('m, 'v, 'rx) canister_env" where
  device_updated: "stored_update_api_keys S R (cn_is_controller W) caller api_keys d = Inr d' \<Longrightarrow>
    device_step S R default_filter W d d'"
| device_upgraded: "stored_start S R (cn_timed W) (cn_regex W) default_filter args (stable_memory d) = Inr d' \<Longrightarrow>
    device_step S R default_filter W d d'"
| device_called: "stores S R d st \<Longrightarrow> canister_step W st st' \<Longrightarrow> same_settings st st' \<Longrightarrow>
    device_step S R default_filter W d
      (d\<lparr>heap_metrics := UNSTABLE_METRICS st', heap_request_counter := UNSTABLE_HTTP_REQUEST_COUNTER st',
         heap_ok_results := UNSTABLE_RPC_SERVICE_OK_RESULTS_TIMESTAMPS st'\<rparr>)"

lemma device_step_simulated:
  assumes "storable_spec S" "region_spec R fresh" "device_step S R default_filter W d d'" "stores S R d st"
  shows "\<exists>st'. canister_step W st st' \<and> stores S R d' st'"
  using assms(3)
proof cases
  case (device_updated caller api_keys)
  from stored_update_api_keys_refines [OF assms(1,2,4), of "cn_is_controller W" caller api_keys] device_updated
  obtain st' where "update_api_keys (cn_is_controller W) caller api_keys st = Inr st'" "stores S R d' st'"
    by (cases "update_api_keys (cn_is_controller W) caller api_keys st") auto
  then show ?thesis using canister_step.keys_updated by blast
next
  case (device_upgraded args)
  from stored_start_refines [OF assms(1,2,4), of "cn_timed W" "cn_regex W" default_filter args] device_upgraded
  obtain st' where "post_upgrade (cn_regex W) args (reset_unstable (cn_timed W) st) = Inr st'" "stores S R d' st'"
    by auto
  then show ?thesis using canister_step.upgraded by blast
next
  case (device_called st1 st')
  then have "st1 = st" using stores_unique assms(4) by blast
  with device_called(1-4) assms(4) have "stores S R d' st'"
    by (auto simp: stores_def stored_get_api_key_def same_settings_iff fun_eq_iff)
  with device_called \<open>st1 = st\<close> show ?thesis by blast
qed

lemma device_run_simulated:
  assumes "storable_spec S" "region_spec R fresh" "stores S R d0 st0"
  shows "(device_step S R default_filter W)\<^sup>*\<^sup>* d0 d \<Longrightarrow> \<exists>st. (canister_step W)\<^sup>*\<^sup>* st0 st \<and> stores S R d st"
proof (induction rule: rtranclp_induct)
  case base
  then show ?case using assms(3) by blast
next
  case (step d d')
  then obtain st where "(canister_step W)\<^sup>*\<^sup>* st0 st" "stores S R d st" by blast
  with device_step_simulated [OF assms(1,2) step.hyps(2)] show ?case
    by (blast intro: rtranclp.rtrancl_into_rtrancl)
qed

text \<open>C13. Whatever happens to an installed canister, the bytes of its stable memory and its heap cells are those of a
  state that the canister can reach on its record; in particular every key in the stable map decodes to a
  valid key of an authenticated provider, and every upgrade without arguments succeeds on these bytes.\<close>

theorem device_life_simulated:
  assumes "storable_spec S" "region_spec R fresh"
    and "stored_start S R (cn_timed W) (cn_regex W) default_filter args (\<lambda>_. fresh) = Inr d0"
    and "(device_step S R default_filter W)\<^sup>*\<^sup>* d0 d"
  shows "\<exists>st0 st. init (cn_regex W) args (initial_memory (cn_timed W) default_filter) = Inr st0
    \<and> (canister_step W)\<^sup>*\<^sup>* st0 st \<and> stores S R d st
    \<and> (\<forall>i bs. btree_get R (stable_memory d API_KEY_MAP_MEMORY_ID) (u64_to_bytes S i) = Some bs \<longrightarrow>
          key_update_ok (i, Some (string_from_bytes S bs)))
    \<and> (\<exists>d'. stored_start S R (cn_timed W) (cn_regex W) default_filter no_install_args (stable_memory d) = Inr d'
          \<and> stable_memory d' = stable_memory d)"
proof -
  from stored_install_refines [OF assms(1,2), of "cn_timed W" "cn_regex W" default_filter args] assms(3)
  obtain st0 where st0: "init (cn_regex W) args (initial_memory (cn_timed W) default_filter) = Inr st0" "stores S R d0 st0"
    by auto
  from device_run_simulated [OF assms(1,2) st0(2) assms(4)] obtain st where
    st: "(canister_step W)\<^sup>*\<^sup>* st0 st" "stores S R d st" by blast
  have "canister_ok (cn_regex W) st0"
    using st0(1) by (auto simp: init_def intro: post_upgrade_preserves canister_ok_initial)
  then have keys: "keys_ok (API_KEY_MAP st)"
    using canister.reachable [OF st(1)] by (simp add: canister_ok_def)
  have "key_update_ok (i, Some (string_from_bytes S bs))"
    if "btree_get R (stable_memory d API_KEY_MAP_MEMORY_ID) (u64_to_bytes S i) = Some bs" for i bs
  proof -
    have "stored_get_api_key S R d i = Some (ApiKey (string_from_bytes S bs))"
      using that by (simp add: stored_get_api_key_def ApiKey_from_bytes_def)
    then have "API_KEY_MAP st i = Some (ApiKey (string_from_bytes S bs))"
      using st(2) by (simp add: stores_def)
    with keys show ?thesis by (fastforce simp: keys_ok_def)
  qed
  moreover have "\<exists>d'. stored_start S R (cn_timed W) (cn_regex W) default_filter no_install_args (stable_memory d) = Inr d'
      \<and> stable_memory d' = stable_memory d"
    using thread_local_init_reload [OF st(2), of "cn_timed W" default_filter]
    by (auto simp: stored_start_def stored_post_upgrade_def no_install_args_def)
  ultimately show ?thesis using st0(1) st by blast
qed

lemma example_install:
  "\<exists>d0. stored_start ref_storable_ops ref_region_ops (cn_timed example_canister_env) (cn_regex example_canister_env) ()
       no_install_args (\<lambda>_. RefFresh) = Inr d0
     \<and> stores ref_storable_ops ref_region_ops d0 (initial_memory ref_timed_ops ())"
proof -
  let ?W = example_canister_env
  have "cn_timed ?W = ref_timed_ops"
    by (simp add: example_canister_env_def example_candid_env_def example_rpc_env_def)
  moreover have "init (cn_regex ?W) no_install_args (initial_memory ref_timed_ops ()) = Inr (initial_memory ref_timed_ops ())"
    by (simp add: init_def)
  ultimately show ?thesis
    using refines_Inr_works [OF _ ref_storage_works]
      stored_install_refines [OF ref_storable_spec ref_region_spec, of ref_timed_ops "cn_regex ?W" "()" no_install_args]
    by simp
qed

theorem device_life_simulated_witness:
  "\<exists>d0 d st. device_step ref_storable_ops ref_region_ops () example_canister_env d0 d
     \<and> stores ref_storable_ops ref_region_ops d st
     \<and> get_api_key st 6 = Some (ApiKey ''k1'') \<and> key_update_ok (6, Some ''k1'')"
proof -
  let ?S = ref_storable_ops and ?R = ref_region_ops and ?W = example_canister_env
  obtain d0 where d0: "stored_start ?S ?R (cn_timed ?W) (cn_regex ?W) () no_install_args (\<lambda>_. RefFresh) = Inr d0"
    "stores ?S ?R d0 (initial_memory ref_timed_ops ())" using example_install by blast
  obtain st1 where st1: "update_api_keys (cn_is_controller ?W) [7] example_key_update (initial_memory ref_timed_ops ()) = Inr st1"
    "get_api_key st1 6 = Some (ApiKey ''k1'')" using example_key_update_run by blast
  from stored_update_api_keys_refines [OF ref_storable_spec ref_region_spec d0(2), of "cn_is_controller ?W" "[7]"
      example_key_update] st1(1)
  obtain d where d: "stored_update_api_keys ?S ?R (cn_is_controller ?W) [7] example_key_update d0 = Inr d"
    "stores ?S ?R d st1" by (auto dest: rel_sum_Inr)
  have step: "device_step ?S ?R () ?W d0 d" by (rule device_step.device_updated [OF d(1)])
  have key: "stored_get_api_key ?S ?R d 6 = Some (ApiKey ''k1'')"
    using stores_readers(1) [OF d(2), of 6] st1(2) by simp
  then obtain bs where bs: "btree_get ?R (stable_memory d API_KEY_MAP_MEMORY_ID) (u64_to_bytes ?S 6) = Some bs"
    "string_from_bytes ?S bs = ''k1''"
    by (auto simp: stored_get_api_key_def ApiKey_from_bytes_def)
  from device_life_simulated [OF ref_storable_spec ref_region_spec d0(1)
      r_into_rtranclp [of "device_step ?S ?R () ?W", OF step]] bs
  have "key_update_ok (6, Some ''k1'')" by metis
  with step d(2) st1(2) show ?thesis by blast
qed

subsection \<open>A provider without a key can be repaired\<close>

text \<open>In this state no call traps, or fails, for want of a key or because of the override.\<close>

definition all_accessible :: "'rx regex_ops \<Rightarrow> ('m, 'lf) canister \<Rightarrow> bool" where
  "all_accessible rx st \<longleftrightarrow>
     (\<forall>p \<in> set PROVIDERS. \<exists>api.
        ResolvedRpcService_api rx st (ResolvedRpcService.Provider p) (get_override_provider st) = Inr (Ok api))"

lemma all_accessible_iff:
  assumes "canister_ok rx st"
  shows "all_accessible rx st \<longleftrightarrow> get_api_key st 6 \<noteq> None"
proof
  assume key: "get_api_key st 6 \<noteq> None"
  show "all_accessible rx st"
    unfolding all_accessible_def
  proof
    fix p assume p: "p \<in> set PROVIDERS"
    then obtain api where "Provider_api st p = Inr api"
      using Provider_api_traps_iff [OF p, of st] key by (cases "Provider_api st p") auto
    moreover obtain api' where "OverrideProvider_apply rx (get_override_provider st) api = Ok api'"
      using assms OverrideProvider_apply_ok by (fastforce simp: canister_ok_def get_override_provider_def)
    ultimately show "\<exists>api. ResolvedRpcService_api rx st (ResolvedRpcService.Provider p) (get_override_provider st)
        = Inr (Ok api)"
      by (simp add: ResolvedRpcService_api_def)
  qed
next
  assume accessible: "all_accessible rx st"
  obtain p where p: "p \<in> set PROVIDERS" "provider_id p = 6"
    using provider_id_exists [of 6] by auto
  with accessible have "\<not> (\<exists>msg. Provider_api st p = Inl msg)"
    by (force simp: all_accessible_def ResolvedRpcService_api_def)
  with Provider_api_traps_iff [OF p(1)] p(2) show "get_api_key st 6 \<noteq> None" by auto
qed

lemma key_6_ok: "ApiKey_try_from key = Ok k \<Longrightarrow> key_update_ok (6, Some key)"
proof -
  assume "ApiKey_try_from key = Ok k"
  then have key: "ApiKey_try_from key = Ok (ApiKey key)" by (simp add: ApiKey_try_from_iff)
  obtain p where p: "p \<in> set PROVIDERS" "provider_id p = 6"
    using provider_id_exists [of 6] by auto
  with access_of_provider [OF p(1)] have "\<exists>a pub. access p = RpcAccess.Authenticated a pub"
    by (cases "access p") auto
  with p key show ?thesis by (auto simp: key_update_ok_def)
qed

text \<open>C14. From every state a canister can reach, whatever calls are under way, one update by a manager of the keys or
  a controller leads to a state in which every provider of the table can be accessed, with its key or its
  public URL and through the override, and changes no other key; and this remains so in every state
  reached from there in which the key is still stored.\<close>

theorem access_recoverable:
  assumes "init (cn_regex W) args (initial_memory (cn_timed W) log_filter) = Inr st0"
    and "(canister_step W)\<^sup>*\<^sup>* st0 st"
    and "caller \<in> set (MANAGE_API_KEYS st) \<or> cn_is_controller W caller"
    and "ApiKey_try_from key = Ok k"
  shows "\<exists>st'. update_api_keys (cn_is_controller W) caller [(6, Some key)] st = Inr st'
    \<and> canister_step W st st' \<and> all_accessible (cn_regex W) st' \<and> st' = st\<lparr>API_KEY_MAP := (API_KEY_MAP st)(6 \<mapsto> k)\<rparr>
    \<and> (\<forall>later. (canister_step W)\<^sup>*\<^sup>* st' later \<and> get_api_key later 6 \<noteq> None \<longrightarrow> all_accessible (cn_regex W) later)"
proof -
  let ?st' = "insert_api_key st 6 k"
  have ok: "canister_ok (cn_regex W) st"
    using assms(1) canister.reachable [OF assms(2)]
    by (auto simp: init_def intro: post_upgrade_preserves canister_ok_initial)
  have k: "k = ApiKey key" using assms(4) by (simp add: ApiKey_try_from_iff)
  have run: "update_api_keys (cn_is_controller W) caller [(6, Some key)] st = Inr ?st'"
    using assms(3) update_api_keys_loop_ok [of "[(6, Some key)]" st] key_6_ok [OF assms(4)]
    by (auto simp: update_api_keys_def require_api_key_principal_or_controller_def k
         simp del: update_api_keys_loop.simps)
  then have step: "canister_step W st ?st'" by (rule canister_step.keys_updated)
  have later: "all_accessible (cn_regex W) later"
    if "(canister_step W)\<^sup>*\<^sup>* ?st' later" "get_api_key later 6 \<noteq> None" for later
    using canister.reachable [OF that(1) canister_step_preserves [OF step ok]] that(2) all_accessible_iff by blast
  have "all_accessible (cn_regex W) ?st'"
    by (rule later) (simp_all add: insert_api_key_def get_api_key_def)
  with run step later show ?thesis by (auto simp: insert_api_key_def)
qed

theorem access_recoverable_witness:
  "\<exists>st' :: (ref_usage, unit) canister. canister_step example_canister_env (initial_memory ref_timed_ops ()) st'
     \<and> all_accessible (cn_regex example_canister_env) st'
     \<and> \<not> all_accessible (cn_regex example_canister_env) (initial_memory ref_timed_ops () :: (ref_usage, unit) canister)"
proof -
  let ?W = example_canister_env and ?st = "initial_memory ref_timed_ops () :: (ref_usage, unit) canister"
  have timed: "cn_timed ?W = ref_timed_ops"
    by (simp add: example_canister_env_def example_candid_env_def example_rpc_env_def)
  have "init (cn_regex ?W) no_install_args (initial_memory (cn_timed ?W) ()) = Inr ?st"
    by (simp add: init_def timed)
  moreover have "[7] \<in> set (MANAGE_API_KEYS ?st) \<or> cn_is_controller ?W [7]"
    by (simp add: example_canister_env_def)
  moreover have "ApiKey_try_from ''k1'' = Ok (ApiKey ''k1'')"
    by (simp add: ApiKey_try_from_iff VALID_API_KEY_CHARS_def)
  moreover have "\<not> all_accessible (cn_regex ?W) ?st"
    using all_accessible_iff [OF canister_ok_initial] by (simp add: get_api_key_def initial_memory_def)
  ultimately show ?thesis
    using access_recoverable [of ?W no_install_args "()" ?st ?st "[7]" "''k1''" "ApiKey ''k1''"] by blast
qed

subsection \<open>The values of the keys are not observable\<close>

text \<open>Two states that differ at most in the values of the keys that are stored.\<close>

definition same_but_key_values :: "('m, 'lf) canister \<Rightarrow> ('m, 'lf) canister \<Rightarrow> bool" where
  "same_but_key_values st st' \<longleftrightarrow>
     st' = st\<lparr>API_KEY_MAP := API_KEY_MAP st'\<rparr> \<and> dom (API_KEY_MAP st') = dom (API_KEY_MAP st)"

lemma same_but_key_values_iff:
  "same_but_key_values st st' \<longleftrightarrow>
     UNSTABLE_METRICS st' = UNSTABLE_METRICS st
     \<and> UNSTABLE_HTTP_REQUEST_COUNTER st' = UNSTABLE_HTTP_REQUEST_COUNTER st
     \<and> UNSTABLE_RPC_SERVICE_OK_RESULTS_TIMESTAMPS st' = UNSTABLE_RPC_SERVICE_OK_RESULTS_TIMESTAMPS st
     \<and> IS_DEMO_ACTIVE st' = IS_DEMO_ACTIVE st \<and> dom (API_KEY_MAP st') = dom (API_KEY_MAP st)
     \<and> MANAGE_API_KEYS st' = MANAGE_API_KEYS st \<and> LOG_FILTER st' = LOG_FILTER st
     \<and> OVERRIDE_PROVIDER st' = OVERRIDE_PROVIDER st \<and> NUM_SUBNET_NODES st' = NUM_SUBNET_NODES st"
  by (cases st; cases st') (auto simp: same_but_key_values_def)

lemma same_but_key_values_callbacks:
  assumes "same_but_key_values st st'"
  shows "same_but_key_values (add_request k st) (add_request k st')"
    and "same_but_key_values (on_response data status st) (on_response data status st')"
    and "same_but_key_values (on_error ic_too_large data e st) (on_error ic_too_large data e st')"
proof -
  have observe: "same_but_key_values (observe_response m h n st) (observe_response m h n st')" for m h n
    using assms by (simp add: same_but_key_values_iff observe_response_def Let_def)
  show "same_but_key_values (add_request k st) (add_request k st')"
    using assms by (simp add: same_but_key_values_iff add_request_def)
  show "same_but_key_values (on_response data status st) (on_response data status st')"
    by (simp add: on_response_def observe)
  show "same_but_key_values (on_error ic_too_large data e st) (on_error ic_too_large data e st')"
  proof (cases e)
    case (IcErr code msg)
    then show ?thesis using assms by (simp add: same_but_key_values_iff)
  qed (simp_all add: observe assms)
qed

lemma same_but_key_values_queries:
  assumes "same_but_key_values st st'"
  shows "endpoint_getMetrics st' = endpoint_getMetrics st"
    and "http_request_query L X replicated ''/metrics'' param st'
      = http_request_query L X replicated ''/metrics'' param st"
  using assms by (simp_all add: same_but_key_values_iff endpoint_getMetrics_def http_request_query_def)

lemma same_but_key_values_debug:
  assumes "same_but_key_values st st'"
  shows "map_option debug_ApiKey (get_api_key st' i) = map_option debug_ApiKey (get_api_key st i)"
proof -
  have "i \<in> dom (API_KEY_MAP st') \<longleftrightarrow> i \<in> dom (API_KEY_MAP st)"
    using assms by (simp add: same_but_key_values_iff)
  then show ?thesis
    by (cases "API_KEY_MAP st i"; cases "API_KEY_MAP st' i") (auto simp: get_api_key_def debug_ApiKey_def)
qed

text \<open>
  What is assumed of \<open>Uri::host\<close> and of the \<open>url\<close> crate: once the authority of a URL is closed by a slash, characters of an API key that
  follow do not change the host.
\<close>

definition host_by_authority :: "(string \<Rightarrow> string option) \<Rightarrow> bool" where
  "host_by_authority uri_host \<longleftrightarrow>
     (\<forall>pre k k'. starts_with pre ''https://'' \<and> CHR ''/'' \<in> set (drop 8 pre)
        \<and> set k \<subseteq> set VALID_API_KEY_CHARS \<and> set k' \<subseteq> set VALID_API_KEY_CHARS \<longrightarrow>
        uri_host (pre @ k) = uri_host (pre @ k'))"

lemma patterns_close_authority [catalogue]:
  "list_all (\<lambda>p. case access p of
        RpcAccess.Authenticated (RpcAuth.UrlParameter u) pub \<Rightarrow>
          starts_with (take (length u - 9) u) ''https://'' \<and> CHR ''/'' \<in> set (drop 8 (take (length u - 9) u))
      | _ \<Rightarrow> True) PROVIDERS"
  by (simp add: PROVIDERS_table)

lemma keys_ok_chars: "keys_ok m \<Longrightarrow> m i = Some k \<Longrightarrow> set (read k) \<subseteq> set VALID_API_KEY_CHARS"
  by (fastforce simp: keys_ok_def key_update_ok_def ApiKey_try_from_iff)

lemma Provider_api_same_host:
  assumes "host_by_authority uri_host" "p \<in> set PROVIDERS" "same_but_key_values st st'"
    and "keys_ok (API_KEY_MAP st)" "keys_ok (API_KEY_MAP st')" "Provider_api st p = Inr api"
  shows "\<exists>api'. Provider_api st' p = Inr api' \<and> uri_host (url api') = uri_host (url api)"
proof (cases "access p")
  case (Unauthenticated public_url)
  with assms(6) show ?thesis by (simp add: Provider_api_def)
next
  case (Authenticated auth pub)
  show ?thesis
  proof (cases "API_KEY_MAP st (provider_id p)")
    case None
    then have "API_KEY_MAP st' (provider_id p) = None"
      using assms(3) unfolding same_but_key_values_def by blast
    with None assms(6) Authenticated show ?thesis by (auto simp: Provider_api_def get_api_key_def)
  next
    case (Some k)
    then obtain k' where k': "API_KEY_MAP st' (provider_id p) = Some k'"
      using assms(3) unfolding same_but_key_values_def by blast
    show ?thesis
    proof (cases auth)
      case (BearerToken u)
      with Some k' assms(6) Authenticated show ?thesis by (auto simp: Provider_api_def get_api_key_def)
    next
      case (UrlParameter u)
      let ?pre = "take (length u - 9) u"
      from url_parameter_filled [OF assms(2)] Authenticated UrlParameter have filled:
        "str_replace u API_KEY_REPLACE_STRING key = ?pre @ key" for key
        by (fastforce simp: evm_constants)
      from patterns_close_authority assms(2) Authenticated UrlParameter
      have "starts_with ?pre ''https://''" "CHR ''/'' \<in> set (drop 8 ?pre)"
        by (auto simp: list_all_iff)
      with assms(1) keys_ok_chars [OF assms(4) Some] keys_ok_chars [OF assms(5) k']
      have "uri_host (?pre @ read k') = uri_host (?pre @ read k)"
        unfolding host_by_authority_def by blast
      with Some k' assms(6) Authenticated UrlParameter show ?thesis
        by (auto simp: Provider_api_def get_api_key_def filled)
    qed
  qed
qed

text \<open>C3. As long as no override is set, a call to a provider of the table behaves the same whatever the values
  of the stored keys, given the same answer of the provider: it is built and recorded for the same host,
  and after the request, after its response and after an error the two canisters still differ in nothing
  but these values, so that the metrics and \<open>/metrics\<close> are the same; the entries it logs, from the request to
  its end, are the same, and so is what is printed of the keys and of the provider's address for debugging.
  An update of the keys logs its caller and the ids, whatever the keys.\<close>

theorem keys_never_observed:
  assumes "same_but_key_values st st'" "keys_ok (API_KEY_MAP st)" "keys_ok (API_KEY_MAP st')"
    and "host_by_authority uri_host" "host_by_authority url_host" "p \<in> set PROVIDERS"
    and "override_url (get_override_provider st) = None"
    and "ResolvedRpcService_post rx st (ResolvedRpcService.Provider p) (get_override_provider st) = Inr (Ok b)"
    and "on_request uri_host body_id rpc_method (req\<lparr>hr_uri := rb_uri b, hr_headers := rb_headers b\<rparr>) st
      = Inr (data, s)"
    and "map fst api_keys' = map fst api_keys"
  shows "\<exists>b' s'. ResolvedRpcService_post rx st' (ResolvedRpcService.Provider p) (get_override_provider st') = Inr (Ok b')
    \<and> on_request uri_host body_id rpc_method (req\<lparr>hr_uri := rb_uri b', hr_headers := rb_headers b'\<rparr>) st'
        = Inr (data, s')
    \<and> same_but_key_values s s'
    \<and> same_but_key_values (on_response data status s) (on_response data status s')
    \<and> same_but_key_values (on_error ic_too_large data e s) (on_error ic_too_large data e s')
    \<and> endpoint_getMetrics (on_error ic_too_large data e s') = endpoint_getMetrics (on_error ic_too_large data e s)
    \<and> http_request_query L X replicated ''/metrics'' param (on_response data status s')
        = http_request_query L X replicated ''/metrics'' param (on_response data status s)
    \<and> attempt_log D uri_host body_id ic_too_large rpc_method
          (req\<lparr>hr_uri := rb_uri b', hr_headers := rb_headers b'\<rparr>) outcome st'
        = attempt_log D uri_host body_id ic_too_large rpc_method
            (req\<lparr>hr_uri := rb_uri b, hr_headers := rb_headers b\<rparr>) outcome st
    \<and> map_ok (debug_RpcApi url_host) (Provider_api st' p) = map_ok (debug_RpcApi url_host) (Provider_api st p)
    \<and> map_option debug_ApiKey (get_api_key st' i) = map_option debug_ApiKey (get_api_key st i)
    \<and> update_api_keys_log show_principal caller api_keys' = update_api_keys_log show_principal caller api_keys"
proof -
  have override: "get_override_provider st' = get_override_provider st"
    using assms(1) by (simp add: same_but_key_values_iff get_override_provider_def)
  from assms(7,8) obtain api where api: "Provider_api st p = Inr api" "rb_uri b = url api"
    by (auto simp: ResolvedRpcService_post_eq OverrideProvider_apply_def map_ok_eq_Inr)
  from Provider_api_same_host [OF assms(4,6,1-3) api(1)] obtain api' where
    api': "Provider_api st' p = Inr api'" "uri_host (url api') = uri_host (url api)" by blast
  let ?b' = "\<lparr>rb_uri = url api', rb_headers = map (\<lambda>h. (hdr_name h, hdr_value h)) (unwrap_or [] (headers api'))\<rparr>"
  have post: "ResolvedRpcService_post rx st' (ResolvedRpcService.Provider p) (get_override_provider st') = Inr (Ok ?b')"
    using api'(1) assms(7) by (simp add: override ResolvedRpcService_post_eq OverrideProvider_apply_def)
  from assms(9) api(2) obtain host where host: "uri_host (url api) = Some host"
    and data: "data = \<lparr>md_method = rpc_method, md_host = MetricRpcHost host, md_request_id = body_id (hr_body req)\<rparr>"
    and s: "s = add_request (rpc_method, MetricRpcHost host) st"
    by (auto simp: on_request_def Let_def split: option.splits)
  let ?s' = "add_request (rpc_method, MetricRpcHost host) st'"
  have sent: "on_request uri_host body_id rpc_method (req\<lparr>hr_uri := rb_uri ?b', hr_headers := rb_headers ?b'\<rparr>) st'
      = Inr (data, ?s')"
    using host api'(2) by (simp add: on_request_def data Let_def)
  have printed: "map_ok (debug_RpcApi url_host) (Provider_api st' p) = map_ok (debug_RpcApi url_host) (Provider_api st p)"
    using Provider_api_same_host [OF assms(5,6,1-3) api(1)] api(1)
    by (auto simp: debug_RpcApi_def RpcApi_host_str_def)
  have keys: "map_option debug_ApiKey (get_api_key st' i) = map_option debug_ApiKey (get_api_key st i)"
    using assms(1) by (rule same_but_key_values_debug)
  have logged: "attempt_log D uri_host body_id ic_too_large rpc_method
        (req\<lparr>hr_uri := rb_uri ?b', hr_headers := rb_headers ?b'\<rparr>) outcome st'
      = attempt_log D uri_host body_id ic_too_large rpc_method
          (req\<lparr>hr_uri := rb_uri b, hr_headers := rb_headers b\<rparr>) outcome st"
    unfolding attempt_log_def assms(9) sent sum.case prod.case request_log_address ..
  have updated: "update_api_keys_log show_principal caller api_keys' = update_api_keys_log show_principal caller api_keys"
    using assms(10) by (rule update_api_keys_log_ids)
  note same = same_but_key_values_callbacks(1) [OF assms(1), of "(rpc_method, MetricRpcHost host)", folded s]
  note later = same_but_key_values_callbacks(2,3) [OF same]
  from post sent same printed keys logged updated later same_but_key_values_queries [OF later(1)] same_but_key_values_queries [OF later(2)]
  show ?thesis by blast
qed

definition ref_uri_host :: "string \<Rightarrow> string option" where
  "ref_uri_host u =
     (if starts_with u ''https://'' then Some (takeWhile (\<lambda>c. c \<noteq> CHR ''/'') (drop 8 u)) else None)"

lemma ref_host_by_authority: "host_by_authority ref_uri_host"
proof -
  have host: "ref_uri_host (pre @ k) = Some (takeWhile (\<lambda>c. c \<noteq> CHR ''/'') (drop 8 pre))"
    if "starts_with pre ''https://''" "CHR ''/'' \<in> set (drop 8 pre)" for pre k
  proof -
    from that(1) obtain rest where "pre = ''https://'' @ rest" by (auto simp: starts_with_iff prefix_def)
    with that(2) show ?thesis by (simp add: ref_uri_host_def takeWhile_append1)
  qed
  show ?thesis by (simp add: host_by_authority_def host)
qed

text \<open>Two canisters with different keys for Ankr, whose URL contains the key.\<close>

definition ankr_mainnet :: Provider where
  "ankr_mainnet =
     \<lparr>provider_id = 1, chain_id = ETH_MAINNET_CHAIN_ID,
      access = RpcAccess.Authenticated
           (RpcAuth.UrlParameter ''https://rpc.ankr.com/eth/{API_KEY}'')
           (Some ''https://rpc.ankr.com/eth''),
      provider_alias = Some (SupportedRpcService.EthMainnet EthMainnetService.Ankr)\<rparr>"

definition with_ankr_key :: "string \<Rightarrow> (ref_usage, unit) canister" where
  "with_ankr_key key = insert_api_key (initial_memory ref_timed_ops ()) 1 (ApiKey key)"

lemma with_ankr_key_ok:
  assumes "ApiKey_try_from key = Ok (ApiKey key)"
  shows "keys_ok (API_KEY_MAP (with_ankr_key key))"
proof -
  have "key_update_ok (1, Some key)"
    using ankr_in_table assms by (force simp: key_update_ok_def)
  then show ?thesis
    by (simp add: with_ankr_key_def insert_api_key_def initial_memory_def keys_ok_def)
qed

lemma with_ankr_key_post:
  "ResolvedRpcService_post rx (with_ankr_key key) (ResolvedRpcService.Provider ankr_mainnet)
     (get_override_provider (with_ankr_key key))
   = Inr (Ok \<lparr>rb_uri = ''https://rpc.ankr.com/eth/'' @ key, rb_headers = []\<rparr>)"
  by (simp add: ResolvedRpcService_post_eq OverrideProvider_apply_def get_override_provider_def with_ankr_key_def
        insert_api_key_def initial_memory_def default_OverrideProvider_def ankr_mainnet_def Provider_api_def
        get_api_key_def evm_constants str_replace_def)

definition example_ankr_request :: "unit http_request" where
  "example_ankr_request = \<lparr>hr_uri = [], hr_headers = [], hr_max_response_bytes = 1024,
     hr_transform_name = [], hr_transform_context = [], hr_body = ()\<rparr>"

text \<open>An example display of what is logged.\<close>

definition example_shows :: "(unit, unit, unit) log_shows" where
  "example_shows =
     \<lparr>sh_id = (\<lambda>_. ''0''), sh_body = (\<lambda>_. ''{}''), sh_resp = (\<lambda>_. ''{}''), sh_status = (\<lambda>_. ''200''),
      sh_code = (\<lambda>_. ''1''), sh_bytes = (\<lambda>_. []), sh_error = (\<lambda>_. ''error'')\<rparr>"

theorem keys_never_observed_witness:
  "\<exists>data s s'.
     on_request ref_uri_host (\<lambda>_. ()) (MetricRpcMethod ''eth_call'')
       (example_ankr_request\<lparr>hr_uri := ''https://rpc.ankr.com/eth/secret1'', hr_headers := []\<rparr>) (with_ankr_key ''secret1'')
       = Inr (data, s)
     \<and> on_request ref_uri_host (\<lambda>_. ()) (MetricRpcMethod ''eth_call'')
       (example_ankr_request\<lparr>hr_uri := ''https://rpc.ankr.com/eth/secret2'', hr_headers := []\<rparr>) (with_ankr_key ''secret2'')
       = Inr (data, s')
     \<and> md_host data = MetricRpcHost ''rpc.ankr.com'' \<and> same_but_key_values s s'
     \<and> attempt_log example_shows ref_uri_host (\<lambda>_. ()) (\<lambda>_ _. False) (MetricRpcMethod ''eth_call'')
         (example_ankr_request\<lparr>hr_uri := ''https://rpc.ankr.com/eth/secret2'', hr_headers := []\<rparr>) (Inr (200, ()))
         (with_ankr_key ''secret2'')
       = [(TraceHttp, ''JSON-RPC request with id `0` to rpc.ankr.com: {}''),
          (TraceHttp, ''Got response for request with id `0`. Response with status 200: {}'')]"
proof -
  let ?st = "with_ankr_key ''secret1''" and ?st' = "with_ankr_key ''secret2''"
  have keys: "keys_ok (API_KEY_MAP ?st)" "keys_ok (API_KEY_MAP ?st')"
    by (intro with_ankr_key_ok; simp add: ApiKey_try_from_iff VALID_API_KEY_CHARS_def)+
  have same: "same_but_key_values ?st ?st'"
    by (simp add: same_but_key_values_iff with_ankr_key_def insert_api_key_def)
  have table: "ankr_mainnet \<in> set PROVIDERS" using ankr_in_table by (simp add: ankr_mainnet_def)
  have none: "override_url (get_override_provider ?st) = None"
    by (simp add: get_override_provider_def with_ankr_key_def insert_api_key_def initial_memory_def
          default_OverrideProvider_def)
  let ?data = "\<lparr>md_method = MetricRpcMethod ''eth_call'', md_host = MetricRpcHost ''rpc.ankr.com'', md_request_id = ()\<rparr>"
  have sent: "on_request ref_uri_host (\<lambda>_. ()) (MetricRpcMethod ''eth_call'')
      (example_ankr_request\<lparr>hr_uri := rb_uri \<lparr>rb_uri = ''https://rpc.ankr.com/eth/'' @ ''secret1'', rb_headers = []\<rparr>,
         hr_headers := rb_headers \<lparr>rb_uri = ''https://rpc.ankr.com/eth/'' @ ''secret1'', rb_headers = []\<rparr>\<rparr>) ?st
      = Inr (?data, add_request (MetricRpcMethod ''eth_call'', MetricRpcHost ''rpc.ankr.com'') ?st)"
    by (simp add: on_request_def ref_uri_host_def Let_def)
  have first: "attempt_log example_shows ref_uri_host (\<lambda>_. ()) (\<lambda>_ _. False) (MetricRpcMethod ''eth_call'')
         (example_ankr_request\<lparr>hr_uri := ''https://rpc.ankr.com/eth/secret1'', hr_headers := []\<rparr>) (Inr (200, ())) ?st
       = [(TraceHttp, ''JSON-RPC request with id `0` to rpc.ankr.com: {}''),
          (TraceHttp, ''Got response for request with id `0`. Response with status 200: {}'')]"
    by (simp add: attempt_log_def on_request_def ref_uri_host_def Let_def request_log_def response_log_def
          example_shows_def)
  from keys_never_observed [OF same keys ref_host_by_authority ref_host_by_authority table none with_ankr_key_post sent
      refl, where status = 200 and e = "NotHandledError []" and ic_too_large = "\<lambda>_ _. False" and replicated = False
        and param = "\<lambda>_. None" and L = example_logs and X = example_export and D = example_shows
        and outcome = "Inr (200, ())"]
  obtain s' where "on_request ref_uri_host (\<lambda>_. ()) (MetricRpcMethod ''eth_call'')
      (example_ankr_request\<lparr>hr_uri := ''https://rpc.ankr.com/eth/secret2'', hr_headers := []\<rparr>) ?st' = Inr (?data, s')"
    "same_but_key_values (add_request (MetricRpcMethod ''eth_call'', MetricRpcHost ''rpc.ankr.com'') ?st) s'"
    "attempt_log example_shows ref_uri_host (\<lambda>_. ()) (\<lambda>_ _. False) (MetricRpcMethod ''eth_call'')
         (example_ankr_request\<lparr>hr_uri := ''https://rpc.ankr.com/eth/secret2'', hr_headers := []\<rparr>) (Inr (200, ())) ?st'
       = attempt_log example_shows ref_uri_host (\<lambda>_. ()) (\<lambda>_ _. False) (MetricRpcMethod ''eth_call'')
         (example_ankr_request\<lparr>hr_uri := ''https://rpc.ankr.com/eth/secret1'', hr_headers := []\<rparr>) (Inr (200, ())) ?st"
    by (auto simp: with_ankr_key_post)
  with sent first show ?thesis by auto
qed

end
