(* ===== verification/End_To_End.thy ===== *)
theory End_To_End
  imports Evm_Rpc_Client
begin

section \<open>Every request of the client through the canister\<close>

text \<open>
  The requests of the client library (\<^verbatim>\<open>evm_rpc_client\<close>), sent to the endpoints of theory \<open>Canister_Main\<close> by a
  runtime that reaches them, and their answers in alloy's types: the composition of theories
  \<open>Evm_Rpc_Client\<close>, \<open>Canister_Main\<close>, \<open>Canister_Answers\<close> and \<open>Alloy_Conversion\<close>.
\<close>

subsection \<open>Conversions of whole answers\<close>

lemma multi_map_conv_as_and_then:
  "multi_map_conv eq f m = multi_and_then_conv eq (\<lambda>x. map_ok Ok (f x)) m"
proof -
  have "result_conv f = result_and_then_conv (\<lambda>x. map_ok Ok (f x))"
    by (rule ext, rename_tac r, case_tac r) simp_all
  then show ?thesis by (cases m) simp_all
qed

lemma alloy_number_total:
  assumes "alloy_spec A" "multi_all nat_fits answer"
  shows "\<exists>out. alloy_number A answer = Inr out"
  unfolding alloy_number_def multi_map_conv_as_and_then
  by (intro multi_and_then_conv_all multi_all_mono [OF assms(2)])
    (use U256_from_Nat256_fits [OF assms(1)] in auto)

lemma alloy_receipt_total:
  assumes "alloy_spec A" "multi_all receipt_option_fits answer"
  shows "\<exists>out. alloy_receipt A answer = Inr out"
proof -
  have "\<exists>out. (case r of None \<Rightarrow> Inr (Ok None) | Some r \<Rightarrow> map_ok (map_ok Some) (TransactionReceipt_try_from A r)) = Inr out"
    if "receipt_option_fits r" for r
    using that TransactionReceipt_try_from_never_traps [OF assms(1)]
    by (cases r) (auto simp: receipt_option_fits_def receipt_fits_def intro: map_ok_exists)
  then show ?thesis
    unfolding alloy_receipt_def by (intro multi_and_then_conv_all multi_all_mono [OF assms(2)])
qed


subsection \<open>A relayed call\<close>

text \<open>
  What the sender of a request sees of a run of its endpoint: the converted answer when the run returns, and
  a panic with the name of the endpoint when it traps.
\<close>

definition relays ::
  "('a \<times> 'st) trapping \<Rightarrow> ('a \<Rightarrow> 'b trapping) \<Rightarrow> (RejectCode \<times> string \<Rightarrow> string) \<Rightarrow> string
     \<Rightarrow> ('b \<times> 'st) trapping \<Rightarrow> bool" where
  "relays run into debug name sent \<longleftrightarrow>
     (case run of
        Inl trap \<Rightarrow> \<exists>message. sent
          = Inl (''Client error: failed to call `'' @ name @ ''`: '' @ debug (RejectCode.CanisterError, message))
      | Inr (answer, st') \<Rightarrow> \<exists>out. into answer = Inr out \<and> sent = Inr (out, st'))"

lemma send_relays:
  assumes "serves update_call (cc_runtime (evm_config (rb_client self)))
      (cc_evm_rpc_canister (evm_config (rb_client self))) (endpoint_rpc_method (rq_endpoint (rb_request self))) handler"
    and "\<And>answer st'. handler (rq_rpc_services (rb_request self)) (rq_rpc_config (rb_request self))
        (rq_params (rb_request self)) st = Inr (answer, st') \<Longrightarrow> \<exists>out. into answer = Inr out"
  shows "relays (handler (rq_rpc_services (rb_request self)) (rq_rpc_config (rb_request self))
        (rq_params (rb_request self)) st) into debug (endpoint_rpc_method (rq_endpoint (rb_request self)))
      (send update_call into debug self st)"
proof (cases "handler (rq_rpc_services (rb_request self)) (rq_rpc_config (rb_request self))
        (rq_params (rb_request self)) st")
  case (Inl trap)
  from send_rejected [OF assms(1) Inl, of into debug] show ?thesis by (simp add: relays_def Inl)
next
  case (Inr out)
  obtain answer st' where out: "out = (answer, st')" by (cases out)
  with Inr assms(2) obtain res where "into answer = Inr res" by blast
  with send_served [OF assms(1) Inr [unfolded out], of into debug] show ?thesis by (simp add: relays_def Inr out)
qed

lemma answers_convert:
  assumes "all_answers P run" "\<And>answer. multi_all P answer \<Longrightarrow> \<exists>out. into answer = Inr out"
    and "run = Inr (answer, st')"
  shows "\<exists>out. into answer = Inr out"
  using assms unfolding all_answers_def by blast

lemma request_fields:
  "rb_client (get_block_by_number client tag) = client" "rb_client (fee_history client fees) = client"
  "rb_client (get_logs client filters) = client" "rb_client (get_transaction_count client holder) = client"
  "rb_client (get_transaction_receipt client hash) = client" "rb_client (send_raw_transaction client raw) = client"
  "rq_endpoint (rb_request (get_block_by_number client tag)) = EvmRpcEndpoint.GetBlockByNumber"
  "rq_endpoint (rb_request (fee_history client fees)) = EvmRpcEndpoint.FeeHistory"
  "rq_endpoint (rb_request (get_logs client filters)) = EvmRpcEndpoint.GetLogs"
  "rq_endpoint (rb_request (get_transaction_count client holder)) = EvmRpcEndpoint.GetTransactionCount"
  "rq_endpoint (rb_request (get_transaction_receipt client hash)) = EvmRpcEndpoint.GetTransactionReceipt"
  "rq_endpoint (rb_request (send_raw_transaction client raw)) = EvmRpcEndpoint.SendRawTransaction"
  by (simp_all add: request_defs)

text \<open>One request, whose endpoint answers with payloads that convert.\<close>

lemma request_relayed:
  assumes "serves update_call (cc_runtime (evm_config client)) (cc_evm_rpc_canister (evm_config client)) name handler"
    and "rb_client self = client" "endpoint_rpc_method (rq_endpoint (rb_request self)) = name"
    and "rq_rpc_services (rb_request self) = services" "rq_rpc_config (rb_request self) = config"
    and "rq_params (rb_request self) = params"
    and "all_answers P (handler services config params st)"
    and "\<And>answer. multi_all P answer \<Longrightarrow> \<exists>out. into answer = Inr out"
  shows "relays (handler services config params st) into debug name (send update_call into debug self st)"
  unfolding assms(3) [symmetric] assms(4) [symmetric] assms(5) [symmetric] assms(6) [symmetric]
  by (rule send_relays, rule assms(1) [folded assms(2,3)])
    (rule answers_convert [OF assms(7,8), folded assms(4-6)])

lemma any_answer: "all_answers (\<lambda>_. True) run"
proof -
  have "multi_all (\<lambda>_. True) m" for m :: "'a MultiRpcResult" by (cases m) simp_all
  then show ?thesis by (simp add: all_answers_def)
qed

subsection \<open>Properties\<close>

text \<open>C9. All seven requests of the client, sent by a runtime that reaches the canister, are relayed: when the
  endpoint returns, the sender gets its answer converted to alloy's types and the memory the endpoint left, and no
  conversion panics whatever the providers answered (every number of an answer fits in 256 bits); it panics exactly
  when the endpoint traps, with a message that names the endpoint.\<close>

theorem client_requests_relayed:
  assumes "num_spec (ce_num C)" "alloy_spec A"
    and "serves call1 (cc_runtime (evm_config client)) (cc_evm_rpc_canister (evm_config client)) ''eth_getLogs''
      (\<lambda>source config. endpoint_eth_getLogs C Mlogs nr1 now source config)"
    and "serves call2 (cc_runtime (evm_config client)) (cc_evm_rpc_canister (evm_config client)) ''eth_getBlockByNumber''
      (\<lambda>source config. endpoint_eth_getBlockByNumber C Mblock nr2 now source config)"
    and "serves call3 (cc_runtime (evm_config client)) (cc_evm_rpc_canister (evm_config client))
      ''eth_getTransactionReceipt'' (\<lambda>source config. endpoint_eth_getTransactionReceipt C Mreceipt nr3 now source config)"
    and "serves call4 (cc_runtime (evm_config client)) (cc_evm_rpc_canister (evm_config client))
      ''eth_getTransactionCount'' (\<lambda>source config. endpoint_eth_getTransactionCount C Mcount nr4 now source config)"
    and "serves call5 (cc_runtime (evm_config client)) (cc_evm_rpc_canister (evm_config client)) ''eth_feeHistory''
      (\<lambda>source config. endpoint_eth_feeHistory C Mfee nr5 eq_f64 now source config)"
    and "serves call6 (cc_runtime (evm_config client)) (cc_evm_rpc_canister (evm_config client)) ''eth_sendRawTransaction''
      (\<lambda>source config. endpoint_eth_sendRawTransaction C Msend nr6 now source config)"
    and "serves call7 (cc_runtime (evm_config client)) (cc_evm_rpc_canister (evm_config client)) ''eth_call''
      (\<lambda>source config. endpoint_eth_call C Mcall nr7 now source config)"
  shows "let services = cc_rpc_services (evm_config client); config = cc_rpc_config (evm_config client) in
    relays (endpoint_eth_getLogs C Mlogs nr1 now services (map_option GetLogsRpcConfig_from config) filters st)
        (\<lambda>answer. Inr (alloy_logs A answer)) debug ''eth_getLogs''
        (send call1 (\<lambda>answer. Inr (alloy_logs A answer)) debug (get_logs client filters) st)
    \<and> relays (endpoint_eth_getBlockByNumber C Mblock nr2 now services config tag st)
        (alloy_block A) debug ''eth_getBlockByNumber''
        (send call2 (alloy_block A) debug (get_block_by_number client tag) st)
    \<and> relays (endpoint_eth_getTransactionReceipt C Mreceipt nr3 now services config hash st)
        (alloy_receipt A) debug ''eth_getTransactionReceipt''
        (send call3 (alloy_receipt A) debug (get_transaction_receipt client hash) st)
    \<and> relays (endpoint_eth_getTransactionCount C Mcount nr4 now services config holder st)
        (alloy_number A) debug ''eth_getTransactionCount''
        (send call4 (alloy_number A) debug (get_transaction_count client holder) st)
    \<and> relays (endpoint_eth_feeHistory C Mfee nr5 eq_f64 now services config fees st)
        (\<lambda>answer. Inr (alloy_fee_history A answer)) debug ''eth_feeHistory''
        (send call5 (\<lambda>answer. Inr (alloy_fee_history A answer)) debug (fee_history client fees) st)
    \<and> relays (endpoint_eth_sendRawTransaction C Msend nr6 now services config raw st)
        (\<lambda>answer. Inr (alloy_sent answer)) debug ''eth_sendRawTransaction''
        (send call6 (\<lambda>answer. Inr (alloy_sent answer)) debug (send_raw_transaction client raw) st)
    \<and> (\<exists>r. client_call (\<lambda>a. Inr (Ok a)) show_error client args = Inr r
        \<and> relays (endpoint_eth_call C Mcall nr7 now services config args st)
            (\<lambda>answer. Inr (alloy_call answer)) debug ''eth_call''
            (send call7 (\<lambda>answer. Inr (alloy_call answer)) debug r st))"
proof -
  obtain r where r: "client_call (\<lambda>a. Inr (Ok a)) show_error client args = Inr r" by (simp add: client_call_def)
  then have r_fields: "rb_client r = client" "''eth_call'' = endpoint_rpc_method (rq_endpoint (rb_request r))"
    "rq_rpc_services (rb_request r) = cc_rpc_services (evm_config client)"
    "rq_rpc_config (rb_request r) = cc_rpc_config (evm_config client)" "rq_params (rb_request r) = args"
    by (auto simp: client_call_def request_defs option.map_id)
  note payload = request_defs option.map_id
  show ?thesis
    unfolding Let_def
  proof (intro conjI exI [of _ r], goal_cases)
    case 1
    show ?case by (rule request_relayed [OF assms(3) _ _ _ _ _ any_answer]) (simp_all add: payload)
  next
    case 2
    show ?case
      by (rule request_relayed [OF assms(4) _ _ _ _ _ getBlockByNumber_answers_fit [OF assms(1)]])
        (simp_all add: payload alloy_block_total [OF assms(2)])
  next
    case 3
    show ?case
      by (rule request_relayed [OF assms(5) _ _ _ _ _ getTransactionReceipt_answers_fit [OF assms(1)]])
        (simp_all add: payload alloy_receipt_total [OF assms(2)])
  next
    case 4
    show ?case
      by (rule request_relayed [OF assms(6) _ _ _ _ _ getTransactionCount_answers_fit [OF assms(1)]])
        (simp_all add: payload alloy_number_total [OF assms(2)])
  next
    case 5
    show ?case by (rule request_relayed [OF assms(7) _ _ _ _ _ any_answer]) (simp_all add: payload)
  next
    case 6
    show ?case by (rule request_relayed [OF assms(8) _ _ _ _ _ any_answer]) (simp_all add: payload)
  next
    case 7
    show ?case by (rule r)
  next
    case 8
    show ?case by (rule request_relayed [OF assms(9) _ _ _ _ _ any_answer]) (simp_all add: r_fields)
  qed
qed

text \<open>The block request of the examples is relayed, and the client gets an answer.\<close>

theorem client_requests_relayed_witness:
  "\<exists>out st'. send (example_runtime (\<lambda>source config. endpoint_eth_getBlockByNumber example_candid_env
            (ref_multi block_answer) (\<lambda>m (p :: GetBlockByNumberParams). ()) 9 source config))
          (alloy_block ref_alloy) snd
          (get_block_by_number (ClientBuilder_build (with_rpc_sources (EvmRpcClient_builder () [1]) example_services))
             CandidBlockTag.Latest)
          (initial_memory ref_timed_ops ()) = Inr (out, st')"
proof -
  have num: "num_spec (ce_num example_candid_env)" by (simp add: example_candid_env_def ref_num_spec)
  let ?client = "ClientBuilder_build (with_rpc_sources (EvmRpcClient_builder () [1]) example_services)"
  have config: "cc_rpc_services (evm_config ?client) = example_services" "cc_rpc_config (evm_config ?client) = None"
    by (simp_all add: ClientBuilder_build_def with_rpc_sources_def EvmRpcClient_builder_def ClientBuilder_new_def)
  obtain c st' where run: "endpoint_eth_getBlockByNumber example_candid_env (ref_multi block_answer)
      (\<lambda>m (p :: GetBlockByNumberParams). ()) 9 example_services None CandidBlockTag.Latest
      (initial_memory ref_timed_ops ()) = Inr (Consistent (Ok c), st')"
    using example_endpoint_run by blast
  note relayed = client_requests_relayed [OF num ref_alloy_spec example_runtime_serves example_runtime_serves
      example_runtime_serves example_runtime_serves example_runtime_serves example_runtime_serves example_runtime_serves,
      where client = ?client, unfolded config Let_def, THEN conjunct2, THEN conjunct1]
  have "relays (endpoint_eth_getBlockByNumber example_candid_env (ref_multi block_answer)
      (\<lambda>m (p :: GetBlockByNumberParams). ()) 9 example_services None CandidBlockTag.Latest (initial_memory ref_timed_ops ()))
      (alloy_block ref_alloy) snd ''eth_getBlockByNumber''
      (send (example_runtime (\<lambda>source config. endpoint_eth_getBlockByNumber example_candid_env
            (ref_multi block_answer) (\<lambda>m (p :: GetBlockByNumberParams). ()) 9 source config))
          (alloy_block ref_alloy) snd (get_block_by_number ?client CandidBlockTag.Latest) (initial_memory ref_timed_ops ()))"
    by (rule relayed)
  then show ?thesis unfolding run relays_def by auto
qed

end
