(* ===== verification/Request_Quotes.thy ===== *)
theory Request_Quotes
  imports Canister_Main Http_Stack
begin

section \<open>What a raw request costs and what it is charged\<close>

text \<open>
  \<open>requestCost\<close> and \<open>request\<close> of \<^verbatim>\<open>src/main.rs\<close> on the same stack of layers (\<open>Http_Stack\<close>): the quote is computed
  by \<open>service_request_builder\<close>, the cost estimator and the charging policy, the charge by the accounting
  layer in the middle of the client. Here the two are shown to agree, also with the cycles that came with
  the call.
\<close>

lemma response_layers_error:
  "response_layers S req response \<noteq> Inl (InsufficientCycles e r)"
proof
  assume "response_layers S req response = Inl (InsufficientCycles e r)"
  then show False
    by (auto simp: response_layers_def HttpClientError_from map_err_Inl_iff elim!: and_then_eq_InlE split: prod.splits)
qed

lemma attempt_insufficient:
  "attempt S st i req = Inl (InsufficientCycles e r) \<longleftrightarrow>
     (\<exists>ic. converted S req = Ok ic \<and> accounted S st i ic = Err (e, r))"
proof
  assume "attempt S st i req = Inl (InsufficientCycles e r)"
  then show "\<exists>ic. converted S req = Ok ic \<and> accounted S st i ic = Err (e, r)"
    unfolding attempt_eq
    by (auto simp: map_err_Inl_iff response_layers_error elim!: and_then_eq_InlE split: prod.splits)
qed (auto simp: attempt_eq)

text \<open>A request that is not paid for is not sent: the management canister plays no role.\<close>

lemma attempt_unpaid:
  assumes "converted S req = Ok ic" "accounted S st i ic = Err e"
  shows "attempt (S\<lparr>sk_client := client\<rparr>) st i req = attempt S st i req"
proof -
  have "converted (S\<lparr>sk_client := client\<rparr>) req = converted S req"
    "accounted (S\<lparr>sk_client := client\<rparr>) st i ic = accounted S st i ic"
    by (simp_all add: converted_def accounted_def)
  with assms show ?thesis by (simp add: attempt_eq)
qed

lemma accounted_iff:
  assumes "stack_spec S L"
  shows "accounted S st i ic = Err (e, r) \<longleftrightarrow>
    sl_available L i < charge_for L st ic \<and> e = charge_for L st ic \<and> r = sl_available L i"
proof
  assume "sl_available L i < charge_for L st ic \<and> e = charge_for L st ic \<and> r = sl_available L i"
  then show "accounted S st i ic = Err (e, r)"
    using paid_exact [OF assms, of st i ic] by (cases "accounted S st i ic") (auto simp: not_le [symmetric])
qed (use paid_exact(2) [OF assms] in blast)

lemma too_few_cycles_iff:
  "RpcError_from_HttpClientError lossy err = RpcError.ProviderError (TooFewCycles e r) \<longleftrightarrow>
     err = InsufficientCycles e r"
  by (cases err) auto

lemma resolve_rpc_service_error: "resolve_rpc_service service = Inl e \<Longrightarrow> e \<noteq> TooFewCycles a b"
  by (cases service)
    (auto simp: lookup_provider_for_service_def ok_or_eq_Inl elim!: and_then_eq_InlE)

lemma json_rpc_request_arg_error:
  "json_rpc_request_arg rx build_error parse_request st service payload max_bytes = Inr (Inl e) \<Longrightarrow>
     \<exists>v. e = RpcError.ValidationError v"
  by (auto simp: json_rpc_request_arg_def ResolvedRpcService_post_eq map_ok_eq_Inr map_err_Inl_iff
      elim!: and_then_eq_InlE [OF sym] split: sum.splits)

text \<open>The client returns a whole response, from which a raw request reads the status once more.\<close>

definition with_status ::
  "(nat \<Rightarrow> 'body http_request \<Rightarrow> HttpClientError + u16 \<times> 'json) \<Rightarrow> nat \<Rightarrow> 'body http_request
     \<Rightarrow> HttpClientError + u16 \<times> u16 \<times> 'json" where
  "with_status outcome i req = map_ok (\<lambda>(status, json). (status, status, json)) (outcome i req)"

text \<open>A raw request makes one attempt.\<close>

lemma http_client_once:
  "http_client 1 E rpc_method False outcome i req st =
     Some (map_ok (\<lambda>(data, st2). case outcome i req of
         Inr (status, resp) \<Rightarrow> (Ok resp, on_response data status st2)
       | Inl e \<Rightarrow> (Err (RpcError_from_HttpClientError (env_lossy E) e), on_error (env_too_large E) data e st2))
       (on_request (env_uri_host E) (env_body_id E) rpc_method req st))"
  by (simp add: Let_def split: sum.splits prod.splits)

subsection \<open>A quote is what a call needs\<close>

lemma quoted_request:
  assumes "endpoint_requestCost rx build_error parse_request (converted S) (sl_cost L) service payload max_bytes st
      = Inr (Ok quote)" "\<not> IS_DEMO_ACTIVE st"
  obtains resolved req ic where "resolve_rpc_service service = Ok resolved"
    "json_rpc_request_arg rx build_error parse_request st resolved payload max_bytes = Inr (Ok req)"
    "converted S req = Ok ic" "quote = charge_for L st ic"
proof -
  obtain resolved where resolved: "resolve_rpc_service service = Ok resolved"
    using assms by (cases "resolve_rpc_service service") (auto simp: endpoint_requestCost_def is_demo_active_def)
  with assms obtain arg where arg:
    "json_rpc_request_arg rx build_error parse_request st resolved payload max_bytes = Inr arg"
    by (auto simp: endpoint_requestCost_def is_demo_active_def and_then_eq_Inr)
  with assms resolved obtain req where req:
    "json_rpc_request_arg rx build_error parse_request st resolved payload max_bytes = Inr (Ok req)"
    by (cases arg) (auto simp: endpoint_requestCost_def is_demo_active_def)
  with assms resolved obtain ic where "converted S req = Ok ic" "quote = charge_for L st ic"
    by (auto simp: endpoint_requestCost_def is_demo_active_def and_then_eq_Inr charge_for_def)
  with resolved req show thesis by (rule that)
qed

lemma request_too_few_cycles:
  assumes "endpoint_request rx build_error parse_request E (with_status (attempt S st)) to_string show_body service payload
      max_bytes st = Some (Inr (Err (RpcError.ProviderError (TooFewCycles e r)), st'))"
  obtains resolved req ic where "resolve_rpc_service service = Ok resolved"
    "json_rpc_request_arg rx build_error parse_request st resolved payload max_bytes = Inr (Ok req)"
    "converted S req = Ok ic" "accounted S st 0 ic = Err (e, r)"
proof -
  obtain resolved where resolved: "resolve_rpc_service service = Ok resolved"
    using assms resolve_rpc_service_error
    by (cases "resolve_rpc_service service") (auto simp: endpoint_request_def)
  obtain result where result: "json_rpc_request rx build_error parse_request E (with_status (attempt S st)) resolved payload max_bytes st
      = Some (Inr (Err (RpcError.ProviderError (TooFewCycles e r)), result))"
    using assms
    by (auto simp: endpoint_request_def resolved map_ok_eq_Inr map_err_Inl_iff elim!: and_then_eq_InlE [OF sym])
  then obtain req where req: "json_rpc_request_arg rx build_error parse_request st resolved payload max_bytes = Inr (Ok req)"
    using json_rpc_request_arg_error
    by (fastforce simp: json_rpc_request_def simp del: http_client.simps split: sum.splits)
  with result have "attempt S st 0 req = Inl (InsufficientCycles e r)"
    by (cases "attempt S st 0 req")
      (auto simp: with_status_def json_rpc_request_def http_client_once [unfolded One_nat_def] map_ok_eq_Inr simp del: http_client.simps
        dest: too_few_cycles_iff [THEN iffD1, OF sym])
  then show thesis using that [OF resolved req] by (auto simp: attempt_insufficient)
qed

lemma request_unpaid:
  assumes "stack_spec S L"
    and "endpoint_requestCost rx build_error parse_request (converted S) (sl_cost L) service payload max_bytes st
      = Inr (Ok quote)"
    and "endpoint_request rx build_error parse_request E (with_status (attempt S st)) to_string show_body service payload
      max_bytes st = Some (Inr (result, st'))"
    and "sl_available L 0 < quote"
  shows "result = Err (RpcError.ProviderError (TooFewCycles quote (sl_available L 0)))
      \<and> UNSTABLE_METRICS st' = (UNSTABLE_METRICS st)\<lparr>requests := requests (UNSTABLE_METRICS st')\<rparr>
      \<and> st' = st\<lparr>UNSTABLE_METRICS := UNSTABLE_METRICS st'\<rparr>
      \<and> (\<forall>client. endpoint_request rx build_error parse_request E (with_status (attempt (S\<lparr>sk_client := client\<rparr>) st))
            to_string show_body service payload max_bytes st = Some (Inr (result, st')))"
proof -
  have "\<not> IS_DEMO_ACTIVE st"
    using assms(2,4) by (auto simp: endpoint_requestCost_def is_demo_active_def)
  from quoted_request [OF assms(2) this] obtain resolved req ic where
    req: "resolve_rpc_service service = Ok resolved"
      "json_rpc_request_arg rx build_error parse_request st resolved payload max_bytes = Inr (Ok req)"
    and ic: "converted S req = Ok ic" "quote = charge_for L st ic" .
  have unpaid: "accounted S st 0 ic = Err (quote, sl_available L 0)"
    using assms(4) ic(2) by (simp add: accounted_iff [OF assms(1)])
  have same: "attempt (S\<lparr>sk_client := client\<rparr>) st 0 req = Inl (InsufficientCycles quote (sl_available L 0))" for client
    using attempt_unpaid [OF ic(1) unpaid] attempt_insufficient ic(1) unpaid by metis
  from same [of "sk_client S"] have fails: "attempt S st 0 req = Inl (InsufficientCycles quote (sl_available L 0))" by simp
  obtain data st2 where sent: "on_request (env_uri_host E) (env_body_id E) (MetricRpcMethod ''request'') req st = Inr (data, st2)"
    and result: "result = Err (RpcError.ProviderError (TooFewCycles quote (sl_available L 0)))" "st' = st2"
    using assms(3) req
    by (auto simp: endpoint_request_def json_rpc_request_def http_client_once [unfolded One_nat_def] map_ok_eq_Inr with_status_def fails
        simp del: http_client.simps)
  have "endpoint_request rx build_error parse_request E (with_status (attempt (S\<lparr>sk_client := client\<rparr>) st))
      to_string show_body service payload max_bytes st = Some (Inr (result, st'))" for client
    using req sent result
    by (simp add: endpoint_request_def json_rpc_request_def http_client_once [unfolded One_nat_def] with_status_def same
        del: http_client.simps)
  then have unsent: "\<forall>client. endpoint_request rx build_error parse_request E (with_status (attempt (S\<lparr>sk_client := client\<rparr>) st))
      to_string show_body service payload max_bytes st = Some (Inr (result, st'))" by (rule allI)
  have counted: "UNSTABLE_METRICS st' = (UNSTABLE_METRICS st)\<lparr>requests := requests (UNSTABLE_METRICS st')\<rparr>"
    "st' = st\<lparr>UNSTABLE_METRICS := UNSTABLE_METRICS st'\<rparr>"
    using sent result(2) by (auto simp: on_request_def add_request_def Let_def split: option.splits)
  show ?thesis by (intro conjI result(1) counted unsent)
qed

lemma request_paid:
  assumes "stack_spec S L"
    and "endpoint_requestCost rx build_error parse_request (converted S) (sl_cost L) service payload max_bytes st
      = Inr (Ok quote)"
    and "endpoint_request rx build_error parse_request E (with_status (attempt S st)) to_string show_body service payload
      max_bytes st = Some (Inr (result, st'))"
    and "\<not> sl_available L 0 < quote"
  shows "result \<noteq> Err (RpcError.ProviderError (TooFewCycles e r))"
proof
  assume "result = Err (RpcError.ProviderError (TooFewCycles e r))"
  with assms(3) obtain resolved req ic where
    req: "resolve_rpc_service service = Ok resolved"
      "json_rpc_request_arg rx build_error parse_request st resolved payload max_bytes = Inr (Ok req)"
      "converted S req = Ok ic" "accounted S st 0 ic = Err (e, r)"
    by (auto elim: request_too_few_cycles)
  then have more: "sl_available L 0 < charge_for L st ic" by (simp add: accounted_iff [OF assms(1)])
  then have "\<not> IS_DEMO_ACTIVE st" using demo_charge [of st L ic] by auto
  then have "quote = charge_for L st ic"
    by (rule quoted_request [OF assms(2)]) (use req(1-3) in simp)
  with more assms(4) show False by simp
qed

text \<open>C6. A quote is exact: after \<open>requestCost\<close> answered with a number of cycles, the same raw request in the same
  state is refused for too few cycles exactly when fewer came with it; the refusal then names the quote and what
  came, no outcall is made, whatever the management canister would have answered, and nothing but the count of
  requests changes. A call that brings the quoted cycles is never refused for them.\<close>

theorem quote_exact:
  assumes "stack_spec S L"
    and "endpoint_requestCost rx build_error parse_request (converted S) (sl_cost L) service payload max_bytes st
      = Inr (Ok quote)"
    and "endpoint_request rx build_error parse_request E (with_status (attempt S st)) to_string show_body service payload
      max_bytes st = Some (Inr (result, st'))"
  shows "if sl_available L 0 < quote
    then result = Err (RpcError.ProviderError (TooFewCycles quote (sl_available L 0)))
      \<and> UNSTABLE_METRICS st' = (UNSTABLE_METRICS st)\<lparr>requests := requests (UNSTABLE_METRICS st')\<rparr>
      \<and> st' = st\<lparr>UNSTABLE_METRICS := UNSTABLE_METRICS st'\<rparr>
      \<and> (\<forall>client. endpoint_request rx build_error parse_request E (with_status (attempt (S\<lparr>sk_client := client\<rparr>) st))
            to_string show_body service payload max_bytes st = Some (Inr (result, st')))
    else \<forall>expected received. result \<noteq> Err (RpcError.ProviderError (TooFewCycles expected received))"
proof (cases "sl_available L 0 < quote")
  case True
  show ?thesis unfolding if_P [OF True] by (rule request_unpaid [OF assms True])
next
  case False
  show ?thesis unfolding if_not_P [OF False] by (intro allI request_paid [OF assms False])
qed

text \<open>A caller brings no cycles for a request that costs 5, on a subnet of 34 nodes.\<close>

definition example_raw_env :: "(unit, unit, u16 \<times> u8) client_env" where
  "example_raw_env =
     \<lparr>env_set_id = (\<lambda>b _. b), env_body_id = (\<lambda>_. ()), env_uri_host = Some,
      env_too_large = (\<lambda>_ _. False), env_lossy = (\<lambda>_. []), env_retry_policy = (\<lambda>_ _. None)\<rparr>"

definition example_regex :: "string regex_ops" where
  "example_regex = \<lparr>compile = (\<lambda>s. Inr s), replace_all = (\<lambda>r s t. t)\<rparr>"

theorem quote_exact_witness:
  "\<exists>st'. endpoint_request example_regex (\<lambda>_. None) (\<lambda>_. Ok ()) example_raw_env
      (with_status (attempt (example_stack 0) (initial_memory ref_timed_ops ()))) (\<lambda>_. Ok []) (\<lambda>_. [])
      (RpcService.Custom \<lparr>url = ''u'', headers = None\<rparr>) ''p'' 1000 (initial_memory ref_timed_ops ())
    = Some (Inr (Err (RpcError.ProviderError (TooFewCycles 340000005 0)), st'))"
proof -
  let ?st = "initial_memory ref_timed_ops ()" and ?service = "RpcService.Custom \<lparr>url = ''u'', headers = None\<rparr>"
  have arg: "json_rpc_request_arg example_regex (\<lambda>_. None) (\<lambda>_. Ok ()) ?st
      (ResolvedRpcService.Api \<lparr>url = ''u'', headers = None\<rparr>) ''p'' 1000
    = Inr (Ok \<lparr>hr_uri = ''u'', hr_headers = [], hr_max_response_bytes = 1000,
        hr_transform_name = ''__transform_json_rpc'', hr_transform_context = [], hr_body = ()\<rparr>)"
    by (simp add: json_rpc_request_arg_def ResolvedRpcService_post_eq build_request_def get_override_provider_def
          initial_memory_def default_OverrideProvider_def OverrideProvider_apply_def)
  have nodes: "\<not> IS_DEMO_ACTIVE ?st" "NUM_SUBNET_NODES ?st = 34"
    by (simp_all add: initial_memory_def evm_constants)
  have built: "converted (example_stack 0) req = Ok ()" for req
    by (simp add: converted_def service_request_builder_def example_stack_def)
  have quote: "endpoint_requestCost example_regex (\<lambda>_. None) (\<lambda>_. Ok ()) (converted (example_stack 0))
      (sl_cost (example_laws 0)) ?service ''p'' 1000 ?st = Inr (Ok 340000005)"
    by (simp add: endpoint_requestCost_def arg built nodes example_laws_def is_demo_active_def
          default_ChargingPolicyWithCollateral_def ChargingPolicyWithCollateral_new_def cycles_to_charge_def
          get_num_subnet_nodes_def evm_constants saturating_mul_def saturating_add_def)
  obtain answer where run: "endpoint_request example_regex (\<lambda>_. None) (\<lambda>_. Ok ()) example_raw_env
      (with_status (attempt (example_stack 0) ?st)) (\<lambda>_. Ok []) (\<lambda>_. []) ?service ''p'' 1000 ?st
    = Some (Inr answer)"
    by (simp add: endpoint_request_def json_rpc_request_def arg http_client_once [unfolded One_nat_def] on_request_def
          example_raw_env_def Let_def del: http_client.simps)
  obtain result st' where answer: "answer = (result, st')" by (cases answer)
  from quote_exact [OF example_stack_spec quote run [unfolded answer]] run answer show ?thesis
    by (simp add: example_laws_def)
qed

end
