(* ===== verification/E2e_Canister.thy ===== *)
theory E2e_Canister
  imports Request_Quotes
begin

section \<open>The end-to-end test canister\<close>

text \<open>
  \<^verbatim>\<open>e2e/rust/src/main.rs\<close>: a canister that asks a deployed EVM RPC canister for the cost of a raw request, makes
  the request without and with the quoted cycles, and fetches a block from three providers. It traps when an
  answer is not the expected one. Messages of assertions are shortened.

  The test is modelled for any callee, then run against the endpoints of the model.
\<close>

subsection \<open>The test\<close>

text \<open>
  The system as the test sees it: whether the caller is a controller, the identifier compiled into it, and the
  calls to the other canister, each of which may be rejected (\<open>Inl\<close>), over the state \<open>'w\<close> of the other
  canister. The derived \<open>Debug\<close> and \<open>Display\<close> of \<open>RpcError\<close>, of strings and of \<open>candid::Nat\<close>
  are arguments.
\<close>

type_synonym raw_args = "RpcService \<times> string \<times> u64"

record 'w e2e_env =
  e2_is_controller :: bool
  e2_canister_id :: "string option"
  e2_principal :: "string \<Rightarrow> string + Principal"
  e2_request_cost :: "Principal \<Rightarrow> raw_args \<Rightarrow> 'w \<Rightarrow> (string + u128 RpcResult) \<times> 'w"
  e2_request :: "Principal \<Rightarrow> raw_args \<Rightarrow> u128 \<Rightarrow> 'w \<Rightarrow> (string + string RpcResult) \<times> 'w"
  e2_get_block :: "Principal \<Rightarrow> RpcServices \<times> RpcConfig option \<times> CandidBlockTag \<Rightarrow> u128 \<Rightarrow> 'w
                     \<Rightarrow> (string + CandidBlock MultiRpcResult) \<times> 'w"
  e2_debug_error :: "RpcError \<Rightarrow> string"
  e2_show_error :: "RpcError \<Rightarrow> string"
  e2_debug_string :: "string \<Rightarrow> string"
  e2_show_nat :: "nat \<Rightarrow> string"

text \<open>\<open>call(..).await.unwrap()\<close>.\<close>

definition awaited :: "(string + 'a) \<times> 'w \<Rightarrow> ('a \<Rightarrow> 'w \<Rightarrow> 'b trapping) \<Rightarrow> 'b trapping" where
  "awaited reply k =
     (case reply of
        (Inl rejection, w) \<Rightarrow> Inl (''called `Result::unwrap()` on an `Err` value: '' @ rejection)
      | (Inr answer, w) \<Rightarrow> k answer w)"

definition assert_that :: "bool \<Rightarrow> unit trapping" where
  "assert_that b = (if b then Inr () else Inl ''assertion failed'')"

definition quoted :: "string \<Rightarrow> string" where
  "quoted s = [CHR 0x22] @ s @ [CHR 0x22]"

definition e2e_params :: raw_args where
  "e2e_params =
     (RpcService.EthMainnet EthMainnetService.PublicNode,
      ''{'' @ quoted ''jsonrpc'' @ '':'' @ quoted ''2.0'' @ '','' @ quoted ''method'' @ '':'' @ quoted ''eth_gasPrice''
        @ '','' @ quoted ''params'' @ '':null,'' @ quoted ''id'' @ '':1}'',
      1000)"

text \<open>A string that is shorter than a slice panics.\<close>

definition check_gas_price :: "string \<Rightarrow> unit trapping" where
  "check_gas_price response =
     (if length response < 36 then Inl ''byte index 36 is out of bounds''
      else and_then
        (assert_that (take 36 response =
           ''{'' @ quoted ''jsonrpc'' @ '':'' @ quoted ''2.0'' @ '','' @ quoted ''id'' @ '':1,'' @ quoted ''result''
             @ '':'' @ [CHR 0x22] @ ''0x''))
        (\<lambda>_. assert_that (drop (length response - 2) response = [CHR 0x22] @ ''}'')))"

definition e2e_block_args :: "Nat256 \<Rightarrow> RpcServices \<times> RpcConfig option \<times> CandidBlockTag" where
  "e2e_block_args number =
     (RpcServices.EthMainnet (Some [EthMainnetService.BlockPi, EthMainnetService.Llama, EthMainnetService.PublicNode]),
      Some (default_RpcConfig\<lparr>response_consensus := Some (Threshold None 2)\<rparr>),
      CandidBlockTag.Number number)"

definition E2E_BLOCK_HASH :: string where
  "E2E_BLOCK_HASH = ''0x114755458f57fe1a81e7b03e038ad00f9a675681c8b94cf102c30a84c5545c76''"

definition debug_inconsistent ::
  "'w e2e_env \<Rightarrow> (RpcService \<times> CandidBlock RpcResult) list \<Rightarrow> string" where
  "debug_inconsistent W results =
     join '', '' (map (\<lambda>(service, result).
       debug_RpcService service @ '': '' @
         (case result of
            Inr block \<Rightarrow> ''Ok('' @ e2_show_nat W (nat256 (cblk_number block)) @ '', ...)''
          | Inl err \<Rightarrow> ''Err('' @ e2_show_error W err @ '')'')) results)"

definition check_unpaid :: "'w e2e_env \<Rightarrow> u128 \<Rightarrow> string RpcResult \<Rightarrow> unit trapping" where
  "check_unpaid W cycles result_without_cycles =
     (case result_without_cycles of
        Inr s \<Rightarrow> Inl (''response from `request` without cycles: '' @ e2_debug_string W s)
      | Inl (RpcError.ProviderError (TooFewCycles expected received)) \<Rightarrow> assert_that (expected = cycles)
      | Inl err \<Rightarrow> Inl (''error in `request` without cycles: '' @ e2_debug_error W err))"

definition check_block :: "'w e2e_env \<Rightarrow> hex_ops \<Rightarrow> CandidBlock MultiRpcResult \<Rightarrow> unit trapping" where
  "check_block W H results =
     (case results of
        Consistent (Inr block) \<Rightarrow>
          and_then (map_err (\<lambda>e. ''called `Result::unwrap()` on an `Err` value: '' @ e) (Hex32_from_str H E2E_BLOCK_HASH))
            (\<lambda>expected. assert_that (cblk_hash block = expected))
      | Consistent (Inl err) \<Rightarrow> Inl (''error in `eth_getBlockByNumber`: '' @ e2_debug_error W err)
      | Inconsistent results \<Rightarrow>
          Inl (''inconsistent results in `eth_getBlockByNumber`: '' @ debug_inconsistent W results))"

definition e2e_test :: "'w e2e_env \<Rightarrow> num_ops \<Rightarrow> hex_ops \<Rightarrow> 'w \<Rightarrow> 'w trapping" where
  "e2e_test W N H w =
     and_then (assert_that (e2_is_controller W)) (\<lambda>_.
     and_then (ok_or ''called `Option::unwrap()` on a `None` value'' (e2_canister_id W)) (\<lambda>txt.
     and_then (map_err ((@) ''Error parsing canister ID environment variable: '') (e2_principal W txt)) (\<lambda>canister_id.
     awaited (e2_request_cost W canister_id e2e_params w) (\<lambda>cycles_result w.
     and_then (map_err (\<lambda>e. ''error in `request_cost`: '' @ e2_debug_error W e) cycles_result) (\<lambda>cycles.
     awaited (e2_request W canister_id e2e_params 0 w) (\<lambda>result_without_cycles w.
     and_then (check_unpaid W cycles result_without_cycles) (\<lambda>_.
     awaited (e2_request W canister_id e2e_params cycles w) (\<lambda>result w.
     and_then (map_err (\<lambda>e. ''error in `request` with cycles: '' @ e2_debug_error W e) result) (\<lambda>response.
     and_then (check_gas_price response) (\<lambda>_.
     and_then (Nat256_from_uint N (19709434 :: u32)) (\<lambda>number.
     awaited (e2_get_block W canister_id (e2e_block_args number) 10000000000 w) (\<lambda>results w.
     and_then (check_block W H results) (\<lambda>_. Inr w)))))))))))))"

subsection \<open>The test against the model\<close>

text \<open>
  The endpoints as another canister sees them: a trap is a rejection and leaves the state as it was. The layers of
  the HTTP client depend on the cycles that come with a call; the block is fetched by any function of the
  arguments of \<open>eth_getBlockByNumber\<close>.
\<close>

record ('rx, 'body, 'id, 'ic, 'raw, 'json) deployment =
  dp_regex :: "'rx regex_ops"
  dp_build_error :: "request_builder \<Rightarrow> string option"
  dp_parse_request :: "string \<Rightarrow> string + 'body"
  dp_client :: "('body, 'id, u16 \<times> 'json) client_env"
  dp_stack :: "u128 \<Rightarrow> ('body, 'ic, 'raw, 'json) stack_ops"
  dp_cost :: "u32 \<Rightarrow> 'ic \<Rightarrow> u128"
  dp_to_string :: "'json \<Rightarrow> string + string"
  dp_show_body :: "'json \<Rightarrow> string"

definition raw_quote where
  "raw_quote D args st =
     (case args of (service, payload, max_bytes) \<Rightarrow>
        endpoint_requestCost (dp_regex D) (dp_build_error D) (dp_parse_request D) (converted (dp_stack D 0)) (dp_cost D)
          service payload max_bytes st)"

definition raw_call where
  "raw_call D args cycles st =
     (case args of (service, payload, max_bytes) \<Rightarrow>
        endpoint_request (dp_regex D) (dp_build_error D) (dp_parse_request D) (dp_client D)
          (with_status (attempt (dp_stack D cycles) st)) (dp_to_string D) (dp_show_body D) service payload max_bytes st)"

definition served :: "('a \<times> 'w) trapping \<Rightarrow> 'w \<Rightarrow> (string + 'a) \<times> 'w" where
  "served run w = (case run of Inl trap \<Rightarrow> (Inl trap, w) | Inr (answer, w') \<Rightarrow> (Inr answer, w'))"

definition deployed where
  "deployed D get_block W =
     W\<lparr>e2_request_cost := (\<lambda>_ args st. served (map_ok (\<lambda>quote. (quote, st)) (raw_quote D args st)) st),
       e2_request := (\<lambda>_ args cycles st.
          case raw_call D args cycles st of Some run \<Rightarrow> served run st | None \<Rightarrow> (Inl ''out of fuel'', st)),
       e2_get_block := (\<lambda>_ (source, config, tag) cycles st. served (get_block cycles source config tag st) st)\<rparr>"

lemma raw_call_returns: "\<exists>run. raw_call D args cycles st = Some run"
  by (simp add: raw_call_def endpoint_request_def json_rpc_request_def http_client_once [unfolded One_nat_def]
      del: http_client.simps split: sum.splits prod.splits)

lemma awaited_eq_Inr: "awaited reply k = Inr r \<longleftrightarrow> (\<exists>answer w. reply = (Inr answer, w) \<and> k answer w = Inr r)"
  by (cases reply; cases "fst reply") (auto simp: awaited_def)

lemma served_eq_Inr [simp]: "served run w = (Inr answer, w') \<longleftrightarrow> run = Inr (answer, w')"
  by (cases run) (auto simp: served_def)

lemma assert_that_eq_Inr [simp]: "assert_that b = Inr u \<longleftrightarrow> b"
  by (simp add: assert_that_def)

lemma check_unpaid_passes:
  "check_unpaid W cycles r = Inr u \<longleftrightarrow>
     (\<exists>received. r = Err (RpcError.ProviderError (TooFewCycles cycles received)))"
  by (auto simp: check_unpaid_def split: sum.splits RpcError.splits ProviderError.splits)

lemma check_block_passes:
  "check_block W H results = Inr u \<longleftrightarrow>
     (\<exists>b. results = Consistent (Ok b) \<and> Hex32_from_str H E2E_BLOCK_HASH = Ok (cblk_hash b))"
  by (auto simp: check_block_def and_then_eq_Inr split: MultiRpcResult.splits sum.splits)

text \<open>
  Without cycles the answer is the expected refusal, unless the call is free. The layers of every call satisfy
  their specification, with the cycles that came and the costs of the estimator.
\<close>

definition deployment_ok :: "('rx, 'body, 'id, 'ic, 'raw, 'json) deployment \<Rightarrow> bool" where
  "deployment_ok D \<longleftrightarrow>
     (\<forall>cycles. \<exists>L. stack_spec (dp_stack D cycles) L \<and> sl_available L 0 = cycles \<and> sl_cost L = dp_cost D)"

lemma unpaid_check:
  assumes "deployment_ok D" "raw_quote D args st = Inr (Ok quote)" "raw_call D args 0 st = Some (Inr (refusal, st'))"
  shows "check_unpaid W quote refusal = Inr u \<longleftrightarrow> 0 < quote"
    and "0 < quote \<Longrightarrow> \<not> IS_DEMO_ACTIVE st \<and>
      (\<exists>m. st' = st\<lparr>UNSTABLE_METRICS := (UNSTABLE_METRICS st)\<lparr>requests := m\<rparr>\<rparr>)"
proof -
  obtain service payload max_bytes where args: "args = (service, payload, max_bytes)" by (cases args)
  from assms(1) obtain L where spec: "stack_spec (dp_stack D 0) L" "sl_available L 0 = 0" "sl_cost L = dp_cost D"
    unfolding deployment_ok_def by blast
  note quote = assms(2) [unfolded raw_quote_def args prod.case spec(3) [symmetric]]
  note run = assms(3) [unfolded raw_call_def args prod.case]
  show "check_unpaid W quote refusal = Inr u \<longleftrightarrow> 0 < quote"
    using request_unpaid [OF spec(1) quote run] request_paid [OF spec(1) quote run]
    by (cases "quote = 0") (auto simp: check_unpaid_passes spec(2) word_neq_0_conv)
  assume "0 < quote"
  then have "sl_available L 0 < quote" by (simp add: spec(2))
  from request_unpaid [OF spec(1) quote run this]
  have "st' = st\<lparr>UNSTABLE_METRICS := (UNSTABLE_METRICS st)\<lparr>requests := requests (UNSTABLE_METRICS st')\<rparr>\<rparr>" by metis
  moreover have "\<not> IS_DEMO_ACTIVE st"
    using quote \<open>0 < quote\<close> by (auto simp: endpoint_requestCost_def is_demo_active_def)
  ultimately show "\<not> IS_DEMO_ACTIVE st \<and>
      (\<exists>m. st' = st\<lparr>UNSTABLE_METRICS := (UNSTABLE_METRICS st)\<lparr>requests := m\<rparr>\<rparr>)" by blast
qed

text \<open>C15. Against the modelled canister the test passes exactly when the canister quotes a positive number of
  cycles, which it does not in demo mode, the request with the quoted cycles succeeds with a gas price, and the
  block with the expected hash is agreed on; that a call without cycles is refused with exactly the quoted
  number follows from the canister alone, and that call changes nothing but the count of requests.\<close>

theorem e2e_test_passes_iff:
  assumes "deployment_ok D" "num_spec N"
    and "e2_is_controller W" "e2_canister_id W = Some txt" "e2_principal W txt = Ok canister_id"
  shows "e2e_test (deployed D get_block W) N H st = Inr st3 \<longleftrightarrow>
    (\<exists>quote refusal m response st2 b.
       raw_quote D e2e_params st = Inr (Ok quote) \<and> 0 < quote \<and> \<not> IS_DEMO_ACTIVE st
       \<and> raw_call D e2e_params 0 st
           = Some (Inr (refusal, st\<lparr>UNSTABLE_METRICS := (UNSTABLE_METRICS st)\<lparr>requests := m\<rparr>\<rparr>))
       \<and> raw_call D e2e_params quote (st\<lparr>UNSTABLE_METRICS := (UNSTABLE_METRICS st)\<lparr>requests := m\<rparr>\<rparr>)
           = Some (Inr (Ok response, st2))
       \<and> check_gas_price response = Inr ()
       \<and> (case e2e_block_args (Nat256 19709434) of (source, config, tag) \<Rightarrow>
            get_block 10000000000 source config tag st2 = Inr (Consistent (Ok b), st3))
       \<and> Hex32_from_str H E2E_BLOCK_HASH = Ok (cblk_hash b))"
proof -
  let ?W = "deployed D get_block W"
  obtain source config tag where block: "e2e_block_args (Nat256 19709434) = (source, config, tag)"
    by (cases "e2e_block_args (Nat256 19709434)")
  have number: "Nat256_from_uint N (19709434 :: u32) = Inr (Nat256 19709434)"
    using Nat256_from_uint_value [OF assms(2), of "19709434 :: u32"] by simp
  have calls: "e2_request_cost ?W canister_id e2e_params w = (Inr answer, w') \<longleftrightarrow>
      raw_quote D e2e_params w = Inr answer \<and> w' = w"
    "e2_request ?W canister_id e2e_params cycles w = (Inr reply, w') \<longleftrightarrow>
      raw_call D e2e_params cycles w = Some (Inr (reply, w'))"
    "e2_get_block ?W canister_id (source, config, tag) cycles w = (Inr blocks, w') \<longleftrightarrow>
      get_block cycles source config tag w = Inr (blocks, w')" for w w' cycles answer reply blocks
    using raw_call_returns [of D e2e_params cycles w] by (auto simp: deployed_def map_ok_eq_Inr)
  have env: "e2_is_controller ?W" "e2_canister_id ?W = Some txt" "e2_principal ?W txt = Ok canister_id"
    using assms(3-5) by (simp_all add: deployed_def)
  have passes: "e2e_test ?W N H st = Inr st3 \<longleftrightarrow>
    (\<exists>quote refusal st1 response st2 b.
       raw_quote D e2e_params st = Inr (Ok quote) \<and> raw_call D e2e_params 0 st = Some (Inr (refusal, st1))
       \<and> check_unpaid ?W quote refusal = Inr () \<and> raw_call D e2e_params quote st1 = Some (Inr (Ok response, st2))
       \<and> check_gas_price response = Inr () \<and> get_block 10000000000 source config tag st2 = Inr (Consistent (Ok b), st3)
       \<and> Hex32_from_str H E2E_BLOCK_HASH = Ok (cblk_hash b))"
    unfolding e2e_test_def
    by (simp add: env and_then_eq_Inr awaited_eq_Inr number block calls check_block_passes) blast
  show ?thesis (is "_ \<longleftrightarrow> ?agreed")
  proof
    assume "e2e_test ?W N H st = Inr st3"
    then obtain quote refusal st1 response st2 b where
      run: "raw_quote D e2e_params st = Inr (Ok quote)" "raw_call D e2e_params 0 st = Some (Inr (refusal, st1))"
        "check_unpaid ?W quote refusal = Inr ()" "raw_call D e2e_params quote st1 = Some (Inr (Ok response, st2))"
        "check_gas_price response = Inr ()" "get_block 10000000000 source config tag st2 = Inr (Consistent (Ok b), st3)"
        "Hex32_from_str H E2E_BLOCK_HASH = Ok (cblk_hash b)" unfolding passes by blast
    have "0 < quote" using run(3) unpaid_check(1) [OF assms(1) run(1,2)] by blast
    with unpaid_check(2) [OF assms(1) run(1,2)] obtain m where
      "\<not> IS_DEMO_ACTIVE st" "st1 = st\<lparr>UNSTABLE_METRICS := (UNSTABLE_METRICS st)\<lparr>requests := m\<rparr>\<rparr>" by blast
    with \<open>0 < quote\<close> run show ?agreed unfolding block prod.case by blast
  next
    assume ?agreed
    then show "e2e_test ?W N H st = Inr st3"
      unfolding passes block prod.case using unpaid_check(1) [OF assms(1)] by blast
  qed
qed

text \<open>A deployment whose provider answers every raw request with a gas price and every block with the right hash.\<close>

definition example_deployment :: "(string, unit, unit, unit, u16 \<times> bytes, u8) deployment" where
  "example_deployment =
     \<lparr>dp_regex = example_regex, dp_build_error = (\<lambda>_. None), dp_parse_request = (\<lambda>_. Ok ()),
      dp_client = example_raw_env, dp_stack = (\<lambda>cycles. example_stack (unat cycles)), dp_cost = (\<lambda>_ _. 5),
      dp_to_string = (\<lambda>_. Ok (''{'' @ quoted ''jsonrpc'' @ '':'' @ quoted ''2.0'' @ '','' @ quoted ''id'' @ '':1,''
         @ quoted ''result'' @ '':'' @ quoted ''0x7'' @ ''}'')),
      dp_show_body = (\<lambda>_. [])\<rparr>"

definition example_e2e :: "(ref_usage, unit) canister e2e_env" where
  "example_e2e =
     \<lparr>e2_is_controller = True, e2_canister_id = Some ''aaaaa-aa'', e2_principal = (\<lambda>_. Ok []),
      e2_request_cost = (\<lambda>_ _ w. (Inl [], w)), e2_request = (\<lambda>_ _ _ w. (Inl [], w)),
      e2_get_block = (\<lambda>_ _ _ w. (Inl [], w)), e2_debug_error = (\<lambda>_. []), e2_show_error = (\<lambda>_. []),
      e2_debug_string = (\<lambda>s. s), e2_show_nat = show_nat\<rparr>"

lemma example_deployment_ok: "deployment_ok example_deployment"
  unfolding deployment_ok_def
proof
  fix cycles :: u128
  have "stack_spec (dp_stack example_deployment cycles) (example_laws (unat cycles))
      \<and> sl_available (example_laws (unat cycles)) 0 = cycles \<and> sl_cost (example_laws (unat cycles)) = dp_cost example_deployment"
    using example_stack_spec [of "unat cycles"] by (simp add: example_deployment_def example_laws_def)
  then show "\<exists>L. stack_spec (dp_stack example_deployment cycles) L \<and> sl_available L 0 = cycles
      \<and> sl_cost L = dp_cost example_deployment" by blast
qed

lemma example_attempt:
  assumes "\<not> IS_DEMO_ACTIVE st" "NUM_SUBNET_NODES st = 34"
  shows "attempt (example_stack (unat cycles)) st i req =
    (if 340000005 \<le> cycles then Ok (200, 7) else Err (InsufficientCycles 340000005 cycles))"
proof -
  have built: "converted (example_stack n) req = Ok ()" for n
    by (simp add: converted_def service_request_builder_def example_stack_def)
  show ?thesis
    unfolding attempt_eq built using assms
    by (simp add: accounted_def response_layers_def example_stack_def is_success_def
          default_ChargingPolicyWithCollateral_def ChargingPolicyWithCollateral_new_def cycles_to_charge_def
          is_demo_active_def get_num_subnet_nodes_def evm_constants saturating_mul_def saturating_add_def)
qed

lemma example_service:
  "resolve_rpc_service (RpcService.EthMainnet EthMainnetService.PublicNode) =
     Ok (ResolvedRpcService.Provider
       \<lparr>provider_id = 2, chain_id = ETH_MAINNET_CHAIN_ID,
        access = RpcAccess.Unauthenticated ''https://ethereum-rpc.publicnode.com'',
        provider_alias = Some (SupportedRpcService.EthMainnet EthMainnetService.PublicNode)\<rparr>)"
  by (simp add: map_ok_eq_Inr lookup_provider_for_service_iff PROVIDERS_table)

lemma example_arg:
  assumes "OVERRIDE_PROVIDER st = default_OverrideProvider"
  shows "\<exists>req. hr_uri req = ''https://ethereum-rpc.publicnode.com''
    \<and> json_rpc_request_arg example_regex (\<lambda>_. None) (\<lambda>_. Ok ()) st (ResolvedRpcService.Provider
       \<lparr>provider_id = 2, chain_id = ETH_MAINNET_CHAIN_ID,
        access = RpcAccess.Unauthenticated ''https://ethereum-rpc.publicnode.com'',
        provider_alias = Some (SupportedRpcService.EthMainnet EthMainnetService.PublicNode)\<rparr>) payload max_bytes
      = Inr (Ok (req :: unit http_request))"
  using assms
  by (simp add: json_rpc_request_arg_def ResolvedRpcService_post_eq Provider_api_def build_request_def
        get_override_provider_def default_OverrideProvider_def OverrideProvider_apply_def)

lemma example_raw_call:
  fixes st :: "(ref_usage, unit) canister"
  assumes "\<not> IS_DEMO_ACTIVE st" "NUM_SUBNET_NODES st = 34" "OVERRIDE_PROVIDER st = default_OverrideProvider"
  shows "\<exists>st'. raw_call example_deployment e2e_params cycles st = Some (Inr
      (if 340000005 \<le> cycles then map_err (\<lambda>_. RpcError.ProviderError NoPermission) (dp_to_string example_deployment 7)
       else Err (RpcError.ProviderError (TooFewCycles 340000005 cycles)), st'))"
proof -
  obtain payload where params: "e2e_params = (RpcService.EthMainnet EthMainnetService.PublicNode, payload, 1000)"
    by (simp add: e2e_params_def)
  obtain req :: "unit http_request" where req: "hr_uri req = ''https://ethereum-rpc.publicnode.com''"
    "json_rpc_request_arg example_regex (\<lambda>_. None) (\<lambda>_. Ok ()) st (ResolvedRpcService.Provider
       \<lparr>provider_id = 2, chain_id = ETH_MAINNET_CHAIN_ID,
        access = RpcAccess.Unauthenticated ''https://ethereum-rpc.publicnode.com'',
        provider_alias = Some (SupportedRpcService.EthMainnet EthMainnetService.PublicNode)\<rparr>)
       payload 1000 = Inr (Ok req)"
    using example_arg [OF assms(3)] by blast
  have env: "dp_regex example_deployment = example_regex" "dp_build_error example_deployment = (\<lambda>_. None)"
    "dp_parse_request example_deployment = (\<lambda>_. Ok ())" "dp_client example_deployment = example_raw_env"
    "dp_stack example_deployment cycles = example_stack (unat cycles)"
    by (simp_all add: example_deployment_def)
  show ?thesis
    unfolding raw_call_def params prod.case env endpoint_request_def example_service sum.case json_rpc_request_def
      req(2) http_client_once
    by (simp add: with_status_def example_attempt [OF assms(1,2)] on_request_def example_raw_env_def Let_def
          example_deployment_def)
qed

lemma example_raw_quote:
  assumes "\<not> IS_DEMO_ACTIVE st" "NUM_SUBNET_NODES st = 34" "OVERRIDE_PROVIDER st = default_OverrideProvider"
  shows "raw_quote example_deployment e2e_params st = Inr (Ok 340000005)"
proof -
  obtain payload where params: "e2e_params = (RpcService.EthMainnet EthMainnetService.PublicNode, payload, 1000)"
    by (simp add: e2e_params_def)
  have env: "dp_regex example_deployment = example_regex" "dp_build_error example_deployment = (\<lambda>_. None)"
    "dp_parse_request example_deployment = (\<lambda>_. Ok ())" "dp_stack example_deployment 0 = example_stack 0"
    "dp_cost example_deployment = (\<lambda>_ _. 5)"
    by (simp_all add: example_deployment_def)
  have built: "converted (example_stack 0) req = Ok ()" for req
    by (simp add: converted_def service_request_builder_def example_stack_def)
  obtain req :: "unit http_request" where
    req: "json_rpc_request_arg example_regex (\<lambda>_. None) (\<lambda>_. Ok ()) st (ResolvedRpcService.Provider
       \<lparr>provider_id = 2, chain_id = ETH_MAINNET_CHAIN_ID,
        access = RpcAccess.Unauthenticated ''https://ethereum-rpc.publicnode.com'',
        provider_alias = Some (SupportedRpcService.EthMainnet EthMainnetService.PublicNode)\<rparr>)
       payload 1000 = Inr (Ok req)"
    using example_arg [OF assms(3)] by blast
  show ?thesis
    unfolding raw_quote_def params prod.case env endpoint_requestCost_def example_service sum.case req
    by (simp add: built assms is_demo_active_def default_ChargingPolicyWithCollateral_def
          ChargingPolicyWithCollateral_new_def cycles_to_charge_def get_num_subnet_nodes_def evm_constants
          saturating_mul_def saturating_add_def)
qed

lemma example_hash: "\<exists>h. Hex32_from_str ref_hex_ops E2E_BLOCK_HASH = Ok h"
proof -
  have "case Hex32_from_str ref_hex_ops E2E_BLOCK_HASH of Inl e \<Rightarrow> False | Inr h \<Rightarrow> True" by code_simp
  then show ?thesis by (auto split: sum.splits)
qed

theorem e2e_test_passes_iff_witness:
  "\<exists>(b :: CandidBlock) st3. e2e_test (deployed example_deployment (\<lambda>_ _ _ _ st. Inr (Consistent (Ok b), st)) example_e2e)
     ref_num_ops ref_hex_ops (initial_memory ref_timed_ops ()) = Inr st3"
proof -
  let ?st = "initial_memory ref_timed_ops () :: (ref_usage, unit) canister"
  let ?counted = "\<lambda>m. ?st\<lparr>UNSTABLE_METRICS := (UNSTABLE_METRICS ?st)\<lparr>requests := m\<rparr>\<rparr>"
  have fields: "\<not> IS_DEMO_ACTIVE (?counted m)" "NUM_SUBNET_NODES (?counted m) = 34"
    "OVERRIDE_PROVIDER (?counted m) = default_OverrideProvider" for m
    by (simp_all add: initial_memory_def evm_constants)
  have same: "?counted (requests (UNSTABLE_METRICS ?st)) = ?st" by simp
  have plain: "\<not> IS_DEMO_ACTIVE ?st" "NUM_SUBNET_NODES ?st = 34" "OVERRIDE_PROVIDER ?st = default_OverrideProvider"
    by (simp_all add: initial_memory_def evm_constants)
  obtain h where hash: "Hex32_from_str ref_hex_ops E2E_BLOCK_HASH = Ok h" using example_hash by blast
  obtain b :: CandidBlock where b: "cblk_hash b = h" by (metis CandidBlock.select_convs(7))
  have quote: "raw_quote example_deployment e2e_params ?st = Inr (Ok 340000005)" by (rule example_raw_quote [OF plain])
  obtain st1 where unpaid: "raw_call example_deployment e2e_params 0 ?st = Some (Inr
      (Err (RpcError.ProviderError (TooFewCycles 340000005 0)), st1))"
    using example_raw_call [OF plain, of 0] by auto
  from unpaid_check(2) [OF example_deployment_ok quote unpaid] obtain m where st1: "st1 = ?counted m" by auto
  obtain response st2 where paid: "raw_call example_deployment e2e_params 340000005 (?counted m) = Some (Inr (Ok response, st2))"
    "dp_to_string example_deployment 7 = Ok response"
    using example_raw_call [OF fields, of 340000005 m] by (auto simp: example_deployment_def)
  have "check_gas_price response = Inr ()"
    using paid(2) [symmetric] by (simp add: example_deployment_def check_gas_price_def quoted_def assert_that_def)
  with quote plain(1) unpaid st1 paid(1) hash b show ?thesis
    using e2e_test_passes_iff [OF example_deployment_ok ref_num_spec, of example_e2e "''aaaaa-aa''" "[]"
        "\<lambda>_ _ _ _ st. Inr (Consistent (Ok b), st)" ref_hex_ops ?st st2]
    by (fastforce simp: example_e2e_def e2e_block_args_def)
qed

end
