(* ===== verification/Candid_Wire.thy ===== *)
theory Candid_Wire
  imports Eth_Numbers
begin

section \<open>Values on the wire\<close>

text \<open>
  How the numbers and hex strings of \<^verbatim>\<open>evm_rpc_types/src/lib.rs\<close> travel in Candid messages, and amounts
  (\<^verbatim>\<open>rpc_client/amount\<close>) in JSON: the \<open>CandidType\<close> implementations write a \<open>nat\<close> or a text, and
  \<open>#[serde(try_from = ..)]\<close> reads one and validates it. Whatever a caller sends, a value that arrives satisfies the
  invariant of its type, and it is the value that was sent.
\<close>

subsection \<open>Serialisers\<close>

text \<open>The writer and the reader of \<open>candid\<close> for naturals and texts, and of \<open>ethnum\<close> for 256-bit integers.\<close>

record 'w wire_ops =
  w_nat :: "nat \<Rightarrow> 'w"
  w_text :: "string \<Rightarrow> 'w"
  w_u256 :: "u256 \<Rightarrow> 'w"
  r_nat :: "'w \<Rightarrow> string + nat"
  r_text :: "'w \<Rightarrow> string + string"
  r_u256 :: "'w \<Rightarrow> string + u256"

text \<open>What is written is read back.\<close>

definition wire_spec :: "'w wire_ops \<Rightarrow> bool" where
  "wire_spec C \<longleftrightarrow> (\<forall>n. r_nat C (w_nat C n) = Ok n) \<and> (\<forall>s. r_text C (w_text C s) = Ok s)
     \<and> (\<forall>v. r_u256 C (w_u256 C v) = Ok v)"

definition Nat256_as_ref :: "Nat256 \<Rightarrow> nat" where
  "Nat256_as_ref self = nat256 self"

definition Nat256_idl_serialize :: "'w wire_ops \<Rightarrow> Nat256 \<Rightarrow> 'w" where
  "Nat256_idl_serialize C self = w_nat C (Nat256_as_ref self)"

definition Nat256_deserialize :: "num_ops \<Rightarrow> 'w wire_ops \<Rightarrow> 'w \<Rightarrow> string + Nat256" where
  "Nat256_deserialize N C w = and_then (r_nat C w) (Nat256_try_from N)"

text \<open>\<open>impl_hex_string!\<close>: \<open>idl_serialize\<close> writes \<open>to_string\<close>, \<open>TryFrom<String>\<close> is \<open>parse\<close>.\<close>

definition hex_idl_serialize :: "hex_ops \<Rightarrow> 'w wire_ops \<Rightarrow> ('h \<Rightarrow> bytes) \<Rightarrow> 'h \<Rightarrow> 'w" where
  "hex_idl_serialize H C as_bytes self = w_text C (hex_to_string H (as_bytes self))"

definition hex_deserialize :: "(string \<Rightarrow> string + 'h) \<Rightarrow> 'w wire_ops \<Rightarrow> 'w \<Rightarrow> string + 'h" where
  "hex_deserialize from_str C w = and_then (r_text C w) from_str"

definition Amount_serialize :: "'w wire_ops \<Rightarrow> 'unit Amount \<Rightarrow> 'w" where
  "Amount_serialize C self = w_u256 C (inner self)"

definition Amount_deserialize :: "'w wire_ops \<Rightarrow> 'w \<Rightarrow> string + 'unit Amount" where
  "Amount_deserialize C w = map_ok Amount (r_u256 C w)"


subsection \<open>Types that validate what they read\<close>

text \<open>The contract of a type on the wire, as long as the crates below it keep theirs (\<open>works\<close>).\<close>

locale wire_type =
  fixes works :: bool
    and emit :: "'v \<Rightarrow> 'w"
    and parse :: "'w \<Rightarrow> string + 'v"
    and good :: "'v \<Rightarrow> bool"
  assumes parse_emit: "works \<Longrightarrow> good v \<Longrightarrow> parse (emit v) = Ok v"
    and parse_good: "works \<Longrightarrow> parse w = Ok v \<Longrightarrow> good v"
begin

lemma relayed: "works \<Longrightarrow> parse w = Ok v \<Longrightarrow> parse (emit v) = Ok v"
  using parse_emit parse_good by blast

lemma emit_inj: "works \<Longrightarrow> good v \<Longrightarrow> good v' \<Longrightarrow> emit v = emit v' \<longleftrightarrow> v = v'"
  using parse_emit by (metis Inr_inject)

end

text \<open>Lists of such values, as in the fields of a block, are again such values.\<close>

locale wire_list = wire_type
begin

lemma list_parse_emit:
  assumes "works" "list_all good vs"
  shows "collect_results (map parse (map emit vs)) = Ok vs"
  using assms parse_emit by (induction vs) auto

lemma list_parse_good:
  assumes "works" "collect_results (map parse ws) = Ok vs"
  shows "list_all good vs"
proof -
  from assms(2) have "map parse ws = map Inr vs" by (simp add: collect_results_Inr)
  then have "Inr v \<in> parse ` set ws" if "v \<in> set vs" for v using that by (metis image_eqI set_map)
  then show ?thesis using assms(1) parse_good by (fastforce simp: list_all_iff)
qed

end

sublocale wire_list \<subseteq> many: wire_type works "map emit" "\<lambda>ws. collect_results (map parse ws)" "list_all good"
  by unfold_locales (fact list_parse_emit, fact list_parse_good)

lemma Nat256_wire:
  assumes "wire_spec C \<and> num_spec N"
  shows "nat256 v < 2 ^ 256 \<Longrightarrow> Nat256_deserialize N C (Nat256_idl_serialize C v) = Ok v"
    and "Nat256_deserialize N C w = Ok v \<Longrightarrow> nat256 v < 2 ^ 256"
  using assms Nat256_try_from_iff [of N]
  by (auto simp: Nat256_deserialize_def Nat256_idl_serialize_def Nat256_as_ref_def wire_spec_def and_then_eq_Inr)

text \<open>What a hex string prints as is what it is read from.\<close>

lemma hex_printed:
  assumes "hex_spec H"
  shows "hex_from_str (from_hex_array H (length bs)) (hex_to_string H bs) = Ok bs"
    and "hex_from_str (from_hex_vec H) (hex_to_string H bs) = Ok bs"
  by (auto simp: hex_from_str_ok hex_to_string_def decode_array [OF assms] decode_encode [OF assms])

lemma HexByte_printed:
  assumes "hex_spec H"
  shows "hex_from_str (Byte_from_hex H) (hex_to_string H (Byte_as_ref b)) = Ok b"
proof -
  have "length (hex_encode H (Byte_as_ref b)) = 2" by (simp add: length_encode [OF assms] Byte_as_ref_def)
  then obtain c d where digits: "hex_encode H (Byte_as_ref b) = [c, d]"
    by (auto simp: numeral_2_eq_2 length_Suc_conv)
  have "from_hex_array H 1 [c, d] = Ok (Byte_as_ref b)"
    unfolding digits [symmetric] by (simp add: decode_array [OF assms] decode_encode [OF assms] Byte_as_ref_def)
  moreover have "Byte (hd (Byte_as_ref b)) = b" by (simp add: Byte_as_ref_def)
  ultimately show ?thesis by (simp add: hex_from_str_ok hex_to_string_def digits)
qed

lemma hex_array_length:
  "hex_spec H \<Longrightarrow> hex_from_str (from_hex_array H n) s = Ok bs \<Longrightarrow> length bs = n"
  by (auto simp: hex_from_str_ok decode_array)

lemmas hex_wire = hex_deserialize_def hex_idl_serialize_def wire_spec_def and_then_eq_Inr map_ok_eq_Inr
  Hex20_from_str_def Hex32_from_str_def Hex256_from_str_def Hex_from_str_def HexByte_from_str_def

interpretation wire_nat256: wire_list "wire_spec C \<and> num_spec N" "Nat256_idl_serialize C" "Nat256_deserialize N C"
    "\<lambda>v. nat256 v < 2 ^ 256" for C N
  by unfold_locales (fact Nat256_wire)+

interpretation wire_hex20: wire_list "wire_spec C \<and> hex_spec H" "hex_idl_serialize H C hex20"
    "hex_deserialize (Hex20_from_str H) C" "\<lambda>h. length (hex20 h) = 20" for C H
proof
  fix h :: Hex20 assume "wire_spec C \<and> hex_spec H" "length (hex20 h) = 20"
  then show "hex_deserialize (Hex20_from_str H) C (hex_idl_serialize H C hex20 h) = Ok h"
    using hex_printed(1) [of H "hex20 h"] by (simp add: hex_wire)
qed (auto simp: hex_wire dest: hex_array_length)

interpretation wire_hex32: wire_list "wire_spec C \<and> hex_spec H" "hex_idl_serialize H C hex32"
    "hex_deserialize (Hex32_from_str H) C" "\<lambda>h. length (hex32 h) = 32" for C H
proof
  fix h :: Hex32 assume "wire_spec C \<and> hex_spec H" "length (hex32 h) = 32"
  then show "hex_deserialize (Hex32_from_str H) C (hex_idl_serialize H C hex32 h) = Ok h"
    using hex_printed(1) [of H "hex32 h"] by (simp add: hex_wire)
qed (auto simp: hex_wire dest: hex_array_length)

interpretation wire_hex256: wire_list "wire_spec C \<and> hex_spec H" "hex_idl_serialize H C hex256"
    "hex_deserialize (Hex256_from_str H) C" "\<lambda>h. length (hex256 h) = 256" for C H
proof
  fix h :: Hex256 assume "wire_spec C \<and> hex_spec H" "length (hex256 h) = 256"
  then show "hex_deserialize (Hex256_from_str H) C (hex_idl_serialize H C hex256 h) = Ok h"
    using hex_printed(1) [of H "hex256 h"] by (simp add: hex_wire)
qed (auto simp: hex_wire dest: hex_array_length)

interpretation wire_hex: wire_list "wire_spec C \<and> hex_spec H" "hex_idl_serialize H C hex"
    "hex_deserialize (Hex_from_str H) C" "\<lambda>_. True" for C H
  by unfold_locales (auto simp: hex_wire hex_printed)

interpretation wire_hex_byte: wire_list "wire_spec C \<and> hex_spec H" "hex_idl_serialize H C (\<lambda>h. Byte_as_ref (hex_byte h))"
    "hex_deserialize (HexByte_from_str H) C" "\<lambda>_. True" for C H
  by unfold_locales (auto simp: hex_wire HexByte_printed)

interpretation wire_amount: wire_type "wire_spec C" "Amount_serialize C" "Amount_deserialize C" "\<lambda>_. True" for C
  by unfold_locales (auto simp: Amount_serialize_def Amount_deserialize_def wire_spec_def)

subsection \<open>Properties\<close>

text \<open>C39. Whatever arrives in a message is a good value of its type, and sending it on delivers the same value: a
  number is below \<open>2 ^ 256\<close>, larger ones are refused; a fixed size hex string has its size, also inside a list;
  byte strings, single bytes and amounts of every value travel unchanged. Different values never look the same.\<close>

theorem wire_values_good:
  assumes "wire_spec C" "hex_spec H" "num_spec N"
  shows "(Nat256_deserialize N C w = Ok n \<longrightarrow>
      nat256 n < 2 ^ 256 \<and> Nat256_deserialize N C (Nat256_idl_serialize C n) = Ok n)
    \<and> (2 ^ 256 \<le> m \<longrightarrow> Nat256_deserialize N C (w_nat C m) = Err ''Nat does not fit in a U256'')
    \<and> (hex_deserialize (Hex20_from_str H) C w = Ok h20 \<longrightarrow> length (hex20 h20) = 20
        \<and> hex_deserialize (Hex20_from_str H) C (hex_idl_serialize H C hex20 h20) = Ok h20)
    \<and> (hex_deserialize (Hex256_from_str H) C w = Ok h256 \<longrightarrow> length (hex256 h256) = 256
        \<and> hex_deserialize (Hex256_from_str H) C (hex_idl_serialize H C hex256 h256) = Ok h256)
    \<and> (collect_results (map (hex_deserialize (Hex32_from_str H) C) ws) = Ok hs \<longrightarrow>
        (\<forall>h \<in> set hs. length (hex32 h) = 32)
        \<and> collect_results (map (hex_deserialize (Hex32_from_str H) C) (map (hex_idl_serialize H C hex32) hs)) = Ok hs)
    \<and> hex_deserialize (Hex_from_str H) C (hex_idl_serialize H C hex h) = Ok h
    \<and> (hex_idl_serialize H C hex h = hex_idl_serialize H C hex h' \<longleftrightarrow> h = h')
    \<and> hex_deserialize (HexByte_from_str H) C (hex_idl_serialize H C (\<lambda>h. Byte_as_ref (hex_byte h)) b) = Ok b
    \<and> Amount_deserialize C (Amount_serialize C a) = Ok a"
proof (intro conjI impI)
  have hex: "wire_spec C \<and> hex_spec H" and num: "wire_spec C \<and> num_spec N" using assms by simp_all
  show "nat256 n < 2 ^ 256" "Nat256_deserialize N C (Nat256_idl_serialize C n) = Ok n"
    if "Nat256_deserialize N C w = Ok n"
    using wire_nat256.parse_good [OF num that] wire_nat256.relayed [OF num that] .
  show "Nat256_deserialize N C (w_nat C m) = Err ''Nat does not fit in a U256''" if "2 ^ 256 \<le> m"
    using that assms(1) Nat256_try_from_iff [OF assms(3), of m "Nat256 m"]
    by (simp add: Nat256_deserialize_def wire_spec_def) (simp add: Nat256_try_from_def split: if_splits)
  show "length (hex20 h20) = 20" "hex_deserialize (Hex20_from_str H) C (hex_idl_serialize H C hex20 h20) = Ok h20"
    if "hex_deserialize (Hex20_from_str H) C w = Ok h20"
    using wire_hex20.parse_good [OF hex that] wire_hex20.relayed [OF hex that] .
  show "length (hex256 h256) = 256"
    "hex_deserialize (Hex256_from_str H) C (hex_idl_serialize H C hex256 h256) = Ok h256"
    if "hex_deserialize (Hex256_from_str H) C w = Ok h256"
    using wire_hex256.parse_good [OF hex that] wire_hex256.relayed [OF hex that] .
  show "\<forall>h \<in> set hs. length (hex32 h) = 32"
    "collect_results (map (hex_deserialize (Hex32_from_str H) C) (map (hex_idl_serialize H C hex32) hs)) = Ok hs"
    if "collect_results (map (hex_deserialize (Hex32_from_str H) C) ws) = Ok hs"
    using wire_hex32.many.parse_good [OF hex that] wire_hex32.many.relayed [OF hex that] by (simp_all add: list_all_iff)
  show "hex_deserialize (Hex_from_str H) C (hex_idl_serialize H C hex h) = Ok h"
    by (rule wire_hex.parse_emit [OF hex TrueI])
  show "hex_idl_serialize H C hex h = hex_idl_serialize H C hex h' \<longleftrightarrow> h = h'"
    by (rule wire_hex.emit_inj [OF hex TrueI TrueI])
  show "hex_deserialize (HexByte_from_str H) C (hex_idl_serialize H C (\<lambda>h. Byte_as_ref (hex_byte h)) b) = Ok b"
    by (rule wire_hex_byte.parse_emit [OF hex TrueI])
  show "Amount_deserialize C (Amount_serialize C a) = Ok a"
    by (rule wire_amount.parse_emit [OF assms(1) TrueI])
qed

text \<open>Messages that carry the value itself.\<close>

datatype plain_value = PlainNat nat | PlainText string | PlainU256 u256

definition plain_wire :: "plain_value wire_ops" where
  "plain_wire =
     \<lparr>w_nat = PlainNat, w_text = PlainText, w_u256 = PlainU256,
      r_nat = (\<lambda>v. case v of PlainNat n \<Rightarrow> Ok n | _ \<Rightarrow> Err ''nat expected''),
      r_text = (\<lambda>v. case v of PlainText s \<Rightarrow> Ok s | _ \<Rightarrow> Err ''text expected''),
      r_u256 = (\<lambda>v. case v of PlainU256 u \<Rightarrow> Ok u | _ \<Rightarrow> Err ''u256 expected'')\<rparr>"

theorem wire_values_good_witness:
  "Nat256_deserialize ref_num_ops plain_wire (w_nat plain_wire (2 ^ 256)) = Err ''Nat does not fit in a U256''
   \<and> hex_deserialize (Hex_from_str ref_hex_ops) plain_wire (hex_idl_serialize ref_hex_ops plain_wire hex (Hex [0xab]))
     = Ok (Hex [0xab])"
proof -
  have "wire_spec plain_wire" by (simp add: wire_spec_def plain_wire_def)
  note good = wire_values_good [OF this ref_hex_spec ref_num_spec, where m = "2 ^ 256" and h = "Hex [0xab]"]
  show ?thesis
    by (intro conjI good [THEN conjunct2, THEN conjunct1, THEN mp]
        good [THEN conjunct2, THEN conjunct2, THEN conjunct2, THEN conjunct2, THEN conjunct2, THEN conjunct1]) simp
qed

end
